(* ===== verification/Sakai_Prelude.thy ===== *)
theory Sakai_Prelude
  imports Main "HOL-Library.Word" "HOL-Library.Sublist" "HOL-Library.List_Lexorder" "HOL-Library.Char_ord"
begin

text \<open>
  What every component shares: Rust's \<open>Result\<close> as a sum (\<open>Inl\<close> the error, \<open>Inr\<close> the
  value) with the combinators the code uses on it, the collection of an iterator of results,
  \<open>try_fold\<close>, and the machine integer types. The collection \<open>result_simps\<close> holds the
  inversion facts that split a chain of fallible calls into its steps.
\<close>

named_theorems result_simps "inversion of Result combinators"

section \<open>Results\<close>

type_synonym ('a, 'e) result = "'e + 'a"

text \<open>\<open>Result::and_then\<close>, which is also what the \<open>?\<close> operator followed by the rest of the body is.\<close>

fun and_then :: "'e + 'a \<Rightarrow> ('a \<Rightarrow> 'e + 'b) \<Rightarrow> 'e + 'b" where
  "and_then (Inl e) f = Inl e"
| "and_then (Inr v) f = f v"

fun map_ok :: "('a \<Rightarrow> 'b) \<Rightarrow> 'e + 'a \<Rightarrow> 'e + 'b" where
  "map_ok f (Inl e) = Inl e"
| "map_ok f (Inr v) = Inr (f v)"

fun map_err :: "('e \<Rightarrow> 'f) \<Rightarrow> 'e + 'a \<Rightarrow> 'f + 'a" where
  "map_err f (Inl e) = Inl (f e)"
| "map_err f (Inr v) = Inr v"

text \<open>\<open>Option::ok_or_else\<close>.\<close>

fun ok_or :: "'e \<Rightarrow> 'a option \<Rightarrow> 'e + 'a" where
  "ok_or e None = Inl e"
| "ok_or e (Some v) = Inr v"

text \<open>\<open>Result::ok\<close> and \<open>Option<Result>::transpose\<close>.\<close>

fun result_ok :: "'e + 'a \<Rightarrow> 'a option" where
  "result_ok (Inl e) = None"
| "result_ok (Inr v) = Some v"

fun transpose :: "('e + 'a) option \<Rightarrow> 'e + 'a option" where
  "transpose None = Inr None"
| "transpose (Some (Inl e)) = Inl e"
| "transpose (Some (Inr v)) = Inr (Some v)"

text \<open>\<open>Result<Option>::transpose\<close>, as an iterator of results uses it.\<close>

fun transpose_result :: "'e + 'a option \<Rightarrow> ('e + 'a) option" where
  "transpose_result (Inl e) = Some (Inl e)"
| "transpose_result (Inr None) = None"
| "transpose_result (Inr (Some v)) = Some (Inr v)"

text \<open>
  \<open>collect::<Result<Vec<_>, _>>()\<close>: the first error, in iteration order, or every value.
  The closures of the source have no effects, so evaluating the items the short circuit skips
  changes nothing.
\<close>

fun collect_results :: "('e + 'a) list \<Rightarrow> 'e + 'a list" where
  "collect_results [] = Inr []"
| "collect_results (r # rs) = and_then r (\<lambda>v. map_ok ((#) v) (collect_results rs))"

text \<open>\<open>Iterator::try_fold\<close> over a \<open>Result\<close>.\<close>

fun try_fold :: "('s \<Rightarrow> 'x \<Rightarrow> 'e + 's) \<Rightarrow> 's \<Rightarrow> 'x list \<Rightarrow> 'e + 's" where
  "try_fold f s [] = Inr s"
| "try_fold f s (x # xs) = and_then (f s x) (\<lambda>s'. try_fold f s' xs)"

lemma and_then_eq_Inr [result_simps]:
  "and_then r f = Inr v \<longleftrightarrow> (\<exists>a. r = Inr a \<and> f a = Inr v)"
  by (cases r) auto

lemma and_then_eq_Inl [result_simps]:
  "and_then r f = Inl e \<longleftrightarrow> r = Inl e \<or> (\<exists>a. r = Inr a \<and> f a = Inl e)"
  by (cases r) auto

lemma map_ok_eq_Inr [result_simps]:
  "map_ok f r = Inr v \<longleftrightarrow> (\<exists>a. r = Inr a \<and> v = f a)"
  by (cases r) auto

lemma map_ok_eq_Inl [result_simps]: "map_ok f r = Inl e \<longleftrightarrow> r = Inl e"
  by (cases r) auto

lemma map_err_eq_Inr [result_simps]: "map_err f r = Inr v \<longleftrightarrow> r = Inr v"
  by (cases r) auto

lemma map_err_eq_Inl [result_simps]:
  "map_err f r = Inl e \<longleftrightarrow> (\<exists>a. r = Inl a \<and> e = f a)"
  by (cases r) auto

lemma ok_or_eq_Inr [result_simps]: "ok_or e x = Inr v \<longleftrightarrow> x = Some v"
  by (cases x) auto

lemma ok_or_eq_Inl [result_simps]: "ok_or e x = Inl e' \<longleftrightarrow> x = None \<and> e' = e"
  by (cases x) auto

lemma transpose_eq_Inr [result_simps]:
  "transpose x = Inr y \<longleftrightarrow> x = map_option Inr y"
  by (cases x rule: transpose.cases; cases y) auto

lemma transpose_eq_Inl [result_simps]: "transpose x = Inl e \<longleftrightarrow> x = Some (Inl e)"
  by (cases x rule: transpose.cases) auto

lemma transpose_result_eq_None:
  "transpose_result r = None \<longleftrightarrow> r = Inr None"
  by (cases r rule: transpose_result.cases) auto

lemma map_ok_id [simp]: "map_ok (\<lambda>x. x) r = r"
  by (cases r) auto

lemma map_ok_comp: "map_ok f (map_ok g r) = map_ok (\<lambda>x. f (g x)) r"
  by (cases r) auto

lemma collect_results_eq_Inr [result_simps]:
  "collect_results rs = Inr vs \<longleftrightarrow> rs = map Inr vs"
proof (induction rs arbitrary: vs)
  case Nil
  show ?case by auto
next
  case (Cons r rs)
  show ?case
    by (cases r; cases vs) (auto simp: map_ok_eq_Inr Cons.IH)
qed

lemma collect_results_Inr [simp]: "collect_results (map Inr vs) = Inr vs"
  by (simp add: collect_results_eq_Inr)

lemma collect_results_map_Inr [simp]: "collect_results (map (\<lambda>x. Inr (f x)) xs) = Inr (map f xs)"
  by (induction xs) auto

lemma collect_results_eq_Inl:
  "collect_results rs = Inl e \<longleftrightarrow> (\<exists>vs rest. rs = map Inr vs @ Inl e # rest)"
proof (induction rs)
  case Nil
  show ?case by auto
next
  case (Cons r rs)
  show ?case
  proof (cases r)
    case (Inl a)
    have "a = e \<longleftrightarrow> (\<exists>vs rest. Inl a # rs = map Inr vs @ Inl e # rest)" (is "?L \<longleftrightarrow> ?R")
    proof
      assume ?L
      then have "Inl a # rs = map Inr [] @ Inl e # rs" by simp
      then show ?R by blast
    next
      assume ?R
      then show ?L by (auto simp: Cons_eq_append_conv)
    qed
    with Inl show ?thesis by simp
  next
    case (Inr v)
    have "(\<exists>vs rest. rs = map Inr vs @ Inl e # rest)
      \<longleftrightarrow> (\<exists>vs rest. Inr v # rs = map Inr vs @ Inl e # rest)" (is "?L \<longleftrightarrow> ?R")
    proof
      assume ?L
      then obtain vs rest where "rs = map Inr vs @ Inl e # rest" by blast
      then have "Inr v # rs = map Inr (v # vs) @ Inl e # rest" by simp
      then show ?R by blast
    next
      assume ?R
      then show ?L by (auto simp: Cons_eq_append_conv map_eq_Cons_conv)
    qed
    with Inr show ?thesis by (simp add: map_ok_eq_Inl Cons.IH)
  qed
qed

lemma collect_results_map_eq_Inl:
  "collect_results (map f xs) = Inl e \<longleftrightarrow>
     (\<exists>before x after. xs = before @ x # after \<and> (\<forall>b \<in> set before. \<exists>c. f b = Inr c) \<and> f x = Inl e)"
proof
  assume "collect_results (map f xs) = Inl e"
  then obtain vs rest where "map f xs = map Inr vs @ Inl e # rest" by (auto simp: collect_results_eq_Inl)
  then obtain before x after where split: "xs = before @ x # after" "map f before = map Inr vs" "f x = Inl e"
    by (auto simp: map_eq_append_conv map_eq_Cons_conv)
  have "\<exists>c. f b = Inr c" if "b \<in> set before" for b
  proof -
    have "f b \<in> set (map Inr vs)" unfolding split(2) [symmetric] using that by simp
    then show ?thesis by auto
  qed
  with split show "\<exists>before x after. xs = before @ x # after \<and> (\<forall>b \<in> set before. \<exists>c. f b = Inr c) \<and> f x = Inl e"
    by blast
next
  assume "\<exists>before x after. xs = before @ x # after \<and> (\<forall>b \<in> set before. \<exists>c. f b = Inr c) \<and> f x = Inl e"
  then obtain before x after where split: "xs = before @ x # after" "\<forall>b \<in> set before. \<exists>c. f b = Inr c" "f x = Inl e"
    by blast
  from split(2) obtain g where "\<forall>b \<in> set before. f b = Inr (g b)" by metis
  then have "map f before = map Inr (map g before)" by simp
  with split show "collect_results (map f xs) = Inl e"
    unfolding collect_results_eq_Inl by (metis list.simps(9) map_append)
qed

lemma try_fold_append:
  "try_fold f s (xs @ ys) = and_then (try_fold f s xs) (\<lambda>s'. try_fold f s' ys)"
proof (induction xs arbitrary: s)
  case Nil
  show ?case by simp
next
  case (Cons x xs)
  show ?case by (cases "f s x") (auto simp: Cons.IH)
qed

text \<open>An invariant every successful step keeps holds at the end of a successful fold.\<close>

lemma try_fold_invariant:
  assumes "try_fold f s xs = Inr t" and "P s"
    and "\<And>s x s'. x \<in> set xs \<Longrightarrow> P s \<Longrightarrow> f s x = Inr s' \<Longrightarrow> P s'"
  shows "P t"
  using assms
proof (induction xs arbitrary: s)
  case Nil
  then show ?case by simp
next
  case (Cons x xs)
  from Cons.prems(1) obtain s' where s': "f s x = Inr s'" "try_fold f s' xs = Inr t"
    by (auto simp: and_then_eq_Inr)
  have "P s'" using Cons.prems(2,3) s'(1) by auto
  with s'(2) show ?case using Cons.prems(3) by (auto intro: Cons.IH)
qed

section \<open>Machine integers\<close>

type_synonym u8 = "8 word"
type_synonym u16 = "16 word"
type_synonym u32 = "32 word"
type_synonym u64 = "64 word"

text \<open>The signed types hold the same bits and are read by \<open>sint\<close>.\<close>

type_synonym i8 = "8 word"
type_synonym i32 = "32 word"

text \<open>\<open>checked_mul\<close> on an unsigned integer: \<open>None\<close> on overflow.\<close>

definition checked_mul :: "'a::len word \<Rightarrow> 'a word \<Rightarrow> 'a word option" where
  "checked_mul a b = (if unat a * unat b < 2 ^ LENGTH('a) then Some (a * b) else None)"

lemma checked_mul_Some_iff:
  "checked_mul a b = Some c \<longleftrightarrow> unat c = unat a * unat b" for a b c :: "'a::len word"
proof (cases "unat a * unat b < 2 ^ LENGTH('a)")
  case True
  then have "unat (a * b) = unat a * unat b" by (simp add: unat_word_ariths(2))
  with True show ?thesis by (auto simp: checked_mul_def word_unat_eq_iff)
next
  case False
  then have "unat c \<noteq> unat a * unat b" by (metis unsigned_less)
  with False show ?thesis by (simp add: checked_mul_def)
qed

lemma checked_mul_None_iff:
  "checked_mul a b = None \<longleftrightarrow> 2 ^ LENGTH('a) \<le> unat a * unat b" for a b :: "'a::len word"
  by (auto simp: checked_mul_def)

end
