(* ===== verification/Rust_Effect.thy ===== *)
theory Rust_Effect
  imports Sakai_Prelude
begin

text \<open>
  Fallible operations on a state outside the program: the kernel, the network, the Python
  interpreter. An operation takes the state and returns a result and the state after it. Durations
  of \<open>std::time\<close> are here too.
\<close>

text \<open>\<open>then_io\<close> is the \<open>?\<close> operator and the rest of the body.\<close>

type_synonym ('w, 'e, 'a) io = "'w \<Rightarrow> ('e + 'a) \<times> 'w"

definition return_io :: "'e + 'a \<Rightarrow> ('w, 'e, 'a) io" where
  "return_io result w = (result, w)"

definition then_io :: "('w, 'e, 'a) io \<Rightarrow> ('a \<Rightarrow> ('w, 'e, 'b) io) \<Rightarrow> ('w, 'e, 'b) io" where
  "then_io m f w = (case m w of (Inl e, w') \<Rightarrow> (Inl e, w') | (Inr v, w') \<Rightarrow> f v w')"

definition map_err_io :: "('e \<Rightarrow> 'f) \<Rightarrow> ('w, 'e, 'a) io \<Rightarrow> ('w, 'f, 'a) io" where
  "map_err_io f m w = (case m w of (result, w') \<Rightarrow> (map_err f result, w'))"

lemma then_io_Inr:
  "then_io m f w = (Inr v, w'') \<longleftrightarrow> (\<exists>u w'. m w = (Inr u, w') \<and> f u w' = (Inr v, w''))"
  by (auto simp: then_io_def split: prod.split sum.split)

lemma then_io_Inl:
  "then_io m f w = (Inl e, w'') \<longleftrightarrow>
     m w = (Inl e, w'') \<or> (\<exists>u w'. m w = (Inr u, w') \<and> f u w' = (Inl e, w''))"
  by (auto simp: then_io_def split: prod.split sum.split)

lemma map_err_io_Inr: "map_err_io f m w = (Inr v, w') \<longleftrightarrow> m w = (Inr v, w')"
  by (auto simp: map_err_io_def map_err_eq_Inr split: prod.split)

lemma map_err_io_Inl: "map_err_io f m w = (Inl e, w') \<longleftrightarrow> (\<exists>e'. m w = (Inl e', w') \<and> e = f e')"
  by (auto simp: map_err_io_def map_err_eq_Inl split: prod.split)

lemma return_io_eq: "return_io result w = (result', w') \<longleftrightarrow> result' = result \<and> w' = w"
  by (auto simp: return_io_def)

lemma return_io_Inr: "return_io result w = (Inr v, w') \<longleftrightarrow> result = Inr v \<and> w' = w"
  by (auto simp: return_io_def)

lemma return_io_Inl: "return_io result w = (Inl e, w') \<longleftrightarrow> result = Inl e \<and> w' = w"
  by (auto simp: return_io_def)

lemmas step_simps = then_io_Inr then_io_Inl map_err_io_Inr map_err_io_Inl return_io_Inr return_io_Inl

lemmas io_simps = then_io_Inr then_io_Inl map_err_io_Inr map_err_io_Inl return_io_eq

lemma then_io_return [simp]: "then_io (return_io (Inr v)) f = f v" "then_io (return_io (Inl e)) f = return_io (Inl e)"
  by (simp_all add: then_io_def return_io_def fun_eq_iff)

lemma then_io_eq: "m w = (Inr v, w') \<Longrightarrow> then_io m f w = f v w'" "m w = (Inl e, w') \<Longrightarrow> then_io m f w = (Inl e, w')"
  by (simp_all add: then_io_def)

text \<open>\<open>anyhow::ensure!\<close>: the error unless the condition holds.\<close>

definition ensure :: "bool \<Rightarrow> 'e \<Rightarrow> ('w, 'e, unit) io" where
  "ensure condition error = return_io (if condition then Inr () else Inl error)"

lemma ensure_Inr: "ensure c e w = (Inr u, w') \<longleftrightarrow> c \<and> w' = w"
  by (cases u) (auto simp: ensure_def return_io_def)

lemma ensure_Inl: "ensure c e w = (Inl e', w') \<longleftrightarrow> \<not> c \<and> e' = e \<and> w' = w"
  by (auto simp: ensure_def return_io_def)

lemma then_io_ensure: "then_io (ensure c e) f w = (if c then f () w else (Inl e, w))"
  by (simp add: then_io_def ensure_def return_io_def)

lemmas ensure_simps = ensure_Inr ensure_Inl then_io_ensure

section \<open>What an operation leaves as it was\<close>

text \<open>An operation keeps a property of the state, whether it succeeds or fails.\<close>

definition keeps :: "('w \<Rightarrow> bool) \<Rightarrow> ('w, 'e, 'a) io \<Rightarrow> bool" where
  "keeps Q m \<longleftrightarrow> (\<forall>w. Q w \<longrightarrow> Q (snd (m w)))"

lemma keepsD: "keeps Q m \<Longrightarrow> Q w \<Longrightarrow> m w = (r, w') \<Longrightarrow> Q w'"
  unfolding keeps_def by force

lemma keeps_return [intro, simp]: "keeps Q (return_io r)"
  by (simp add: keeps_def return_io_def)

lemma keeps_ensure [intro, simp]: "keeps Q (ensure c e)"
  by (simp add: ensure_def)

lemma keeps_map_err [intro]: "keeps Q m \<Longrightarrow> keeps Q (map_err_io f m)"
  by (simp add: keeps_def map_err_io_def split: prod.split) (metis snd_conv)

lemma keeps_then [intro]: "keeps Q m \<Longrightarrow> (\<And>v. keeps Q (f v)) \<Longrightarrow> keeps Q (then_io m f)"
  unfolding keeps_def then_io_def by (simp split: prod.split sum.split) (metis snd_conv)

text \<open>
  A sequence that succeeds, or changes what its first part keeps, went past its first part.
\<close>

lemma then_io_passed:
  assumes "then_io m f w = (r, w')" "keeps Q m" "Q w" "(\<exists>v. r = Inr v) \<or> \<not> Q w'"
  obtains v w1 where "m w = (Inr v, w1)" "Q w1" "f v w1 = (r, w')"
  using assms by (auto simp: then_io_def split: prod.splits sum.splits dest: keepsD)

section \<open>Durations\<close>

record Duration =
  duration_secs :: u64
  duration_nanos :: u32

definition total_nanos :: "Duration \<Rightarrow> nat" where
  "total_nanos d = unat (duration_secs d) * 10 ^ 9 + unat (duration_nanos d)"

end
