(* ===== verification/Rust_Str.thy ===== *)
theory Rust_Str
  imports Sakai_Prelude
begin

text \<open>
  The string operations of Rust's standard library that the parsers use. A \<open>&str\<close> is its
  UTF-8 bytes, a list of \<open>char\<close> (an Isabelle \<open>char\<close> is a byte), so ordering and
  searching are those of the bytes, as they are for \<open>str\<close>.
\<close>

section \<open>Splitting\<close>

text \<open>\<open>split(pred)\<close>: the segments between the characters that satisfy \<open>p\<close>, never empty as a list.\<close>

fun split_pred :: "(char \<Rightarrow> bool) \<Rightarrow> string \<Rightarrow> string list" where
  "split_pred p [] = [[]]"
| "split_pred p (c # cs) =
     (if p c then [] # split_pred p cs
      else (case split_pred p cs of [] \<Rightarrow> [[c]] | w # ws \<Rightarrow> (c # w) # ws))"

text \<open>\<open>char::is_ascii_whitespace\<close>: space, tab, line feed, form feed, carriage return; not vertical tab.\<close>

definition is_ascii_whitespace :: "char \<Rightarrow> bool" where
  "is_ascii_whitespace c \<longleftrightarrow>
     c = CHR '' '' \<or> c = CHR 0x09 \<or> c = CHR 0x0A \<or> c = CHR 0x0C \<or> c = CHR 0x0D"

text \<open>\<open>split_ascii_whitespace\<close>: the nonempty segments between whitespace.\<close>

definition split_ascii_whitespace :: "string \<Rightarrow> string list" where
  "split_ascii_whitespace s = filter (\<lambda>w. w \<noteq> []) (split_pred is_ascii_whitespace s)"

text \<open>
  \<open>lines\<close>: a line ends at a line feed; one carriage return right before that line feed is
  dropped too; a last line without a line feed is kept as it is, when it is not empty.
\<close>

definition strip_cr :: "string \<Rightarrow> string" where
  "strip_cr w = (if w \<noteq> [] \<and> last w = CHR 0x0D then butlast w else w)"

definition lines :: "string \<Rightarrow> string list" where
  "lines s = (let segs = split_pred (\<lambda>c. c = CHR 0x0A) s
              in map strip_cr (butlast segs) @ (if last segs = [] then [] else [last segs]))"

text \<open>\<open>split_once(pat)\<close> at the first occurrence of the pattern.\<close>

fun strip_prefix :: "string \<Rightarrow> string \<Rightarrow> string option" where
  "strip_prefix [] s = Some s"
| "strip_prefix (p # ps) [] = None"
| "strip_prefix (p # ps) (c # cs) = (if p = c then strip_prefix ps cs else None)"

definition strip_suffix :: "string \<Rightarrow> string \<Rightarrow> string option" where
  "strip_suffix p s = map_option rev (strip_prefix (rev p) (rev s))"

fun split_once :: "string \<Rightarrow> string \<Rightarrow> (string \<times> string) option" where
  "split_once pat [] = map_option (\<lambda>rest. ([], rest)) (strip_prefix pat [])"
| "split_once pat (c # cs) =
     (case strip_prefix pat (c # cs) of
        Some rest \<Rightarrow> Some ([], rest)
      | None \<Rightarrow> map_option (\<lambda>(a, b). (c # a, b)) (split_once pat cs))"

section \<open>Trimming\<close>

text \<open>
  \<open>trim\<close> removes every leading and trailing character of the Unicode property
  \<open>White_Space\<close>: one byte U+0009 to U+000D and U+0020; two bytes U+0085 and U+00A0; three
  bytes U+1680, U+2000 to U+200A, U+2028, U+2029, U+202F, U+205F and U+3000, here as their
  UTF-8 encodings.
\<close>

definition white_space1 :: "char \<Rightarrow> bool" where
  "white_space1 a \<longleftrightarrow> a \<in> {CHR 0x09, CHR 0x0A, CHR 0x0B, CHR 0x0C, CHR 0x0D, CHR '' ''}"

definition white_space2 :: "char \<Rightarrow> char \<Rightarrow> bool" where
  "white_space2 a b \<longleftrightarrow> a = CHR 0xC2 \<and> b \<in> {CHR 0x85, CHR 0xA0}"

definition white_space3 :: "char \<Rightarrow> char \<Rightarrow> char \<Rightarrow> bool" where
  "white_space3 a b c \<longleftrightarrow>
     a = CHR 0xE1 \<and> b = CHR 0x9A \<and> c = CHR 0x80
   \<or> a = CHR 0xE2 \<and> b = CHR 0x80
       \<and> c \<in> {CHR 0x80, CHR 0x81, CHR 0x82, CHR 0x83, CHR 0x84, CHR 0x85, CHR 0x86, CHR 0x87,
              CHR 0x88, CHR 0x89, CHR 0x8A, CHR 0xA8, CHR 0xA9, CHR 0xAF}
   \<or> a = CHR 0xE2 \<and> b = CHR 0x81 \<and> c = CHR 0x9F
   \<or> a = CHR 0xE3 \<and> b = CHR 0x80 \<and> c = CHR 0x80"

text \<open>Dropping white space from the front, with the three encodings as arguments.\<close>

fun drop_white_space ::
  "(char \<Rightarrow> bool) \<Rightarrow> (char \<Rightarrow> char \<Rightarrow> bool) \<Rightarrow> (char \<Rightarrow> char \<Rightarrow> char \<Rightarrow> bool) \<Rightarrow> string \<Rightarrow> string"
where
  "drop_white_space w1 w2 w3 [] = []"
| "drop_white_space w1 w2 w3 (a # s) =
     (if w1 a then drop_white_space w1 w2 w3 s
      else (case s of
          [] \<Rightarrow> a # s
        | b # s' \<Rightarrow>
            if w2 a b then drop_white_space w1 w2 w3 s'
            else (case s' of
                [] \<Rightarrow> a # s
              | c # s'' \<Rightarrow> if w3 a b c then drop_white_space w1 w2 w3 s'' else a # s)))"

definition trim_start :: "string \<Rightarrow> string" where
  "trim_start s = drop_white_space white_space1 white_space2 white_space3 s"

definition trim_end :: "string \<Rightarrow> string" where
  "trim_end s = rev (drop_white_space white_space1 (\<lambda>b a. white_space2 a b)
                       (\<lambda>c b a. white_space3 a b c) (rev s))"

definition trim :: "string \<Rightarrow> string" where
  "trim s = trim_end (trim_start s)"


section \<open>Facts about splitting\<close>

named_theorems str_simps "evaluation of string operations on tokens"

lemma split_pred_not_Nil [simp]: "split_pred p s \<noteq> []"
  by (cases s) (auto split: list.splits)

lemma split_pred_no_sep: "\<forall>c \<in> set w. \<not> p c \<Longrightarrow> split_pred p w = [w]"
  by (induction w) auto

lemma split_pred_append_sep:
  "\<forall>c \<in> set w. \<not> p c \<Longrightarrow> p c \<Longrightarrow> split_pred p (w @ c # s) = w # split_pred p s"
  by (induction w) auto

lemma split_pred_Cons_not:
  "\<not> p c \<Longrightarrow> split_pred p (c # cs) = (c # hd (split_pred p cs)) # tl (split_pred p cs)"
  by (cases "split_pred p cs") auto

lemma split_pred_pieces: "w \<in> set (split_pred p s) \<Longrightarrow> \<forall>c \<in> set w. \<not> p c"
proof (induction s arbitrary: w)
  case Nil
  then show ?case by simp
next
  case (Cons a s)
  then show ?case by (cases "split_pred p s") (force split: if_splits)+
qed

lemma split_pred_chars: "w \<in> set (split_pred p s) \<Longrightarrow> c \<in> set w \<Longrightarrow> c \<in> set s"
proof (induction s arbitrary: w)
  case Nil
  then show ?case by simp
next
  case (Cons a s)
  then show ?case by (cases "split_pred p s") (force split: if_splits)+
qed

lemma split_pred_covers:
  "c \<in> set s \<Longrightarrow> \<not> p c \<Longrightarrow> \<exists>w \<in> set (split_pred p s). c \<in> set w"
proof (induction s)
  case Nil
  then show ?case by simp
next
  case (Cons a s)
  then show ?case by (cases "split_pred p s") auto
qed

text \<open>
  A token is what \<open>split_ascii_whitespace\<close> can yield: nonempty and free of ASCII
  whitespace. Tokens joined by whitespace split back into themselves.
\<close>

definition is_token :: "string \<Rightarrow> bool" where
  "is_token w \<longleftrightarrow> w \<noteq> [] \<and> (\<forall>c \<in> set w. \<not> is_ascii_whitespace c)"

lemma is_token_append [simp]:
  "is_token (v @ w) \<longleftrightarrow> (v \<noteq> [] \<or> w \<noteq> []) \<and> (v = [] \<or> is_token v) \<and> (w = [] \<or> is_token w)"
  by (auto simp: is_token_def)

lemma split_ascii_whitespace_Nil [simp, str_simps]: "split_ascii_whitespace [] = []"
  by (simp add: split_ascii_whitespace_def)

lemma split_ascii_whitespace_space [str_simps]:
  "is_ascii_whitespace c \<Longrightarrow> split_ascii_whitespace (c # s) = split_ascii_whitespace s"
  by (simp add: split_ascii_whitespace_def)

lemma split_ascii_whitespace_token [str_simps]:
  "is_token w \<Longrightarrow> split_ascii_whitespace w = [w]"
  by (simp add: split_ascii_whitespace_def is_token_def split_pred_no_sep)

lemma split_ascii_whitespace_token_space [str_simps]:
  "is_token w \<Longrightarrow> is_ascii_whitespace c \<Longrightarrow>
   split_ascii_whitespace (w @ c # s) = w # split_ascii_whitespace s"
  by (simp add: split_ascii_whitespace_def is_token_def split_pred_append_sep)

lemma split_pred_append_last: "p c \<Longrightarrow> split_pred p (s @ [c]) = split_pred p s @ [[]]"
proof (induction s)
  case Nil
  then show ?case by simp
next
  case (Cons a s)
  then show ?case by (cases "split_pred p s") auto
qed

lemma split_ascii_whitespace_append_space:
  "is_ascii_whitespace c \<Longrightarrow> split_ascii_whitespace (s @ [c]) = split_ascii_whitespace s"
  by (simp add: split_ascii_whitespace_def split_pred_append_last)

lemma split_ascii_whitespace_tokens:
  "w \<in> set (split_ascii_whitespace s) \<Longrightarrow> is_token w"
  by (auto simp: split_ascii_whitespace_def is_token_def dest: split_pred_pieces)

lemma split_ascii_whitespace_eq_Nil_iff:
  "split_ascii_whitespace s = [] \<longleftrightarrow> (\<forall>c \<in> set s. is_ascii_whitespace c)"
proof
  assume *: "split_ascii_whitespace s = []"
  show "\<forall>c \<in> set s. is_ascii_whitespace c"
  proof (rule ccontr)
    assume "\<not> (\<forall>c \<in> set s. is_ascii_whitespace c)"
    then obtain c where "c \<in> set s" "\<not> is_ascii_whitespace c" by blast
    then obtain w where "w \<in> set (split_pred is_ascii_whitespace s)" "c \<in> set w"
      using split_pred_covers by blast
    then have "w \<in> set (split_ascii_whitespace s)"
      by (auto simp: split_ascii_whitespace_def)
    with * show False by simp
  qed
next
  assume "\<forall>c \<in> set s. is_ascii_whitespace c"
  then show "split_ascii_whitespace s = []"
    by (induction s) (auto simp: split_ascii_whitespace_space)
qed

section \<open>Facts about lines and trimming\<close>

text \<open>
  Text that the kernel writes: every line is free of line feeds and does not end in a carriage
  return, and ends in a line feed. \<open>lines\<close> gives the lines back.
\<close>

definition is_line :: "string \<Rightarrow> bool" where
  "is_line l \<longleftrightarrow> CHR 0x0A \<notin> set l \<and> (l = [] \<or> last l \<noteq> CHR 0x0D)"

fun unlines :: "string list \<Rightarrow> string" where
  "unlines [] = []"
| "unlines (l # ls) = l @ CHR 0x0A # unlines ls"

lemma lines_Nil [simp, str_simps]: "lines [] = []"
  by (simp add: lines_def)

lemma lines_Cons_line [str_simps]:
  assumes "is_line l"
  shows "lines (l @ CHR 0x0A # s) = l # lines s"
proof -
  let ?p = "\<lambda>c. c = CHR 0x0A"
  from assms have "split_pred ?p (l @ CHR 0x0A # s) = l # split_pred ?p s"
    by (intro split_pred_append_sep) (auto simp: is_line_def)
  moreover from assms have "strip_cr l = l" by (auto simp: is_line_def strip_cr_def)
  ultimately show ?thesis by (simp add: lines_def Let_def)
qed

lemma lines_unlines: "\<forall>l \<in> set ls. is_line l \<Longrightarrow> lines (unlines ls) = ls"
  by (induction ls) (auto simp: lines_Cons_line)

lemma is_ascii_whitespace_white_space1: "is_ascii_whitespace c \<Longrightarrow> white_space1 c"
  by (auto simp: is_ascii_whitespace_def white_space1_def)

lemma drop_white_space_all:
  "\<forall>c \<in> set s. w1 c \<Longrightarrow> drop_white_space w1 w2 w3 s = []"
  by (induction s) auto

lemma trim_all_ascii_whitespace: "\<forall>c \<in> set s. is_ascii_whitespace c \<Longrightarrow> trim s = []"
  by (simp add: trim_def trim_start_def trim_end_def drop_white_space_all
      is_ascii_whitespace_white_space1)

text \<open>A line that is not blank for \<open>trim\<close> has a first token.\<close>

lemma nonblank_has_token: "trim s \<noteq> [] \<Longrightarrow> split_ascii_whitespace s \<noteq> []"
  using trim_all_ascii_whitespace split_ascii_whitespace_eq_Nil_iff by blast

text \<open>Bytes that start no white space character: they end any run of leading white space.\<close>

definition ink :: "char \<Rightarrow> bool" where
  "ink c \<longleftrightarrow> \<not> white_space1 c \<and> of_char c < (128::nat)"

lemma ink_not_white_space [simp]:
  assumes "ink c"
  shows "\<not> white_space1 c" "\<not> white_space2 c b" "\<not> white_space2 b c"
    "\<not> white_space3 c b d" "\<not> white_space3 b d c"
  using assms by (auto simp: ink_def white_space2_def white_space3_def)

lemma drop_white_space_ink:
  assumes "\<not> w1 a" "\<And>b. \<not> w2 a b" "\<And>b c. \<not> w3 a b c"
  shows "drop_white_space w1 w2 w3 (a # s) = a # s"
  using assms by (auto split: list.splits)

lemma trim_start_ink: "ink a \<Longrightarrow> trim_start (a # s) = a # s"
  unfolding trim_start_def by (rule drop_white_space_ink) auto

lemma trim_end_ink: "ink a \<Longrightarrow> trim_end (s @ [a]) = s @ [a]"
proof -
  assume "ink a"
  then have "drop_white_space white_space1 (\<lambda>b a. white_space2 a b) (\<lambda>c b a. white_space3 a b c)
      (a # rev s) = a # rev s"
    by (intro drop_white_space_ink) auto
  then show ?thesis by (simp add: trim_end_def)
qed

lemma trim_id: "s \<noteq> [] \<Longrightarrow> ink (hd s) \<Longrightarrow> ink (last s) \<Longrightarrow> trim s = s"
  by (metis append_butlast_last_id list.collapse trim_def trim_end_ink trim_start_ink)

lemma trim_end_newline: "trim_end (s @ [CHR 0x0A]) = trim_end s"
  by (simp add: trim_end_def white_space1_def)

lemma trim_line: "s \<noteq> [] \<Longrightarrow> ink (hd s) \<Longrightarrow> ink (last s) \<Longrightarrow> trim (s @ [CHR 0x0A]) = s"
proof -
  assume s: "s \<noteq> []" "ink (hd s)" "ink (last s)"
  then have "trim_start (s @ [CHR 0x0A]) = s @ [CHR 0x0A]"
    by (cases s) (auto intro: trim_start_ink)
  moreover have "trim_end s = s"
    by (metis s(1) s(3) append_butlast_last_id trim_end_ink)
  ultimately show ?thesis by (simp add: trim_def trim_end_newline)
qed

lemma trim_Nil [simp]: "trim [] = []"
  by (simp add: trim_def trim_start_def trim_end_def)

section \<open>Facts about prefixes and \<open>split_once\<close>\<close>

lemma strip_prefix_Some_iff: "strip_prefix p s = Some r \<longleftrightarrow> s = p @ r"
  by (induction p s rule: strip_prefix.induct) auto

lemma strip_prefix_append [simp]: "strip_prefix p (p @ r) = Some r"
  by (simp add: strip_prefix_Some_iff)

lemma strip_suffix_Some_iff: "strip_suffix p s = Some r \<longleftrightarrow> s = r @ p"
proof -
  have "strip_suffix p s = Some r \<longleftrightarrow> strip_prefix (rev p) (rev s) = Some (rev r)"
    by (auto simp: strip_suffix_def)
  also have "\<dots> \<longleftrightarrow> rev s = rev p @ rev r" by (rule strip_prefix_Some_iff)
  also have "\<dots> \<longleftrightarrow> s = r @ p" by (metis rev_append rev_rev_ident)
  finally show ?thesis .
qed

lemma strip_suffix_append [simp]: "strip_suffix p (r @ p) = Some r"
  by (simp add: strip_suffix_Some_iff)

lemma split_once_Some_append: "split_once pat s = Some (a, b) \<Longrightarrow> s = a @ pat @ b"
proof (induction s arbitrary: a)
  case Nil
  then show ?case by (auto simp: strip_prefix_Some_iff)
next
  case (Cons c cs)
  then show ?case
    by (auto simp: strip_prefix_Some_iff split: option.splits)
qed

text \<open>For a one-character pattern the first occurrence is where a text without it ends.\<close>

lemma split_once_char [str_simps]:
  "c \<notin> set a \<Longrightarrow> split_once [c] (a @ c # b) = Some (a, b)"
  by (induction a) (auto simp: strip_prefix_Some_iff split: option.splits)

lemma split_once_char_None_iff: "split_once [c] s = None \<longleftrightarrow> c \<notin> set s"
  by (induction s) (auto split: option.splits)

lemma split_once_char_Some_iff:
  "split_once [c] s = Some (a, b) \<longleftrightarrow> s = a @ c # b \<and> c \<notin> set a"
proof
  assume "split_once [c] s = Some (a, b)"
  then show "s = a @ c # b \<and> c \<notin> set a"
  proof (induction s arbitrary: a)
    case Nil
    then show ?case by simp
  next
    case (Cons d s)
    then show ?case by (auto split: if_splits)
  qed
next
  assume "s = a @ c # b \<and> c \<notin> set a"
  then show "split_once [c] s = Some (a, b)" by (simp add: split_once_char)
qed

end
