(* ===== verification/Rust_Int.thy ===== *)
theory Rust_Int
  imports Rust_Str
begin

text \<open>
  \<open>str::parse\<close> for Rust's integer types (\<open>from_str_radix\<close> with radix 10) with the error kinds
  the standard library distinguishes, and the decimal \<open>Display\<close> of an unsigned integer. The
  digit loop checks the digit before the overflow of its step, so a malformed digit is reported
  unless an earlier step has overflowed already.
\<close>

datatype IntErrorKind = EmptyInt | InvalidDigit | PosOverflow | NegOverflow

definition to_digit :: "char \<Rightarrow> nat option" where
  "to_digit c = (let n = of_char c in if 48 \<le> n \<and> n \<le> 57 then Some (n - 48) else None)"

text \<open>The loop over the digits: \<open>bound\<close> is the largest magnitude, \<open>over\<close> the overflow error.\<close>

fun digit_loop :: "nat \<Rightarrow> IntErrorKind \<Rightarrow> nat \<Rightarrow> string \<Rightarrow> IntErrorKind + nat" where
  "digit_loop bound over acc [] = Inr acc"
| "digit_loop bound over acc (c # cs) =
     (case to_digit c of
        None \<Rightarrow> Inl InvalidDigit
      | Some d \<Rightarrow>
          if bound < acc * 10 then Inl over
          else if bound < acc * 10 + d then Inl over
          else digit_loop bound over (acc * 10 + d) cs)"

definition parse_unsigned :: "nat \<Rightarrow> string \<Rightarrow> IntErrorKind + nat" where
  "parse_unsigned bound s =
     (if s = [] then Inl EmptyInt
      else if s = ''+'' \<or> s = ''-'' then Inl InvalidDigit
      else if hd s = CHR ''+'' then digit_loop bound PosOverflow 0 (tl s)
      else digit_loop bound PosOverflow 0 s)"

definition parse_signed :: "nat \<Rightarrow> nat \<Rightarrow> string \<Rightarrow> IntErrorKind + int" where
  "parse_signed bound negbound s =
     (if s = [] then Inl EmptyInt
      else if s = ''+'' \<or> s = ''-'' then Inl InvalidDigit
      else if hd s = CHR ''+'' then map_ok int (digit_loop bound PosOverflow 0 (tl s))
      else if hd s = CHR ''-'' then map_ok (\<lambda>n. - int n) (digit_loop negbound NegOverflow 0 (tl s))
      else map_ok int (digit_loop bound PosOverflow 0 s))"

text \<open>\<open>s.parse::<uN>()\<close> and \<open>s.parse::<iN>()\<close>.\<close>

definition parse_u :: "string \<Rightarrow> IntErrorKind + 'a::len word" where
  "parse_u s = map_ok of_nat (parse_unsigned (2 ^ LENGTH('a) - 1) s)"

definition parse_i :: "string \<Rightarrow> IntErrorKind + 'a::len word" where
  "parse_i s = map_ok of_int (parse_signed (2 ^ (LENGTH('a) - 1) - 1) (2 ^ (LENGTH('a) - 1)) s)"

text \<open>\<open>Display\<close> of an unsigned integer.\<close>

definition digit_char :: "nat \<Rightarrow> char" where
  "digit_char d = char_of (48 + d)"

fun show_nat :: "nat \<Rightarrow> string" where
  "show_nat n = (if n < 10 then [digit_char n] else show_nat (n div 10) @ [digit_char (n mod 10)])"

declare show_nat.simps [simp del]

definition show_u :: "'a::len word \<Rightarrow> string" where
  "show_u w = show_nat (unat w)"

text \<open>\<open>u8::is_ascii_digit\<close>.\<close>

definition is_ascii_digit :: "char \<Rightarrow> bool" where
  "is_ascii_digit c \<longleftrightarrow> to_digit c \<noteq> None"

section \<open>The value of a digit text\<close>

fun digits_value :: "nat \<Rightarrow> string \<Rightarrow> nat" where
  "digits_value acc [] = acc"
| "digits_value acc (c # cs) = digits_value (acc * 10 + the (to_digit c)) cs"

definition all_digits :: "string \<Rightarrow> bool" where
  "all_digits s \<longleftrightarrow> (\<forall>c \<in> set s. is_ascii_digit c)"

lemma all_digits_simps [simp]:
  "all_digits []" "all_digits (c # s) \<longleftrightarrow> is_ascii_digit c \<and> all_digits s"
  "all_digits (s @ t) \<longleftrightarrow> all_digits s \<and> all_digits t"
  by (auto simp: all_digits_def)

lemma digits_value_ge: "acc \<le> digits_value acc s"
proof (induction s arbitrary: acc)
  case Nil
  show ?case by simp
next
  case (Cons c s)
  have "acc \<le> acc * 10 + the (to_digit c)" by simp
  also have "\<dots> \<le> digits_value (acc * 10 + the (to_digit c)) s" by (rule Cons.IH)
  finally show ?case by simp
qed

lemma digits_value_append: "digits_value acc (s @ t) = digits_value (digits_value acc s) t"
  by (induction s arbitrary: acc) auto

text \<open>What the loop computes: the value when every character is a digit and the value fits.\<close>

lemma digit_loop_Inr_iff:
  "acc \<le> bound \<Longrightarrow>
   digit_loop bound over acc s = Inr v \<longleftrightarrow>
     all_digits s \<and> v = digits_value acc s \<and> digits_value acc s \<le> bound"
proof (induction s arbitrary: acc)
  case Nil
  then show ?case by auto
next
  case (Cons c s)
  show ?case
  proof (cases "to_digit c")
    case None
    then show ?thesis by (simp add: is_ascii_digit_def)
  next
    case (Some d)
    have "acc * 10 + d \<le> digits_value (acc * 10 + d) s" by (rule digits_value_ge)
    with Some Cons.IH [of "acc * 10 + d"] show ?thesis
      by (auto simp: is_ascii_digit_def)
  qed
qed

lemma digit_loop_overflow:
  "all_digits s \<Longrightarrow> bound < digits_value acc s \<Longrightarrow> acc \<le> bound \<Longrightarrow>
   digit_loop bound over acc s = Inl over"
proof (induction s arbitrary: acc)
  case Nil
  then show ?case by simp
next
  case (Cons c s)
  then obtain d where "to_digit c = Some d" by (auto simp: is_ascii_digit_def)
  with Cons show ?case by auto
qed

lemma to_digit_digit_char [simp]: "d < 10 \<Longrightarrow> to_digit (digit_char d) = Some d"
  by (simp add: to_digit_def digit_char_def Let_def)

lemma is_ascii_digit_digit_char [simp]: "d < 10 \<Longrightarrow> is_ascii_digit (digit_char d)"
  by (simp add: is_ascii_digit_def)

lemma show_nat_not_Nil [simp]: "show_nat n \<noteq> []"
  by (subst show_nat.simps) simp

lemma all_digits_show_nat [simp]: "all_digits (show_nat n)"
proof (induction n rule: show_nat.induct)
  case (1 n)
  then show ?case by (subst show_nat.simps) auto
qed

lemma digits_value_show_nat [simp]: "digits_value 0 (show_nat n) = n"
proof (induction n rule: show_nat.induct)
  case (1 n)
  then show ?case by (subst show_nat.simps) (auto simp: digits_value_append)
qed

lemma to_digit_special [simp]:
  "to_digit (CHR ''+'') = None" "to_digit (CHR ''-'') = None"
  by (simp_all add: to_digit_def Let_def)

lemma all_digits_head:
  "all_digits s \<Longrightarrow> s \<noteq> [] \<Longrightarrow> hd s \<noteq> CHR ''+'' \<and> hd s \<noteq> CHR ''-''"
  by (cases s) (auto simp: is_ascii_digit_def)

text \<open>The optional sign the unsigned parser accepts.\<close>

definition unsign :: "string \<Rightarrow> string" where
  "unsign s = (if s \<noteq> [] \<and> hd s = CHR ''+'' then tl s else s)"

lemma unsign_all_digits [simp]: "all_digits s \<Longrightarrow> unsign s = s"
  using all_digits_head by (auto simp: unsign_def)

lemma parse_unsigned_unsign:
  "parse_unsigned bound s =
     (if s = [] then Inl EmptyInt
      else if unsign s = [] \<or> s = ''-'' then Inl InvalidDigit
      else digit_loop bound PosOverflow 0 (unsign s))"
  by (cases s) (auto simp del: digit_loop.simps simp: parse_unsigned_def unsign_def)

lemma parse_unsigned_Inr_iff:
  "parse_unsigned bound s = Inr v \<longleftrightarrow>
     unsign s \<noteq> [] \<and> all_digits (unsign s) \<and> v = digits_value 0 (unsign s) \<and> v \<le> bound"
proof -
  have "s = ''-'' \<Longrightarrow> \<not> all_digits (unsign s)" and "s = [] \<Longrightarrow> unsign s = []"
    by (simp_all add: unsign_def is_ascii_digit_def)
  then show ?thesis
    unfolding parse_unsigned_unsign by (auto simp: digit_loop_Inr_iff)
qed

lemma parse_unsigned_overflow:
  assumes "all_digits (unsign s)" "bound < digits_value 0 (unsign s)"
  shows "parse_unsigned bound s = Inl PosOverflow"
proof -
  have "s \<noteq> ''-''" "unsign s \<noteq> []" "s \<noteq> []"
    using assms by (auto simp: unsign_def is_ascii_digit_def)
  with assms show ?thesis
    unfolding parse_unsigned_unsign by (simp add: digit_loop_overflow)
qed

lemma parse_u_Inr_iff:
  "parse_u s = Inr (w :: 'a::len word) \<longleftrightarrow>
     unsign s \<noteq> [] \<and> all_digits (unsign s) \<and> digits_value 0 (unsign s) = unat w"
proof -
  let ?v = "digits_value 0 (unsign s)" and ?n = "(2::nat) ^ LENGTH('a)"
  have bound: "?v \<le> ?n - 1 \<longleftrightarrow> ?v < ?n"
    using zero_less_power [of "2::nat" "LENGTH('a)"] by linarith
  have "w = of_nat ?v \<and> ?v < ?n \<longleftrightarrow> ?v = unat w"
    by (metis of_nat_inverse ucast_id of_nat_unat unsigned_less)
  moreover have "parse_u s = Inr w \<longleftrightarrow>
      (unsign s \<noteq> [] \<and> all_digits (unsign s)) \<and> w = of_nat ?v \<and> ?v \<le> ?n - 1"
    unfolding parse_u_def map_ok_eq_Inr parse_unsigned_Inr_iff by blast
  ultimately show ?thesis unfolding bound by blast
qed

lemma parse_u_show_u [simp]: "parse_u (show_u w) = Inr w"
  by (simp add: parse_u_Inr_iff show_u_def)

lemma parse_u_overflow:
  "all_digits (unsign s) \<Longrightarrow> 2 ^ LENGTH('a) \<le> digits_value 0 (unsign s) \<Longrightarrow>
   (parse_u s :: IntErrorKind + 'a::len word) = Inl PosOverflow"
proof -
  assume s: "all_digits (unsign s)" "2 ^ LENGTH('a) \<le> digits_value 0 (unsign s)"
  have "2 ^ LENGTH('a) - 1 < digits_value 0 (unsign s)"
    using s(2) by (rule less_le_trans [rotated]) simp
  with s(1) have "parse_unsigned (2 ^ LENGTH('a) - 1) s = Inl PosOverflow"
    by (rule parse_unsigned_overflow)
  then show ?thesis by (simp only: parse_u_def map_ok.simps)
qed


section \<open>Digit texts are tokens\<close>

lemma is_ascii_digit_not_whitespace: "is_ascii_digit c \<Longrightarrow> \<not> is_ascii_whitespace c"
  by (auto simp: is_ascii_digit_def to_digit_def is_ascii_whitespace_def Let_def)

lemma is_ascii_digit_ink: "is_ascii_digit c \<Longrightarrow> ink c"
  by (auto simp: is_ascii_digit_def to_digit_def ink_def white_space1_def Let_def split: if_splits)

lemma is_token_digits: "all_digits s \<Longrightarrow> s \<noteq> [] \<Longrightarrow> is_token s"
  by (auto simp: is_token_def all_digits_def is_ascii_digit_not_whitespace)

lemma is_token_show_nat [simp]: "is_token (show_nat n)"
  by (simp add: is_token_digits)

lemma all_digits_show_u [simp]: "all_digits (show_u w)" "show_u w \<noteq> []"
  by (simp_all add: show_u_def)

lemma is_token_show_u [simp]: "is_token (show_u w)"
  by (simp add: show_u_def)

lemma not_digit_not_in_digits: "all_digits s \<Longrightarrow> \<not> is_ascii_digit c \<Longrightarrow> c \<notin> set s"
  by (auto simp: all_digits_def)

lemma is_ascii_digit_code [simp]:
  "\<not> is_ascii_digit (CHR ''-'')" "\<not> is_ascii_digit (CHR '','')" "\<not> is_ascii_digit (CHR '':'')"
  "\<not> is_ascii_digit (CHR ''='')" "\<not> is_ascii_digit (CHR ''m'')" "\<not> is_ascii_digit (CHR ''+'')"
  "\<not> is_ascii_digit (CHR ''.'')" "\<not> is_ascii_digit (CHR ''e'')" "\<not> is_ascii_digit (CHR 0x0A)"
  by (simp_all add: is_ascii_digit_def to_digit_def)

lemma show_nat_small [simp]: "n < 10 \<Longrightarrow> show_nat n = [digit_char n]"
  by (subst show_nat.simps) simp


section \<open>Signed texts\<close>

lemma parse_signed_neg:
  assumes "all_digits ds" "ds \<noteq> []"
  shows "parse_signed bound negbound (CHR ''-'' # ds) =
    (if digits_value 0 ds \<le> negbound then Inr (- int (digits_value 0 ds)) else Inl NegOverflow)"
proof (cases "digits_value 0 ds \<le> negbound")
  case True
  with assms have "digit_loop negbound NegOverflow 0 ds = Inr (digits_value 0 ds)"
    by (simp add: digit_loop_Inr_iff)
  with True assms(2) show ?thesis by (simp add: parse_signed_def)
next
  case False
  with assms have "digit_loop negbound NegOverflow 0 ds = Inl NegOverflow"
    by (simp add: digit_loop_overflow)
  with False assms(2) show ?thesis by (simp add: parse_signed_def)
qed

lemma parse_signed_pos:
  assumes "all_digits ds" "ds \<noteq> []"
  shows "parse_signed bound negbound ds =
    (if digits_value 0 ds \<le> bound then Inr (int (digits_value 0 ds)) else Inl PosOverflow)"
proof -
  have h: "hd ds \<noteq> CHR ''+''" "hd ds \<noteq> CHR ''-''" "ds \<noteq> ''+''" "ds \<noteq> ''-''"
    using all_digits_head [OF assms] by auto
  show ?thesis
  proof (cases "digits_value 0 ds \<le> bound")
    case True
    with assms have "digit_loop bound PosOverflow 0 ds = Inr (digits_value 0 ds)"
      by (simp add: digit_loop_Inr_iff)
    with True h assms(2) show ?thesis by (simp add: parse_signed_def)
  next
    case False
    with assms have "digit_loop bound PosOverflow 0 ds = Inl PosOverflow"
      by (simp add: digit_loop_overflow)
    with False h assms(2) show ?thesis by (simp add: parse_signed_def)
  qed
qed

text \<open>\<open>Display\<close> of a signed value.\<close>

definition show_int :: "int \<Rightarrow> string" where
  "show_int i = (if i < 0 then CHR ''-'' # show_nat (nat (- i)) else show_nat (nat i))"

lemma parse_signed_show_int:
  assumes "- int negbound \<le> i" "i \<le> int bound"
  shows "parse_signed bound negbound (show_int i) = Inr i"
proof (cases "i < 0")
  case True
  with assms(1) have "nat (- i) \<le> negbound" by linarith
  with True show ?thesis by (simp add: show_int_def parse_signed_neg)
next
  case False
  with assms(2) have "nat i \<le> bound" by linarith
  with False show ?thesis by (simp add: show_int_def parse_signed_pos)
qed

lemma is_token_minus: "is_token s \<Longrightarrow> is_token (CHR ''-'' # s)"
  by (simp add: is_token_def is_ascii_whitespace_def)

lemma is_token_show_int [simp]: "is_token (show_int i)"
  by (simp add: show_int_def is_token_minus)

lemma parse_i_show_int: "parse_i (show_int (sint w)) = Inr (w :: 'a::len word)"
proof -
  have "- int (2 ^ (LENGTH('a) - 1)) \<le> sint w" "sint w \<le> int (2 ^ (LENGTH('a) - 1) - 1)"
    using sint_ge [of w] sint_lt [of w] by (simp_all add: of_nat_diff)
  then show ?thesis by (simp add: parse_i_def parse_signed_show_int)
qed

end
