(* ===== verification/Xtask_Http.thy ===== *)
theory Xtask_Http
  imports Rust_Effect Rust_Int
begin

text \<open>
  Errors of the developer tasks and what \<open>xtask/src/http.rs\<close> retries, with the contract of the
  bounded retry loops of the release and of the kernel download.
\<close>

section \<open>Errors\<close>

text \<open>\<open>reqwest::Error\<close>: the status of a response, if there was one, and the kinds of failure.\<close>

record ReqwestError =
  error_status :: "nat option"
  is_connect :: bool
  is_request :: bool
  is_timeout :: bool
  is_body :: bool
  is_decode :: bool

text \<open>
  \<open>anyhow::Error\<close>: an HTTP error or another cause by its text, with contexts attached to it. A
  downcast looks through the contexts. \<open>RetryContext\<close> is the context \<open>RetryAfter\<close> of
  \<open>vmtest/kernel.rs\<close>.
\<close>

datatype AnyhowError =
    Reqwest ReqwestError
  | Failure string
  | Context string AnyhowError
  | RetryContext Duration AnyhowError

fun downcast_reqwest :: "AnyhowError \<Rightarrow> ReqwestError option" where
  "downcast_reqwest (Reqwest e) = Some e"
| "downcast_reqwest (Failure _) = None"
| "downcast_reqwest (Context _ e) = downcast_reqwest e"
| "downcast_reqwest (RetryContext _ e) = downcast_reqwest e"

fun downcast_retry_after :: "AnyhowError \<Rightarrow> Duration option" where
  "downcast_retry_after (Reqwest _) = None"
| "downcast_retry_after (Failure _) = None"
| "downcast_retry_after (Context _ e) = downcast_retry_after e"
| "downcast_retry_after (RetryContext delay _) = Some delay"

definition is_server_error :: "nat \<Rightarrow> bool" where
  "is_server_error status \<longleftrightarrow> 500 \<le> status \<and> status < 600"

definition retryable :: "AnyhowError \<Rightarrow> bool" where
  "retryable error =
     (case downcast_reqwest error of
        None \<Rightarrow> False
      | Some error \<Rightarrow>
          (case error_status error of
             Some status \<Rightarrow> status = 429 \<or> is_server_error status
           | None \<Rightarrow> is_connect error \<or> is_request error \<or> is_timeout error \<or> is_body error \<or> is_decode error))"

section \<open>Responses\<close>

text \<open>A response whose body may fail to arrive; \<open>error_for_status\<close> of reqwest.\<close>

record Response =
  response_status :: nat
  response_text :: "AnyhowError + string"
  response_retry_after :: "string option"  \<comment> \<open>the header \<open>Retry-After\<close>, if it is text\<close>

definition status_error :: "nat \<Rightarrow> ReqwestError" where
  "status_error status = \<lparr>error_status = Some status, is_connect = False, is_request = False,
     is_timeout = False, is_body = False, is_decode = False\<rparr>"

definition error_for_status :: "Response \<Rightarrow> ReqwestError + Response" where
  "error_for_status response =
     (if 400 \<le> response_status response \<and> response_status response < 600
      then Inl (status_error (response_status response)) else Inr response)"

lemma retryable_context [simp]:
  "retryable (Context text e) = retryable e" "retryable (RetryContext delay e) = retryable e"
  "\<not> retryable (Failure text)"
  by (simp_all add: retryable_def)

lemma retryable_status [simp]: "retryable (Reqwest (status_error s)) \<longleftrightarrow> s = 429 \<or> is_server_error s"
  by (simp add: retryable_def status_error_def)

section \<open>Bounded retries\<close>

text \<open>
  The states of a loop whose attempts so far were all to be retried. An attempt gives the final
  result, or None when the loop goes on, its pause included in the effect.
\<close>

fun retries :: "(nat \<Rightarrow> 'w \<Rightarrow> 'r option \<times> 'w) \<Rightarrow> nat list \<Rightarrow> 'w \<Rightarrow> 'w option" where
  "retries attempt [] w = Some w"
| "retries attempt (n # ns) w =
     (case attempt n w of (None, w') \<Rightarrow> retries attempt ns w' | (Some _, _) \<Rightarrow> None)"

lemma retries_append:
  "retries attempt (ms @ ns) w = Option.bind (retries attempt ms w) (retries attempt ns)"
  by (induction ms arbitrary: w) (auto split: prod.split option.split)

lemma retries_snoc:
  "retries attempt (ns @ [n]) w = Some w' \<longleftrightarrow>
     (\<exists>w1. retries attempt ns w = Some w1 \<and> attempt n w1 = (None, w'))"
  by (cases "retries attempt ns w") (auto simp: retries_append split: prod.split option.split)

lemma upt_split: "[1..<Suc b] = before @ n # after \<Longrightarrow> before = [1..<n] \<and> 1 \<le> n \<and> n \<le> b"
proof -
  assume split: "[1..<Suc b] = before @ n # after"
  let ?k = "length before"
  have "?k < length [1..<Suc b]" unfolding split by simp
  moreover have "n = [1..<Suc b] ! ?k" unfolding split by simp
  ultimately have n: "n = Suc ?k" "?k < b" by (simp_all del: upt_Suc)
  have "before = take ?k [1..<Suc b]" unfolding split by simp
  then have "before = [1..<n]" using n by (simp add: take_upt del: upt_Suc)
  with n show ?thesis by simp
qed

text \<open>
  What the two loops promise: the attempts are made in order, the first final result ends the
  loop, and the last attempt of the budget is final.
\<close>

locale bounded_retry =
  fixes attempt :: "nat \<Rightarrow> nat \<Rightarrow> 'w \<Rightarrow> ('e + 'a) option \<times> 'w"
    and loop :: "nat \<Rightarrow> nat list \<Rightarrow> ('w, 'e, 'a) io"
  assumes loop_Cons: "loop budget (n # ns) w =
      (case attempt budget n w of (Some result, w') \<Rightarrow> (result, w') | (None, w') \<Rightarrow> loop budget ns w')"
    and last_attempt_final: "fst (attempt budget budget w) \<noteq> None"
begin

lemma loop_decided:
  assumes "ns \<noteq> []" "last ns = budget"
  shows "\<exists>before n after w'. ns = before @ n # after \<and> retries (attempt budget) before w = Some w'
    \<and> fst (attempt budget n w') = Some (fst (loop budget ns w))
    \<and> snd (attempt budget n w') = snd (loop budget ns w)"
  using assms
proof (induction ns arbitrary: w)
  case Nil
  then show ?case by simp
next
  case (Cons n ns)
  obtain result w' where attempt: "attempt budget n w = (result, w')" by fastforce
  show ?case
  proof (cases result)
    case (Some r)
    then have "n # ns = [] @ n # ns \<and> retries (attempt budget) [] w = Some w
        \<and> fst (attempt budget n w) = Some (fst (loop budget (n # ns) w))
        \<and> snd (attempt budget n w) = snd (loop budget (n # ns) w)"
      using attempt by (simp add: loop_Cons)
    then show ?thesis by blast
  next
    case None
    then have "ns \<noteq> []" using Cons.prems attempt last_attempt_final [of budget w] by auto
    with Cons.prems have "last ns = budget" by simp
    from Cons.IH [OF \<open>ns \<noteq> []\<close> this, of w'] obtain before m after w'' where
      tail: "ns = before @ m # after" "retries (attempt budget) before w' = Some w''"
        "fst (attempt budget m w'') = Some (fst (loop budget ns w'))"
        "snd (attempt budget m w'') = snd (loop budget ns w')"
      by blast
    moreover have "loop budget (n # ns) w = loop budget ns w'"
      using attempt None by (simp add: loop_Cons)
    ultimately have "n # ns = (n # before) @ m # after \<and> retries (attempt budget) (n # before) w = Some w''
        \<and> fst (attempt budget m w'') = Some (fst (loop budget (n # ns) w))
        \<and> snd (attempt budget m w'') = snd (loop budget (n # ns) w)"
      using attempt None by simp
    then show ?thesis by blast
  qed
qed

text \<open>The attempts are numbered from one to the budget.\<close>

lemma loop_budget:
  assumes "0 < budget"
  shows "\<exists>n w'. 1 \<le> n \<and> n \<le> budget \<and> retries (attempt budget) [1..<n] w = Some w'
    \<and> attempt budget n w' = (Some (fst (loop budget [1..<Suc budget] w)), snd (loop budget [1..<Suc budget] w))"
proof -
  have "[1..<Suc budget] \<noteq> []" "last [1..<Suc budget] = budget" using assms by simp_all
  from loop_decided [OF this, of w] obtain before n after w' where
    split: "[1..<Suc budget] = before @ n # after" and
    decided: "retries (attempt budget) before w = Some w'"
      "fst (attempt budget n w') = Some (fst (loop budget [1..<Suc budget] w))"
      "snd (attempt budget n w') = snd (loop budget [1..<Suc budget] w)"
    by blast
  from upt_split [OF split] decided show ?thesis by (metis prod.collapse)
qed

end

end
