(* ===== verification/Rust_Path.thy ===== *)
theory Rust_Path
  imports Rust_Str
begin

text \<open>
  \<open>std::path\<close> on Unix as the code uses it: the components of a path, joining, and the errors
  of \<open>std::io\<close>. A path is its bytes.
\<close>

datatype Component = RootDir | CurDir | ParentDir | Normal string

text \<open>
  Repeated and trailing separators are ignored; a \<open>.\<close> counts only as the first component of a
  relative path.
\<close>

definition segment_component :: "string \<Rightarrow> Component option" where
  "segment_component seg =
     (if seg = '''' \<or> seg = ''.'' then None
      else if seg = ''..'' then Some ParentDir else Some (Normal seg))"

definition is_absolute :: "string \<Rightarrow> bool" where
  "is_absolute path \<longleftrightarrow> path \<noteq> [] \<and> hd path = CHR ''/''"

definition components :: "string \<Rightarrow> Component list" where
  "components path =
     (let segs = split_pred (\<lambda>c. c = CHR ''/'') path
      in (if is_absolute path then [RootDir] else if hd segs = ''.'' then [CurDir] else [])
         @ List.map_filter segment_component segs)"

definition path_join :: "string \<Rightarrow> string \<Rightarrow> string" where
  "path_join base path =
     (if is_absolute path then path
      else if base = [] \<or> last base = CHR ''/'' then base @ path
      else base @ ''/'' @ path)"

definition no_component :: "string \<Rightarrow> bool" where
  "no_component segment \<longleftrightarrow> segment_component segment = None"

section \<open>Errors of the operating system\<close>


datatype ErrorKind =
  NotFound | PermissionDenied | Interrupted | WouldBlock | InvalidInput | BrokenPipe
  | Unsupported | InvalidData | OtherKind

text \<open>An error with an errno, or one made by the program with a kind and a message.\<close>

datatype io_error = Os nat | Custom ErrorKind string

text \<open>The kinds the standard library gives to the Linux error numbers the code distinguishes.\<close>

definition decode_error_kind :: "nat \<Rightarrow> ErrorKind" where
  "decode_error_kind errno =
     (if errno = 2 then NotFound
      else if errno = 1 \<or> errno = 13 then PermissionDenied
      else if errno = 4 then Interrupted
      else if errno = 11 then WouldBlock
      else if errno = 22 then InvalidInput
      else if errno = 32 then BrokenPipe
      else if errno = 38 \<or> errno = 95 then Unsupported
      else OtherKind)"

fun io_kind :: "io_error \<Rightarrow> ErrorKind" where
  "io_kind (Os errno) = decode_error_kind errno"
| "io_kind (Custom kind message) = kind"

section \<open>Facts\<close>

lemma segment_component_Normal: "segment_component seg = Some (Normal name) \<longleftrightarrow>
    name = seg \<and> seg \<noteq> '''' \<and> seg \<noteq> ''.'' \<and> seg \<noteq> ''..''"
  by (auto simp: segment_component_def)

text \<open>A name without separators that is not a dot is one normal component.\<close>

lemma components_single:
  assumes "CHR ''/'' \<notin> set name" "name \<noteq> ''''" "name \<noteq> ''.''" "name \<noteq> ''..''"
  shows "components name = [Normal name]"
proof -
  have "split_pred (\<lambda>c. c = CHR ''/'') name = [name]"
    using assms(1) by (intro split_pred_no_sep) auto
  moreover have "\<not> is_absolute name"
    using assms(1,2) by (cases name) (auto simp: is_absolute_def)
  ultimately show ?thesis
    using assms by (simp add: components_def List.map_filter_def segment_component_def)
qed

end
