(* ===== verification/Xtask_Kernel.thy ===== *)
theory Xtask_Kernel
  imports Xtask_Http Rust_Path Rust_Int
begin

text \<open>
  The kernel images of the live tests, \<open>xtask/src/vmtest/kernel.rs\<close>: an image is downloaded to a
  partial file with a bounded number of attempts and then renamed. The file system is a map from
  paths to contents in which every operation may fail, and the server an oracle of responses;
  directories and other processes (kept out by the lock) are not modelled.
\<close>

section \<open>The machine\<close>

text \<open>
  A response: its status, its header \<open>Retry-After\<close>, the chunks of its body that arrive and the
  error, if any, that ends them.
\<close>

record Download =
  download_status :: nat
  download_retry_after :: "string option"
  download_chunks :: "string list"
  download_end :: "AnyhowError option"

text \<open>The operations that may fail: on the file system, and the construction of the HTTP client.\<close>

datatype Operation =
    CreateDirectory
  | LockExclusive
  | BuildClient
  | CreateFile string
  | WriteFile string
  | RenameFile string string
  | CopyFile string string
  | RemoveFile string
  | TestExists string

text \<open>
  The outcome of an operation at each step: a failure with the number of bytes a write has still
  written, the answer to a request, the clocks in nanoseconds.
\<close>

record machine =
  fault :: "nat \<Rightarrow> Operation \<Rightarrow> (AnyhowError \<times> nat) option"
  serve :: "nat \<Rightarrow> AnyhowError + Download"
  system_now :: "nat \<Rightarrow> int"
  instant_now :: "nat \<Rightarrow> nat"
  parse_http_date :: "string \<Rightarrow> int option"
  process_id :: nat

record World =
  files :: "string \<rightharpoonup> string"
  tick :: nat
  pauses :: "Duration list"  \<comment> \<open>the sleeps so far, last first\<close>

definition next_tick :: "World \<Rightarrow> World" where
  "next_tick w = w\<lparr>tick := Suc (tick w)\<rparr>"

text \<open>An operation that may fail; what it does to the files when it succeeds and when it fails.\<close>

definition fs_op :: "machine \<Rightarrow> Operation \<Rightarrow> ((string \<rightharpoonup> string) \<Rightarrow> AnyhowError + (string \<rightharpoonup> string)) \<Rightarrow>
    (nat \<Rightarrow> (string \<rightharpoonup> string) \<Rightarrow> (string \<rightharpoonup> string)) \<Rightarrow> (World, AnyhowError, unit) io" where
  "fs_op m op success failure w =
     (case fault m (tick w) op of
        Some (error, n) \<Rightarrow> (Inl error, (next_tick w)\<lparr>files := failure n (files w)\<rparr>)
      | None \<Rightarrow>
          (case success (files w) of
             Inl error \<Rightarrow> (Inl error, next_tick w)
           | Inr files' \<Rightarrow> (Inr (), (next_tick w)\<lparr>files := files'\<rparr>)))"

definition not_found :: AnyhowError where
  "not_found = Failure ''No such file or directory (os error 2)''"

definition plain_op :: "machine \<Rightarrow> Operation \<Rightarrow> (World, AnyhowError, unit) io" where
  "plain_op m op = fs_op m op Inr (\<lambda>n f. f)"

definition create_file :: "machine \<Rightarrow> string \<Rightarrow> (World, AnyhowError, unit) io" where
  "create_file m path = fs_op m (CreateFile path) (\<lambda>f. Inr (f(path \<mapsto> []))) (\<lambda>n f. f)"

definition append_text :: "string \<Rightarrow> string \<Rightarrow> (string \<rightharpoonup> string) \<Rightarrow> (string \<rightharpoonup> string)" where
  "append_text path text f = f(path \<mapsto> (case f path of None \<Rightarrow> [] | Some old \<Rightarrow> old) @ text)"

definition write_all :: "machine \<Rightarrow> string \<Rightarrow> string \<Rightarrow> (World, AnyhowError, unit) io" where
  "write_all m path text = fs_op m (WriteFile path) (\<lambda>f. Inr (append_text path text f)) (\<lambda>n. append_text path (take n text))"

definition rename :: "machine \<Rightarrow> string \<Rightarrow> string \<Rightarrow> (World, AnyhowError, unit) io" where
  "rename m source target = fs_op m (RenameFile source target)
     (\<lambda>f. case f source of None \<Rightarrow> Inl not_found | Some text \<Rightarrow> Inr ((f(source := None))(target \<mapsto> text)))
     (\<lambda>n f. f)"

definition remove_file :: "machine \<Rightarrow> string \<Rightarrow> (World, AnyhowError, unit) io" where
  "remove_file m path = fs_op m (RemoveFile path)
     (\<lambda>f. case f path of None \<Rightarrow> Inl not_found | Some _ \<Rightarrow> Inr (f(path := None))) (\<lambda>n f. f)"

definition try_exists :: "machine \<Rightarrow> string \<Rightarrow> (World, AnyhowError, bool) io" where
  "try_exists m path w =
     (case fault m (tick w) (TestExists path) of
        Some (error, _) \<Rightarrow> (Inl error, next_tick w)
      | None \<Rightarrow> (Inr (files w path \<noteq> None), next_tick w))"

definition kernel_get :: "machine \<Rightarrow> string \<Rightarrow> (World, AnyhowError, Download) io" where
  "kernel_get m url w = (serve m (tick w), next_tick w)"

definition pause :: "Duration \<Rightarrow> World \<Rightarrow> World" where
  "pause delay w = (next_tick w)\<lparr>pauses := delay # pauses w\<rparr>"

section \<open>Durations\<close>

definition duration_from_secs :: "u64 \<Rightarrow> Duration" where
  "duration_from_secs secs = \<lparr>duration_secs = secs, duration_nanos = 0\<rparr>"

definition duration_from_nanos :: "nat \<Rightarrow> Duration" where
  "duration_from_nanos n = \<lparr>duration_secs = of_nat (n div 10 ^ 9), duration_nanos = of_nat (n mod 10 ^ 9)\<rparr>"

text \<open>\<open>SystemTime::duration_since\<close> and \<open>Instant::checked_add\<close>: seconds are an \<open>i64\<close>.\<close>

definition duration_since :: "int \<Rightarrow> int \<Rightarrow> Duration option" where
  "duration_since later earlier =
     (if earlier \<le> later then Some (duration_from_nanos (nat (later - earlier))) else None)"

definition instant_checked_add :: "nat \<Rightarrow> Duration \<Rightarrow> nat option" where
  "instant_checked_add now delay =
     (if (now + total_nanos delay) div 10 ^ 9 < 2 ^ 63 then Some (now + total_nanos delay) else None)"

definition duration_checked_mul :: "Duration \<Rightarrow> u32 \<Rightarrow> Duration option" where
  "duration_checked_mul d n =
     (let nanos = unat (duration_nanos d) * unat n;
          secs = unat (duration_secs d) * unat n + nanos div 10 ^ 9
      in if unat (duration_secs d) * unat n < 2 ^ 64 \<and> secs < 2 ^ 64
         then Some \<lparr>duration_secs = of_nat secs, duration_nanos = of_nat (nanos mod 10 ^ 9)\<rparr> else None)"

section \<open>Retry-After\<close>

definition RetryAfter_parse :: "machine \<Rightarrow> string \<Rightarrow> int \<Rightarrow> nat \<Rightarrow> Duration option" where
  "RetryAfter_parse m text now instant =
     (let text = trim text;
          delay =
            (if list_all is_ascii_digit text then map_option duration_from_secs (result_ok (parse_u text))
             else map_option (\<lambda>date. case duration_since date now of None \<Rightarrow> duration_from_secs 0 | Some d \<Rightarrow> d)
               (parse_http_date m text))
      in Option.bind delay (\<lambda>delay.
         Option.bind (instant_checked_add instant delay) (\<lambda>_. Some delay)))"

definition RetryAfter_delay :: "AnyhowError \<Rightarrow> Duration \<Rightarrow> Duration" where
  "RetryAfter_delay error fallback =
     (case downcast_retry_after error of None \<Rightarrow> fallback | Some delay \<Rightarrow> delay)"

section \<open>Kernels\<close>

record Kernel =
  kernel_name :: string
  kernel_smoke :: bool

definition Kernel_new :: "string \<Rightarrow> bool \<Rightarrow> Kernel" where
  "Kernel_new name smoke = \<lparr>kernel_name = name, kernel_smoke = smoke\<rparr>"

definition Kernel_ALL :: "Kernel list" where
  "Kernel_ALL =
     [Kernel_new ''5.15'' True, Kernel_new ''6.1'' False, Kernel_new ''6.6'' False,
      Kernel_new ''6.12'' False, Kernel_new ''6.18'' True]"

definition ASSET_URL :: string where
  "ASSET_URL = ''https://github.com/danobi/vmtest/releases/download/test_assets''"

definition MAX_DOWNLOAD_ATTEMPTS :: nat where "MAX_DOWNLOAD_ATTEMPTS = 3"

definition RETRY_DELAY :: Duration where "RETRY_DELAY = duration_from_secs 10"

section \<open>Downloads\<close>

fun write_chunks :: "machine \<Rightarrow> string \<Rightarrow> string list \<Rightarrow> AnyhowError option \<Rightarrow> (World, AnyhowError, unit) io" where
  "write_chunks m partial [] final = return_io (case final of None \<Rightarrow> Inr () | Some error \<Rightarrow> Inl error)"
| "write_chunks m partial (chunk # chunks) final =
     then_io (write_all m partial chunk) (\<lambda>_. write_chunks m partial chunks final)"

definition download_retry :: "machine \<Rightarrow> Download \<Rightarrow> World \<Rightarrow> Duration option" where
  "download_retry m response w =
     (if download_status response = 429
      then Option.bind (download_retry_after response)
        (\<lambda>text. RetryAfter_parse m text (system_now m (tick w)) (instant_now m (tick w)))
      else None)"

definition download_checked :: "Download \<Rightarrow> Duration option \<Rightarrow> AnyhowError + Download" where
  "download_checked response retry_after =
     (if 400 \<le> download_status response \<and> download_status response < 600
      then Inl (case retry_after of
          Some delay \<Rightarrow> RetryContext delay (Reqwest (status_error (download_status response)))
        | None \<Rightarrow> Reqwest (status_error (download_status response)))
      else Inr response)"

definition download_once :: "machine \<Rightarrow> string \<Rightarrow> string \<Rightarrow> (World, AnyhowError, unit) io" where
  "download_once m url partial =
     then_io (kernel_get m url) (\<lambda>response w.
     then_io (return_io (download_checked response (download_retry m response w))) (\<lambda>response.
     then_io (create_file m partial) (\<lambda>_.
     write_chunks m partial (download_chunks response) (download_end response))) w)"

text \<open>One turn of the loop; None when the download is to be tried again.\<close>

definition download_attempt ::
  "machine \<Rightarrow> string \<Rightarrow> string \<Rightarrow> Duration \<Rightarrow> nat \<Rightarrow> nat \<Rightarrow> World \<Rightarrow> (AnyhowError + unit) option \<times> World" where
  "download_attempt m url partial retry_delay attempts attempt w =
     (case download_once m url partial w of
        (Inr _, w') \<Rightarrow> (Some (Inr ()), w')
      | (Inl error, w') \<Rightarrow>
          if attempt < attempts \<and> retryable error then
            (case duration_checked_mul retry_delay (of_nat attempt) of
               None \<Rightarrow> (Some (Inl (Failure ''kernel retry delay overflow'')), w')
             | Some backoff \<Rightarrow> (None, pause (RetryAfter_delay error backoff) w'))
          else (Some (Inl (Context (''kernel download failed on attempt '' @ show_nat attempt @ ''/''
                 @ show_nat attempts @ '': '' @ url) error)), w'))"

fun download_loop ::
  "machine \<Rightarrow> string \<Rightarrow> string \<Rightarrow> Duration \<Rightarrow> nat \<Rightarrow> nat list \<Rightarrow> (World, AnyhowError, unit) io" where
  "download_loop m url partial retry_delay attempts [] w =
     (Inl (Failure (''kernel download exhausted retries: '' @ url)), w)"
| "download_loop m url partial retry_delay attempts (attempt # rest) w =
     (case download_attempt m url partial retry_delay attempts attempt w of
        (Some result, w') \<Rightarrow> (result, w')
      | (None, w') \<Rightarrow> download_loop m url partial retry_delay attempts rest w')"

definition download :: "machine \<Rightarrow> string \<Rightarrow> string \<Rightarrow> Duration \<Rightarrow> (World, AnyhowError, unit) io" where
  "download m url partial retry_delay =
     download_loop m url partial retry_delay MAX_DOWNLOAD_ATTEMPTS [1..<Suc MAX_DOWNLOAD_ATTEMPTS]"

section \<open>Images\<close>

definition image_name :: "Kernel \<Rightarrow> string" where
  "image_name fixture = ''bzImage-v'' @ kernel_name fixture @ ''-archlinux''"

text \<open>The download and the renaming; whatever fails, the partial file is removed.\<close>

definition image_fetch :: "machine \<Rightarrow> string \<Rightarrow> string \<Rightarrow> string \<Rightarrow> (World, AnyhowError, unit) io" where
  "image_fetch m url partial destination w =
     (case then_io (plain_op m BuildClient) (\<lambda>_.
           then_io (download m url partial RETRY_DELAY) (\<lambda>_.
           rename m partial destination)) w of
        (Inl error, w') \<Rightarrow> (Inl error, snd (remove_file m partial w'))
      | (Inr _, w') \<Rightarrow> (Inr (), w'))"

definition image :: "machine \<Rightarrow> Kernel \<Rightarrow> string \<Rightarrow> (World, AnyhowError, string) io" where
  "image m fixture cache =
     then_io (plain_op m CreateDirectory) (\<lambda>_.
     let destination = path_join cache (image_name fixture) in
     then_io (create_file m (path_join cache (image_name fixture @ ''.lock''))) (\<lambda>_.
     then_io (plain_op m LockExclusive) (\<lambda>_.
     then_io (try_exists m destination) (\<lambda>exists.
     if exists then return_io (Inr destination)
     else
       then_io (image_fetch m (ASSET_URL @ ''/'' @ image_name fixture)
           (path_join cache (image_name fixture @ ''.'' @ show_nat (process_id m) @ ''.partial'')) destination) (\<lambda>_.
       return_io (Inr destination))))))"

section \<open>The retry loop\<close>

interpretation kernel_retry: bounded_retry
    "download_attempt m url partial retry_delay" "download_loop m url partial retry_delay"
  for m url partial retry_delay
  by unfold_locales
    (auto simp: download_attempt_def split: prod.split sum.split option.split unit.split)

text \<open>
  The state after so many failed downloads that are worth another try, each followed by the pause
  the server asked for or, without one, by ten seconds more than the last time.
\<close>

fun after_failures :: "machine \<Rightarrow> string \<Rightarrow> string \<Rightarrow> nat \<Rightarrow> World \<Rightarrow> World option" where
  "after_failures m url partial 0 w = Some w"
| "after_failures m url partial (Suc n) w =
     (case after_failures m url partial n w of
        None \<Rightarrow> None
      | Some w1 \<Rightarrow>
          (case download_once m url partial w1 of
             (Inl error, w2) \<Rightarrow>
               if retryable error
               then Some (pause (case downcast_retry_after error of Some delay \<Rightarrow> delay
                   | None \<Rightarrow> \<lparr>duration_secs = 10 * of_nat (Suc n), duration_nanos = 0\<rparr>) w2)
               else None
           | (Inr (), w2) \<Rightarrow> None))"

lemma backoff:
  assumes "n < 3"
  shows "duration_checked_mul RETRY_DELAY (of_nat n) = Some \<lparr>duration_secs = 10 * of_nat n, duration_nanos = 0\<rparr>"
proof -
  have "n = 0 \<or> n = 1 \<or> n = 2" using assms by linarith
  then show ?thesis by (auto simp: duration_checked_mul_def RETRY_DELAY_def duration_from_secs_def)
qed

lemma download_attempt_None:
  assumes "1 \<le> n"
  shows "download_attempt m url partial RETRY_DELAY 3 n w = (None, w') \<longleftrightarrow>
     n < 3 \<and> (\<exists>error w2. download_once m url partial w = (Inl error, w2) \<and> retryable error
       \<and> w' = pause (case downcast_retry_after error of Some delay \<Rightarrow> delay
                   | None \<Rightarrow> \<lparr>duration_secs = 10 * of_nat n, duration_nanos = 0\<rparr>) w2)"
  using backoff [of n]
  by (auto simp: download_attempt_def RetryAfter_delay_def split: prod.splits sum.splits unit.splits option.splits if_splits)

lemma retries_after_failures:
  "retries (download_attempt m url partial RETRY_DELAY 3) [1..<Suc n] w = Some w' \<Longrightarrow>
     after_failures m url partial n w = Some w'"
proof (induction n arbitrary: w')
  case 0
  then show ?case by simp
next
  case (Suc n)
  have "[1..<Suc (Suc n)] = [1..<Suc n] @ [Suc n]" by simp
  with Suc.prems obtain w1 where
    "retries (download_attempt m url partial RETRY_DELAY 3) [1..<Suc n] w = Some w1"
    "download_attempt m url partial RETRY_DELAY 3 (Suc n) w1 = (None, w')"
    by (metis retries_snoc)
  with Suc.IH show ?case by (auto simp: download_attempt_None)
qed

lemma download_attempt_Some:
  "download_attempt m url partial RETRY_DELAY 3 n w = (Some result, w') \<Longrightarrow> 1 \<le> n \<Longrightarrow>
     \<exists>answer. download_once m url partial w = (answer, w')
       \<and> (\<forall>error. answer = Inl error \<longrightarrow> retryable error \<longrightarrow> 3 \<le> n)
       \<and> (result = Inr () \<longleftrightarrow> answer = Inr ())"
  using backoff [of n]
  by (auto simp: download_attempt_def split: prod.splits sum.splits unit.splits option.splits if_splits)

text \<open>C17: A download makes at most three requests. It tries again exactly after a retryable failure,
  waiting as the server asked or ten seconds longer each time (the delay never overflows), and it
  succeeds exactly when its last request does.\<close>

theorem download_correct:
  assumes "download m url partial RETRY_DELAY w = (result, w')"
  shows "\<exists>failed w1 answer. failed < 3 \<and> after_failures m url partial failed w = Some w1
    \<and> download_once m url partial w1 = (answer, w')
    \<and> (\<forall>error. answer = Inl error \<longrightarrow> retryable error \<longrightarrow> failed = 2)
    \<and> (result = Inr () \<longleftrightarrow> answer = Inr ())"
proof -
  have run: "download_loop m url partial RETRY_DELAY 3 [1..<Suc 3] w = (result, w')"
    using assms by (simp add: download_def MAX_DOWNLOAD_ATTEMPTS_def del: upt_Suc)
  have "0 < (3 :: nat)" by simp
  from kernel_retry.loop_budget [OF this, where m = m and url = url and partial = partial
      and retry_delay = RETRY_DELAY and w = w]
  obtain n w1 where n: "1 \<le> n" "n \<le> 3" and before:
      "retries (download_attempt m url partial RETRY_DELAY 3) [1..<n] w = Some w1"
      "download_attempt m url partial RETRY_DELAY 3 n w1 = (Some result, w')"
    unfolding run fst_conv snd_conv by blast
  then obtain failed where failed: "n = Suc failed" by (cases n) auto
  from before(1) have "after_failures m url partial failed w = Some w1"
    unfolding failed by (rule retries_after_failures)
  moreover from download_attempt_Some [OF before(2) n(1)] obtain answer where
    "download_once m url partial w1 = (answer, w')"
    "\<forall>error. answer = Inl error \<longrightarrow> retryable error \<longrightarrow> 3 \<le> n" "result = Inr () \<longleftrightarrow> answer = Inr ()"
    by blast
  moreover have "failed < 3" using n failed by simp
  ultimately show ?thesis using failed n by (intro exI [of _ failed] exI [of _ w1] exI [of _ answer]) auto
qed

section \<open>What the operations do to the files\<close>

text \<open>Every other file has its content.\<close>

definition untouched :: "string set \<Rightarrow> (string \<rightharpoonup> string) \<Rightarrow> World \<Rightarrow> bool" where
  "untouched paths f w \<longleftrightarrow> (\<forall>path. path \<notin> paths \<longrightarrow> files w path = f path)"

lemma untouched_refl [simp]: "untouched paths (files w) w"
  by (simp add: untouched_def)

lemma keeps_fs_op:
  assumes "\<And>f f' path. success f = Inr f' \<Longrightarrow> path \<notin> paths \<Longrightarrow> f' path = f path"
    and "\<And>n f path. path \<notin> paths \<Longrightarrow> failure n f path = f path"
  shows "keeps (untouched paths g) (fs_op m op success failure)"
  unfolding keeps_def untouched_def
  by (auto simp: fs_op_def next_tick_def assms(2) split: option.split sum.split) (metis assms(1))

lemma keeps_plain_op [intro]: "keeps (untouched paths g) (plain_op m op)"
  unfolding plain_op_def by (rule keeps_fs_op) auto

lemma keeps_create_file [intro]: "path \<in> paths \<Longrightarrow> keeps (untouched paths g) (create_file m path)"
  unfolding create_file_def by (rule keeps_fs_op) auto

lemma keeps_write_all [intro]: "path \<in> paths \<Longrightarrow> keeps (untouched paths g) (write_all m path text)"
  unfolding write_all_def append_text_def by (rule keeps_fs_op) auto

lemma keeps_rename [intro]:
  "source \<in> paths \<Longrightarrow> target \<in> paths \<Longrightarrow> keeps (untouched paths g) (rename m source target)"
  unfolding rename_def by (rule keeps_fs_op) (auto split: option.splits)

lemma keeps_remove_file [intro]: "path \<in> paths \<Longrightarrow> keeps (untouched paths g) (remove_file m path)"
  unfolding remove_file_def by (rule keeps_fs_op) (auto split: option.splits)

lemma keeps_kernel_get [intro]: "keeps (untouched paths g) (kernel_get m url)"
  by (simp add: keeps_def kernel_get_def untouched_def next_tick_def)

lemma keeps_write_chunks [intro]: "path \<in> paths \<Longrightarrow> keeps (untouched paths g) (write_chunks m path chunks final)"
  by (induction m path chunks final rule: write_chunks.induct) auto

lemma keeps_download_once [intro]: "path \<in> paths \<Longrightarrow> keeps (untouched paths g) (download_once m url path)"
proof -
  assume path: "path \<in> paths"
  have "keeps (untouched paths g) (\<lambda>w. then_io (return_io (download_checked response (download_retry m response w)))
      (\<lambda>response. then_io (create_file m path) (\<lambda>_.
       write_chunks m path (download_chunks response) (download_end response))) w)" for response
    unfolding keeps_def
  proof (intro allI impI)
    fix w
    assume "untouched paths g w"
    moreover have "keeps (untouched paths g) (then_io (return_io (download_checked response (download_retry m response w)))
      (\<lambda>response. then_io (create_file m path) (\<lambda>_.
       write_chunks m path (download_chunks response) (download_end response))))"
      using path by (intro keeps_then) auto
    ultimately show "untouched paths g (snd (then_io (return_io (download_checked response (download_retry m response w)))
      (\<lambda>response. then_io (create_file m path) (\<lambda>_.
       write_chunks m path (download_chunks response) (download_end response))) w))"
      by (simp add: keeps_def)
  qed
  then show ?thesis unfolding download_once_def [abs_def] by (intro keeps_then) auto
qed

lemma keeps_download_loop [intro]:
  assumes "path \<in> paths"
  shows "keeps (untouched paths g) (download_loop m url path retry_delay attempts ns)"
proof (induction ns)
  case Nil
  then show ?case by (simp add: keeps_def)
next
  case (Cons n ns)
  have "untouched paths g (snd (download_attempt m url path retry_delay attempts n w))" if "untouched paths g w" for w
    using keeps_download_once [OF assms, of g m url] that
    by (auto simp: keeps_def download_attempt_def pause_def next_tick_def untouched_def
        split: prod.split sum.split option.split unit.split)
  with Cons show ?case
    by (auto simp: keeps_def split: prod.split option.split) (metis snd_conv)+
qed

lemma keeps_download [intro]: "path \<in> paths \<Longrightarrow> keeps (untouched paths g) (download m url path retry_delay)"
  unfolding download_def by (rule keeps_download_loop)

section \<open>What a complete download leaves\<close>

text \<open>A successful response with its whole body.\<close>

definition complete_body :: "machine \<Rightarrow> string \<Rightarrow> bool" where
  "complete_body m body \<longleftrightarrow> (\<exists>step response. serve m step = Inr response
     \<and> \<not> (400 \<le> download_status response \<and> download_status response < 600)
     \<and> download_end response = None \<and> body = concat (download_chunks response))"

lemma fs_op_ok: "fs_op m op success failure w = (Inr u, w') \<longleftrightarrow>
    fault m (tick w) op = None \<and> (\<exists>f'. success (files w) = Inr f' \<and> w' = (next_tick w)\<lparr>files := f'\<rparr>)"
  by (cases u) (auto simp: fs_op_def next_tick_def split: option.split sum.split)

lemma write_chunks_ok:
  "write_chunks m partial chunks final w = (Inr u, w') \<Longrightarrow> files w partial = Some old \<Longrightarrow>
     final = None \<and> files w' partial = Some (old @ concat chunks)"
proof (induction m partial chunks final arbitrary: w old rule: write_chunks.induct)
  case (1 m partial final)
  then show ?case by (auto simp: return_io_Inr split: option.splits)
next
  case (2 m partial chunk chunks final)
  from "2.prems"(1) obtain u' w1 where wrote: "write_all m partial chunk w = (Inr u', w1)"
    and rest: "write_chunks m partial chunks final w1 = (Inr u, w')"
    by (auto simp: then_io_Inr)
  have "files w1 partial = Some (old @ chunk)"
    using wrote "2.prems"(2) by (auto simp: write_all_def fs_op_ok append_text_def)
  from "2.IH" [OF rest this] show ?case by simp
qed

lemma download_once_ok:
  assumes "download_once m url partial w = (Inr u, w')"
  shows "\<exists>body. complete_body m body \<and> files w' partial = Some body"
proof -
  from assms obtain response w1 w2 where
    response: "serve m (tick w) = Inr response" "\<not> (400 \<le> download_status response \<and> download_status response < 600)"
    and created: "create_file m partial w1 = (Inr (), w2)"
    and written: "write_chunks m partial (download_chunks response) (download_end response) w2 = (Inr u, w')"
    by (auto simp: download_once_def step_simps kernel_get_def download_checked_def split: if_splits)
  have "files w2 partial = Some []" using created by (auto simp: create_file_def fs_op_ok)
  from write_chunks_ok [OF written this] response show ?thesis
    by (auto simp: complete_body_def download_checked_def split: if_splits)
qed

lemma download_ok:
  assumes "download m url partial retry_delay w = (Inr u, w')"
  shows "\<exists>body. complete_body m body \<and> files w' partial = Some body"
proof -
  have "\<exists>w1. download_once m url partial w1 = (Inr (), w')"
    if "download_loop m url partial retry_delay attempts ns w = (Inr u, w')" for attempts ns w
    using that
  proof (induction ns arbitrary: w)
    case (Cons n ns)
    then show ?case
      by (auto simp: download_attempt_def split: prod.splits sum.splits option.splits unit.splits if_splits)
  qed simp
  with assms show ?thesis unfolding download_def by (metis download_once_ok)
qed

lemma image_fetch_ok:
  assumes "image_fetch m url partial destination w = (Inr u, w')" "partial \<noteq> destination"
  shows "\<exists>body. complete_body m body \<and> files w' destination = Some body \<and> files w' partial = None"
proof -
  from assms(1) obtain v w1 where "download m url partial RETRY_DELAY v = (Inr (), w1)"
    and moved: "rename m partial destination w1 = (Inr (), w')"
    by (auto simp: image_fetch_def step_simps split: prod.splits sum.splits unit.splits)
  with download_ok obtain body where "complete_body m body" "files w1 partial = Some body" by blast
  with moved assms(2) show ?thesis by (auto simp: rename_def fs_op_ok)
qed

lemma image_fetch_kept:
  assumes "image_fetch m url partial destination w = (Inl error, w')" "partial \<noteq> destination"
  shows "files w' destination = files w destination"
proof -
  let ?Q = "untouched {partial} (files w)"
  obtain e w1 where fail: "then_io (plain_op m BuildClient) (\<lambda>_. then_io (download m url partial RETRY_DELAY) (\<lambda>_.
      rename m partial destination)) w = (Inl e, w1)" and removed: "w' = snd (remove_file m partial w1)"
    using assms(1) by (auto simp: image_fetch_def split: prod.splits sum.splits unit.splits)
  have "?Q w1"
  proof -
    from fail consider (prepare) "plain_op m BuildClient w = (Inl e, w1)"
      | (fetch) v where "plain_op m BuildClient w = (Inr (), v)" "download m url partial RETRY_DELAY v = (Inl e, w1)"
      | (move) v v' where "plain_op m BuildClient w = (Inr (), v)" "download m url partial RETRY_DELAY v = (Inr (), v')"
          "rename m partial destination v' = (Inl e, w1)"
      by (auto simp: then_io_Inl)
    then show ?thesis
    proof cases
      case prepare
      then show ?thesis using keepsD [OF keeps_plain_op untouched_refl] by blast
    next
      case fetch
      then show ?thesis
        using keepsD [OF keeps_plain_op untouched_refl] keepsD [OF keeps_download] by (metis singletonI)
    next
      case move
      then have "?Q v'"
        using keepsD [OF keeps_plain_op untouched_refl] keepsD [OF keeps_download] by (metis singletonI)
      with move(3) show ?thesis
        by (auto simp: rename_def fs_op_def untouched_def next_tick_def split: option.splits sum.splits)
    qed
  qed
  then have "?Q w'" unfolding removed using keeps_remove_file [of partial "{partial}"] by (simp add: keeps_def)
  with assms(2) show ?thesis by (simp add: untouched_def)
qed

lemma image_fetch_removed:
  assumes "image_fetch m url partial destination w = (Inl error, w')" "\<And>step. fault m step (RemoveFile partial) = None"
  shows "files w' partial = None"
  using assms by (auto simp: image_fetch_def remove_file_def fs_op_def next_tick_def
      split: prod.splits sum.splits unit.splits option.splits)

lemma keeps_image_fetch:
  assumes "partial \<in> paths" "destination \<in> paths"
  shows "keeps (untouched paths g) (image_fetch m url partial destination)"
proof -
  have inner: "keeps (untouched paths g) (then_io (plain_op m BuildClient) (\<lambda>_. then_io (download m url partial RETRY_DELAY) (\<lambda>_.
      rename m partial destination)))"
    using assms by (intro keeps_then) auto
  show ?thesis
    unfolding keeps_def
  proof (intro allI impI)
    fix w
    assume "untouched paths g w"
    with inner show "untouched paths g (snd (image_fetch m url partial destination w))"
      using keeps_remove_file [OF assms(1), of g m]
      by (auto simp: image_fetch_def keeps_def split: prod.split sum.split unit.split)
  qed
qed

section \<open>An image is complete or absent\<close>

lemma path_join_name [simp]:
  "path_join cache (CHR ''b'' # name) = path_join cache (CHR ''b'' # name') \<longleftrightarrow> name = name'"
  by (simp add: path_join_def is_absolute_def)

lemma plain_op_eq: "plain_op m op w = (case fault m (tick w) op of Some (e, n) \<Rightarrow> (Inl e, next_tick w) | None \<Rightarrow> (Inr (), next_tick w))"
  by (simp add: plain_op_def fs_op_def next_tick_def split: option.split)

lemma create_file_eq: "create_file m path w =
    (case fault m (tick w) (CreateFile path) of Some (e, n) \<Rightarrow> (Inl e, next_tick w)
     | None \<Rightarrow> (Inr (), (next_tick w)\<lparr>files := (files w)(path \<mapsto> [])\<rparr>))"
  by (simp add: create_file_def fs_op_def next_tick_def split: option.split)

lemma untouched_step [simp]:
  "untouched paths f (next_tick w) \<longleftrightarrow> untouched paths f w"
  "lock \<in> paths \<Longrightarrow> untouched paths f (w\<lparr>files := (files w)(lock \<mapsto> text)\<rparr>) \<longleftrightarrow> untouched paths f w"
  by (auto simp: untouched_def next_tick_def)

lemma files_next_tick [simp]: "files (next_tick w) = files w"
  by (simp add: next_tick_def)

text \<open>A run ends before the download because an operation failed, with the cached image, or with the download.\<close>

lemma image_steps:
  fixes m cache fixture
  defines "destination \<equiv> path_join cache (image_name fixture)"
    and "lock \<equiv> path_join cache (image_name fixture @ ''.lock'')"
  defines "fetch \<equiv> image_fetch m (ASSET_URL @ ''/'' @ image_name fixture)
         (path_join cache (image_name fixture @ ''.'' @ show_nat (process_id m) @ ''.partial''))
         destination"
    and "Q \<equiv> untouched {lock}"
  assumes "image m fixture cache w = (result, w')"
  shows "(\<exists>error step op n. result = Inl error \<and> fault m step op = Some (error, n)
        \<and> op \<in> {CreateDirectory, CreateFile lock, LockExclusive, TestExists destination} \<and> Q (files w) w')
    \<or> (Q (files w) w' \<and> files w' destination \<noteq> None \<and> result = Inr destination)
    \<or> (\<exists>w1. Q (files w) w1 \<and> files w1 destination = None
        \<and> fetch w1 = (case result of Inr _ \<Rightarrow> Inr () | Inl e \<Rightarrow> Inl e, w')
        \<and> (\<forall>path. result = Inr path \<longrightarrow> path = destination))"
proof -
  have fetched: "then_io fetch (\<lambda>_. return_io (Inr destination)) v = (result, w') \<Longrightarrow>
      fetch v = (case result of Inr _ \<Rightarrow> Inr () | Inl e \<Rightarrow> Inl e, w') \<and> (\<forall>path. result = Inr path \<longrightarrow> path = destination)" for v
    by (auto simp: then_io_def return_io_def split: prod.splits sum.splits)
  have Q: "Q f (next_tick v) \<longleftrightarrow> Q f v" "Q (files v) v"
    "Q g (v\<lparr>files := g(lock \<mapsto> t)\<rparr>)" for f g v t
    unfolding Q_def by (simp_all add: untouched_def)
  let ?w3 = "next_tick ((next_tick (next_tick w))\<lparr>files := (files (next_tick w))(lock \<mapsto> [])\<rparr>)"
  have "((\<exists>error step op n. result = Inl error \<and> fault m step op = Some (error, n)
        \<and> op \<in> {CreateDirectory, CreateFile lock, LockExclusive, TestExists destination}) \<and> Q (files w) w')
    \<or> (if files ?w3 destination \<noteq> None then return_io (Inr destination) else then_io fetch (\<lambda>_. return_io (Inr destination)))
          (next_tick ?w3) = (result, w')"
    using assms(5) unfolding image_def Let_def destination_def [symmetric] fetch_def [symmetric] lock_def [symmetric]
    by (auto simp: then_io_def plain_op_eq create_file_eq try_exists_def return_io_def Q
        split: option.splits prod.splits if_splits) blast+
  then show ?thesis
  proof (elim disjE)
    assume "(\<exists>error step op n. result = Inl error \<and> fault m step op = Some (error, n)
        \<and> op \<in> {CreateDirectory, CreateFile lock, LockExclusive, TestExists destination}) \<and> Q (files w) w'"
    then show ?thesis by blast
  next
    assume rest: "(if files ?w3 destination \<noteq> None then return_io (Inr destination) else then_io fetch (\<lambda>_. return_io (Inr destination)))
          (next_tick ?w3) = (result, w')"
    obtain v where v: "v = next_tick ?w3" by simp
    have "Q (files w) v" "files ?w3 = files v" unfolding v by (simp_all add: Q)
    with rest have "Q (files w) v"
      "(if files v destination \<noteq> None then return_io (Inr destination) else then_io fetch (\<lambda>_. return_io (Inr destination))) v
         = (result, w')"
      unfolding v by simp_all
    then show ?thesis
    proof (cases "files v destination = None")
      case True
      with \<open>Q (files w) v\<close> \<open>(if files v destination \<noteq> None then _ else _) v = _\<close> fetched [of v] show ?thesis by auto
    next
      case False
      with \<open>Q (files w) v\<close> \<open>(if files v destination \<noteq> None then _ else _) v = _\<close> show ?thesis
        by (auto simp: return_io_def)
    qed
  qed
qed

text \<open>C4: However the file system and the network fail, the image of a kernel appears only as the
  whole body of a successful response. An image that is there is used as it is; a run that
  succeeds without one leaves a complete body under the image's name and no partial file. A run that
  fails leaves the image as it was, and no partial file either, whichever operation failed, unless
  the removal itself fails; only a run that fails before it knows that the image is missing leaves
  a partial file of an earlier process where it is. No other file than the image, the partial
  file and the lock is touched.\<close>

theorem image_correct:
  fixes cache fixture
  assumes "image m fixture cache w = (result, w')"
  defines "name \<equiv> ''bzImage-v'' @ kernel_name fixture @ ''-archlinux''"
  defines "destination \<equiv> path_join cache name"
    and "partial \<equiv> path_join cache (name @ ''.'' @ show_nat (process_id m) @ ''.partial'')"
    and "lock \<equiv> path_join cache (name @ ''.lock'')"
  shows "(\<forall>path. path \<notin> {destination, partial, lock} \<longrightarrow> files w' path = files w path)
    \<and> (case result of
         Inr path \<Rightarrow> path = destination
           \<and> (case files w destination of
                Some body \<Rightarrow> files w' destination = Some body
              | None \<Rightarrow> files w' partial = None
                  \<and> (\<exists>step response. serve m step = Inr response
                     \<and> \<not> (400 \<le> download_status response \<and> download_status response < 600)
                     \<and> download_end response = None
                     \<and> files w' destination = Some (concat (download_chunks response))))
       | Inl error \<Rightarrow> files w' destination = files w destination
           \<and> ((\<forall>step. fault m step (RemoveFile partial) = None) \<longrightarrow>
                files w' partial = None
                \<or> files w' partial = files w partial \<and> (\<exists>step op n. fault m step op = Some (error, n)
                    \<and> op \<in> {CreateDirectory, CreateFile lock, LockExclusive, TestExists destination})))"
proof -
  have name: "image_name fixture = name" by (simp add: image_name_def name_def)
  let ?fetch = "image_fetch m (ASSET_URL @ ''/'' @ name) partial destination"
  have other: "destination \<noteq> partial" "destination \<noteq> lock"
    unfolding destination_def partial_def lock_def name_def by simp_all
  have "last (show_nat (process_id m) @ ''.partial'') \<noteq> last ''lock''" by simp
  then have "partial \<noteq> lock" unfolding partial_def lock_def name_def by auto
  have fetch_frame: "untouched {partial, destination} (files v) v'" if "?fetch v = (r, v')" for v r v'
    using keepsD [OF keeps_image_fetch untouched_refl] that by blast
  from image_steps [OF assms(1)] consider
      (fault) error step op n where "result = Inl error" "fault m step op = Some (error, n)"
        "op \<in> {CreateDirectory, CreateFile lock, LockExclusive, TestExists destination}" "untouched {lock} (files w) w'"
    | (cached) "untouched {lock} (files w) w'" "files w' destination \<noteq> None" "result = Inr destination"
    | (fetched) w1 where "untouched {lock} (files w) w1" "files w1 destination = None"
        "?fetch w1 = (case result of Inr _ \<Rightarrow> Inr () | Inl e \<Rightarrow> Inl e, w')"
        "\<And>path. result = Inr path \<Longrightarrow> path = destination"
    unfolding name destination_def [symmetric] partial_def [symmetric] lock_def [symmetric] by blast
  then show ?thesis
  proof cases
    case fault
    then show ?thesis using other \<open>partial \<noteq> lock\<close> by (auto simp: untouched_def) blast+
  next
    case cached
    then show ?thesis using other by (auto simp: untouched_def split: option.split)
  next
    case fetched
    have before: "files w destination = None" using fetched(1,2) other by (simp add: untouched_def)
    have frame: "\<forall>path. path \<notin> {destination, partial, lock} \<longrightarrow> files w' path = files w path"
      using fetched(1) fetch_frame [OF fetched(3)] by (simp add: untouched_def)
    show ?thesis
    proof (cases result)
      case (Inl error)
      with fetched(3) have "?fetch w1 = (Inl error, w')" by simp
      from image_fetch_kept [OF this other(1) [symmetric]] image_fetch_removed [OF this] frame before fetched(2) Inl
      show ?thesis by auto
    next
      case (Inr path)
      with fetched(3) have "?fetch w1 = (Inr (), w')" by simp
      from image_fetch_ok [OF this other(1) [symmetric]] frame before fetched(4) Inr
      show ?thesis by (auto simp: complete_body_def)
    qed
  qed
qed

section \<open>Instances\<close>

text \<open>A server that is unavailable at the first request and a disk without faults.\<close>

definition demo_machine :: machine where
  "demo_machine =
     \<lparr>fault = (\<lambda>step op. None),
      serve = (\<lambda>step. Inr (if step < 5
        then \<lparr>download_status = 503, download_retry_after = None, download_chunks = [], download_end = None\<rparr>
        else \<lparr>download_status = 200, download_retry_after = None, download_chunks = [''ker'', ''nel''], download_end = None\<rparr>)),
      system_now = (\<lambda>step. 0), instant_now = (\<lambda>step. 0), parse_http_date = (\<lambda>text. None), process_id = 42\<rparr>"

definition demo_world :: World where
  "demo_world = \<lparr>files = (\<lambda>path. None), tick = 4, pauses = []\<rparr>"

definition demo_fixture :: Kernel where
  "demo_fixture = Kernel_new ''6.18'' True"

definition demo_retried :: World where
  "demo_retried =
     \<lparr>files = [''part'' \<mapsto> ''kernel''], tick = 10, pauses = [\<lparr>duration_secs = 10, duration_nanos = 0\<rparr>]\<rparr>"

lemma demo_attempts: "[1..<Suc MAX_DOWNLOAD_ATTEMPTS] = [1, 2, 3]"
  by (simp add: MAX_DOWNLOAD_ATTEMPTS_def upt_rec)

lemmas demo_simps = download_attempt_def download_once_def kernel_get_def
  download_checked_def download_retry_def create_file_eq write_all_def fs_op_def append_text_def
  then_io_def return_io_def next_tick_def pause_def RetryAfter_delay_def is_server_error_def
  demo_machine_def demo_world_def

lemma demo_download: "download demo_machine ''url'' ''part'' RETRY_DELAY demo_world = (Inr (), demo_retried)"
  using backoff [of 1] unfolding download_def demo_attempts unfolding MAX_DOWNLOAD_ATTEMPTS_def
  by (simp add: demo_simps demo_retried_def)

theorem download_correct_witness:
  "\<exists>failed w1 answer. failed < 3 \<and> after_failures demo_machine ''url'' ''part'' failed demo_world = Some w1
    \<and> download_once demo_machine ''url'' ''part'' w1 = (answer, demo_retried) \<and> answer = Inr ()"
  using download_correct [OF demo_download] by blast

lemma demo_image:
  "\<exists>w'. image demo_machine demo_fixture ''cache'' demo_world = (Inr ''cache/bzImage-v6.18-archlinux'', w')"
proof -
  have "show_nat 42 = ''42''" by code_simp
  then show ?thesis
    using backoff [of 1]
    unfolding image_def Let_def image_fetch_def download_def demo_attempts unfolding MAX_DOWNLOAD_ATTEMPTS_def
    by (simp add: demo_simps plain_op_eq try_exists_def rename_def image_name_def demo_fixture_def Kernel_new_def
        path_join_def is_absolute_def)
qed

definition demo_faulty :: machine where
  "demo_faulty = demo_machine\<lparr>fault := (\<lambda>step op. case op of RenameFile source target \<Rightarrow> Some (Failure ''EIO'', 0) | _ \<Rightarrow> None)\<rparr>"

lemma demo_rename_fails: "fst (image demo_faulty demo_fixture ''cache'' demo_world) = Inl (Failure ''EIO'')"
  by code_simp

text \<open>A run that succeeds at the second request, and one that downloads the image and cannot rename it.\<close>

theorem image_correct_witness:
  "(\<exists>w' (response :: Download). download_end response = None
       \<and> image demo_machine demo_fixture ''cache'' demo_world = (Inr ''cache/bzImage-v6.18-archlinux'', w')
       \<and> files w' ''cache/bzImage-v6.18-archlinux'' = Some (concat (download_chunks response)))
   \<and> (\<exists>w'. image demo_faulty demo_fixture ''cache'' demo_world = (Inl (Failure ''EIO''), w')
       \<and> files w' ''cache/bzImage-v6.18-archlinux'' = None \<and> files w' ''cache/bzImage-v6.18-archlinux.42.partial'' = None)"
proof
  have path: "path_join ''cache'' (''bzImage-v'' @ kernel_name demo_fixture @ ''-archlinux'') = ''cache/bzImage-v6.18-archlinux''"
    "path_join ''cache'' ((''bzImage-v'' @ kernel_name demo_fixture @ ''-archlinux'') @ ''.'' @ show_nat (process_id demo_faulty) @ ''.partial'')
       = ''cache/bzImage-v6.18-archlinux.42.partial''"
    by code_simp+
  have none: "files demo_world path = None" for path by (simp add: demo_world_def)
  from demo_image obtain w' where run:
    "image demo_machine demo_fixture ''cache'' demo_world = (Inr ''cache/bzImage-v6.18-archlinux'', w')" by blast
  from image_correct [OF run, THEN conjunct2, unfolded path none sum.case option.case]
  have "\<exists>response :: Download. download_end response = None
      \<and> files w' ''cache/bzImage-v6.18-archlinux'' = Some (concat (download_chunks response))"
    by blast
  with run show "\<exists>w' (response :: Download). download_end response = None
       \<and> image demo_machine demo_fixture ''cache'' demo_world = (Inr ''cache/bzImage-v6.18-archlinux'', w')
       \<and> files w' ''cache/bzImage-v6.18-archlinux'' = Some (concat (download_chunks response))" by blast
  obtain w'' where failed: "image demo_faulty demo_fixture ''cache'' demo_world = (Inl (Failure ''EIO''), w'')"
    using demo_rename_fails by (metis prod.collapse)
  have removes: "\<forall>step. fault demo_faulty step (RemoveFile path) = None" for path by (simp add: demo_faulty_def)
  from image_correct [OF failed, THEN conjunct2, unfolded path none sum.case] removes
  have "files w'' ''cache/bzImage-v6.18-archlinux'' = None" "files w'' ''cache/bzImage-v6.18-archlinux.42.partial'' = None"
    by auto
  with failed show "\<exists>w'. image demo_faulty demo_fixture ''cache'' demo_world = (Inl (Failure ''EIO''), w')
       \<and> files w' ''cache/bzImage-v6.18-archlinux'' = None \<and> files w' ''cache/bzImage-v6.18-archlinux.42.partial'' = None"
    by blast
qed

end
