(* ===== verification/Xtask_Release.thy ===== *)
theory Xtask_Release
  imports Xtask_Http Rust_Path
begin

text \<open>
  The release operations, \<open>xtask/src/release.rs\<close>: a candidate is packaged from a clean checkout,
  recorded with its checksum, compared with the registry and announced on GitHub. Processes,
  files, HTTP, JSON and the crate semver are parameters; diagnostics on stderr are left out.
\<close>

section \<open>The outside\<close>

record Candidate =
  candidate_version :: string
  candidate_tag :: string
  candidate_commit :: string
  candidate_archive :: string
  candidate_sha256 :: string

record RegistryVersion =
  registry_checksum :: string
  registry_yanked :: bool

record ProcessOutput =
  output_success :: bool
  output_stdout :: string
  output_stderr :: string

record 'v Package =
  package_name :: string
  package_version :: 'v

record 'v Metadata =
  metadata_packages :: "'v Package list"
  workspace_root :: string
  target_directory :: string

text \<open>The members of a release of the GitHub API that the code looks at, where they have their type.\<close>

record GithubRelease =
  github_body :: "string option"
  github_draft :: "bool option"
  github_prerelease :: "bool option"

text \<open>The body of the request that creates a release.\<close>

record GithubRequest =
  request_tag_name :: string
  request_target_commitish :: string
  request_name :: string
  request_body :: string
  request_draft :: bool
  request_prerelease :: bool

record ('v, 'w) release_env =
  version_parse :: "string \<Rightarrow> AnyhowError + 'v"
  version_show :: "'v \<Rightarrow> string"
  version_has_pre :: "'v \<Rightarrow> bool"
  version_has_build :: "'v \<Rightarrow> bool"
  spawn :: "string \<Rightarrow> string list \<Rightarrow> ('w, AnyhowError, ProcessOutput) io"
  run_status :: "string \<Rightarrow> string list \<Rightarrow> ('w, AnyhowError, bool) io"
  from_utf8 :: "string \<Rightarrow> AnyhowError + string"
  utf8_lossy :: "string \<Rightarrow> string"
  print_line :: "string \<Rightarrow> 'w \<Rightarrow> 'w"
  env_var :: "string \<Rightarrow> string option"
  open_append :: "string \<Rightarrow> ('w, AnyhowError, unit) io"
  append_line :: "string \<Rightarrow> string \<Rightarrow> ('w, AnyhowError, unit) io"
  read_text :: "string \<Rightarrow> ('w, AnyhowError, string) io"
  write_text :: "string \<Rightarrow> string \<Rightarrow> ('w, AnyhowError, unit) io"
  create_directories :: "string \<Rightarrow> ('w, AnyhowError, unit) io"
  copy_file :: "string \<Rightarrow> string \<Rightarrow> ('w, AnyhowError, unit) io"
  current_directory :: "('w, AnyhowError, string) io"
  cargo_metadata :: "('w, AnyhowError, 'v Metadata) io"
  http_client :: "('w, AnyhowError, unit) io"
  http_get :: "string \<Rightarrow> string option \<Rightarrow> ('w, AnyhowError, Response) io"
  http_post :: "string \<Rightarrow> string \<Rightarrow> string \<Rightarrow> ('w, AnyhowError, Response) io"
  candidate_from_json :: "string \<Rightarrow> AnyhowError + Candidate"
  candidate_to_json :: "Candidate \<Rightarrow> AnyhowError + string"
  registry_from_json :: "string \<Rightarrow> AnyhowError + RegistryVersion"
  github_from_json :: "string \<Rightarrow> AnyhowError + GithubRelease"
  github_to_json :: "GithubRequest \<Rightarrow> string"
  sleep :: "Duration \<Rightarrow> 'w \<Rightarrow> 'w"

section \<open>Constants\<close>

definition DIST :: string where "DIST = ''dist/release''"
definition GITHUB_RELEASES :: string where
  "GITHUB_RELEASES = ''https://api.github.com/repos/risk1996/sakai/releases''"
definition MANIFEST :: string where "MANIFEST = ''dist/release/release.json''"
definition NOTES :: string where "NOTES = ''dist/release/release-notes.md''"
definition REGISTRY_ATTEMPTS :: nat where "REGISTRY_ATTEMPTS = 12"
definition REGISTRY_RETRY_DELAY :: Duration where
  "REGISTRY_RETRY_DELAY = \<lparr>duration_secs = 10, duration_nanos = 0\<rparr>"

section \<open>Pure operations\<close>

definition stable_version :: "('v, 'w) release_env \<Rightarrow> string \<Rightarrow> AnyhowError + 'v" where
  "stable_version env tag =
     and_then (ok_or (Failure ''release tag must start with v'') (strip_prefix ''v'' tag)) (\<lambda>text.
     and_then (version_parse env text) (\<lambda>version.
     if version_has_pre env version \<or> version_has_build env version
     then Inl (Failure ''only stable release versions are supported'')
     else if tag \<noteq> ''v'' @ version_show env version
     then Inl (Failure ''release tag must use canonical SemVer'')
     else Inr version))"

text \<open>\<open>split_whitespace().next()\<close>.\<close>

fun take_word :: "string \<Rightarrow> string" where
  "take_word [] = []"
| "take_word (c # cs) = (if trim_start (c # cs) \<noteq> c # cs then [] else c # take_word cs)"

definition first_word :: "string \<Rightarrow> string option" where
  "first_word s = (let w = take_word (trim_start s) in if w = [] then None else Some w)"

definition is_ascii_hexdigit :: "char \<Rightarrow> bool" where
  "is_ascii_hexdigit c \<longleftrightarrow> is_ascii_digit c \<or> (CHR ''a'' \<le> c \<and> c \<le> CHR ''f'') \<or> (CHR ''A'' \<le> c \<and> c \<le> CHR ''F'')"

text \<open>\<open>join(''\n'')\<close> of lines.\<close>

fun join_lines :: "string list \<Rightarrow> string" where
  "join_lines [] = []"
| "join_lines [l] = l"
| "join_lines (l # ls) = l @ CHR 0x0A # join_lines ls"

definition release_heading :: "string \<Rightarrow> string" where
  "release_heading version = ''## ['' @ version @ '']''"

definition release_notes :: "string \<Rightarrow> string \<Rightarrow> AnyhowError + string" where
  "release_notes changelog version =
     (let heading = release_heading version;
          sections = takeWhile (\<lambda>line. \<not> prefix ''## '' line)
            (drop 1 (dropWhile (\<lambda>line. \<not> prefix heading line) (lines changelog)));
          notes = trim (join_lines sections)
      in if notes = [] then Inl (Failure (''missing nonempty changelog section for '' @ version)) else Inr notes)"

definition registry_url :: "Candidate \<Rightarrow> string" where
  "registry_url candidate = ''https://crates.io/api/v1/crates/sakai/'' @ candidate_version candidate"

definition matching_registry_version :: "Candidate \<Rightarrow> RegistryVersion \<Rightarrow> AnyhowError + unit" where
  "matching_registry_version candidate published =
     (if registry_yanked published then Inl (Failure ''published version is yanked; do not reuse it'')
      else if registry_checksum published \<noteq> candidate_sha256 candidate
      then Inl (Failure ''published version has a different archive; do not skip or overwrite it'')
      else Inr ())"

section \<open>Processes and files\<close>

definition Release_command :: "('v, 'w) release_env \<Rightarrow> string \<Rightarrow> string list \<Rightarrow> ('w, AnyhowError, string) io" where
  "Release_command env program arguments =
     then_io (map_err_io (Context (''run '' @ program)) (spawn env program arguments)) (\<lambda>output.
     then_io (ensure (output_success output)
         (Failure (program @ '' failed: '' @ utf8_lossy env (output_stdout output) @ [CHR 0x0A] @ utf8_lossy env (output_stderr output)))) (\<lambda>_.
     return_io (from_utf8 env (output_stdout output))))"

definition Release_output :: "('v, 'w) release_env \<Rightarrow> string \<Rightarrow> string \<Rightarrow> ('w, AnyhowError, unit) io" where
  "Release_output env name text w =
     (let w = print_line env (name @ ''='' @ text) w in
      case env_var env ''GITHUB_OUTPUT'' of
        Some path \<Rightarrow> then_io (open_append env path) (\<lambda>_.
          map_err_io (Context ''write action output'') (append_line env path (name @ ''='' @ text))) w
      | None \<Rightarrow> (Inr (), w))"

definition archive_checksum :: "('v, 'w) release_env \<Rightarrow> string \<Rightarrow> ('w, AnyhowError, string) io" where
  "archive_checksum env path =
     then_io (return_io (map_ok (\<lambda>_. ()) (from_utf8 env path))) (\<lambda>_.
     then_io (Release_command env ''sha256sum'' [path]) (\<lambda>digest.
     then_io (return_io (ok_or (Failure ''missing SHA-256 checksum'') (first_word digest))) (\<lambda>digest.
     then_io (ensure (length digest = 64 \<and> list_all is_ascii_hexdigit digest) (Failure ''invalid SHA-256 checksum'')) (\<lambda>_.
     return_io (Inr digest)))))"

section \<open>Packaging\<close>

definition Release_metadata :: "('v, 'w) release_env \<Rightarrow> ('w, AnyhowError, 'v Metadata) io" where
  "Release_metadata env = map_err_io (Context ''read workspace metadata'') (cargo_metadata env)"

definition find_package :: "string \<Rightarrow> 'v Metadata \<Rightarrow> 'v Package option" where
  "find_package name metadata = List.find (\<lambda>package. package_name package = name) (metadata_packages metadata)"

definition package_tag_checks ::
  "('v, 'w) release_env \<Rightarrow> string option \<Rightarrow> string \<Rightarrow> string \<Rightarrow> ('w, AnyhowError, unit) io" where
  "package_tag_checks env tag tag_name commit =
     (case tag of
        Some tag \<Rightarrow>
          then_io (return_io (stable_version env tag)) (\<lambda>_.
          then_io (ensure (tag = tag_name) (Failure ''tag does not match the workspace version'')) (\<lambda>_.
          then_io (Release_command env ''git'' [''rev-parse'', ''refs/tags/'' @ tag @ ''^{commit}'']) (\<lambda>tagged_commit.
          then_io (ensure (trim tagged_commit = commit) (Failure ''checkout is not the tagged commit'')) (\<lambda>_.
          then_io (Release_command env ''git'' [''merge-base'', ''--is-ancestor'', ''HEAD'', ''origin/main'']) (\<lambda>_.
          return_io (Inr ()))))))
      | None \<Rightarrow> return_io (Inr ()))"

definition crate_file :: "string \<Rightarrow> string" where
  "crate_file version = ''sakai-'' @ version @ ''.crate''"

definition package :: "('v, 'w) release_env \<Rightarrow> string option \<Rightarrow> ('w, AnyhowError, Candidate) io" where
  "package env tag =
     then_io (Release_metadata env) (\<lambda>metadata.
     then_io (current_directory env) (\<lambda>current.
     then_io (ensure (components current = components (workspace_root metadata))
         (Failure ''run release tasks from the workspace root'')) (\<lambda>_.
     then_io (Release_command env ''git'' [''status'', ''--porcelain'']) (\<lambda>status.
     then_io (ensure (trim status = '''') (Failure ''release candidates require a clean Git checkout'')) (\<lambda>_.
     then_io (return_io (ok_or (Failure ''missing sakai package'') (find_package ''sakai'' metadata))) (\<lambda>package.
     let tag_name = ''v'' @ version_show env (package_version package) in
     then_io (return_io (stable_version env tag_name)) (\<lambda>_.
     then_io (return_io (ok_or (Failure ''missing Python package'') (find_package ''sakai-python'' metadata))) (\<lambda>python.
     then_io (ensure (package_version package = package_version python)
         (Failure ''Rust and Python versions must stay synchronized'')) (\<lambda>_.
     then_io (Release_command env ''git'' [''rev-parse'', ''HEAD'']) (\<lambda>head.
     let commit = trim head in
     then_io (package_tag_checks env tag tag_name commit) (\<lambda>_.
     then_io (run_status env ''cargo'' [''publish'', ''--package'', ''sakai'', ''--dry-run'', ''--locked'']) (\<lambda>success.
     then_io (ensure success (Failure ''Cargo publishing dry run failed'')) (\<lambda>_.
     then_io (run_status env ''cargo'' [''package'', ''--package'', ''sakai'', ''--locked'']) (\<lambda>success.
     then_io (ensure success (Failure ''Cargo packaging failed'')) (\<lambda>_.
     let archive = crate_file (version_show env (package_version package)) in
     then_io (archive_checksum env (path_join (path_join (target_directory metadata) ''package'') archive)) (\<lambda>sha256.
     return_io (Inr \<lparr>candidate_version = version_show env (package_version package), candidate_tag = tag_name,
       candidate_commit = commit, candidate_archive = archive, candidate_sha256 = sha256\<rparr>)))))))))))))))))"

definition prepare :: "('v, 'w) release_env \<Rightarrow> string option \<Rightarrow> ('w, AnyhowError, unit) io" where
  "prepare env tag =
     then_io (package env tag) (\<lambda>candidate.
     then_io (read_text env ''sakai/CHANGELOG.md'') (\<lambda>changelog.
     then_io (return_io (release_notes changelog (candidate_version candidate))) (\<lambda>notes.
     then_io (create_directories env DIST) (\<lambda>_.
     then_io (Release_metadata env) (\<lambda>metadata.
     then_io (copy_file env (path_join (path_join (target_directory metadata) ''package'') (candidate_archive candidate))
         (path_join DIST (candidate_archive candidate))) (\<lambda>_.
     then_io (write_text env NOTES notes) (\<lambda>_.
     then_io (return_io (candidate_to_json env candidate)) (\<lambda>json.
     then_io (write_text env MANIFEST json) (\<lambda>_.
     then_io (Release_output env ''version'' (candidate_version candidate)) (\<lambda>_.
     then_io (Release_output env ''tag'' (candidate_tag candidate)) (\<lambda>_.
     Release_output env ''sha256'' (candidate_sha256 candidate))))))))))))"

definition load_candidate :: "('v, 'w) release_env \<Rightarrow> ('w, AnyhowError, Candidate) io" where
  "load_candidate env =
     then_io (read_text env MANIFEST) (\<lambda>json.
     then_io (return_io (candidate_from_json env json)) (\<lambda>candidate.
     then_io (return_io (stable_version env (candidate_tag candidate))) (\<lambda>version.
     then_io (ensure (version_show env version = candidate_version candidate)
         (Failure ''candidate tag/version mismatch'')) (\<lambda>_.
     then_io (ensure (candidate_archive candidate = crate_file (candidate_version candidate))
         (Failure ''unexpected candidate filename'')) (\<lambda>_.
     then_io (archive_checksum env (path_join DIST (candidate_archive candidate))) (\<lambda>sha256.
     then_io (ensure (sha256 = candidate_sha256 candidate) (Failure ''candidate archive checksum mismatch'')) (\<lambda>_.
     return_io (Inr candidate))))))))"

section \<open>The registry\<close>

definition Release_client :: "('v, 'w) release_env \<Rightarrow> ('w, AnyhowError, unit) io" where
  "Release_client env = map_err_io (Context ''build release HTTP client'') (http_client env)"

text \<open>\<open>response.error_for_status()?.text().await?\<close>.\<close>

definition checked_text :: "Response \<Rightarrow> AnyhowError + string" where
  "checked_text response = and_then (map_err Reqwest (error_for_status response)) response_text"

definition registry_version_at ::
  "('v, 'w) release_env \<Rightarrow> string \<Rightarrow> Candidate \<Rightarrow> ('w, AnyhowError, RegistryVersion option) io" where
  "registry_version_at env url candidate =
     then_io (http_get env url None) (\<lambda>response.
     if response_status response = 404 then return_io (Inr None)
     else return_io
       (and_then (checked_text response) (\<lambda>text.
        and_then (registry_from_json env text) (\<lambda>published.
        and_then (matching_registry_version candidate published) (\<lambda>_. Inr (Some published))))))"

definition registry_version ::
  "('v, 'w) release_env \<Rightarrow> Candidate \<Rightarrow> ('w, AnyhowError, RegistryVersion option) io" where
  "registry_version env candidate =
     then_io (Release_client env) (\<lambda>_. registry_version_at env (registry_url candidate) candidate)"

definition attempt_text :: "nat \<Rightarrow> nat \<Rightarrow> string" where
  "attempt_text attempt attempts = show_nat attempt @ ''/'' @ show_nat attempts"

text \<open>One turn of the loop; None when the version is to be asked for again.\<close>

definition verify_attempt ::
  "('v, 'w) release_env \<Rightarrow> string \<Rightarrow> Candidate \<Rightarrow> Duration \<Rightarrow> nat \<Rightarrow> nat \<Rightarrow> 'w \<Rightarrow> (AnyhowError + unit) option \<times> 'w" where
  "verify_attempt env url candidate retry_delay attempts attempt w =
     (case registry_version_at env url candidate w of
        (Inr (Some _), w') \<Rightarrow> (Some (Inr ()), w')
      | (Inr None, w') \<Rightarrow>
          if attempt < attempts then (None, sleep env retry_delay w')
          else (Some (Inl (Failure (''published version did not appear in the crates.io API after ''
                  @ attempt_text attempt attempts @ '' attempts''))), w')
      | (Inl error, w') \<Rightarrow>
          if attempt < attempts \<and> retryable error then (None, sleep env retry_delay w')
          else (Some (Inl (Context (''registry verification failed on attempt ''
                  @ attempt_text attempt attempts) error)), w'))"

fun verify_loop ::
  "('v, 'w) release_env \<Rightarrow> string \<Rightarrow> Candidate \<Rightarrow> Duration \<Rightarrow> nat \<Rightarrow> nat list \<Rightarrow> ('w, AnyhowError, unit) io" where
  "verify_loop env url candidate retry_delay attempts [] w =
     (Inl (Failure ''registry verification exhausted its attempt budget''), w)"
| "verify_loop env url candidate retry_delay attempts (attempt # rest) w =
     (case verify_attempt env url candidate retry_delay attempts attempt w of
        (Some result, w') \<Rightarrow> (result, w')
      | (None, w') \<Rightarrow> verify_loop env url candidate retry_delay attempts rest w')"

definition verify_registry ::
  "('v, 'w) release_env \<Rightarrow> string \<Rightarrow> Candidate \<Rightarrow> nat \<Rightarrow> Duration \<Rightarrow> ('w, AnyhowError, unit) io" where
  "verify_registry env url candidate attempts retry_delay =
     then_io (ensure (0 < attempts) (Failure ''registry verification requires at least one attempt'')) (\<lambda>_.
     verify_loop env url candidate retry_delay attempts [1..<Suc attempts])"

section \<open>The release on GitHub\<close>

definition env_text :: "('v, 'w) release_env \<Rightarrow> string \<Rightarrow> AnyhowError + string" where
  "env_text env name = and_then (ok_or (Failure ''environment variable not found'') (env_var env name)) (from_utf8 env)"

definition github_existing :: "string \<Rightarrow> GithubRelease \<Rightarrow> AnyhowError + unit" where
  "github_existing notes existing =
     (if github_body existing \<noteq> Some notes then Inl (Failure ''existing GitHub release has different notes'')
      else if github_draft existing \<noteq> Some False then Inl (Failure ''existing GitHub release is still a draft'')
      else if github_prerelease existing \<noteq> Some False
      then Inl (Failure ''existing GitHub release is marked as a prerelease'')
      else Inr ())"

definition github_request :: "Candidate \<Rightarrow> string \<Rightarrow> GithubRequest" where
  "github_request candidate notes =
     \<lparr>request_tag_name = candidate_tag candidate, request_target_commitish = candidate_commit candidate,
      request_name = candidate_tag candidate, request_body = notes, request_draft = False,
      request_prerelease = False\<rparr>"

definition announce :: "('v, 'w) release_env \<Rightarrow> Candidate \<Rightarrow> string \<Rightarrow> string \<Rightarrow> ('w, AnyhowError, unit) io" where
  "announce env candidate notes token =
     then_io (http_get env (GITHUB_RELEASES @ ''/tags/'' @ candidate_tag candidate) (Some token)) (\<lambda>response.
     if response_status response = 404 then
       then_io (http_post env GITHUB_RELEASES token (github_to_json env (github_request candidate notes))) (\<lambda>created.
       then_io (return_io (map_err Reqwest (error_for_status created))) (\<lambda>_.
       \<lambda>w. (Inr (), print_line env ''GitHub release created'' w)))
     else
       then_io (return_io (checked_text response)) (\<lambda>text.
       then_io (return_io (github_from_json env text)) (\<lambda>existing.
       then_io (return_io (github_existing notes existing)) (\<lambda>_.
       \<lambda>w. (Inr (), print_line env ''Matching GitHub release already exists'' w)))))"

definition github_release :: "('v, 'w) release_env \<Rightarrow> ('w, AnyhowError, unit) io" where
  "github_release env =
     then_io (load_candidate env) (\<lambda>candidate.
     then_io (Release_command env ''git'' [''rev-parse'', ''HEAD'']) (\<lambda>head.
     then_io (ensure (candidate_commit candidate = trim head)
         (Failure ''checkout differs from the release candidate's commit'')) (\<lambda>_.
     then_io (registry_version env candidate) (\<lambda>published.
     then_io (ensure (published \<noteq> None) (Failure ''crate upload has not completed'')) (\<lambda>_.
     then_io (read_text env NOTES) (\<lambda>notes.
     then_io (read_text env ''sakai/CHANGELOG.md'') (\<lambda>changelog.
     then_io (return_io (release_notes changelog (candidate_version candidate))) (\<lambda>expected.
     then_io (ensure (notes = expected) (Failure ''candidate notes differ from the tagged changelog'')) (\<lambda>_.
     then_io (return_io (map_err (Context ''GitHub release job requires GH_TOKEN'') (env_text env ''GH_TOKEN''))) (\<lambda>token.
     then_io (Release_client env) (\<lambda>_.
     announce env candidate notes token)))))))))))"

section \<open>Commands\<close>

datatype ReleaseCommand =
    Baseline
  | Prepare "string option"
  | Check string
  | RegistryStatus
  | VerifyRegistry
  | GithubReleaseCommand

definition show_bool :: "bool \<Rightarrow> string" where
  "show_bool b = (if b then ''true'' else ''false'')"

definition Release_run :: "('v, 'w) release_env \<Rightarrow> ReleaseCommand \<Rightarrow> ('w, AnyhowError, unit) io" where
  "Release_run env command =
     (case command of
        Baseline \<Rightarrow>
          then_io (Release_command env ''git'' [''tag'', ''--list'', ''v*'']) (\<lambda>tags.
          Release_output env ''ready'' (show_bool (list_ex (\<lambda>tag. \<not> isl (stable_version env tag)) (lines tags))))
      | Prepare tag \<Rightarrow> prepare env tag
      | Check tag \<Rightarrow>
          then_io (load_candidate env) (\<lambda>candidate.
          then_io (package env (Some tag)) (\<lambda>current.
          ensure (candidate = current) (Failure ''repackaged archive differs from the checked candidate'')))
      | RegistryStatus \<Rightarrow>
          then_io (load_candidate env) (\<lambda>candidate.
          then_io (registry_version env candidate) (\<lambda>published.
          Release_output env ''needs_publish'' (show_bool (published = None))))
      | VerifyRegistry \<Rightarrow>
          then_io (load_candidate env) (\<lambda>candidate.
          then_io (Release_client env) (\<lambda>_.
          verify_registry env (registry_url candidate) candidate REGISTRY_ATTEMPTS REGISTRY_RETRY_DELAY))
      | GithubReleaseCommand \<Rightarrow> github_release env)"

section \<open>The retry loop\<close>

interpretation registry_retry: bounded_retry
    "verify_attempt env url candidate retry_delay" "verify_loop env url candidate retry_delay"
  for env url candidate retry_delay
  by unfold_locales (auto simp: verify_attempt_def split: prod.split sum.split option.split)

text \<open>An answer after which the registry is asked again: no version yet, or a transient failure.\<close>

definition transient :: "AnyhowError + RegistryVersion option \<Rightarrow> bool" where
  "transient answer = (case answer of Inl error \<Rightarrow> retryable error | Inr published \<Rightarrow> published = None)"

text \<open>The state after so many transient answers, each followed by a pause.\<close>

fun after_transient ::
  "('v, 'w) release_env \<Rightarrow> string \<Rightarrow> Candidate \<Rightarrow> Duration \<Rightarrow> nat \<Rightarrow> 'w \<Rightarrow> 'w option" where
  "after_transient env url candidate retry_delay 0 w = Some w"
| "after_transient env url candidate retry_delay (Suc n) w =
     (case after_transient env url candidate retry_delay n w of
        None \<Rightarrow> None
      | Some w1 \<Rightarrow>
          (case registry_version_at env url candidate w1 of
             (answer, w2) \<Rightarrow> if transient answer then Some (sleep env retry_delay w2) else None))"

lemma verify_attempt_None:
  "verify_attempt env url candidate retry_delay attempts attempt w = (None, w') \<longleftrightarrow>
     attempt < attempts \<and> (\<exists>answer w2. registry_version_at env url candidate w = (answer, w2)
       \<and> transient answer \<and> w' = sleep env retry_delay w2)"
  by (auto simp: verify_attempt_def transient_def split: prod.splits sum.splits option.splits if_splits)

lemma verify_attempt_Some:
  "verify_attempt env url candidate retry_delay attempts attempt w = (Some result, w') \<Longrightarrow>
     \<exists>answer. registry_version_at env url candidate w = (answer, w')
       \<and> (\<not> transient answer \<or> attempts \<le> attempt)
       \<and> (result = Inr () \<longleftrightarrow> (\<exists>published. answer = Inr (Some published)))
       \<and> (\<forall>error. answer = Inl error \<longrightarrow> downcast_reqwest error = (case result of Inl e \<Rightarrow> downcast_reqwest e | Inr _ \<Rightarrow> None))"
  by (auto simp: verify_attempt_def transient_def split: prod.splits sum.splits option.splits if_splits)

lemma retries_after_transient:
  "retries (verify_attempt env url candidate retry_delay attempts) [1..<Suc n] w = Some w' \<Longrightarrow>
     after_transient env url candidate retry_delay n w = Some w'"
proof (induction n arbitrary: w')
  case 0
  then show ?case by simp
next
  case (Suc n)
  have "[1..<Suc (Suc n)] = [1..<Suc n] @ [Suc n]" by simp
  with Suc.prems obtain w1 where
    "retries (verify_attempt env url candidate retry_delay attempts) [1..<Suc n] w = Some w1"
    "verify_attempt env url candidate retry_delay attempts (Suc n) w1 = (None, w')"
    unfolding retries_snoc by (metis retries_snoc)
  with Suc.IH show ?case by (auto simp: verify_attempt_None)
qed

lemma matching_registry_version_ok:
  "matching_registry_version candidate published = Inr u \<longleftrightarrow>
     \<not> registry_yanked published \<and> registry_checksum published = candidate_sha256 candidate"
  by (cases u) (auto simp: matching_registry_version_def)

lemma registry_version_at_Some:
  "registry_version_at env url candidate w = (Inr (Some published), w') \<Longrightarrow>
     \<not> registry_yanked published \<and> registry_checksum published = candidate_sha256 candidate"
  by (auto simp: registry_version_at_def step_simps result_simps matching_registry_version_ok split: if_splits)

text \<open>C15: Waiting for the registry ends within the budget. The registry is asked again only after a
  missing version or a transient failure, and at most so often that the last question is the last
  of the budget. Verification succeeds exactly when that last answer is a published version, and
  then its archive is the candidate's and not yanked; a failure keeps the HTTP error as its cause.\<close>

theorem verify_registry_correct:
  assumes "0 < attempts"
    and "verify_registry env url candidate attempts retry_delay w = (result, w')"
  shows "\<exists>asked w1 answer. asked < attempts
    \<and> after_transient env url candidate retry_delay asked w = Some w1
    \<and> registry_version_at env url candidate w1 = (answer, w')
    \<and> (transient answer \<longrightarrow> Suc asked = attempts)
    \<and> (result = Inr () \<longleftrightarrow> (\<exists>published. answer = Inr (Some published)
         \<and> registry_checksum published = candidate_sha256 candidate \<and> \<not> registry_yanked published))
    \<and> (\<forall>error. answer = Inl error \<longrightarrow> downcast_reqwest error =
         (case result of Inl e \<Rightarrow> downcast_reqwest e | Inr _ \<Rightarrow> None))"
proof -
  have run: "verify_loop env url candidate retry_delay attempts [1..<Suc attempts] w = (result, w')"
    using assms by (simp add: verify_registry_def then_io_ensure del: upt_Suc)
  from registry_retry.loop_budget [OF assms(1), where env = env and url = url and candidate = candidate
      and retry_delay = retry_delay and w = w]
  obtain n w1 where n: "1 \<le> n" "n \<le> attempts" and before:
      "retries (verify_attempt env url candidate retry_delay attempts) [1..<n] w = Some w1"
      "verify_attempt env url candidate retry_delay attempts n w1 = (Some result, w')"
    unfolding run fst_conv snd_conv by blast
  then obtain asked where asked: "n = Suc asked" by (cases n) auto
  from before(1) have first: "after_transient env url candidate retry_delay asked w = Some w1"
    unfolding asked by (rule retries_after_transient)
  from verify_attempt_Some [OF before(2)] obtain answer where
    answer: "registry_version_at env url candidate w1 = (answer, w')"
      "\<not> transient answer \<or> attempts \<le> n"
      "result = Inr () \<longleftrightarrow> (\<exists>published. answer = Inr (Some published))"
      "\<forall>error. answer = Inl error \<longrightarrow> downcast_reqwest error = (case result of Inl e \<Rightarrow> downcast_reqwest e | Inr _ \<Rightarrow> None)"
    by blast
  have good: "\<not> registry_yanked published \<and> registry_checksum published = candidate_sha256 candidate"
    if "answer = Inr (Some published)" for published
    using answer(1) that by (auto dest: registry_version_at_Some)
  show ?thesis
    by (intro exI [of _ asked] exI [of _ w1] exI [of _ answer] conjI)
      (use n asked first answer good in auto)
qed

section \<open>Release notes\<close>

text \<open>C30: The notes of a version are the trimmed lines between its heading, the first of that name, and
  the next heading of the same level or the end; they are found exactly when they are not empty.\<close>

theorem release_notes_correct:
  "release_notes changelog version = Inr notes \<longleftrightarrow>
     (\<exists>before heading body after. lines changelog = before @ heading # body @ after
        \<and> (\<forall>line \<in> set before. \<not> prefix (''## ['' @ version @ '']'') line)
        \<and> prefix (''## ['' @ version @ '']'') heading
        \<and> (\<forall>line \<in> set body. \<not> prefix ''## '' line)
        \<and> (after = [] \<or> prefix ''## '' (hd after))
        \<and> notes = trim (join_lines body) \<and> notes \<noteq> [])"
  (is "?found \<longleftrightarrow> ?split")
proof
  let ?h = "\<lambda>line. \<not> prefix (release_heading version) line"
  let ?s = "\<lambda>line. \<not> prefix ''## '' line"
  assume found: ?found
  obtain rest where rest: "rest = dropWhile ?h (lines changelog)" by simp
  have "rest \<noteq> []" using found by (auto simp: release_notes_def Let_def rest [symmetric] split: if_splits)
  then obtain heading tail where tail: "rest = heading # tail" by (cases rest) auto
  have "lines changelog = takeWhile ?h (lines changelog) @ heading # takeWhile ?s tail @ dropWhile ?s tail"
    using rest tail by (metis takeWhile_dropWhile_id)
  moreover have "\<forall>line \<in> set (takeWhile ?h (lines changelog)). \<not> prefix (''## ['' @ version @ '']'') line"
    by (auto dest: set_takeWhileD simp: release_heading_def)
  moreover have "prefix (''## ['' @ version @ '']'') heading"
    using \<open>rest \<noteq> []\<close> tail hd_dropWhile [of ?h "lines changelog"] unfolding rest [symmetric]
    by (simp add: release_heading_def)
  moreover have "\<forall>line \<in> set (takeWhile ?s tail). \<not> prefix ''## '' line" by (auto dest: set_takeWhileD)
  moreover have "dropWhile ?s tail = [] \<or> prefix ''## '' (hd (dropWhile ?s tail))"
    using hd_dropWhile by blast
  moreover have "notes = trim (join_lines (takeWhile ?s tail)) \<and> notes \<noteq> []"
    using found unfolding release_notes_def Let_def rest [symmetric] tail by (auto split: if_splits)
  ultimately show ?split by blast
next
  assume ?split
  then obtain before heading body after where parts:
    "lines changelog = before @ heading # body @ after"
    "\<forall>line \<in> set before. \<not> prefix (release_heading version) line"
    "prefix (release_heading version) heading"
    "\<forall>line \<in> set body. \<not> prefix ''## '' line" "after = [] \<or> prefix ''## '' (hd after)"
    "notes = trim (join_lines body)" "notes \<noteq> []"
    unfolding release_heading_def by blast
  have "dropWhile (\<lambda>line. \<not> prefix (release_heading version) line) (lines changelog) = heading # body @ after"
    using parts(1-3) by simp
  moreover have "takeWhile (\<lambda>line. \<not> prefix ''## '' line) (body @ after) = body"
    using parts(4,5) by (cases after) auto
  ultimately show ?found using parts(6,7) by (simp add: release_notes_def)
qed

section \<open>A release on GitHub is only created for a verified upload\<close>

text \<open>The operations of \<open>github_release\<close> other than the request that creates a release keep a property.\<close>

definition only_post_changes :: "('w \<Rightarrow> bool) \<Rightarrow> ('v, 'w) release_env \<Rightarrow> bool" where
  "only_post_changes Q env \<longleftrightarrow>
     (\<forall>program arguments. keeps Q (spawn env program arguments)) \<and> (\<forall>path. keeps Q (read_text env path))
     \<and> keeps Q (http_client env) \<and> (\<forall>url token. keeps Q (http_get env url token))
     \<and> (\<forall>text w. Q w \<longrightarrow> Q (print_line env text w))"

lemma keeps_command: "only_post_changes Q env \<Longrightarrow> keeps Q (Release_command env program arguments)"
  unfolding Release_command_def only_post_changes_def by (intro keeps_then keeps_map_err) auto

lemma keeps_checksum: "only_post_changes Q env \<Longrightarrow> keeps Q (archive_checksum env path)"
  unfolding archive_checksum_def by (intro keeps_then keeps_command) auto

lemma keeps_load_candidate: "only_post_changes Q env \<Longrightarrow> keeps Q (load_candidate env)"
  unfolding load_candidate_def
  by (intro keeps_then keeps_checksum) (auto simp: only_post_changes_def)

lemma keeps_client: "only_post_changes Q env \<Longrightarrow> keeps Q (Release_client env)"
  unfolding Release_client_def by (intro keeps_map_err) (simp add: only_post_changes_def)

lemma keeps_registry_version: "only_post_changes Q env \<Longrightarrow> keeps Q (registry_version env candidate)"
  unfolding registry_version_def registry_version_at_def
  by (intro keeps_then keeps_client) (auto simp: only_post_changes_def)

lemma stable_version_ok:
  "stable_version env tag = Inr version \<longleftrightarrow>
     tag = ''v'' @ version_show env version \<and> version_parse env (version_show env version) = Inr version
     \<and> \<not> version_has_pre env version \<and> \<not> version_has_build env version"
  by (auto simp: stable_version_def and_then_eq_Inr ok_or_eq_Inr strip_prefix_Some_iff simp del: strip_prefix.simps split: if_splits)

lemma load_candidate_ok:
  "load_candidate env w = (Inr candidate, w') \<Longrightarrow>
     \<exists>version w1. stable_version env (candidate_tag candidate) = Inr version
       \<and> candidate_version candidate = version_show env version
       \<and> candidate_archive candidate = ''sakai-'' @ candidate_version candidate @ ''.crate''
       \<and> archive_checksum env (path_join DIST (candidate_archive candidate)) w1 = (Inr (candidate_sha256 candidate), w')"
  unfolding load_candidate_def step_simps ensure_Inr crate_file_def by auto

lemma registry_version_ok:
  "registry_version env candidate w = (Inr (Some published), w') \<Longrightarrow>
     \<not> registry_yanked published \<and> registry_checksum published = candidate_sha256 candidate"
  unfolding registry_version_def step_simps by (auto dest: registry_version_at_Some)

text \<open>What a run that goes past every check before the announcement has seen, in order.\<close>

lemma github_release_passed:
  assumes env: "only_post_changes Q env" and "Q w" "github_release env w = (result, w')"
    and passed: "(\<exists>u. result = Inr u) \<or> \<not> Q w'"
  obtains candidate head published news changelog token w1 w2 w3 w4 w5 w6 where
    "load_candidate env w = (Inr candidate, w1)"
    "Release_command env ''git'' [''rev-parse'', ''HEAD''] w1 = (Inr head, w2)" "candidate_commit candidate = trim head"
    "registry_version env candidate w2 = (Inr (Some published), w3)"
    "read_text env NOTES w3 = (Inr news, w4)" "read_text env ''sakai/CHANGELOG.md'' w4 = (Inr changelog, w5)"
    "release_notes changelog (candidate_version candidate) = Inr news"
    "Release_client env w5 = (Inr (), w6)" "announce env candidate news token w6 = (result, w')" "Q w6"
proof -
  have reads: "\<And>path. keeps Q (read_text env path)" using env by (simp add: only_post_changes_def)
  note passes = then_io_passed [where Q = Q, OF _ keeps_load_candidate [OF env] _ passed]
    then_io_passed [where Q = Q, OF _ keeps_command [OF env] _ passed]
    then_io_passed [where Q = Q, OF _ keeps_ensure _ passed]
    then_io_passed [where Q = Q, OF _ keeps_registry_version [OF env] _ passed]
    then_io_passed [where Q = Q, OF _ reads _ passed]
    then_io_passed [where Q = Q, OF _ keeps_return _ passed]
    then_io_passed [where Q = Q, OF _ keeps_client [OF env] _ passed]
  from assms(2,3) show thesis
    unfolding github_release_def
    by (elim passes; (assumption)?) (auto simp: ensure_Inr return_io_Inr intro: that)
qed

text \<open>The announcement: a missing release is created, an existing one is the same.\<close>

lemma announce_passed:
  assumes env: "only_post_changes Q env" and "Q w" "announce env candidate news token w = (result, w')"
    and passed: "(\<exists>u. result = Inr u) \<or> \<not> Q w'"
  obtains response w1 where
    "http_get env (GITHUB_RELEASES @ ''/tags/'' @ candidate_tag candidate) (Some token) w = (Inr response, w1)" "Q w1"
    "response_status response = 404 \<longrightarrow> ( \<exists>answer w2.
       http_post env GITHUB_RELEASES token (github_to_json env (github_request candidate news)) w1 = (answer, w2)
       \<and> (result = Inr () \<longrightarrow> (\<exists>created. answer = Inr created \<and> isl (error_for_status created) = False)))"
    "response_status response \<noteq> 404 \<longrightarrow> ( Q w' \<and> (\<exists>text existing. response_text response = Inr text
       \<and> github_from_json env text = Inr existing \<and> github_existing news existing = Inr ()))"
proof -
  have gets: "\<And>url token. keeps Q (http_get env url token)" and prints: "\<And>text w. Q w \<Longrightarrow> Q (print_line env text w)"
    using env by (simp_all add: only_post_changes_def)
  from then_io_passed [where Q = Q, OF assms(3) [unfolded announce_def] gets assms(2) passed]
  obtain response w1 where got:
    "http_get env (GITHUB_RELEASES @ ''/tags/'' @ candidate_tag candidate) (Some token) w = (Inr response, w1)" "Q w1"
    and rest: "(if response_status response = 404 then
       then_io (http_post env GITHUB_RELEASES token (github_to_json env (github_request candidate news))) (\<lambda>created.
       then_io (return_io (map_err Reqwest (error_for_status created))) (\<lambda>_.
       \<lambda>w. (Inr (), print_line env ''GitHub release created'' w)))
     else
       then_io (return_io (checked_text response)) (\<lambda>text.
       then_io (return_io (github_from_json env text)) (\<lambda>existing.
       then_io (return_io (github_existing news existing)) (\<lambda>_.
       \<lambda>w. (Inr (), print_line env ''Matching GitHub release already exists'' w))))) w1 = (result, w')"
    by blast
  have missing: "\<exists>answer w2.
       http_post env GITHUB_RELEASES token (github_to_json env (github_request candidate news)) w1 = (answer, w2)
       \<and> (result = Inr () \<longrightarrow> (\<exists>created. answer = Inr created \<and> isl (error_for_status created) = False))"
    if "response_status response = 404"
    using rest that by (auto simp: then_io_def return_io_def map_err_eq_Inl map_err_eq_Inr split: prod.splits sum.splits)
  have existing: "Q w' \<and> (\<exists>text existing. response_text response = Inr text
       \<and> github_from_json env text = Inr existing \<and> github_existing news existing = Inr ())"
    if other: "response_status response \<noteq> 404"
  proof -
    have "Q w'"
      using rest other \<open>Q w1\<close> by (auto simp: then_io_def return_io_def prints split: sum.splits)
    with passed obtain u where "result = Inr u" by blast
    with rest other \<open>Q w'\<close> show ?thesis
      by (auto simp: step_simps checked_text_def result_simps error_for_status_def split: if_splits)
  qed
  show thesis by (rule that [OF got]) (use missing existing in blast)+
qed

lemma github_existing_ok:
  "github_existing news existing = Inr u \<longleftrightarrow> github_body existing = Some news
     \<and> github_draft existing = Some False \<and> github_prerelease existing = Some False"
  by (cases u) (auto simp: github_existing_def)

text \<open>C6: A run of the GitHub release that succeeds, or that changes anything only its request can
  change, has first loaded a candidate whose tag is a stable version and whose retained archive
  has the recorded checksum; found HEAD to be the candidate's commit; found in the registry that
  very archive, not yanked; read notes that are those of the changelog; and then looked the release
  of the tag up. When it was missing, it was created with those notes, neither a draft nor a
  prerelease; otherwise nothing was created and, on success, the existing release has the same
  notes and is published.\<close>

theorem github_release_safe:
  assumes "only_post_changes Q env" "Q w" "github_release env w = (result, w')"
    and "result = Inr () \<or> \<not> Q w'"
  shows "\<exists>candidate version published head notes changelog token response v w1 w2 w3 w4 w5 w6 w7.
      load_candidate env w = (Inr candidate, w1)
    \<and> stable_version env (candidate_tag candidate) = Inr version
    \<and> candidate_version candidate = version_show env version
    \<and> archive_checksum env (path_join DIST (candidate_archive candidate)) v = (Inr (candidate_sha256 candidate), w1)
    \<and> Release_command env ''git'' [''rev-parse'', ''HEAD''] w1 = (Inr head, w2) \<and> candidate_commit candidate = trim head
    \<and> registry_version env candidate w2 = (Inr (Some published), w3)
    \<and> registry_checksum published = candidate_sha256 candidate \<and> \<not> registry_yanked published
    \<and> read_text env NOTES w3 = (Inr notes, w4) \<and> read_text env ''sakai/CHANGELOG.md'' w4 = (Inr changelog, w5)
    \<and> release_notes changelog (candidate_version candidate) = Inr notes
    \<and> Release_client env w5 = (Inr (), w6)
    \<and> http_get env (GITHUB_RELEASES @ ''/tags/'' @ candidate_tag candidate) (Some token) w6 = (Inr response, w7)
    \<and> Q w7
    \<and> (if response_status response = 404
       then (\<exists>answer w8. http_post env GITHUB_RELEASES token (github_to_json env
              \<lparr>request_tag_name = candidate_tag candidate, request_target_commitish = candidate_commit candidate,
               request_name = candidate_tag candidate, request_body = notes, request_draft = False,
               request_prerelease = False\<rparr>) w7 = (answer, w8)
            \<and> (result = Inr () \<longrightarrow> (\<exists>created. answer = Inr created
                 \<and> \<not> (400 \<le> response_status created \<and> response_status created < 600))))
       else Q w' \<and> (\<exists>text existing. response_text response = Inr text \<and> github_from_json env text = Inr existing
            \<and> github_body existing = Some notes
            \<and> github_draft existing = Some False \<and> github_prerelease existing = Some False))"
proof -
  have passed: "(\<exists>u. result = Inr u) \<or> \<not> Q w'" using assms(4) by blast
  obtain candidate head published news changelog token w1 w2 w3 w4 w5 w6 where
    run: "load_candidate env w = (Inr candidate, w1)"
      "Release_command env ''git'' [''rev-parse'', ''HEAD''] w1 = (Inr head, w2)" "candidate_commit candidate = trim head"
      "registry_version env candidate w2 = (Inr (Some published), w3)"
      "read_text env NOTES w3 = (Inr news, w4)" "read_text env ''sakai/CHANGELOG.md'' w4 = (Inr changelog, w5)"
      "release_notes changelog (candidate_version candidate) = Inr news" "Release_client env w5 = (Inr (), w6)"
    and announced: "announce env candidate news token w6 = (result, w')" "Q w6"
    by (rule github_release_passed [OF assms(1-3) passed])
  obtain response w7 where seen:
    "http_get env (GITHUB_RELEASES @ ''/tags/'' @ candidate_tag candidate) (Some token) w6 = (Inr response, w7)" "Q w7"
    and missing: "response_status response = 404 \<longrightarrow> ( \<exists>answer w8.
       http_post env GITHUB_RELEASES token (github_to_json env (github_request candidate news)) w7 = (answer, w8)
       \<and> (result = Inr () \<longrightarrow> (\<exists>created. answer = Inr created \<and> isl (error_for_status created) = False)))"
    and existing: "response_status response \<noteq> 404 \<longrightarrow> ( Q w' \<and> (\<exists>text existing. response_text response = Inr text
       \<and> github_from_json env text = Inr existing \<and> github_existing news existing = Inr ()))"
    by (rule announce_passed [OF assms(1) announced(2,1) passed])
  from load_candidate_ok [OF run(1)] obtain version v where loaded:
    "stable_version env (candidate_tag candidate) = Inr version" "candidate_version candidate = version_show env version"
    "archive_checksum env (path_join DIST (candidate_archive candidate)) v = (Inr (candidate_sha256 candidate), w1)"
    by blast
  note unyanked = registry_version_ok [OF run(4)]
  have last: "if response_status response = 404
       then (\<exists>answer w8. http_post env GITHUB_RELEASES token (github_to_json env
              \<lparr>request_tag_name = candidate_tag candidate, request_target_commitish = candidate_commit candidate,
               request_name = candidate_tag candidate, request_body = news, request_draft = False,
               request_prerelease = False\<rparr>) w7 = (answer, w8)
            \<and> (result = Inr () \<longrightarrow> (\<exists>created. answer = Inr created
                 \<and> \<not> (400 \<le> response_status created \<and> response_status created < 600))))
       else Q w' \<and> (\<exists>text existing. response_text response = Inr text \<and> github_from_json env text = Inr existing
            \<and> github_body existing = Some news
            \<and> github_draft existing = Some False \<and> github_prerelease existing = Some False)"
    using missing existing by (auto simp: github_request_def github_existing_ok error_for_status_def split: if_splits)
  show ?thesis
    by (intro exI conjI; (fact run loaded seen last | fact unyanked [THEN conjunct1] unyanked [THEN conjunct2]))
qed

section \<open>Packaging a tag\<close>

text \<open>
  A candidate that was packaged satisfies every consistency check of a candidate that is loaded:
  its tag is the stable version's, its archive has the version's name, and the recorded checksum
  is that of Cargo's archive. A tag that was asked for is the candidate's.
\<close>

lemma package_ok:
  fixes env :: "('v, 'w) release_env"
  assumes "package env tag w = (Inr candidate, w')"
  shows "\<exists>version (metadata :: 'v Metadata) w1. stable_version env (candidate_tag candidate) = Inr version
    \<and> version_show env version = candidate_version candidate
    \<and> candidate_archive candidate = crate_file (candidate_version candidate)
    \<and> archive_checksum env (path_join (path_join (target_directory metadata) ''package'') (candidate_archive candidate)) w1
        = (Inr (candidate_sha256 candidate), w')
    \<and> (\<forall>t. tag = Some t \<longrightarrow> t = candidate_tag candidate)"
proof -
  have tag: "tag = Some t \<Longrightarrow> t = tag_name"
    if "package_tag_checks env tag tag_name commit v = (Inr u, v')" for t tag_name commit v u v'
    using that by (auto simp: package_tag_checks_def step_simps ensure_Inr)
  have shown: "version_show env version = version_show env p"
    if "stable_version env (CHR ''v'' # version_show env p) = Inr version" for version p
    using that by (simp add: stable_version_ok)
  from assms obtain metadata :: "'v Metadata" and p :: "'v Package" and version commit v u v' w1 w2 sha256 where
    "stable_version env (''v'' @ version_show env (package_version p)) = Inr version"
    "package_tag_checks env tag (''v'' @ version_show env (package_version p)) commit v = (Inr u, v')"
    "archive_checksum env (path_join (path_join (target_directory metadata) ''package'')
       (crate_file (version_show env (package_version p)))) w1 = (Inr sha256, w2)" "w' = w2"
    "\<lparr>candidate_version = version_show env (package_version p),
       candidate_tag = ''v'' @ version_show env (package_version p), candidate_commit = commit,
       candidate_archive = crate_file (version_show env (package_version p)), candidate_sha256 = sha256\<rparr> = candidate"
    unfolding package_def Let_def step_simps ensure_Inr ok_or_eq_Inr sum.inject
    by (elim exE conjE) (rule that)
  with tag shown show ?thesis
    by (intro exI [of _ version] exI [of _ metadata] exI [of _ w1]) auto
qed

text \<open>The check of a tag accepts only the candidate that packaging the tag gives again.\<close>

lemma check_ok:
  "Release_run env (Check tag) w = (Inr (), w') \<longleftrightarrow>
     (\<exists>candidate w1. load_candidate env w = (Inr candidate, w1) \<and> package env (Some tag) w1 = (Inr candidate, w'))"
  by (auto simp: Release_run_def step_simps ensure_Inr)

section \<open>Instances\<close>

text \<open>A registry that knows the version from the second request on, and a GitHub without the release.\<close>

definition demo_candidate :: Candidate where
  "demo_candidate = \<lparr>candidate_version = ''0.1.0'', candidate_tag = ''v0.1.0'', candidate_commit = ''c0ffee'',
     candidate_archive = ''sakai-0.1.0.crate'', candidate_sha256 = replicate 64 (CHR ''a'')\<rparr>"

definition demo_spawn :: "string \<Rightarrow> string list \<Rightarrow> (string list, AnyhowError, ProcessOutput) io" where
  "demo_spawn program arguments log =
     (Inr \<lparr>output_success = True, output_stdout =
        (if program = ''sha256sum'' then replicate 64 (CHR ''a'') @ ''  archive'' else ''c0ffee'') @ [CHR 0x0A],
        output_stderr = ''''\<rparr>, log @ [''run '' @ program])"

definition demo_get :: "string \<Rightarrow> string option \<Rightarrow> (string list, AnyhowError, Response) io" where
  "demo_get url token log =
     (Inr \<lparr>response_status = (if log = [] \<or> token \<noteq> None then 404 else 200), response_text = Inr ''registry'',
        response_retry_after = None\<rparr>, log @ [''GET'']) "

definition demo_release :: "(string, string list) release_env" where
  "demo_release =
     \<lparr>version_parse = Inr, version_show = (\<lambda>v. v), version_has_pre = (\<lambda>v. CHR ''-'' \<in> set v),
      version_has_build = (\<lambda>v. CHR ''+'' \<in> set v), spawn = demo_spawn,
      run_status = (\<lambda>program arguments log. (Inr True, log @ [''run '' @ program])), from_utf8 = Inr, utf8_lossy = (\<lambda>s. s),
      print_line = (\<lambda>text log. log @ [''print '' @ text]), env_var = (\<lambda>name. if name = ''GH_TOKEN'' then Some ''token'' else None),
      open_append = (\<lambda>path log. (Inr (), log)), append_line = (\<lambda>path text log. (Inr (), log @ [''print '' @ text])),
      read_text = (\<lambda>path log. (Inr (if path = MANIFEST then ''{}'' else if path = NOTES then ''Initial''
        else ''## [0.1.0]'' @ CHR 0x0A # ''Initial'' @ [CHR 0x0A]), log)),
      write_text = (\<lambda>path text log. (Inr (), log)), create_directories = (\<lambda>path log. (Inr (), log)),
      copy_file = (\<lambda>source target log. (Inr (), log)), current_directory = (\<lambda>log. (Inr ''/root'', log)),
      cargo_metadata = (\<lambda>log. (Inr \<lparr>metadata_packages = [\<lparr>package_name = ''sakai'', package_version = ''0.1.0''\<rparr>,
        \<lparr>package_name = ''sakai-python'', package_version = ''0.1.0''\<rparr>], workspace_root = ''/root/'',
        target_directory = ''/root/target''\<rparr>, log)),
      http_client = (\<lambda>log. (Inr (), log)), http_get = demo_get,
      http_post = (\<lambda>url token body log. (Inr \<lparr>response_status = 201, response_text = Inr ''{}'',
        response_retry_after = None\<rparr>, log @ [''POST''])),
      candidate_from_json = (\<lambda>json. Inr demo_candidate), candidate_to_json = (\<lambda>c. Inr ''{}''),
      registry_from_json = (\<lambda>json. Inr \<lparr>registry_checksum = replicate 64 (CHR ''a''), registry_yanked = False\<rparr>),
      github_from_json = (\<lambda>json. Inr \<lparr>github_body = None, github_draft = None, github_prerelease = None\<rparr>),
      github_to_json = request_body, sleep = (\<lambda>delay log. log @ [''sleep''])\<rparr>"

lemma demo_verify:
  "verify_registry demo_release ''url'' demo_candidate 3 REGISTRY_RETRY_DELAY [] = (Inr (), [''GET'', ''sleep'', ''GET''])"
  by code_simp

theorem verify_registry_correct_witness:
  "\<exists>asked w1 answer. asked < (3 :: nat)
    \<and> after_transient demo_release ''url'' demo_candidate REGISTRY_RETRY_DELAY asked [] = Some w1
    \<and> registry_version_at demo_release ''url'' demo_candidate w1 = (answer, [''GET'', ''sleep'', ''GET''])
    \<and> (transient answer \<longrightarrow> Suc asked = 3)"
  using verify_registry_correct [OF _ demo_verify] by auto

lemma demo_github: "github_release demo_release [] =
    (Inr (), [''run sha256sum'', ''run git'', ''GET'', ''GET'', ''POST'', ''print GitHub release created''])"
  by code_simp

text \<open>Nothing else writes that a request was posted.\<close>

lemma demo_only_post: "only_post_changes (\<lambda>log. ''POST'' \<notin> set log) demo_release"
  by (auto simp: only_post_changes_def keeps_def demo_release_def demo_spawn_def demo_get_def)

theorem github_release_safe_witness:
  "\<exists>candidate published token response w2 w3 w6 w7.
      registry_version demo_release candidate w2 = (Inr (Some published), w3)
    \<and> registry_checksum published = candidate_sha256 candidate \<and> \<not> registry_yanked published
    \<and> http_get demo_release (GITHUB_RELEASES @ ''/tags/'' @ candidate_tag candidate) (Some token) w6 = (Inr response, w7)
    \<and> ''POST'' \<notin> set w7"
proof -
  have "''POST'' \<notin> set []" by simp
  from github_release_safe [OF demo_only_post this demo_github disjI1 [OF refl]] show ?thesis by blast
qed

definition demo_changelog :: string where
  "demo_changelog = ''## [2]'' @ CHR 0x0A # ''new'' @ CHR 0x0A # ''## [1]'' @ CHR 0x0A # ''old'' @ [CHR 0x0A]"

theorem release_notes_correct_witness: "release_notes demo_changelog ''1'' = Inr ''old''"
proof -
  have "lines demo_changelog = [''## [2]'', ''new''] @ ''## [1]'' # [''old''] @ []"
    and "''old'' = trim (join_lines [''old''])" by code_simp+
  then have "\<exists>before heading body after. lines demo_changelog = before @ heading # body @ after
      \<and> (\<forall>line \<in> set before. \<not> prefix (''## ['' @ ''1'' @ '']'') line) \<and> prefix (''## ['' @ ''1'' @ '']'') heading
      \<and> (\<forall>line \<in> set body. \<not> prefix ''## '' line) \<and> (after = [] \<or> prefix ''## '' (hd after))
      \<and> ''old'' = trim (join_lines body) \<and> ''old'' \<noteq> []"
    by (intro exI [of _ "[''## [2]'', ''new'']"] exI [of _ "''## [1]''"] exI [of _ "[''old'']"] exI [of _ "[]"]) simp
  then show ?thesis unfolding release_notes_correct [of demo_changelog "''1''" "''old''", symmetric] .
qed

end
