(* ===== verification/Xtask_Vmtest.thy ===== *)
theory Xtask_Vmtest
  imports Xtask_Kernel Xtask_Release
begin

text \<open>
  The live tests in virtual machines and the dispatch of the developer tasks,
  \<open>xtask/src/vmtest/mod.rs\<close> and \<open>xtask/src/main.rs\<close>. The files are those of Xtask_Kernel. A
  host_process is an oracle: whatever it answers and does to the files, the log keeps what was started
  and the files it found and left.
\<close>

section \<open>Processes\<close>

record Invocation =
  run_program :: string
  run_arguments :: "string list"
  run_directory :: "string option"
  run_variables :: "(string \<times> string) list"  \<comment> \<open>set in addition to those inherited\<close>

text \<open>The status of an ended process: its code, unless a signal ended it, and its display.\<close>

record ExitStatus =
  exit_code :: "nat option"
  exit_shown :: string

record Finished =
  process_exit :: "AnyhowError + ExitStatus"
  process_stdout :: string

record Ran =
  ran_invocation :: Invocation
  ran_found :: "string \<rightharpoonup> string"
  ran_result :: "AnyhowError + Finished"
  ran_left :: "string \<rightharpoonup> string"

text \<open>The files and the clock, the processes so far (last first) and the lines printed (last first).\<close>

record Desk =
  disk :: World
  started :: "Ran list"
  printed :: "string list"

text \<open>What \<open>cargo_metadata\<close> makes of a line of Cargo, as far as the code looks at it.\<close>

datatype TargetKind = TestTarget | AnotherTarget

datatype Message =
    CompilerArtifact string "TargetKind list" "string option"
  | CompilerMessage "string option"
  | AnotherMessage

text \<open>
  The program's surroundings. The fields from \<open>utf8\<close> to \<open>shown\<close> decode a string, replace what is not
  UTF-8, and print a string with \<open>Debug\<close>; then those of \<open>serde_json\<close> and \<open>cargo_metadata\<close>.
\<close>

record host =
  machine_of :: machine
  host_os :: string
  host_arch :: string
  host_variable :: "string \<Rightarrow> string option"
  working_directory :: "AnyhowError + string"
  canonical :: "string \<Rightarrow> AnyhowError + string"
  host_process :: "nat \<Rightarrow> Invocation \<Rightarrow> (string \<rightharpoonup> string) \<Rightarrow> (AnyhowError + Finished) \<times> (string \<rightharpoonup> string)"
  utf8 :: "string \<Rightarrow> AnyhowError + string"
  lossy :: "string \<Rightarrow> string"
  shown :: "string \<Rightarrow> string"
  json_string :: "string \<Rightarrow> AnyhowError + string"
  json_strings :: "string list \<Rightarrow> AnyhowError + string"
  cargo_messages :: "string \<Rightarrow> (AnyhowError + Message) list"

text \<open>How a task ends early: with an error, or because the program exits with a code.\<close>

datatype Stop = Exited nat | Stopped AnyhowError

definition on_disk :: "(World, 'e, 'a) io \<Rightarrow> (Desk, 'e, 'a) io" where
  "on_disk m s = (case m (disk s) of (result, w) \<Rightarrow> (result, s\<lparr>disk := w\<rparr>))"

definition run_process :: "host \<Rightarrow> Invocation \<Rightarrow> (Desk, AnyhowError, Finished) io" where
  "run_process h invocation s =
     (case host_process h (tick (disk s)) invocation (files (disk s)) of
        (result, left) \<Rightarrow>
          (result, s\<lparr>disk := (next_tick (disk s))\<lparr>files := left\<rparr>,
             started := \<lparr>ran_invocation = invocation, ran_found = files (disk s), ran_result = result, ran_left = left\<rparr>
                    # started s\<rparr>))"

definition status_of :: "host \<Rightarrow> Invocation \<Rightarrow> (Desk, AnyhowError, ExitStatus) io" where
  "status_of h invocation = then_io (run_process h invocation) (\<lambda>p. return_io (process_exit p))"

definition exit_success :: "ExitStatus \<Rightarrow> bool" where
  "exit_success status \<longleftrightarrow> exit_code status = Some 0"

definition with_context :: "string \<Rightarrow> ('w, AnyhowError, 'a) io \<Rightarrow> ('w, AnyhowError, 'a) io" where
  "with_context message = map_err_io (Context message)"

definition ok_or_else :: "string \<Rightarrow> 'a option \<Rightarrow> ('w, AnyhowError, 'a) io" where
  "ok_or_else message found = return_io (ok_or (Failure message) found)"

definition println :: "string \<Rightarrow> (Desk, 'e, unit) io" where
  "println line s = (Inr (), s\<lparr>printed := line # printed s\<rparr>)"

section \<open>Files\<close>

text \<open>An operation that failed may have replaced the file by a part of its new content.\<close>

fun part_of :: "nat \<Rightarrow> string \<Rightarrow> string \<Rightarrow> (string \<rightharpoonup> string) \<Rightarrow> (string \<rightharpoonup> string)" where
  "part_of 0 path contents f = f"
| "part_of (Suc n) path contents f = f(path \<mapsto> take n contents)"

definition fs_write :: "machine \<Rightarrow> string \<Rightarrow> string \<Rightarrow> (World, AnyhowError, unit) io" where
  "fs_write m path contents =
     fs_op m (WriteFile path) (\<lambda>f. Inr (f(path \<mapsto> contents))) (\<lambda>n. part_of n path contents)"

definition fs_copy :: "machine \<Rightarrow> string \<Rightarrow> string \<Rightarrow> (World, AnyhowError, unit) io" where
  "fs_copy m source target = fs_op m (CopyFile source target)
     (\<lambda>f. case f source of None \<Rightarrow> Inl not_found | Some contents \<Rightarrow> Inr (f(target \<mapsto> contents)))
     (\<lambda>n f. case f source of None \<Rightarrow> f | Some contents \<Rightarrow> part_of n target contents f)"

definition is_file :: "machine \<Rightarrow> string \<Rightarrow> (World, 'e, bool) io" where
  "is_file m path w = (Inr (fault m (tick w) (TestExists path) = None \<and> files w path \<noteq> None), next_tick w)"

section \<open>The repository\<close>

text \<open>
  \<open>Path::ancestors\<close> of the working run_directory, which is absolute: the path, then what is left when
  its last components go one by one.
\<close>

fun ancestor_text :: "string list \<Rightarrow> string" where
  "ancestor_text [] = ''/''"
| "ancestor_text [segment] = ''/'' @ segment"
| "ancestor_text (segment # segments) = ''/'' @ segment @ ancestor_text segments"

function parents :: "string list \<Rightarrow> string list list" where
  "parents [] = []"
| "parents (segment # reversed) =
     (let rest = dropWhile no_component reversed in rest # parents rest)"
  by pat_completeness auto

termination
  by (relation "measure length") (auto simp: length_dropWhile_le le_imp_less_Suc)

definition ancestors :: "string \<Rightarrow> string list" where
  "ancestors path =
     path # map (\<lambda>reversed. ancestor_text (rev reversed))
       (parents (dropWhile no_component (rev (tl (split_pred (\<lambda>c. c = CHR ''/'') path)))))"

fun find_repository :: "host \<Rightarrow> string list \<Rightarrow> (Desk, AnyhowError, string) io" where
  "find_repository h [] = return_io (Inl (Failure ''run vmtest from inside the Sakai repository''))"
| "find_repository h (path # paths) =
     then_io (on_disk (is_file (machine_of h) (path_join path ''xtask/Cargo.toml''))) (\<lambda>xtask.
     then_io (if xtask then on_disk (is_file (machine_of h) (path_join path ''sakai/Cargo.toml''))
              else return_io (Inr False)) (\<lambda>both.
     if both then return_io (Inr path) else find_repository h paths))"

definition repository :: "host \<Rightarrow> (Desk, AnyhowError, string) io" where
  "repository h =
     then_io (return_io (working_directory h)) (\<lambda>current.
     then_io (find_repository h (ancestors current)) (\<lambda>path.
     return_io (canonical h path)))"

section \<open>Requests\<close>

datatype Profile = Smoke | Full

fun Profile_matches :: "Profile \<Rightarrow> Kernel \<Rightarrow> bool" where
  "Profile_matches Smoke fixture = kernel_smoke fixture"
| "Profile_matches Full fixture = True"

record Vmtest =
  profile :: Profile
  requested :: "string list"  \<comment> \<open>the field \<open>kernel\<close>\<close>
  test_binary :: "string option"

definition BINARY_PATH :: string where "BINARY_PATH = ''bin/linux_live''"
definition CACHE_DIRECTORY :: string where "CACHE_DIRECTORY = ''tests/.cache/sakai-vmtest''"
definition CONFIG_FILE_NAME :: string where "CONFIG_FILE_NAME = ''vmtest.toml''"
definition CONTAINER_IMAGE :: string where "CONTAINER_IMAGE = ''sakai-vmtest:devenv''"
definition CONTAINER_PLATFORM :: string where "CONTAINER_PLATFORM = ''linux/amd64''"
definition CONTAINER_WORKDIR :: string where "CONTAINER_WORKDIR = ''/workspace''"
definition EXECUTABLE :: string where "EXECUTABLE = ''vmtest-upstream''"
definition GUEST_SHARE_DIRECTORY :: string where "GUEST_SHARE_DIRECTORY = ''/mnt/vmtest''"
definition LIVE_TEST_TARGET :: string where "LIVE_TEST_TARGET = ''linux_live''"
definition METADATA_PATH :: string where "METADATA_PATH = ''bin/linux_live.meta''"
definition RUN_TIMEOUT :: Duration where "RUN_TIMEOUT = duration_from_secs 480"

definition kernel_matrix :: "host \<Rightarrow> Profile \<Rightarrow> (Desk, AnyhowError, unit) io" where
  "kernel_matrix h wanted =
     then_io (return_io (json_strings h (map kernel_name (filter (Profile_matches wanted) Kernel_ALL)))) println"

definition selected_kernels :: "Vmtest \<Rightarrow> Kernel list" where
  "selected_kernels v =
     filter (\<lambda>fixture. if requested v = [] then Profile_matches (profile v) fixture
       else list_ex (\<lambda>name. name = kernel_name fixture) (requested v)) Kernel_ALL"

section \<open>The test executable\<close>

fun executable :: "Message \<Rightarrow> string option" where
  "executable (CompilerArtifact target kinds path) =
     (if target = LIVE_TEST_TARGET \<and> TestTarget \<in> set kinds then path else None)"
| "executable (CompilerMessage rendered) = None"
| "executable AnotherMessage = None"

definition git_head :: "string \<Rightarrow> Invocation" where
  "git_head root = \<lparr>run_program = ''git'', run_arguments = [''rev-parse'', ''HEAD''], run_directory = Some root, run_variables = []\<rparr>"

definition record_binary :: "host \<Rightarrow> string \<Rightarrow> string \<Rightarrow> (Desk, AnyhowError, unit) io" where
  "record_binary h root cache =
     then_io (run_process h (git_head root)) (\<lambda>commit.
     then_io (return_io (process_exit commit)) (\<lambda>status.
     then_io (ensure (exit_success status) (Failure ''failed to resolve Git commit'')) (\<lambda>_.
     then_io (return_io (utf8 h (process_stdout commit))) (\<lambda>commit.
     on_disk (fs_write (machine_of h) (path_join cache METADATA_PATH) (''commit='' @ trim commit @ [CHR 0x0A]))))))"

definition cargo_test :: "string \<Rightarrow> Invocation" where
  "cargo_test root =
     \<lparr>run_program = ''cargo'',
      run_arguments = [''test'', ''--locked'', ''--package'', ''sakai'', ''--test'', LIVE_TEST_TARGET, ''--no-run'',
        ''--message-format=json-render-diagnostics''],
      run_directory = Some root, run_variables = []\<rparr>"

definition build_binary :: "host \<Rightarrow> string \<Rightarrow> string \<Rightarrow> (Desk, AnyhowError, string) io" where
  "build_binary h root cache =
     then_io (with_context ''failed to start Cargo'' (run_process h (cargo_test root))) (\<lambda>cargo.
     let artifacts = collect_results (map (map_ok executable) (cargo_messages h (process_stdout cargo))) in
     then_io (return_io (process_exit cargo)) (\<lambda>status.
     then_io (ensure (exit_success status) (Failure ''Cargo failed to build linux_live'')) (\<lambda>_.
     then_io (return_io artifacts) (\<lambda>artifacts.
     let paths = List.map_filter (\<lambda>path. path) artifacts in
     then_io (ok_or_else ''Cargo did not report the linux_live executable''
       (if paths = [] then None else Some (last paths))) (\<lambda>path.
     let destination = path_join cache BINARY_PATH in
     then_io (on_disk (plain_op (machine_of h) CreateDirectory)) (\<lambda>_.
     then_io (on_disk (fs_copy (machine_of h) path destination)) (\<lambda>_.
     then_io (record_binary h root cache) (\<lambda>_.
     return_io (Inr destination)))))))))"

definition build_live_test :: "host \<Rightarrow> (Desk, AnyhowError, unit) io" where
  "build_live_test h =
     then_io (repository h) (\<lambda>root.
     then_io (build_binary h root (path_join root CACHE_DIRECTORY)) (\<lambda>_. return_io (Inr ())))"

section \<open>Virtual machines\<close>

text \<open>The lines of the file for one kernel; \<open>kernel_path\<close> is a JSON string.\<close>

definition vmtest_config :: "Kernel \<Rightarrow> string \<Rightarrow> string" where
  "vmtest_config fixture kernel_path =
     ''[[target]]'' @ [CHR 0x0A]
     @ ''name = '' @ [CHR 0x22] @ ''Linux '' @ kernel_name fixture @ [CHR 0x22, CHR 0x0A]
     @ ''kernel = '' @ kernel_path @ [CHR 0x0A]
     @ ''kernel_args = '' @ [CHR 0x22] @ ''ro'' @ [CHR 0x22, CHR 0x0A]
     @ ''command = '' @ [CHR 0x22]
     @ ''findmnt -no OPTIONS / | grep -qw ro && test -w /sys/fs/cgroup && SAKAI_VMTEST=1 ''
     @ path_join GUEST_SHARE_DIRECTORY BINARY_PATH @ '' --nocapture'' @ [CHR 0x22, CHR 0x0A]
     @ ''[target.vm]'' @ [CHR 0x0A]
     @ ''num_cpus = 1'' @ [CHR 0x0A]
     @ ''memory = '' @ [CHR 0x22] @ ''1G'' @ [CHR 0x22, CHR 0x0A]"

definition vmtest_boot :: "host \<Rightarrow> string \<Rightarrow> Invocation" where
  "vmtest_boot h config =
     \<lparr>run_program = ''timeout'',
      run_arguments = [show_nat (unat (duration_secs RUN_TIMEOUT)) @ ''s'',
        case host_variable h ''SAKAI_VMTEST_EXECUTABLE'' of Some path \<Rightarrow> path | None \<Rightarrow> EXECUTABLE,
        ''--config'', config],
      run_directory = None, run_variables = [(''VMTEST_NO_UI'', ''1'')]\<rparr>"

definition boot_result :: "ExitStatus \<Rightarrow> Stop + unit" where
  "boot_result status =
     (case exit_code status of
        Some code \<Rightarrow> if code = 0 then Inr () else Inl (Exited code)
      | None \<Rightarrow> Inl (Stopped (Failure ''vmtest terminated by signal'')))"

definition run_kernel :: "host \<Rightarrow> string \<Rightarrow> Kernel \<Rightarrow> string \<Rightarrow> (Desk, Stop, unit) io" where
  "run_kernel h cache fixture kernel_image =
     (let config = path_join cache CONFIG_FILE_NAME in
      then_io (map_err_io Stopped
        (then_io (return_io (json_string h (lossy h kernel_image))) (\<lambda>kernel_path.
         then_io (on_disk (fs_write (machine_of h) config (vmtest_config fixture kernel_path))) (\<lambda>_.
         with_context ''failed to start vmtest (enter devenv shell first)''
           (status_of h (vmtest_boot h config)))))) (\<lambda>status.
      return_io (boot_result status)))"

fun run_kernels :: "host \<Rightarrow> string \<Rightarrow> Kernel list \<Rightarrow> (Desk, Stop, unit) io" where
  "run_kernels h cache [] = return_io (Inr ())"
| "run_kernels h cache (fixture # fixtures) =
     then_io (map_err_io Stopped (on_disk (image (machine_of h) fixture (path_join cache ''kernels'')))) (\<lambda>kernel_image.
     then_io (run_kernel h cache fixture kernel_image) (\<lambda>_.
     run_kernels h cache fixtures))"

section \<open>Containers\<close>

definition invoke :: "string \<Rightarrow> string list \<Rightarrow> Invocation" where
  "invoke name args = \<lparr>run_program = name, run_arguments = args, run_directory = None, run_variables = []\<rparr>"

text \<open>The first engine whose status command succeeds.\<close>

fun find_engine :: "host \<Rightarrow> (string \<times> string list) list \<Rightarrow> (Desk, AnyhowError, string) io" where
  "find_engine h [] s =
     (Inl (Failure ''install Apple Container, Podman, or Docker, or set SAKAI_CONTAINER_ENGINE''), s)"
| "find_engine h ((engine, args) # engines) s =
     (case status_of h (invoke engine args) s of
        (Inr status, s') \<Rightarrow> if exit_success status then (Inr engine, s') else find_engine h engines s'
      | (Inl error, s') \<Rightarrow> find_engine h engines s')"

definition container_engine :: "host \<Rightarrow> (Desk, AnyhowError, string) io" where
  "container_engine h =
     (case host_variable h ''SAKAI_CONTAINER_ENGINE'' of
        Some engine \<Rightarrow> return_io (Inr engine)
      | None \<Rightarrow> find_engine h
          [(''container'', [''system'', ''status'']), (''podman'', [''info'']), (''docker'', [''info''])])"

definition env_string :: "host \<Rightarrow> string \<Rightarrow> AnyhowError + string" where
  "env_string h name = and_then (ok_or (Failure ''environment variable not found'') (host_variable h name)) (utf8 h)"

definition image_build :: "host \<Rightarrow> string \<Rightarrow> string \<Rightarrow> string \<Rightarrow> string \<Rightarrow> Invocation" where
  "image_build h engine root rust_version vmtest_url = invoke engine
     ([''build'', ''--platform'', CONTAINER_PLATFORM]
      @ [''--build-arg'', ''RUST_IMAGE=rust:'' @ rust_version @ ''-bookworm'']
      @ [''--build-arg'', ''VMTEST_URL='' @ vmtest_url]
      @ [''-t'', CONTAINER_IMAGE, ''-f''] @ [path_join root ''tools/vmtest/Containerfile''] @ [root])"

definition passed_variables :: "host \<Rightarrow> string list" where
  "passed_variables h =
     concat (map (\<lambda>name. case host_variable h name of
         Some text \<Rightarrow> [''--env'', name @ ''='' @ lossy h text] | None \<Rightarrow> []) [''RUST_LOG'', ''CARGO_NET_OFFLINE''])
     @ concat (map (\<lambda>(name, folder).
         [''--env'', name @ ''='' @ path_join (path_join CONTAINER_WORKDIR CACHE_DIRECTORY) folder])
         [(''CARGO_HOME'', ''cargo''), (''CARGO_TARGET_DIR'', ''target'')])"

fun Profile_name :: "Profile \<Rightarrow> string" where
  "Profile_name Smoke = ''smoke''"
| "Profile_name Full = ''full''"

definition container_run :: "host \<Rightarrow> string \<Rightarrow> string \<Rightarrow> Vmtest \<Rightarrow> Invocation" where
  "container_run h engine root v = invoke engine
     ([''run'', ''--rm'', ''--platform'', CONTAINER_PLATFORM]
      @ [''--volume'', lossy h root @ '':'' @ CONTAINER_WORKDIR]
      @ [''--workdir'', CONTAINER_WORKDIR]
      @ passed_variables h
      @ [CONTAINER_IMAGE, ''cargo'', ''xtask'', ''vmtest'', ''--profile'', Profile_name (profile v)]
      @ concat (map (\<lambda>name. [''--kernel'', name]) (requested v)))"

definition run_in_container :: "host \<Rightarrow> Vmtest \<Rightarrow> string \<Rightarrow> (Desk, AnyhowError, unit) io" where
  "run_in_container h v root =
     then_io (ensure (test_binary v = None) (Failure
       ''--test-binary must be a Linux executable; build it inside the container instead'')) (\<lambda>_.
     then_io (container_engine h) (\<lambda>engine.
     then_io (with_context ''enter devenv shell to resolve the container Rust version''
       (return_io (env_string h ''SAKAI_VMTEST_RUST_VERSION''))) (\<lambda>rust_version.
     then_io (with_context ''enter devenv shell to resolve the vmtest download URL''
       (return_io (env_string h ''SAKAI_VMTEST_URL''))) (\<lambda>vmtest_url.
     then_io (with_context (''failed to build vmtest image with '' @ shown h engine)
       (status_of h (image_build h engine root rust_version vmtest_url))) (\<lambda>status.
     then_io (ensure (exit_success status) (Failure (''vmtest image build failed: '' @ exit_shown status))) (\<lambda>_.
     then_io (with_context (''failed to run vmtest image with '' @ shown h engine)
       (status_of h (container_run h engine root v))) (\<lambda>status.
     ensure (exit_success status) (Failure (''containerized vmtest failed: '' @ exit_shown status)))))))))"

section \<open>The tasks\<close>

text \<open>The executable is staged in the cache, which the virtual machines share.\<close>

definition stage_binary :: "host \<Rightarrow> Vmtest \<Rightarrow> string \<Rightarrow> string \<Rightarrow> (Desk, AnyhowError, unit) io" where
  "stage_binary h v root cache =
     then_io (case test_binary v of
         Some path \<Rightarrow> with_context ''test binary not found'' (return_io (canonical h path))
       | None \<Rightarrow> build_binary h root cache) (\<lambda>binary.
     let guest_binary = path_join cache BINARY_PATH in
     then_io (if components binary \<noteq> components guest_binary
         then then_io (on_disk (plain_op (machine_of h) CreateDirectory)) (\<lambda>_. on_disk (fs_copy (machine_of h) binary guest_binary))
         else return_io (Inr ())) (\<lambda>_.
     if test_binary v \<noteq> None then record_binary h root cache else return_io (Inr ())))"

definition Vmtest_run :: "host \<Rightarrow> Vmtest \<Rightarrow> (Desk, Stop, unit) io" where
  "Vmtest_run h v =
     then_io (map_err_io Stopped (repository h)) (\<lambda>root.
     if host_os h = ''macos'' then map_err_io Stopped (run_in_container h v root)
     else
       let cache = path_join root CACHE_DIRECTORY in
       then_io (map_err_io Stopped
         (then_io (ensure (host_os h = ''linux'' \<and> host_arch h = ''x86_64'') (Failure ''vmtest requires an x86-64 Linux host'')) (\<lambda>_.
          then_io (ensure (selected_kernels v \<noteq> []) (Failure ''no kernel fixtures matched the request'')) (\<lambda>_.
          then_io (ensure (list_all (\<lambda>name. list_ex (\<lambda>fixture. kernel_name fixture = name) Kernel_ALL) (requested v))
            (Failure ''unknown kernel fixture requested'')) (\<lambda>_.
          then_io (on_disk (plain_op (machine_of h) CreateDirectory)) (\<lambda>_.
          stage_binary h v root cache)))))) (\<lambda>_.
       run_kernels h cache (selected_kernels v)))"

datatype XtaskCommand =
    Release ReleaseCommand
  | RunVmtest Vmtest
  | BuildLiveTest
  | KernelMatrix Profile

definition Xtask_run :: "('v, Desk) release_env \<Rightarrow> host \<Rightarrow> XtaskCommand \<Rightarrow> (Desk, Stop, unit) io" where
  "Xtask_run env h command =
     (case command of
        Release task \<Rightarrow> map_err_io Stopped (Release_run env task)
      | RunVmtest v \<Rightarrow> Vmtest_run h v
      | BuildLiveTest \<Rightarrow> map_err_io Stopped (build_live_test h)
      | KernelMatrix wanted \<Rightarrow> map_err_io Stopped (kernel_matrix h wanted))"

section \<open>The log\<close>

text \<open>Since an earlier state only processes with the property were started.\<close>

definition logged :: "(Invocation \<Rightarrow> bool) \<Rightarrow> Ran list \<Rightarrow> Desk \<Rightarrow> bool" where
  "logged P old s \<longleftrightarrow> (\<exists>recent. started s = recent @ old \<and> (\<forall>r\<in>set recent. P (ran_invocation r)))"

lemma logged_refl [simp]: "logged P (started s) s"
  by (simp add: logged_def)

lemma ran_on_disk: "on_disk m s = (r, s') \<Longrightarrow> started s' = started s"
  by (auto simp: on_disk_def split: prod.splits)

lemma keeps_on_disk [intro, simp]: "keeps (logged P old) (on_disk m)"
  by (auto simp: keeps_def on_disk_def logged_def split: prod.split)

lemma keeps_run_process [intro]: "P invocation \<Longrightarrow> keeps (logged P old) (run_process h invocation)"
  by (auto simp: keeps_def run_process_def logged_def split: prod.split)

lemma keeps_status_of [intro]: "P invocation \<Longrightarrow> keeps (logged P old) (status_of h invocation)"
  unfolding status_of_def by (intro keeps_then keeps_run_process keeps_return)

lemma keeps_with_context [intro]: "keeps Q m \<Longrightarrow> keeps Q (with_context message m)"
  unfolding with_context_def by (rule keeps_map_err)

lemma keeps_ok_or_else [intro, simp]: "keeps Q (ok_or_else message found)"
  by (simp add: ok_or_else_def)

lemma keeps_find_repository [intro, simp]: "keeps (logged P old) (find_repository h paths)"
  by (induction h paths rule: find_repository.induct) (simp_all add: keeps_then)

lemma keeps_repository [intro, simp]: "keeps (logged P old) (repository h)"
  unfolding repository_def by (intro keeps_then) simp_all

lemma keeps_record_binary: "P (git_head root) \<Longrightarrow> keeps (logged P old) (record_binary h root cache)"
  unfolding record_binary_def by (intro keeps_then keeps_run_process) simp_all

lemma keeps_build_binary:
  assumes "P (git_head root)" "P (cargo_test root)"
  shows "keeps (logged P old) (build_binary h root cache)"
  unfolding build_binary_def Let_def
  by (intro keeps_then keeps_with_context keeps_run_process assms keeps_record_binary) simp_all

lemma keeps_stage_binary:
  assumes "P (git_head root)" "P (cargo_test root)"
  shows "keeps (logged P old) (stage_binary h v root cache)"
  unfolding stage_binary_def Let_def
  by (auto intro!: keeps_then keeps_with_context keeps_record_binary keeps_build_binary assms split: option.split)

section \<open>The test executable is the one Cargo reported\<close>

lemma map_filter_id: "List.map_filter (\<lambda>x. x) xs = [x. Some x \<leftarrow> xs]"
  by (induction xs) (auto simp: List.map_filter_def split: option.split)

lemma executables:
  "List.map_filter (\<lambda>x. x) (map executable ms) =
     [path. CompilerArtifact target kinds (Some path) \<leftarrow> ms, target = ''linux_live'' \<and> TestTarget \<in> set kinds]"
proof (induction ms)
  case (Cons message ms)
  then show ?case
    by (cases message) (auto simp: List.map_filter_def LIVE_TEST_TARGET_def split: option.split)
qed (simp add: List.map_filter_def)

lemma run_process_Inr:
  "run_process h invocation s = (Inr p, s') \<longleftrightarrow>
     (\<exists>left. host_process h (tick (disk s)) invocation (files (disk s)) = (Inr p, left)
       \<and> s' = s\<lparr>disk := (next_tick (disk s))\<lparr>files := left\<rparr>,
           started := \<lparr>ran_invocation = invocation, ran_found = files (disk s), ran_result = Inr p, ran_left = left\<rparr> # started s\<rparr>)"
  by (auto simp: run_process_def split: prod.splits)

lemma on_disk_Inr: "on_disk m s = (Inr u, s') \<longleftrightarrow> (\<exists>w. m (disk s) = (Inr u, w) \<and> s' = s\<lparr>disk := w\<rparr>)"
  by (auto simp: on_disk_def split: prod.splits)

lemma record_binary_Inr:
  "record_binary h root cache s = (Inr u, s') \<Longrightarrow>
     \<exists>git answer status commit. started s' = git # started s
       \<and> ran_invocation git = git_head root \<and> ran_found git = files (disk s)
       \<and> ran_result git = Inr answer \<and> process_exit answer = Inr status \<and> exit_code status = Some 0
       \<and> utf8 h (process_stdout answer) = Inr commit
       \<and> files (disk s') = (ran_left git)(path_join cache ''bin/linux_live.meta'' \<mapsto> ''commit='' @ trim commit @ [CHR 0x0A])"
  by (auto simp: record_binary_def step_simps run_process_Inr on_disk_Inr fs_write_def fs_op_ok ensure_Inr exit_success_def
      METADATA_PATH_def next_tick_def)

lemma collected:
  "collect_results (map (map_ok f) rs) = Inr outputs \<Longrightarrow> \<exists>vs. rs = map Inr vs \<and> outputs = map f vs"
proof (induction rs arbitrary: outputs)
  case (Cons r rs)
  from Cons.prems obtain v vs where "r = Inr v" "rs = map Inr vs" "outputs = f v # map f vs"
    using Cons.IH by (cases r) (auto simp: result_simps)
  then show ?case by (intro exI [of _ "v # vs"]) simp
qed simp

text \<open>C18: The executable that is staged for the virtual machines is the last one that Cargo reported for
  the test target linux_live: Cargo was asked for that target and succeeded, all its messages were
  readable, the copy has the content Cargo left, and the commit recorded next to it is the one git
  answered.\<close>

theorem build_binary_correct:
  assumes "build_binary h root cache s = (Inr destination, s')"
  shows "\<exists>cargo answer status reported path git revision commit. started s' = git # cargo # started s
    \<and> ran_invocation cargo = cargo_test root \<and> ran_result cargo = Inr answer
    \<and> process_exit answer = Inr status \<and> exit_code status = Some 0
    \<and> cargo_messages h (process_stdout answer) = map Inr reported
    \<and> (\<exists>earlier. [path. CompilerArtifact target kinds (Some path) \<leftarrow> reported,
                     target = ''linux_live'' \<and> TestTarget \<in> set kinds] = earlier @ [path])
    \<and> destination = path_join cache ''bin/linux_live''
    \<and> ran_left cargo path \<noteq> None \<and> ran_found git = (ran_left cargo)(destination := ran_left cargo path)
    \<and> ran_invocation git = git_head root \<and> ran_result git = Inr revision \<and> utf8 h (process_stdout revision) = Inr commit
    \<and> files (disk s') = (ran_left git)(path_join cache ''bin/linux_live.meta'' \<mapsto> ''commit='' @ trim commit @ [CHR 0x0A])"
proof -
  from assms obtain answer s1 status outputs s2 s3 where
    cargo: "run_process h (cargo_test root) s = (Inr answer, s1)"
    and status: "process_exit answer = Inr status" "exit_code status = Some 0"
    and outputs: "collect_results (map (map_ok executable) (cargo_messages h (process_stdout answer))) = Inr outputs"
    and paths: "List.map_filter (\<lambda>x. x) outputs \<noteq> []"
    and prepared: "on_disk (plain_op (machine_of h) CreateDirectory) s1 = (Inr (), s2)"
    and copied: "on_disk (fs_copy (machine_of h) (last (List.map_filter (\<lambda>x. x) outputs)) (path_join cache ''bin/linux_live'')) s2
      = (Inr (), s3)"
    and recorded: "record_binary h root cache s3 = (Inr (), s')"
    and destination: "destination = path_join cache ''bin/linux_live''"
    by (auto simp: build_binary_def Let_def step_simps with_context_def ensure_simps exit_success_def ok_or_else_def
        BINARY_PATH_def split: if_splits)
  obtain reported where reported: "cargo_messages h (process_stdout answer) = map Inr reported" "outputs = map executable reported"
    using collected [OF outputs] by blast
  let ?path = "last (List.map_filter (\<lambda>x. x) outputs)"
  from cargo obtain left where s1: "s1 = s\<lparr>disk := (next_tick (disk s))\<lparr>files := left\<rparr>,
      started := \<lparr>ran_invocation = cargo_test root, ran_found = files (disk s), ran_result = Inr answer, ran_left = left\<rparr> # started s\<rparr>"
    by (auto simp: run_process_Inr)
  from prepared have s2: "files (disk s2) = left" "started s2 = started s1"
    by (auto simp: s1 on_disk_Inr plain_op_def fs_op_ok)
  from copied have s3: "left ?path \<noteq> None" "files (disk s3) = left(destination := left ?path)" "started s3 = started s1"
    by (auto simp: s2 on_disk_Inr fs_copy_def fs_op_ok destination split: option.splits)
  from record_binary_Inr [OF recorded] obtain git revision commit where git: "started s' = git # started s3"
    "ran_invocation git = git_head root" "ran_found git = files (disk s3)"
    "ran_result git = Inr revision" "utf8 h (process_stdout revision) = Inr commit"
    "files (disk s') = (ran_left git)(path_join cache ''bin/linux_live.meta'' \<mapsto> ''commit='' @ trim commit @ [CHR 0x0A])"
    by blast
  have "\<exists>earlier. List.map_filter (\<lambda>x. x) outputs = earlier @ [?path]"
    using paths by (metis append_butlast_last_id)
  with executables [of reported] git s3 status reported destination show ?thesis
    by (intro exI [of _ "\<lparr>ran_invocation = cargo_test root, ran_found = files (disk s), ran_result = Inr answer, ran_left = left\<rparr>"]
        exI [of _ answer] exI [of _ status] exI [of _ reported] exI [of _ ?path] exI [of _ git]
        exI [of _ revision] exI [of _ commit]) (simp add: s1)
qed

section \<open>Every selected kernel is booted, in order\<close>

lemma image_result:
  assumes "image m fixture cache w = (Inr path, w')"
  shows "path = path_join cache (''bzImage-v'' @ kernel_name fixture @ ''-archlinux'')" "files w' path \<noteq> None"
proof -
  let ?destination = "path_join cache (image_name fixture)"
  have "path = ?destination \<and> files w' ?destination \<noteq> None"
    using image_steps [OF assms] by (auto dest: image_fetch_ok simp: image_name_def)
  then show "path = path_join cache (''bzImage-v'' @ kernel_name fixture @ ''-archlinux'')" "files w' path \<noteq> None"
    by (simp_all add: image_name_def)
qed

text \<open>The code a process ended with, if it was started and not killed.\<close>

definition ran_code :: "Ran \<Rightarrow> nat option" where
  "ran_code r =
     (case ran_result r of
        Inr answer \<Rightarrow> (case process_exit answer of Inr status \<Rightarrow> exit_code status | Inl _ \<Rightarrow> None)
      | Inl _ \<Rightarrow> None)"

text \<open>The boot of a kernel: its configuration, which names the kernel's image, and the image were there.\<close>

definition boots :: "host \<Rightarrow> string \<Rightarrow> Kernel \<Rightarrow> Ran \<Rightarrow> bool" where
  "boots h cache fixture r \<longleftrightarrow>
     (let config = path_join cache ''vmtest.toml'';
          kernel_image = path_join (path_join cache ''kernels'') (''bzImage-v'' @ kernel_name fixture @ ''-archlinux'')
      in ran_invocation r = vmtest_boot h config \<and> ran_found r kernel_image \<noteq> None
       \<and> (\<exists>kernel_path. json_string h (lossy h kernel_image) = Inr kernel_path
           \<and> ran_found r config = Some (vmtest_config fixture kernel_path)))"

lemma config_not_image: "path_join cache ''vmtest.toml'' \<noteq> path_join (path_join cache ''kernels'') (CHR ''b'' # name)"
  by (simp add: path_join_def is_absolute_def)

lemma fs_write_Inr: "fs_write m path contents w = (Inr u, w') \<Longrightarrow> files w' = (files w)(path \<mapsto> contents)"
  by (auto simp: fs_write_def fs_op_ok)

lemma status_of_cases:
  assumes "status_of h invocation s = (result, s')"
  obtains r where "started s' = r # started s" "ran_invocation r = invocation" "ran_found r = files (disk s)"
    "ran_code r = (case result of Inr status \<Rightarrow> exit_code status | Inl _ \<Rightarrow> None)"
proof -
  obtain answer left where answer: "host_process h (tick (disk s)) invocation (files (disk s)) = (answer, left)" by fastforce
  show ?thesis
    using assms answer
    by (intro that [of "\<lparr>ran_invocation = invocation, ran_found = files (disk s), ran_result = answer, ran_left = left\<rparr>"])
      (auto simp: status_of_def then_io_def run_process_def return_io_def ran_code_def split: sum.splits)
qed

lemma run_kernel_cases:
  assumes "run_kernel h cache fixture kernel_image s = (result, s')"
    and "kernel_image = path_join (path_join cache ''kernels'') (''bzImage-v'' @ kernel_name fixture @ ''-archlinux'')"
    and "files (disk s) kernel_image \<noteq> None"
  obtains (early) e where "result = Inl (Stopped e)" "started s' = started s"
    | (booted) r e where "started s' = r # started s" "boots h cache fixture r"
      "result = (case ran_code r of Some code \<Rightarrow> if code = 0 then Inr () else Inl (Exited code) | None \<Rightarrow> Inl (Stopped e))"
proof -
  let ?config = "path_join cache ''vmtest.toml''"
  let ?start = "with_context ''failed to start vmtest (enter devenv shell first)'' (status_of h (vmtest_boot h ?config))"
  show ?thesis
  proof (cases "json_string h (lossy h kernel_image)")
    case (Inl e)
    with assms(1) show ?thesis
      by (auto simp: run_kernel_def Let_def then_io_def map_err_io_def return_io_def intro: early)
  next
    case (Inr kernel_path)
    obtain wrote s1 where wrote:
      "on_disk (fs_write (machine_of h) ?config (vmtest_config fixture kernel_path)) s = (wrote, s1)" by fastforce
    have run: "then_io (map_err_io Stopped (then_io (\<lambda>s. (wrote, s1)) (\<lambda>_. ?start))) (\<lambda>status. return_io (boot_result status)) s
        = (result, s')"
      using assms(1) wrote
      by (simp add: run_kernel_def Let_def Inr CONFIG_FILE_NAME_def then_io_def map_err_io_def)
    show ?thesis
    proof (cases wrote)
      case (Inl e)
      with run ran_on_disk [OF wrote] show ?thesis
        by (auto simp: then_io_def map_err_io_def intro: early)
    next
      case w: (Inr u)
      obtain status s2 where status: "status_of h (vmtest_boot h ?config) s1 = (status, s2)" by fastforce
      from status_of_cases [OF status] obtain r where r: "started s2 = r # started s1" "ran_invocation r = vmtest_boot h ?config"
        "ran_found r = files (disk s1)" "ran_code r = (case status of Inr status \<Rightarrow> exit_code status | Inl _ \<Rightarrow> None)"
        by blast
      from wrote have found: "files (disk s1) = (files (disk s))(?config \<mapsto> vmtest_config fixture kernel_path)"
        unfolding w by (auto simp: on_disk_Inr dest: fs_write_Inr)
      have "boots h cache fixture r"
        using r(2,3) found Inr assms(2,3) config_not_image by (simp add: boots_def)
      moreover have "s2 = s'" "\<exists>e. result = (case ran_code r of Some code \<Rightarrow> if code = 0 then Inr () else Inl (Exited code)
          | None \<Rightarrow> Inl (Stopped e))"
        using run status r(4)
        by (auto simp: w then_io_def map_err_io_def with_context_def return_io_def boot_result_def
            split: sum.splits option.splits)
      ultimately show ?thesis using booted r(1) ran_on_disk [OF wrote] by metis
    qed
  qed
qed

text \<open>How the boots of some kernels can have gone when the program ends with a result.\<close>

definition boots_end :: "Kernel list \<Rightarrow> Ran list \<Rightarrow> Stop + unit \<Rightarrow> bool" where
  "boots_end fixtures rs result \<longleftrightarrow>
     length rs \<le> length fixtures \<and> (\<forall>r\<in>set (butlast rs). ran_code r = Some 0)
     \<and> (case result of
          Inr _ \<Rightarrow> length rs = length fixtures \<and> (\<forall>r\<in>set rs. ran_code r = Some 0)
        | Inl (Exited code) \<Rightarrow> rs \<noteq> [] \<and> code \<noteq> 0 \<and> ran_code (last rs) = Some code
        | Inl (Stopped _) \<Rightarrow> rs \<noteq> [] \<and> ran_code (last rs) = None
            \<or> length rs < length fixtures \<and> (\<forall>r\<in>set rs. ran_code r = Some 0))"

lemma run_kernels_boots:
  assumes "run_kernels h cache fixtures s = (result, s')"
  shows "\<exists>rs. started s' = rev rs @ started s \<and> list_all2 (boots h cache) (take (length rs) fixtures) rs
    \<and> boots_end fixtures rs result"
  using assms
proof (induction fixtures arbitrary: s)
  case Nil
  then show ?case by (simp add: return_io_eq boots_end_def)
next
  case (Cons fixture fixtures)
  obtain fetched s1 where fetched: "on_disk (image (machine_of h) fixture (path_join cache ''kernels'')) s = (fetched, s1)"
    by fastforce
  have ran1: "started s1 = started s" using fetched by (rule ran_on_disk)
  show ?case
  proof (cases fetched)
    case (Inl e)
    with Cons.prems fetched ran1 show ?thesis
      by (intro exI [of _ "[]"]) (auto simp: then_io_def map_err_io_def boots_end_def)
  next
    case (Inr path)
    with fetched have "path = path_join (path_join cache ''kernels'') (''bzImage-v'' @ kernel_name fixture @ ''-archlinux'')"
      "files (disk s1) path \<noteq> None"
      by (auto simp: on_disk_Inr dest: image_result)
    note image = this
    obtain booted s2 where booted: "run_kernel h cache fixture path s1 = (booted, s2)" by fastforce
    from Cons.prems have rest: "then_io (\<lambda>s. (booted, s2)) (\<lambda>_. run_kernels h cache fixtures) s1 = (result, s')"
      using fetched booted Inr by (simp add: then_io_def map_err_io_def)
    from booted image show ?thesis
    proof (cases rule: run_kernel_cases)
      case (early e)
      with rest ran1 show ?thesis by (intro exI [of _ "[]"]) (auto simp: then_io_def boots_end_def)
    next
      case (booted r e)
      show ?thesis
      proof (cases "ran_code r = Some 0")
        case True
        with booted rest have "run_kernels h cache fixtures s2 = (result, s')" by (simp add: then_io_def)
        from Cons.IH [OF this] obtain rs where rs: "started s' = rev rs @ started s2"
          "list_all2 (boots h cache) (take (length rs) fixtures) rs" "boots_end fixtures rs result" by blast
        with booted(1,2) ran1 True show ?thesis
          by (intro exI [of _ "r # rs"]) (auto simp: boots_end_def split: sum.splits Stop.splits)
      next
        case False
        with booted rest ran1 show ?thesis
          by (intro exI [of _ "[r]"]) (auto simp: then_io_def boots_end_def split: option.splits)
      qed
    qed
  qed
qed

lemma repository_ran: "repository h s = (r, s') \<Longrightarrow> started s' = started s"
  using keepsD [OF keeps_repository logged_refl, of h s r s' "\<lambda>_. False"] by (auto simp: logged_def)

lemma repository_root: "repository h s = (Inr root, s') \<Longrightarrow> \<exists>path. canonical h path = Inr root"
  by (auto simp: repository_def step_simps)

text \<open>What comes before the first boot; a request that names no kernel or an unknown one ends it at once.\<close>

definition prelude_of :: "host \<Rightarrow> Vmtest \<Rightarrow> string \<Rightarrow> (Desk, AnyhowError, unit) io" where
  "prelude_of h v root =
     then_io (ensure (host_os h = ''linux'' \<and> host_arch h = ''x86_64'') (Failure ''vmtest requires an x86-64 Linux host'')) (\<lambda>_.
     then_io (ensure (selected_kernels v \<noteq> []) (Failure ''no kernel fixtures matched the request'')) (\<lambda>_.
     then_io (ensure (list_all (\<lambda>name. list_ex (\<lambda>fixture. kernel_name fixture = name) Kernel_ALL) (requested v))
       (Failure ''unknown kernel fixture requested'')) (\<lambda>_.
     then_io (on_disk (plain_op (machine_of h) CreateDirectory)) (\<lambda>_.
     stage_binary h v root (path_join root CACHE_DIRECTORY)))))"

lemma Vmtest_run_linux:
  "host_os h = ''linux'' \<Longrightarrow> Vmtest_run h v =
     then_io (map_err_io Stopped (repository h)) (\<lambda>root.
     then_io (map_err_io Stopped (prelude_of h v root)) (\<lambda>_.
     run_kernels h (path_join root CACHE_DIRECTORY) (selected_kernels v)))"
  by (simp add: Vmtest_run_def prelude_of_def Let_def)

text \<open>A request is well-formed when it names no kernels or only known ones.\<close>

definition known_request :: "Vmtest \<Rightarrow> bool" where
  "known_request v \<longleftrightarrow> set (requested v) \<subseteq> kernel_name ` set Kernel_ALL"

lemma known_request_code:
  "list_all (\<lambda>name. list_ex (\<lambda>fixture. kernel_name fixture = name) Kernel_ALL) (requested v) \<longleftrightarrow> known_request v"
  by (auto simp: list_all_iff list_ex_iff known_request_def)

lemma selected_kernels_eq:
  "selected_kernels v = [fixture \<leftarrow> Kernel_ALL. if requested v = [] then profile v = Full \<or> kernel_smoke fixture
     else kernel_name fixture \<in> set (requested v)]"
proof -
  have "Profile_matches p fixture \<longleftrightarrow> p = Full \<or> kernel_smoke fixture" for p fixture by (cases p) simp_all
  then show ?thesis by (auto simp: selected_kernels_def list_ex_iff intro: filter_cong)
qed

lemma selected_kernels_some: "known_request v \<Longrightarrow> selected_kernels v \<noteq> []"
proof (cases "requested v")
  case Nil
  then show ?thesis by (simp add: selected_kernels_eq Kernel_ALL_def Kernel_new_def)
next
  case (Cons name names)
  moreover assume "known_request v"
  ultimately show ?thesis by (auto simp: selected_kernels_eq filter_empty_conv known_request_def)
qed

definition only_prepares :: "Invocation \<Rightarrow> bool" where
  "only_prepares invocation \<longleftrightarrow> run_program invocation = ''cargo'' \<or> run_program invocation = ''git''"

lemma prelude_of_ran:
  assumes "prelude_of h v root s = (result, s')"
  shows "\<exists>recent. started s' = recent @ started s \<and> (\<forall>r\<in>set recent. only_prepares (ran_invocation r))
    \<and> (recent \<noteq> [] \<or> result = Inr () \<longrightarrow> known_request v)"
proof (cases "known_request v \<and> selected_kernels v \<noteq> []")
  case True
  have "keeps (logged only_prepares (started s)) (prelude_of h v root)"
    unfolding prelude_of_def
    by (intro keeps_then keeps_stage_binary) (simp_all add: only_prepares_def git_head_def cargo_test_def)
  from keepsD [OF this logged_refl assms] True show ?thesis by (auto simp: logged_def)
next
  case False
  then have "s' = s \<and> result \<noteq> Inr ()"
    using assms unfolding prelude_of_def known_request_code by (auto simp: then_io_ensure split: if_splits)
  then show ?thesis by (intro exI [of _ "[]"]) simp
qed

text \<open>C16: On an x86-64 Linux host every requested kernel is booted, once each and in the order of the
  matrix, until one fails: each boot finds the kernel's image and a configuration that names it. The
  run succeeds only if the request names known kernels and every boot ended with code 0; it exits
  with a code exactly when that is the code of the last boot, and no kernel boots after one
  that failed. An unknown name is refused before any process starts.\<close>

theorem Vmtest_run_correct:
  assumes "Vmtest_run h v s = (result, s')" "host_os h = ''linux''" "host_arch h = ''x86_64''"
  defines "fixtures \<equiv> [fixture \<leftarrow> Kernel_ALL. if requested v = [] then profile v = Full \<or> kernel_smoke fixture
     else kernel_name fixture \<in> set (requested v)]"
  shows "\<exists>rs prepared. started s' = rev rs @ prepared @ started s
    \<and> (\<forall>r\<in>set prepared. only_prepares (ran_invocation r))
    \<and> (if known_request v
       then (\<exists>path root. canonical h path = Inr root
               \<and> list_all2 (boots h (path_join root ''tests/.cache/sakai-vmtest'')) (take (length rs) fixtures) rs
               \<and> boots_end fixtures rs result)
          \<or> rs = [] \<and> (\<exists>e. result = Inl (Stopped e))
       else rs = [] \<and> prepared = [] \<and> (\<exists>e. result = Inl (Stopped e)))"
proof -
  obtain found s1 where found: "repository h s = (found, s1)" by fastforce
  have ran1: "started s1 = started s" using found by (rule repository_ran)
  show ?thesis
  proof (cases found)
    case (Inl e)
    with assms(1) found ran1 show ?thesis
      by (intro exI [of _ "[]"]) (auto simp: Vmtest_run_linux [OF assms(2)] then_io_def map_err_io_def)
  next
    case (Inr root)
    obtain ready s2 where ready: "prelude_of h v root s1 = (ready, s2)" by fastforce
    from prelude_of_ran [OF ready] obtain recent where recent: "started s2 = recent @ started s"
      "\<forall>r\<in>set recent. only_prepares (ran_invocation r)" "recent \<noteq> [] \<or> ready = Inr () \<longrightarrow> known_request v"
      unfolding ran1 by blast
    have run: "then_io (map_err_io Stopped (\<lambda>s. (ready, s2)))
        (\<lambda>_. run_kernels h (path_join root CACHE_DIRECTORY) (selected_kernels v)) s1 = (result, s')"
      using assms(1) found ready Inr by (simp add: Vmtest_run_linux [OF assms(2)] then_io_def map_err_io_def)
    show ?thesis
    proof (cases ready)
      case (Inl e)
      with run recent show ?thesis
        by (intro exI [of _ "[]"] exI [of _ recent]) (auto simp: then_io_def map_err_io_def)
    next
      case ok: (Inr u)
      with run have "run_kernels h (path_join root CACHE_DIRECTORY) fixtures s2 = (result, s')"
        by (simp add: then_io_def map_err_io_def fixtures_def selected_kernels_eq)
      from run_kernels_boots [OF this] obtain rs where "started s' = rev rs @ started s2"
        "list_all2 (boots h (path_join root CACHE_DIRECTORY)) (take (length rs) fixtures) rs"
        "boots_end fixtures rs result" by blast
      with recent ok repository_root [of h s root s1] found Inr show ?thesis
        by (intro exI [of _ rs] exI [of _ recent]) (auto simp: CACHE_DIRECTORY_def)
    qed
  qed
qed

text \<open>A run on macOS that succeeds has built the container's image and run the request in it.\<close>

lemma run_in_container_Inr:
  assumes "run_in_container h v root s = (Inr u, s')"
  shows "test_binary v = None \<and> (\<exists>engine s1 rust_version vmtest_url build run. container_engine h s = (Inr engine, s1)
    \<and> env_string h ''SAKAI_VMTEST_RUST_VERSION'' = Inr rust_version \<and> env_string h ''SAKAI_VMTEST_URL'' = Inr vmtest_url
    \<and> started s' = run # build # started s1
    \<and> ran_invocation build = image_build h engine root rust_version vmtest_url \<and> ran_code build = Some 0
    \<and> ran_invocation run = container_run h engine root v \<and> ran_code run = Some 0)"
proof -
  from assms obtain engine s1 rust_version vmtest_url where
    start: "test_binary v = None" "container_engine h s = (Inr engine, s1)"
      "env_string h ''SAKAI_VMTEST_RUST_VERSION'' = Inr rust_version" "env_string h ''SAKAI_VMTEST_URL'' = Inr vmtest_url"
    and rest: "then_io (with_context (''failed to build vmtest image with '' @ shown h engine)
         (status_of h (image_build h engine root rust_version vmtest_url))) (\<lambda>status.
       then_io (ensure (exit_success status) (Failure (''vmtest image build failed: '' @ exit_shown status))) (\<lambda>_.
       then_io (with_context (''failed to run vmtest image with '' @ shown h engine)
         (status_of h (container_run h engine root v))) (\<lambda>status.
       ensure (exit_success status) (Failure (''containerized vmtest failed: '' @ exit_shown status))))) s1 = (Inr u, s')"
    unfolding run_in_container_def then_io_Inr [of "ensure (test_binary v = None) _"] then_io_Inr [of "container_engine h"]
      then_io_Inr [of "with_context _ (return_io _)"]
    by (auto simp: ensure_Inr with_context_def map_err_io_Inr return_io_Inr)
  from rest obtain status s2 status' where
    build: "status_of h (image_build h engine root rust_version vmtest_url) s1 = (Inr status, s2)" "exit_code status = Some 0"
    and run: "status_of h (container_run h engine root v) s2 = (Inr status', s')" "exit_code status' = Some 0"
    by (auto simp: then_io_Inr with_context_def map_err_io_Inr ensure_Inr exit_success_def)
  from status_of_cases [OF build(1)] status_of_cases [OF run(1)] start build(2) run(2) show ?thesis
    by (metis sum.case(2))
qed

section \<open>Instances\<close>

text \<open>A repository in which Cargo builds the executable and every kernel passes.\<close>

definition demo_process :: "nat \<Rightarrow> Invocation \<Rightarrow> (string \<rightharpoonup> string) \<Rightarrow> (AnyhowError + Finished) \<times> (string \<rightharpoonup> string)" where
  "demo_process step invocation f =
     (Inr \<lparr>process_exit = Inr \<lparr>exit_code = Some 0, exit_shown = ''exit status: 0''\<rparr>, process_stdout = ''c0ffee''\<rparr>,
      if run_program invocation = ''cargo'' then f(''/repo/target/linux_live'' \<mapsto> ''ELF'') else f)"

definition demo_host :: host where
  "demo_host =
     \<lparr>machine_of = demo_machine, host_os = ''linux'', host_arch = ''x86_64'', host_variable = (\<lambda>name. None),
      working_directory = Inr ''/repo/sakai'', canonical = Inr, host_process = demo_process,
      utf8 = Inr, lossy = (\<lambda>s. s), shown = (\<lambda>s. s), json_string = Inr, json_strings = (\<lambda>names. Inr (concat names)),
      cargo_messages = (\<lambda>out. [Inr (CompilerMessage None),
        Inr (CompilerArtifact ''linux_live'' [TestTarget] (Some ''/repo/target/linux_live'')), Inr AnotherMessage])\<rparr>"

definition demo_request :: Vmtest where
  "demo_request = \<lparr>profile = Smoke, requested = [''6.18''], test_binary = None\<rparr>"

definition demo_desk :: Desk where
  "demo_desk = \<lparr>disk = \<lparr>files = [''/repo/xtask/Cargo.toml'' \<mapsto> '''', ''/repo/sakai/Cargo.toml'' \<mapsto> ''''],
     tick = 5, pauses = []\<rparr>, started = [], printed = []\<rparr>"

lemma demo_build: "fst (build_binary demo_host ''/repo'' ''/cache'' demo_desk) = Inr ''/cache/bin/linux_live''"
  by code_simp

lemma demo_vmtest:
  "(case Vmtest_run demo_host demo_request demo_desk of (result, s') \<Rightarrow>
      (result, map (run_program \<circ> ran_invocation) (started s'))) = (Inr (), [''timeout'', ''git'', ''cargo''])"
  by code_simp

theorem build_binary_correct_witness:
  "\<exists>s' (cargo :: Ran) path. build_binary demo_host ''/repo'' ''/cache'' demo_desk = (Inr ''/cache/bin/linux_live'', s')
     \<and> ran_invocation cargo = cargo_test ''/repo'' \<and> ran_left cargo path \<noteq> None"
proof -
  obtain s' where run: "build_binary demo_host ''/repo'' ''/cache'' demo_desk = (Inr ''/cache/bin/linux_live'', s')"
    using demo_build by (metis prod.collapse)
  from build_binary_correct [OF this] obtain cargo :: Ran and path where
    "ran_invocation cargo = cargo_test ''/repo''" "ran_left cargo path \<noteq> None"
    by (elim exE conjE) (rule that)
  with run show ?thesis by blast
qed

lemma demo_selected:
  "[fixture \<leftarrow> Kernel_ALL. if requested demo_request = [] then profile demo_request = Full \<or> kernel_smoke fixture
     else kernel_name fixture \<in> set (requested demo_request)] = [Kernel_new ''6.18'' True]"
  by (simp add: demo_request_def Kernel_ALL_def Kernel_new_def)

theorem Vmtest_run_correct_witness:
  "\<exists>s' r root. Vmtest_run demo_host demo_request demo_desk = (Inr (), s') \<and> r \<in> set (started s')
     \<and> boots demo_host (path_join root ''tests/.cache/sakai-vmtest'') (Kernel_new ''6.18'' True) r \<and> ran_code r = Some 0"
proof -
  obtain s' where run: "Vmtest_run demo_host demo_request demo_desk = (Inr (), s')"
    using demo_vmtest by (auto split: prod.splits)
  have host: "host_os demo_host = ''linux''" "host_arch demo_host = ''x86_64''" by (simp_all add: demo_host_def)
  have known: "known_request demo_request"
    by (simp add: known_request_def demo_request_def Kernel_ALL_def Kernel_new_def)
  from Vmtest_run_correct [OF run host] known obtain rs prepared root where
    "started s' = rev rs @ prepared @ started demo_desk"
    "list_all2 (boots demo_host (path_join root ''tests/.cache/sakai-vmtest'')) (take (length rs) [Kernel_new ''6.18'' True]) rs"
    "boots_end [Kernel_new ''6.18'' True] rs (Inr ())"
    unfolding demo_selected by auto
  moreover from this(3) obtain r where "rs = [r]" by (auto simp: boots_end_def length_Suc_conv)
  ultimately have "r \<in> set (started s') \<and> ran_code r = Some 0
      \<and> boots demo_host (path_join root ''tests/.cache/sakai-vmtest'') (Kernel_new ''6.18'' True) r"
    by (simp add: boots_end_def)
  with run show ?thesis by blast
qed

end
