(* ===== verification/Rust_Float.thy ===== *)
theory Rust_Float
  imports Complex_Main Rust_Int
begin

text \<open>
  \<open>f64\<close> as far as the parsers use it: \<open>str::parse::<f64>()\<close> (the grammar of the standard
  library, correctly rounded to binary64), comparison, the conversion of a \<open>u64\<close> and
  division. A finite value is its sign and its exact magnitude, a rational number, so \<open>-0.0\<close>
  is distinct from \<open>0.0\<close> and compares equal to it.
\<close>

datatype f64 = NaN | Infinite bool | Finite bool rat

datatype FloatErrorKind = EmptyFloat | InvalidFloat

fun f64_value :: "f64 \<Rightarrow> rat option" where
  "f64_value (Finite neg m) = Some (if neg then - m else m)"
| "f64_value _ = None"

text \<open>IEEE comparison: false whenever an operand is NaN.\<close>

fun f64_le :: "f64 \<Rightarrow> f64 \<Rightarrow> bool" where
  "f64_le NaN y = False"
| "f64_le x NaN = False"
| "f64_le (Infinite neg) y = (neg \<or> y = Infinite False)"
| "f64_le x (Infinite neg) = (\<not> neg)"
| "f64_le (Finite s m) (Finite t n) = ((if s then - m else m) \<le> (if t then - n else n))"

fun is_finite :: "f64 \<Rightarrow> bool" where
  "is_finite (Finite neg m) = True"
| "is_finite _ = False"

section \<open>Rounding\<close>

text \<open>The largest \<open>k\<close> with \<open>2 ^ k \<le> n\<close>, for positive \<open>n\<close>.\<close>

fun log2_nat :: "nat \<Rightarrow> nat" where
  "log2_nat n = (if n < 2 then 0 else Suc (log2_nat (n div 2)))"

declare log2_nat.simps [simp del]

definition pow2 :: "int \<Rightarrow> rat" where
  "pow2 e = (if 0 \<le> e then 2 ^ nat e else 1 / 2 ^ nat (- e))"

text \<open>The binary exponent of a positive rational \<open>a / b\<close>: the largest \<open>k\<close> with \<open>2 ^ k \<le> a / b\<close>.\<close>

definition exponent :: "rat \<Rightarrow> int" where
  "exponent q =
     (let (a, b) = quotient_of q;
          k = int (log2_nat (nat a)) - int (log2_nat (nat b))
      in if pow2 k \<le> q then k else k - 1)"

definition round_half_even :: "rat \<Rightarrow> int" where
  "round_half_even q =
     (let n = \<lfloor>q\<rfloor>; r = q - of_int n
      in if r < 1 / 2 then n else if 1 / 2 < r then n + 1 else if even n then n else n + 1)"

text \<open>
  The nearest binary64 value, ties to even: 53 bits of significand, exponent of the last bit at
  least -1074, infinity from \<open>2 ^ 1024\<close> on.
\<close>

definition round_f64 :: "bool \<Rightarrow> rat \<Rightarrow> f64" where
  "round_f64 neg q =
     (if q = 0 then Finite neg 0
      else let e = max (- 1074) (exponent q - 52);
               m = of_int (round_half_even (q / pow2 e)) * pow2 e
           in if 2 ^ 1024 \<le> m then Infinite neg else Finite neg m)"

text \<open>\<open>n as f64\<close> for a \<open>u64\<close>, and the division of two finite positive values.\<close>

definition f64_of_u64 :: "u64 \<Rightarrow> f64" where
  "f64_of_u64 n = round_f64 False (of_nat (unat n))"

fun f64_div_pos :: "f64 \<Rightarrow> f64 \<Rightarrow> f64" where
  "f64_div_pos (Finite s m) (Finite t n) =
     (if n = 0 then (if m = 0 then NaN else Infinite (s \<noteq> t)) else round_f64 (s \<noteq> t) (m / n))"
| "f64_div_pos _ _ = NaN"

section \<open>The grammar\<close>

text \<open>The exponent digits saturate once the accumulated value has reached 65536.\<close>

fun exponent_digits :: "int \<Rightarrow> string \<Rightarrow> int" where
  "exponent_digits acc [] = acc"
| "exponent_digits acc (c # cs) =
     exponent_digits (if acc < 65536 then 10 * acc + int (the (to_digit c)) else acc) cs"

definition parse_scientific :: "string \<Rightarrow> int option" where
  "parse_scientific s =
     (let neg = (s \<noteq> [] \<and> hd s = CHR ''-'');
          ds = (if s \<noteq> [] \<and> (hd s = CHR ''-'' \<or> hd s = CHR ''+'') then tl s else s)
      in if ds = [] \<or> \<not> all_digits ds then None
         else Some (if neg then - exponent_digits 0 ds else exponent_digits 0 ds))"

definition pow10 :: "int \<Rightarrow> rat" where
  "pow10 e = (if 0 \<le> e then 10 ^ nat e else 1 / 10 ^ nat (- e))"

text \<open>The exact value of \<open>Digit+\<close>, \<open>Digit+ . Digit*\<close> or \<open>Digit* . Digit+\<close> with an optional exponent.\<close>

definition parse_number :: "string \<Rightarrow> rat option" where
  "parse_number s =
     (let ip = takeWhile is_ascii_digit s;
          r = dropWhile is_ascii_digit s;
          dot = (r \<noteq> [] \<and> hd r = CHR ''.'');
          fp = (if dot then takeWhile is_ascii_digit (tl r) else []);
          r' = (if dot then dropWhile is_ascii_digit (tl r) else r);
          m = of_nat (digits_value 0 (ip @ fp))
      in if ip @ fp = [] then None
         else if r' = [] then Some (m * pow10 (- int (length fp)))
         else if hd r' = CHR ''e'' \<or> hd r' = CHR ''E''
         then map_option (\<lambda>e. m * pow10 (e - int (length fp))) (parse_scientific (tl r'))
         else None)"

definition to_ascii_lowercase :: "char \<Rightarrow> char" where
  "to_ascii_lowercase c =
     (let n = of_char c in if (65::nat) \<le> n \<and> n \<le> 90 then char_of (n + 32) else c)"

definition parse_inf_nan :: "string \<Rightarrow> bool \<Rightarrow> f64 option" where
  "parse_inf_nan s neg =
     (let l = map to_ascii_lowercase s
      in if l = ''inf'' \<or> l = ''infinity'' then Some (Infinite neg)
         else if l = ''nan'' then Some NaN else None)"

definition parse_f64 :: "string \<Rightarrow> FloatErrorKind + f64" where
  "parse_f64 s =
     (if s = [] then Inl EmptyFloat
      else let neg = (hd s = CHR ''-'');
               r = (if hd s = CHR ''-'' \<or> hd s = CHR ''+'' then tl s else s)
           in if r = [] then Inl InvalidFloat
              else (case parse_number r of
                  Some q \<Rightarrow> Inr (round_f64 neg q)
                | None \<Rightarrow> ok_or InvalidFloat (parse_inf_nan r neg)))"

section \<open>Rounding facts\<close>

lemma pow2_pos [simp]: "0 < pow2 e"
  by (simp add: pow2_def)

lemma round_half_even_le_of_int: "q \<le> of_int n \<Longrightarrow> round_half_even q \<le> n"
proof -
  assume q: "q \<le> of_int n"
  show ?thesis
  proof (cases "q = of_int n")
    case True
    then show ?thesis by (simp add: round_half_even_def)
  next
    case False
    with q have "\<lfloor>q\<rfloor> < n" by (simp add: floor_less_iff)
    then show ?thesis by (simp add: round_half_even_def Let_def)
  qed
qed

lemma round_half_even_ge_of_int: "of_int n \<le> q \<Longrightarrow> n \<le> round_half_even q"
proof -
  assume "of_int n \<le> q"
  then have "n \<le> \<lfloor>q\<rfloor>" by (simp add: le_floor_iff)
  then show ?thesis by (auto simp: round_half_even_def Let_def)
qed


lemma pow2_powi: "pow2 e = 2 powi e"
  by (simp add: pow2_def power_int_def field_simps)

lemma log2_nat_bounds: "0 < n \<Longrightarrow> 2 ^ log2_nat n \<le> n \<and> n < 2 ^ Suc (log2_nat n)"
proof (induction n rule: log2_nat.induct)
  case (1 n)
  show ?case
  proof (cases "n < 2")
    case True
    with 1 show ?thesis by (subst (1 2) log2_nat.simps) auto
  next
    case False
    with 1 have "2 ^ log2_nat (n div 2) \<le> n div 2 \<and> n div 2 < 2 ^ Suc (log2_nat (n div 2))" by simp
    moreover from False have "log2_nat n = Suc (log2_nat (n div 2))"
      by (subst log2_nat.simps) simp
    ultimately show ?thesis by auto
  qed
qed

text \<open>The exponent is the right one: the significand of \<open>q\<close> has one bit before the point.\<close>

lemma exponent_bounds:
  assumes "0 < q"
  shows "pow2 (exponent q) \<le> q" "q < pow2 (exponent q + 1)"
proof -
  obtain a b where ab: "quotient_of q = (a, b)" by (cases "quotient_of q")
  then have b: "0 < b" by (simp add: quotient_of_denom_pos)
  have q: "q = of_int a / of_int b" using ab by (rule quotient_of_div)
  with assms b have a: "0 < a" by (simp add: zero_less_divide_iff)
  let ?la = "log2_nat (nat a)" and ?lb = "log2_nat (nat b)"
  define k where "k = int ?la - int ?lb"
  have qa: "(of_int a :: rat) = of_nat (nat a)" and qb: "(of_int b :: rat) = of_nat (nat b)"
    using a b by simp_all
  have "2 ^ ?la \<le> nat a \<and> nat a < 2 ^ Suc ?la" "2 ^ ?lb \<le> nat b \<and> nat b < 2 ^ Suc ?lb"
    using log2_nat_bounds [of "nat a"] log2_nat_bounds [of "nat b"] a b by simp_all
  then have A: "(2::rat) ^ ?la \<le> of_int a" "of_int a < (2::rat) ^ Suc ?la"
    and B: "(2::rat) ^ ?lb \<le> of_int b" "of_int b < (2::rat) ^ Suc ?lb"
    unfolding qa qb by (metis of_nat_le_iff of_nat_less_iff of_nat_numeral of_nat_power)+
  have k: "pow2 k = 2 ^ ?la / 2 ^ ?lb"
    by (simp add: pow2_powi k_def power_int_diff)
  have "pow2 (k - 1) = 2 ^ ?la / 2 ^ Suc ?lb"
    using k by (simp add: pow2_powi power_int_diff)
  also have "\<dots> \<le> of_int a / of_int b"
    using A B a b by (intro frac_le) auto
  finally have low: "pow2 (k - 1) \<le> q" using q by simp
  have "of_int a / of_int b < (2::rat) ^ Suc ?la / 2 ^ ?lb"
    using A B a b by (intro frac_less) auto
  also have "\<dots> = pow2 (k + 1)"
    using k by (simp add: pow2_powi power_int_add)
  finally have high: "q < pow2 (k + 1)" using q by simp
  have e: "exponent q = (if pow2 k \<le> q then k else k - 1)"
    by (simp add: exponent_def ab k_def Let_def)
  show "pow2 (exponent q) \<le> q" using low by (simp add: e)
  show "q < pow2 (exponent q + 1)" using high by (simp add: e)
qed

text \<open>Rounding never crosses a small integer: the integer is itself a binary64 value.\<close>

lemma round_f64_between:
  assumes "of_nat l \<le> q" "q \<le> of_nat n" "n < 2 ^ 52"
  shows "\<exists>m. round_f64 neg q = Finite neg m \<and> of_nat l \<le> m \<and> m \<le> of_nat n"
proof (cases "q = 0")
  case True
  with assms show ?thesis by (simp add: round_f64_def)
next
  case False
  have "(0::rat) \<le> of_nat l" by simp
  with assms(1) False have q: "0 < q" by linarith
  define e where "e = max (- 1074) (exponent q - 52)"
  have "pow2 (exponent q) \<le> q" by (rule exponent_bounds(1) [OF q])
  also have "q < 2 ^ 52"
    using assms(2,3) by (metis le_less_trans of_nat_less_iff of_nat_numeral of_nat_power)
  finally have "pow2 (exponent q) < pow2 52" by (simp add: pow2_def)
  then have "exponent q < 52"
    using power_int_increasing [of 52 "exponent q" "2::rat"] by (force simp: pow2_powi)
  then have e0: "e \<le> 0" by (simp add: e_def)
  have N: "of_nat k / pow2 e = of_int (int k * 2 ^ nat (- e))" for k
    using e0 by (cases "e = 0") (auto simp: pow2_def)
  let ?r = "round_half_even (q / pow2 e)"
  have N': "of_int (int k * 2 ^ nat (- e)) * pow2 e = of_nat k" for k
    using N [of k] by (metis nonzero_eq_divide_eq pow2_pos less_irrefl)
  have "q / pow2 e \<le> of_nat n / pow2 e"
    using assms(2) by (intro divide_right_mono) (auto intro: less_imp_le)
  then have "?r \<le> int n * 2 ^ nat (- e)" unfolding N by (rule round_half_even_le_of_int)
  then have "(of_int ?r :: rat) * pow2 e \<le> of_int (int n * 2 ^ nat (- e)) * pow2 e"
    by (intro mult_right_mono) (auto intro: less_imp_le simp del: of_int_mult)
  then have upper: "(of_int ?r :: rat) * pow2 e \<le> of_nat n" unfolding N' .
  have "of_nat l / pow2 e \<le> q / pow2 e"
    using assms(1) by (intro divide_right_mono) (auto intro: less_imp_le)
  then have "int l * 2 ^ nat (- e) \<le> ?r" unfolding N by (rule round_half_even_ge_of_int)
  then have "of_int (int l * 2 ^ nat (- e)) * pow2 e \<le> (of_int ?r :: rat) * pow2 e"
    by (intro mult_right_mono) (auto intro: less_imp_le simp del: of_int_mult)
  then have lower: "of_nat l \<le> (of_int ?r :: rat) * pow2 e" unfolding N' .
  have "(of_nat n :: rat) < 2 ^ 52"
    using assms(3) by (metis of_nat_less_iff of_nat_numeral of_nat_power)
  also have "\<dots> \<le> 2 ^ 1024" by (rule power_increasing) auto
  finally have "\<not> 2 ^ 1024 \<le> (of_int ?r :: rat) * pow2 e" using upper by simp
  then have "round_f64 neg q = Finite neg (of_int ?r * pow2 e)"
    using False by (simp add: round_f64_def e_def Let_def)
  with upper lower show ?thesis by blast
qed

lemma round_f64_le_nat:
  assumes "0 \<le> q" "q \<le> of_nat n" "n < 2 ^ 52"
  shows "\<exists>m. round_f64 neg q = Finite neg m \<and> 0 \<le> m \<and> m \<le> of_nat n"
  using round_f64_between [of 0 q n neg] assms by simp

end
