(* ===== verification/Sakai_Error.thy ===== *)
theory Sakai_Error
  imports Rust_Float
begin

text \<open>
  \<open>sakai/src/error.rs\<close> and \<open>sakai/src/limit.rs\<close>: the parser errors, which carry the whole
  input, the field and the value that failed, and limits with the kernel's \<open>max\<close> token.
\<close>

datatype FieldKind = Missing | Excess

text \<open>\<open>Field kind raw field\<close> and \<open>Invalid raw field value source\<close>.\<close>

datatype 'e ParseError = Field FieldKind string string | Invalid string string string 'e

definition ParseError_missing :: "string \<Rightarrow> string \<Rightarrow> 'e ParseError" where
  "ParseError_missing raw field = Field Missing raw field"

definition ParseError_excess :: "string \<Rightarrow> 'e ParseError" where
  "ParseError_excess raw = Field Excess raw ''additional''"

definition ParseError_invalid :: "string \<Rightarrow> string \<Rightarrow> string \<Rightarrow> 'e \<Rightarrow> 'e ParseError" where
  "ParseError_invalid raw field value source = Invalid raw field value source"

lemmas ParseError_defs = ParseError_missing_def ParseError_excess_def ParseError_invalid_def

datatype ParseValueError = Integer IntErrorKind | Float FloatErrorKind | OutOfRange

text \<open>The result type of every parser of an interface file.\<close>

type_synonym 'a parsed = "ParseValueError ParseError + 'a"

text \<open>\<open>MaxOr::Max\<close> and \<open>MaxOr::Value\<close>.\<close>

datatype 'a MaxOr = MaxLimit | Value 'a

text \<open>The input every error of a parser reports.\<close>

fun error_raw :: "'e ParseError \<Rightarrow> string" where
  "error_raw (Field kind raw field) = raw"
| "error_raw (Invalid raw field value source) = raw"

lemma error_raw_constructors [simp]:
  "error_raw (ParseError_missing raw field) = raw"
  "error_raw (ParseError_excess raw) = raw"
  "error_raw (ParseError_invalid raw field value source) = raw"
  by (simp_all add: ParseError_defs)

end
