(* ===== verification/Sakai_Unit.thy ===== *)
theory Sakai_Unit
  imports Sakai_Error
begin

text \<open>
  \<open>sakai/src/unit.rs\<close>: the quantities. Each is a 64-bit value in one unit, and a type of its
  own, as the \<open>uom\<close> types are: \<open>Time_ns n\<close> is \<open>Time::new::<nanosecond>(n)\<close>, \<open>Bytes_byte n\<close> is
  \<open>Bytes::new::<byte>(n)\<close>, and so on. A ratio is recorded with the unit it was made from,
  \<open>Ratio_percent x\<close> for \<open>Ratio::new::<percent>(x)\<close>. The conversions of \<open>uom\<close> between units are
  not part of the repository; the one the code applies, \<open>get::<microsecond>\<close>, is an argument of
  the definition that uses it.
\<close>

datatype Time = Time_ns (nanosecond: u64)
datatype Bytes = Bytes_byte (byte: u64)
datatype Count = Count (count_value: u64)
datatype Pages = Pages (pages_value: u64)
datatype BytesPerSecond = Byte_per_second (byte_per_second: u64)
datatype OperationsPerSecond = Hertz (hertz: u64)
datatype Ratio = Ratio_percent f64 | Ratio_ratio f64

text \<open>The nutype \<open>NonZeroTime\<close>: \<open>try_new\<close> checks the predicate of its \<open>validate\<close> attribute.\<close>

datatype NonZeroTime = NonZeroTime (nonzero_inner: Time)

definition NonZeroTime_valid :: "Time \<Rightarrow> bool" where
  "NonZeroTime_valid time \<longleftrightarrow> nanosecond time \<noteq> 0"

definition NonZeroTime_try_new :: "Time \<Rightarrow> NonZeroTime option" where
  "NonZeroTime_try_new time = (if NonZeroTime_valid time then Some (NonZeroTime time) else None)"

lemma NonZeroTime_try_new_Some_iff:
  "NonZeroTime_try_new t = Some z \<longleftrightarrow> NonZeroTime_valid t \<and> z = NonZeroTime t"
  by (auto simp: NonZeroTime_try_new_def)

end
