(* ===== verification/Sakai_Value.thy ===== *)
theory Sakai_Value
  imports Sakai_Unit
begin

text \<open>
  The trait \<open>ParseCgroup\<close> of \<open>sakai/src/parse/mod.rs\<close> and its implementations there. An
  implementation is a function from the text of a field to a value or a \<open>ParseValueError\<close>. The
  locales state what the callers rely on: the parsed value satisfies the type's validity
  (\<open>checked_value\<close>); the decimal text the kernel writes for a valid value is one token and
  parses back to it (\<open>cgroup_value\<close>); and that text is not the token \<open>max\<close>
  (\<open>numeric_value\<close>), which makes \<open>MaxOr\<close> of the value such a value again.
\<close>

section \<open>Implementations\<close>

text \<open>\<open>value.parse::<uN>()?\<close> where the error type is \<open>ParseValueError\<close>.\<close>

definition parse_uint :: "string \<Rightarrow> ParseValueError + 'a::len word" where
  "parse_uint value = map_err Integer (parse_u value)"

definition parse_int :: "string \<Rightarrow> ParseValueError + 'a::len word" where
  "parse_int value = map_err Integer (parse_i value)"

definition parse_float :: "string \<Rightarrow> ParseValueError + f64" where
  "parse_float value = map_err Float (parse_f64 value)"

definition parse_boolean :: "string \<Rightarrow> ParseValueError + bool" where
  "parse_boolean value = and_then (parse_uint value) (\<lambda>n :: u8.
     if n = 0 then Inr False else if n = 1 then Inr True else Inl OutOfRange)"

definition parse_count :: "string \<Rightarrow> ParseValueError + Count" where
  "parse_count value = map_ok Count (parse_uint value)"

definition parse_pages :: "string \<Rightarrow> ParseValueError + Pages" where
  "parse_pages value = map_ok Pages (parse_uint value)"

definition parse_bytes :: "string \<Rightarrow> ParseValueError + Bytes" where
  "parse_bytes value = map_ok Bytes_byte (parse_uint value)"

text \<open>The nutype \<open>Percent\<close>: \<open>finite, greater_or_equal = 0.0, less_or_equal = 100.0\<close>.\<close>

definition Percent_try_new :: "f64 \<Rightarrow> f64 option" where
  "Percent_try_new x =
     (if is_finite x \<and> f64_le (Finite False 0) x \<and> f64_le x (Finite False 100) then Some x else None)"

definition parse_percent :: "string \<Rightarrow> ParseValueError + Ratio" where
  "parse_percent value = and_then (parse_float value) (\<lambda>x.
     and_then (ok_or OutOfRange (Percent_try_new x)) (\<lambda>p. Inr (Ratio_percent p)))"

definition nanoseconds_per_microsecond :: u64 where
  "nanoseconds_per_microsecond = 1000"

definition parse_microseconds :: "string \<Rightarrow> ParseValueError + Time" where
  "parse_microseconds value = and_then (parse_uint value) (\<lambda>n.
     and_then (ok_or OutOfRange (checked_mul n nanoseconds_per_microsecond)) (\<lambda>ns.
       Inr (Time_ns ns)))"

definition parse_nonzero_microseconds :: "string \<Rightarrow> ParseValueError + NonZeroTime" where
  "parse_nonzero_microseconds value = and_then (parse_microseconds value) (\<lambda>time.
     ok_or OutOfRange (NonZeroTime_try_new time))"

definition parse_max_or :: "(string \<Rightarrow> ParseValueError + 'a) \<Rightarrow> string \<Rightarrow> ParseValueError + 'a MaxOr" where
  "parse_max_or parse value = (if value = ''max'' then Inr MaxLimit else map_ok Value (parse value))"

text \<open>\<open>ParseCgroup::parse_field\<close>, the same for every implementation.\<close>

definition parse_field ::
  "(string \<Rightarrow> ParseValueError + 'a) \<Rightarrow> string \<Rightarrow> string \<Rightarrow> string \<Rightarrow> 'a parsed" where
  "parse_field parse raw field value = map_err (ParseError_invalid raw field value) (parse value)"

section \<open>The interface of a parsed value\<close>

locale checked_value =
  fixes parse :: "string \<Rightarrow> ParseValueError + 'a"
    and valid :: "'a \<Rightarrow> bool"
  assumes parse_valid: "parse s = Inr v \<Longrightarrow> valid v"
begin

lemma field_valid: "parse_field parse raw field value = Inr v \<Longrightarrow> valid v"
  by (auto simp: parse_field_def result_simps intro: parse_valid)

end

locale cgroup_value = checked_value +
  fixes render :: "'a \<Rightarrow> string"
  assumes parse_render: "valid v \<Longrightarrow> parse (render v) = Inr v"
    and render_token: "valid v \<Longrightarrow> is_token (render v)"
begin

lemma field_render: "valid v \<Longrightarrow> parse_field parse raw field (render v) = Inr v"
  by (simp add: parse_field_def parse_render)

lemma render_inj: "valid v \<Longrightarrow> valid w \<Longrightarrow> render v = render w \<Longrightarrow> v = w"
  by (metis parse_render sum.inject(2))

end

locale numeric_value = cgroup_value +
  assumes render_not_max: "valid v \<Longrightarrow> render v \<noteq> ''max''"

fun valid_max_or :: "('a \<Rightarrow> bool) \<Rightarrow> 'a MaxOr \<Rightarrow> bool" where
  "valid_max_or valid MaxLimit = True"
| "valid_max_or valid (Value v) = valid v"

lemma valid_max_or_True [simp]: "valid_max_or (\<lambda>_. True) v"
  by (cases v) auto

fun render_max_or :: "('a \<Rightarrow> string) \<Rightarrow> 'a MaxOr \<Rightarrow> string" where
  "render_max_or render MaxLimit = ''max''"
| "render_max_or render (Value v) = render v"

lemma is_token_max [simp]: "is_token ''max''"
  by (simp add: is_token_def is_ascii_whitespace_def)

sublocale numeric_value \<subseteq> max_or: cgroup_value "parse_max_or parse" "valid_max_or valid" "render_max_or render"
proof unfold_locales
  fix s v
  assume "parse_max_or parse s = Inr v"
  then show "valid_max_or valid v"
    by (cases v) (auto simp: parse_max_or_def result_simps split: if_splits intro: parse_valid)
next
  fix v
  assume "valid_max_or valid v"
  then show "parse_max_or parse (render_max_or render v) = Inr v"
    by (cases v) (auto simp: parse_max_or_def parse_render dest: render_not_max)
next
  fix v
  assume "valid_max_or valid v"
  then show "is_token (render_max_or render v)"
    by (cases v) (auto simp: render_token)
qed


section \<open>The implementations satisfy it\<close>

lemma parse_uint_show_u [simp]: "parse_uint (show_u w) = Inr w"
  by (simp add: parse_uint_def)

lemma digits_not_max: "all_digits s \<Longrightarrow> s \<noteq> ''max''"
  by auto

lemma show_u_not_max [simp]: "show_u w \<noteq> ''max''"
  by (rule digits_not_max) simp

definition render_count :: "Count \<Rightarrow> string" where
  "render_count c = show_u (count_value c)"

definition render_pages :: "Pages \<Rightarrow> string" where
  "render_pages p = show_u (pages_value p)"

definition render_bytes :: "Bytes \<Rightarrow> string" where
  "render_bytes b = show_u (byte b)"

definition render_boolean :: "bool \<Rightarrow> string" where
  "render_boolean b = (if b then ''1'' else ''0'')"

text \<open>A time the kernel wrote in microseconds: a whole number of them.\<close>

definition valid_microseconds :: "Time \<Rightarrow> bool" where
  "valid_microseconds t \<longleftrightarrow> 1000 dvd unat (nanosecond t)"

definition render_microseconds :: "Time \<Rightarrow> string" where
  "render_microseconds t = show_nat (unat (nanosecond t) div 1000)"

definition valid_nonzero_microseconds :: "NonZeroTime \<Rightarrow> bool" where
  "valid_nonzero_microseconds z \<longleftrightarrow>
     valid_microseconds (nonzero_inner z) \<and> NonZeroTime_valid (nonzero_inner z)"

definition render_nonzero_microseconds :: "NonZeroTime \<Rightarrow> string" where
  "render_nonzero_microseconds z = render_microseconds (nonzero_inner z)"

definition valid_percent :: "Ratio \<Rightarrow> bool" where
  "valid_percent r \<longleftrightarrow> (\<exists>s m. r = Ratio_percent (Finite s m) \<and>
     0 \<le> (if s then - m else m) \<and> (if s then - m else m) \<le> 100)"

interpretation v_count: numeric_value parse_count "\<lambda>_. True" render_count
  by unfold_locales (auto simp: parse_count_def render_count_def)

interpretation v_pages: numeric_value parse_pages "\<lambda>_. True" render_pages
  by unfold_locales (auto simp: parse_pages_def render_pages_def)

interpretation v_bytes: numeric_value parse_bytes "\<lambda>_. True" render_bytes
  by unfold_locales (auto simp: parse_bytes_def render_bytes_def)

text \<open>\<open>parse_boolean\<close> reads the number, so it also accepts spellings such as \<open>+1\<close> and \<open>00\<close>.\<close>

lemma parse_uint_digit [simp]:
  "parse_uint ''0'' = Inr (0 :: u8)" "parse_uint ''1'' = Inr (1 :: u8)"
  by (simp_all add: parse_uint_def map_err_eq_Inr parse_u_Inr_iff unsign_def is_ascii_digit_def to_digit_def)

interpretation v_boolean: cgroup_value parse_boolean "\<lambda>_. True" render_boolean
  by unfold_locales
    (auto simp: parse_boolean_def render_boolean_def is_token_def is_ascii_whitespace_def)

text \<open>Microseconds become nanoseconds with a checked multiplication by 1000.\<close>

lemma parse_microseconds_Inr_iff:
  "parse_microseconds s = Inr t \<longleftrightarrow>
     (\<exists>n :: u64. parse_uint s = Inr n \<and> unat (nanosecond t) = 1000 * unat n)"
proof -
  have "unat nanoseconds_per_microsecond = 1000" by (simp add: nanoseconds_per_microsecond_def)
  moreover have "Time_ns a = t \<longleftrightarrow> a = nanosecond t" for a by (cases t) auto
  ultimately show ?thesis
    by (simp add: parse_microseconds_def result_simps checked_mul_Some_iff mult.commute)
qed

interpretation v_microseconds: numeric_value parse_microseconds valid_microseconds render_microseconds
proof unfold_locales
  fix s t
  assume "parse_microseconds s = Inr t"
  then show "valid_microseconds t" by (auto simp: parse_microseconds_Inr_iff valid_microseconds_def)
next
  fix t
  assume t: "valid_microseconds t"
  let ?u = "unat (nanosecond t) div 1000"
  have "unat (nanosecond t) < 2 ^ LENGTH(64)" by (rule unsigned_less)
  then have "unat (of_nat ?u :: u64) = ?u" by (intro of_nat_inverse) auto
  then have "parse_uint (render_microseconds t) = Inr (of_nat ?u :: u64)"
    by (simp add: parse_uint_def map_err_eq_Inr parse_u_Inr_iff render_microseconds_def)
  moreover have "1000 * unat (of_nat ?u :: u64) = unat (nanosecond t)"
    using t \<open>unat (of_nat ?u :: u64) = ?u\<close> by (simp add: valid_microseconds_def)
  ultimately show "parse_microseconds (render_microseconds t) = Inr t"
    unfolding parse_microseconds_Inr_iff by metis
qed (auto simp: render_microseconds_def digits_not_max)

interpretation v_nonzero: numeric_value parse_nonzero_microseconds valid_nonzero_microseconds
  render_nonzero_microseconds
proof unfold_locales
  fix s z
  assume "parse_nonzero_microseconds s = Inr z"
  then show "valid_nonzero_microseconds z"
    by (auto simp: parse_nonzero_microseconds_def result_simps NonZeroTime_try_new_Some_iff
        valid_nonzero_microseconds_def intro: v_microseconds.parse_valid)
next
  fix z
  assume "valid_nonzero_microseconds z"
  then show "parse_nonzero_microseconds (render_nonzero_microseconds z) = Inr z"
    by (cases z) (simp add: parse_nonzero_microseconds_def valid_nonzero_microseconds_def
        render_nonzero_microseconds_def v_microseconds.parse_render NonZeroTime_try_new_def)
qed (auto simp: render_nonzero_microseconds_def valid_nonzero_microseconds_def
       v_microseconds.render_token dest: v_microseconds.render_not_max)

lemma Percent_try_new_Some_iff:
  "Percent_try_new x = Some y \<longleftrightarrow>
     y = x \<and> (\<exists>s m. x = Finite s m \<and> 0 \<le> (if s then - m else m) \<and> (if s then - m else m) \<le> 100)"
  by (cases x) (auto simp: Percent_try_new_def)

lemma parse_percent_Inr_iff:
  "parse_percent value = Inr r \<longleftrightarrow> (\<exists>x. parse_f64 value = Inr x \<and> r = Ratio_percent x \<and> valid_percent r)"
  by (auto simp: parse_percent_def parse_float_def result_simps Percent_try_new_Some_iff valid_percent_def)

interpretation v_percent: checked_value parse_percent valid_percent
  by unfold_locales (auto simp: parse_percent_Inr_iff)

end
