(* ===== verification/BTree_Map.thy ===== *)
theory BTree_Map
  imports Sakai_Prelude
begin

text \<open>
  \<open>std::collections::BTreeMap\<close> as the code sees it: an ordered map whose iteration yields the
  entries by increasing key. The model is the list of entries in that order; \<open>insert\<close> replaces
  the value of a key that is present. The locale \<open>ordered_map\<close> is the interface the parsers
  rely on, with the laws the library documents, and the interpretation \<open>bt\<close> discharges them
  for the model.
\<close>

section \<open>The interface\<close>

locale ordered_map =
  fixes empty :: "'m"
    and insert :: "'k::linorder \<Rightarrow> 'v \<Rightarrow> 'm \<Rightarrow> 'm"
    and lookup :: "'m \<Rightarrow> 'k \<Rightarrow> 'v option"
    and entries :: "'m \<Rightarrow> ('k \<times> 'v) list"
    and inv :: "'m \<Rightarrow> bool"
  assumes inv_empty: "inv empty"
    and inv_insert: "inv m \<Longrightarrow> inv (insert k v m)"
    and lookup_empty: "lookup empty = Map.empty"
    and lookup_insert: "inv m \<Longrightarrow> lookup (insert k v m) = (lookup m)(k \<mapsto> v)"
    and entries_increasing: "inv m \<Longrightarrow> sorted_wrt (<) (map fst (entries m))"
    and entries_lookup: "inv m \<Longrightarrow> map_of (entries m) = lookup m"
begin

lemma inv_fold: "inv m \<Longrightarrow> inv (foldl (\<lambda>m (k, v). insert k v m) m xs)"
  by (induction xs arbitrary: m) (auto simp: inv_insert)

text \<open>Inserting a sequence of entries: for every key the last value inserted stays.\<close>

lemma lookup_fold:
  "inv m \<Longrightarrow> lookup (foldl (\<lambda>m (k, v). insert k v m) m xs) = lookup m ++ map_of (rev xs)"
proof (induction xs arbitrary: m)
  case Nil
  then show ?case by simp
next
  case (Cons x xs)
  obtain k v where x: "x = (k, v)" by (cases x)
  have "lookup (foldl (\<lambda>m (k, v). insert k v m) (insert k v m) xs)
      = lookup (insert k v m) ++ map_of (rev xs)"
    using Cons.prems by (intro Cons.IH inv_insert)
  with Cons.prems x show ?case by (simp add: lookup_insert map_add_def fun_eq_iff split: option.splits)
qed

lemma lookup_collect: "lookup (foldl (\<lambda>m (k, v). insert k v m) empty xs) = map_of (rev xs)"
  by (simp add: lookup_fold inv_empty lookup_empty)

text \<open>Two maps with the same lookups iterate in the same way.\<close>

lemma entries_ext:
  assumes "inv m" "inv n" "lookup m = lookup n"
  shows "entries m = entries n"
proof -
  have same: "map_of (entries m) = map_of (entries n)"
    using assms by (simp add: entries_lookup)
  have sm: "sorted_wrt (<) (map fst (entries m))" and sn: "sorted_wrt (<) (map fst (entries n))"
    using assms by (auto intro: entries_increasing)
  have "set (map fst (entries m)) = set (map fst (entries n))"
    using same by (metis dom_map_of_conv_image_fst set_map)
  then have keys: "map fst (entries m) = map fst (entries n)"
    using sm sn by (metis strict_sorted_equal)
  have dm: "distinct (map fst (entries m))" and dn: "distinct (map fst (entries n))"
    using sm sn by (auto simp: strict_sorted_iff)
  have "map snd (entries m) = map (\<lambda>k. the (map_of (entries m) k)) (map fst (entries m))"
    using dm by (auto intro!: map_cong)
  also have "\<dots> = map (\<lambda>k. the (map_of (entries n) k)) (map fst (entries n))"
    using same keys by simp
  also have "\<dots> = map snd (entries n)" using dn by (auto intro!: map_cong)
  finally show ?thesis using keys by (metis zip_map_fst_snd)
qed

end

section \<open>The model\<close>

type_synonym ('k, 'v) btree = "('k \<times> 'v) list"

fun btree_insert :: "'k::linorder \<Rightarrow> 'v \<Rightarrow> ('k, 'v) btree \<Rightarrow> ('k, 'v) btree" where
  "btree_insert k v [] = [(k, v)]"
| "btree_insert k v ((k', v') # m) =
     (if k < k' then (k, v) # (k', v') # m
      else if k = k' then (k, v) # m
      else (k', v') # btree_insert k v m)"

definition btree_get :: "('k, 'v) btree \<Rightarrow> 'k \<Rightarrow> 'v option" where
  "btree_get m k = map_of m k"

definition btree_contains_key :: "('k, 'v) btree \<Rightarrow> 'k \<Rightarrow> bool" where
  "btree_contains_key m k \<longleftrightarrow> btree_get m k \<noteq> None"

definition btree_iter :: "('k, 'v) btree \<Rightarrow> ('k \<times> 'v) list" where
  "btree_iter m = m"

definition btree_inv :: "('k::linorder, 'v) btree \<Rightarrow> bool" where
  "btree_inv m \<longleftrightarrow> sorted_wrt (<) (map fst m)"

text \<open>\<open>collect()\<close> into a \<open>BTreeMap\<close>.\<close>

definition btree_collect :: "('k::linorder \<times> 'v) list \<Rightarrow> ('k, 'v) btree" where
  "btree_collect xs = foldl (\<lambda>m (k, v). btree_insert k v m) [] xs"

lemma set_btree_insert: "set (map fst (btree_insert k v m)) = insert k (set (map fst m))"
  by (induction k v m rule: btree_insert.induct) auto

lemma btree_inv_insert: "btree_inv m \<Longrightarrow> btree_inv (btree_insert k v m)"
proof (induction k v m rule: btree_insert.induct)
  case (1 k v)
  show ?case by (simp add: btree_inv_def)
next
  case (2 k v k' v' m)
  then show ?case
    using set_btree_insert [of k v m] by (force simp: btree_inv_def)
qed

lemma map_of_btree_insert:
  "btree_inv m \<Longrightarrow> map_of (btree_insert k v m) = (map_of m)(k \<mapsto> v)"
proof (induction k v m rule: btree_insert.induct)
  case (1 k v)
  show ?case by simp
next
  case (2 k v k' v' m)
  then show ?case by (auto simp: btree_inv_def fun_eq_iff)
qed

interpretation bt: ordered_map "[]" btree_insert btree_get btree_iter btree_inv
proof unfold_locales
  show "btree_inv []" by (simp add: btree_inv_def)
  fix m :: "('k::linorder \<times> 'v) list" and k v
  assume m: "btree_inv m"
  show "btree_inv (btree_insert k v m)" using m by (rule btree_inv_insert)
  show "btree_get (btree_insert k v m) = (btree_get m)(k \<mapsto> v)"
    using m by (simp add: btree_get_def [abs_def] map_of_btree_insert)
  show "sorted_wrt (<) (map fst (btree_iter m))" using m by (simp add: btree_inv_def btree_iter_def)
qed (auto simp: btree_get_def [abs_def] btree_iter_def)

lemma btree_inv_Nil [simp]: "btree_inv []"
  by (rule bt.inv_empty)

lemma btree_inv_collect [simp]: "btree_inv (btree_collect xs)"
  unfolding btree_collect_def by (rule bt.inv_fold) (rule bt.inv_empty)

lemma btree_get_Nil [simp]: "btree_get [] k = None"
  by (simp add: btree_get_def)

lemma btree_get_insert:
  "btree_inv m \<Longrightarrow> btree_get (btree_insert k v m) k' = (if k' = k then Some v else btree_get m k')"
  by (simp add: bt.lookup_insert)

lemma btree_get_collect: "btree_get (btree_collect xs) = map_of (rev xs)"
  unfolding btree_collect_def by (rule bt.lookup_collect)

lemma btree_ext: "btree_inv m \<Longrightarrow> btree_inv n \<Longrightarrow> btree_get m = btree_get n \<Longrightarrow> m = n"
  using bt.entries_ext [of m n] by (simp add: btree_iter_def)

lemma btree_collect_cong: "map_of (rev xs) = map_of (rev ys) \<Longrightarrow> btree_collect xs = btree_collect ys"
  by (rule btree_ext) (auto simp: btree_get_collect)

lemma btree_collect_id: "btree_inv m \<Longrightarrow> btree_collect m = m"
proof (rule btree_ext)
  assume m: "btree_inv m"
  then have "distinct (map fst m)" by (simp add: btree_inv_def strict_sorted_iff)
  then have "map_of (rev m) = map_of m" by (metis distinct_rev map_of_inject_set rev_map set_rev)
  then show "btree_get (btree_collect m) = btree_get m"
    by (simp add: btree_get_collect) (simp add: btree_get_def [abs_def])
qed auto

lemma btree_in_set_iff: "btree_inv m \<Longrightarrow> (k, v) \<in> set m \<longleftrightarrow> btree_get m k = Some v"
  by (simp add: btree_inv_def strict_sorted_iff btree_get_def)

lemma set_btree_collect: "set (btree_collect xs) \<subseteq> set xs"
proof (rule subrelI)
  fix k v
  assume "(k, v) \<in> set (btree_collect xs)"
  then have "map_of (rev xs) k = Some v" by (simp add: btree_in_set_iff btree_get_collect)
  then have "(k, v) \<in> set (rev xs)" by (rule map_of_SomeD)
  then show "(k, v) \<in> set xs" by simp
qed

text \<open>Iterating, mapping the values and collecting keeps the keys.\<close>

lemma btree_collect_map_values:
  assumes "btree_inv m"
  shows "btree_collect (map (\<lambda>(k, v). (k, f k v)) m) = map (\<lambda>(k, v). (k, f k v)) m"
proof -
  have "map fst (map (\<lambda>(k, v). (k, f k v)) m) = map fst m" by (induction m) auto
  with assms show ?thesis by (intro btree_collect_id) (simp only: btree_inv_def)
qed

lemma btree_get_map_values:
  "btree_get (map (\<lambda>(k, v). (k, f k v)) m) k = map_option (f k) (btree_get m k)"
  by (induction m) (auto simp: btree_get_def)

end
