(* ===== verification/Sakai_Parse.thy ===== *)
theory Sakai_Parse
  imports Sakai_Value BTree_Map
begin

text \<open>
  \<open>Parser\<close> and \<open>KeyedFields\<close> of \<open>sakai/src/parse/mod.rs\<close>. A parser is the whole input, kept
  for errors, and the fields of one line not consumed yet; the mutable \<open>next\<close> of the
  iterator returns the rest. A file of keyed values is a map from key to raw value, whose
  values are interpreted only when a reader asks for a field.
\<close>

section \<open>Fields in order\<close>

record Parser =
  parser_raw :: string
  parser_fields :: "string list"

definition Parser_new :: "string \<Rightarrow> string \<Rightarrow> Parser" where
  "Parser_new raw line = \<lparr>parser_raw = raw, parser_fields = split_ascii_whitespace line\<rparr>"

definition next_raw_field :: "Parser \<Rightarrow> string \<Rightarrow> (string \<times> Parser) parsed" where
  "next_raw_field p field =
     (case parser_fields p of
        [] \<Rightarrow> Inl (ParseError_missing (parser_raw p) field)
      | w # ws \<Rightarrow> Inr (w, p\<lparr>parser_fields := ws\<rparr>))"

definition next_field ::
  "(string \<Rightarrow> ParseValueError + 'a) \<Rightarrow> Parser \<Rightarrow> string \<Rightarrow> ('a \<times> Parser) parsed" where
  "next_field parse p field = and_then (next_raw_field p field) (\<lambda>(value, p').
     map_ok (\<lambda>v. (v, p')) (parse_field parse (parser_raw p) field value))"

definition finish :: "Parser \<Rightarrow> unit parsed" where
  "finish p = (case parser_fields p of [] \<Rightarrow> Inr () | _ # _ \<Rightarrow> Inl (ParseError_excess (parser_raw p)))"

definition parse_line :: "string \<Rightarrow> string \<Rightarrow> (Parser \<Rightarrow> ('a \<times> Parser) parsed) \<Rightarrow> 'a parsed" where
  "parse_line raw line f = and_then (f (Parser_new raw line)) (\<lambda>(value, p).
     and_then (finish p) (\<lambda>_. Inr value))"

definition Parser_parse :: "string \<Rightarrow> (Parser \<Rightarrow> ('a \<times> Parser) parsed) \<Rightarrow> 'a parsed" where
  "Parser_parse raw f = parse_line raw raw f"

definition Parser_single :: "(string \<Rightarrow> ParseValueError + 'a) \<Rightarrow> string \<Rightarrow> string \<Rightarrow> 'a parsed" where
  "Parser_single parse raw field = Parser_parse raw (\<lambda>p. next_field parse p field)"

lemmas Parser_defs =
  Parser_new_def next_raw_field_def next_field_def finish_def parse_line_def Parser_parse_def

section \<open>Fields by key\<close>

record KeyedFields =
  kf_raw :: string
  kf_values :: "(string, string) btree"

definition KeyedFields_new :: "string \<Rightarrow> (string \<times> string) parsed list \<Rightarrow> KeyedFields parsed" where
  "KeyedFields_new raw pairs =
     map_ok (\<lambda>values. \<lparr>kf_raw = raw, kf_values = btree_collect values\<rparr>) (collect_results pairs)"

text \<open>\<open>raw.lines().filter(|line| !line.trim().is_empty())\<close>.\<close>

definition nonblank_lines :: "string \<Rightarrow> string list" where
  "nonblank_lines raw = filter (\<lambda>line. trim line \<noteq> []) (lines raw)"

definition parse_key_value :: "string \<Rightarrow> (string \<Rightarrow> string) \<Rightarrow> string \<Rightarrow> (string \<times> string) parsed" where
  "parse_key_value raw value_field line = parse_line raw line (\<lambda>p.
     and_then (next_raw_field p ''key'') (\<lambda>(key, p).
     and_then (next_raw_field p (value_field key)) (\<lambda>(value, p). Inr ((key, value), p))))"

definition KeyedFields_parse :: "string \<Rightarrow> (string \<Rightarrow> string) \<Rightarrow> KeyedFields parsed" where
  "KeyedFields_parse raw value_field =
     KeyedFields_new raw (map (parse_key_value raw value_field) (nonblank_lines raw))"

definition contains_any :: "KeyedFields \<Rightarrow> string list \<Rightarrow> bool" where
  "contains_any kf names \<longleftrightarrow> list_ex (btree_contains_key (kf_values kf)) names"

definition KeyedFields_iter :: "KeyedFields \<Rightarrow> (string \<times> string) list" where
  "KeyedFields_iter kf = btree_iter (kf_values kf)"

definition parse_values ::
  "(string \<Rightarrow> ParseValueError + 'a) \<Rightarrow> KeyedFields \<Rightarrow> string \<Rightarrow> (string, 'a) btree parsed" where
  "parse_values parse kf field =
     map_ok btree_collect (collect_results (map (\<lambda>(key, value).
       and_then (parse_field parse (kf_raw kf) field value) (\<lambda>v. Inr (key, v))) (KeyedFields_iter kf)))"

definition required :: "(string \<Rightarrow> ParseValueError + 'a) \<Rightarrow> KeyedFields \<Rightarrow> string \<Rightarrow> 'a parsed" where
  "required parse kf field =
     and_then (ok_or (ParseError_missing (kf_raw kf) field) (btree_get (kf_values kf) field))
       (parse_field parse (kf_raw kf) field)"

definition optional :: "(string \<Rightarrow> ParseValueError + 'a) \<Rightarrow> KeyedFields \<Rightarrow> string \<Rightarrow> 'a option parsed" where
  "optional parse kf field =
     transpose (map_option (parse_field parse (kf_raw kf) field) (btree_get (kf_values kf) field))"

section \<open>Every error reports the whole input\<close>

definition reports :: "string \<Rightarrow> 'a parsed \<Rightarrow> bool" where
  "reports raw r \<longleftrightarrow> (\<forall>e. r = Inl e \<longrightarrow> error_raw e = raw)"

named_theorems reports_intros "errors carry the input"

lemma reports_Inr [reports_intros]: "reports raw (Inr v)"
  by (simp add: reports_def)

lemma reports_error [reports_intros]:
  "reports raw (Inl (ParseError_missing raw field))"
  "reports raw (Inl (ParseError_excess raw))"
  "reports raw (Inl (ParseError_invalid raw field value source))"
  by (simp_all add: reports_def)

lemma reports_and_then [reports_intros]:
  "reports raw r \<Longrightarrow> (\<And>v. r = Inr v \<Longrightarrow> reports raw (f v)) \<Longrightarrow> reports raw (and_then r f)"
  by (cases r) (auto simp: reports_def)

lemma reports_map_ok [reports_intros]: "reports raw r \<Longrightarrow> reports raw (map_ok f r)"
  by (cases r) (auto simp: reports_def)

lemma reports_ok_or [reports_intros]: "error_raw e = raw \<Longrightarrow> reports raw (ok_or e x)"
  by (cases x) (auto simp: reports_def)

lemma reports_map_err [reports_intros]:
  "(\<And>e. error_raw (f e) = raw) \<Longrightarrow> reports raw (map_err f r)"
  by (cases r) (auto simp: reports_def)

lemma reports_parse_field [reports_intros]: "reports raw (parse_field parse raw field value)"
  by (simp add: parse_field_def reports_map_err)

lemma reports_collect [reports_intros]:
  "(\<And>r. r \<in> set rs \<Longrightarrow> reports raw r) \<Longrightarrow> reports raw (collect_results rs)"
  unfolding reports_def collect_results_eq_Inl by fastforce

lemma reports_try_fold [reports_intros]:
  "(\<And>s x. x \<in> set xs \<Longrightarrow> reports raw (f s x)) \<Longrightarrow> reports raw (try_fold f s xs)"
  by (induction xs arbitrary: s) (auto intro!: reports_intros)

lemma reports_KeyedFields_new [reports_intros]:
  "(\<And>r. r \<in> set pairs \<Longrightarrow> reports raw r) \<Longrightarrow> reports raw (KeyedFields_new raw pairs)"
  by (auto simp: KeyedFields_new_def intro!: reports_intros)

lemma reports_next_raw_field [reports_intros]:
  "parser_raw p = raw \<Longrightarrow> reports raw (next_raw_field p field)"
  by (auto simp: next_raw_field_def split: list.split intro!: reports_intros)

lemma reports_next_field [reports_intros]:
  "parser_raw p = raw \<Longrightarrow> reports raw (next_field parse p field)"
  by (auto simp: next_field_def split: prod.split intro!: reports_intros)

lemma next_raw_field_raw: "next_raw_field p field = Inr (w, p') \<Longrightarrow> parser_raw p' = parser_raw p"
  by (auto simp: next_raw_field_def split: list.splits)

lemma next_field_raw: "next_field parse p field = Inr (v, p') \<Longrightarrow> parser_raw p' = parser_raw p"
  by (auto simp: next_field_def result_simps dest: next_raw_field_raw)

lemma reports_parse_line:
  assumes "reports raw (f (Parser_new raw line))"
    and "\<And>v p. f (Parser_new raw line) = Inr (v, p) \<Longrightarrow> parser_raw p = raw"
  shows "reports raw (parse_line raw line f)"
  using assms by (auto simp: parse_line_def finish_def split: prod.split list.split
      intro!: reports_intros)

lemma reports_Parser_single [reports_intros]: "reports raw (Parser_single parse raw field)"
  by (auto simp: Parser_single_def Parser_parse_def Parser_new_def
      intro!: reports_parse_line reports_intros dest: next_field_raw)

lemma reports_parse_key_value [reports_intros]: "reports raw (parse_key_value raw value_field line)"
  unfolding parse_key_value_def
  by (rule reports_parse_line)
    (auto simp: Parser_new_def result_simps split: prod.split
      dest!: next_raw_field_raw intro!: reports_intros)

lemma reports_KeyedFields_parse [reports_intros]: "reports raw (KeyedFields_parse raw value_field)"
  by (auto simp: KeyedFields_parse_def intro!: reports_intros)

lemma kf_raw_KeyedFields_parse [simp]: "KeyedFields_parse raw vf = Inr kf \<Longrightarrow> kf_raw kf = raw"
  by (auto simp: KeyedFields_parse_def KeyedFields_new_def result_simps)

lemma btree_inv_KeyedFields_new: "KeyedFields_new raw fs = Inr kf \<Longrightarrow> btree_inv (kf_values kf)"
  by (auto simp: KeyedFields_new_def result_simps)

lemma btree_inv_KeyedFields_parse: "KeyedFields_parse raw vf = Inr kf \<Longrightarrow> btree_inv (kf_values kf)"
  by (auto simp: KeyedFields_parse_def dest: btree_inv_KeyedFields_new)

lemma reports_required [reports_intros]: "kf_raw kf = raw \<Longrightarrow> reports raw (required parse kf field)"
  by (auto simp: required_def intro!: reports_intros)

lemma reports_optional [reports_intros]: "kf_raw kf = raw \<Longrightarrow> reports raw (optional parse kf field)"
  by (auto simp: optional_def reports_def transpose_eq_Inl parse_field_def map_err_eq_Inl)

lemma reports_parse_values [reports_intros]:
  "kf_raw kf = raw \<Longrightarrow> reports raw (parse_values parse kf field)"
  by (auto simp: parse_values_def intro!: reports_intros)


section \<open>What the readers of one value do\<close>

text \<open>Every outcome of \<open>Parser::single\<close>, by the number of fields; a bad value is reported before an excess field.\<close>

lemma Parser_single_eq:
  "Parser_single parse raw field =
     (case split_ascii_whitespace raw of
        [] \<Rightarrow> Inl (ParseError_missing raw field)
      | [w] \<Rightarrow> parse_field parse raw field w
      | w # _ # _ \<Rightarrow> and_then (parse_field parse raw field w) (\<lambda>_. Inl (ParseError_excess raw)))"
proof (cases "split_ascii_whitespace raw" rule: remdups_adj.cases)
  case 1
  then show ?thesis by (simp add: Parser_single_def Parser_defs)
next
  case (2 w)
  then show ?thesis
    by (cases "parse_field parse raw field w") (simp_all add: Parser_single_def Parser_defs)
next
  case (3 w w' ws)
  then show ?thesis
    by (cases "parse_field parse raw field w") (simp_all add: Parser_single_def Parser_defs)
qed

lemma Parser_single_Inr_iff:
  "Parser_single parse raw field = Inr v \<longleftrightarrow>
     (\<exists>w. split_ascii_whitespace raw = [w] \<and> parse w = Inr v)"
  by (auto simp: Parser_single_eq parse_field_def result_simps split: list.splits)

lemma required_Inr_iff:
  "required parse kf field = Inr v \<longleftrightarrow>
     (\<exists>value. btree_get (kf_values kf) field = Some value \<and> parse value = Inr v)"
  by (auto simp: required_def parse_field_def result_simps)

lemma optional_Inr_iff:
  "optional parse kf field = Inr v \<longleftrightarrow>
     (case btree_get (kf_values kf) field of
        None \<Rightarrow> v = None
      | Some value \<Rightarrow> (\<exists>x. parse value = Inr x \<and> v = Some x))"
proof (cases "btree_get (kf_values kf) field")
  case None
  then show ?thesis by (auto simp: optional_def)
next
  case (Some w)
  then show ?thesis
    by (cases "parse w") (auto simp: optional_def parse_field_def)
qed

lemma required_cong:
  assumes "btree_get (kf_values kf) field = btree_get (kf_values kf') field" "kf_raw kf = kf_raw kf'"
  shows "required parse kf field = required parse kf' field"
  using assms by (simp add: required_def)

context checked_value
begin

lemma single_valid: "Parser_single parse raw field = Inr v \<Longrightarrow> valid v"
  by (auto simp: Parser_single_Inr_iff intro: parse_valid)

lemma required_valid: "required parse kf field = Inr v \<Longrightarrow> valid v"
  by (auto simp: required_Inr_iff intro: parse_valid)

lemma optional_valid: "optional parse kf field = Inr v \<Longrightarrow> pred_option valid v"
  by (auto simp: optional_Inr_iff split: option.splits intro: parse_valid)

lemma values_valid:
  assumes "parse_values parse kf field = Inr m" "btree_get m k = Some v"
  shows "valid v"
proof -
  let ?f = "\<lambda>(key, value). and_then (parse_field parse (kf_raw kf) field value) (\<lambda>v. Inr (key, v))"
  from assms(1) obtain kvs where kvs: "map ?f (KeyedFields_iter kf) = map Inr kvs" "m = btree_collect kvs"
    unfolding parse_values_def map_ok_eq_Inr collect_results_eq_Inr by blast
  from assms(2) kvs(2) have "(k, v) \<in> set kvs"
    by (auto simp: btree_get_collect dest: map_of_SomeD)
  then have "Inr (k, v) \<in> set (map ?f (KeyedFields_iter kf))" unfolding kvs(1) by simp
  then show ?thesis by (auto simp: result_simps intro: field_valid dest!: sym [of "Inr _"])
qed

end

context cgroup_value
begin

lemma single_render: "valid v \<Longrightarrow> Parser_single parse (render v @ [CHR 0x0A]) field = Inr v"
  using render_token [of v]
  by (simp add: Parser_single_Inr_iff parse_render split_ascii_whitespace_token_space
      is_ascii_whitespace_def)

lemma required_render:
  "valid v \<Longrightarrow> btree_get (kf_values kf) field = Some (render v) \<Longrightarrow> required parse kf field = Inr v"
  by (simp add: required_Inr_iff parse_render)

lemma optional_render:
  "pred_option valid v \<Longrightarrow> btree_get (kf_values kf) field = map_option render v \<Longrightarrow>
   optional parse kf field = Inr v"
  by (cases v) (simp_all add: optional_Inr_iff parse_render)

end

section \<open>Keyed files the kernel writes\<close>

text \<open>
  A key starts with a character that is neither white space nor outside ASCII, so its line is
  not taken for a blank one. A file of such lines parses to the map of its pairs, in which the
  last of several lines with one key counts.
\<close>

definition is_key :: "string \<Rightarrow> bool" where
  "is_key k \<longleftrightarrow> is_token k \<and> ink (hd k)"

definition render_pair :: "string \<times> string \<Rightarrow> string" where
  "render_pair kv = fst kv @ '' '' @ snd kv"

definition render_pairs :: "(string \<times> string) list \<Rightarrow> string" where
  "render_pairs kvs = unlines (map render_pair kvs)"

definition is_pair :: "string \<times> string \<Rightarrow> bool" where
  "is_pair kv \<longleftrightarrow> is_key (fst kv) \<and> is_token (snd kv)"

lemma is_line_append_token: "CHR 0x0A \<notin> set v \<Longrightarrow> is_token w \<Longrightarrow> is_line (v @ w)"
  by (auto simp: is_line_def is_token_def is_ascii_whitespace_def dest: last_in_set)

lemma drop_white_space_keeps_last:
  "s \<noteq> [] \<Longrightarrow> \<not> w1 (last s) \<Longrightarrow> \<forall>b. \<not> w2 b (last s) \<Longrightarrow> \<forall>a b. \<not> w3 a b (last s) \<Longrightarrow>
   drop_white_space w1 w2 w3 s \<noteq> []"
proof (induction w1 w2 w3 s rule: drop_white_space.induct)
  case (1 w1 w2 w3)
  then show ?case by simp
next
  case (2 w1 w2 w3 a s)
  show ?case
  proof (cases s)
    case Nil
    with 2 show ?thesis by simp
  next
    case (Cons b s')
    with 2 show ?thesis by (cases s') (auto split: if_splits)
  qed
qed

lemma trim_starts_with_ink: "s \<noteq> [] \<Longrightarrow> ink (hd s) \<Longrightarrow> trim s \<noteq> []"
proof -
  assume s: "s \<noteq> []" "ink (hd s)"
  then have "trim_start s = s" by (cases s) (auto simp: trim_start_ink)
  moreover have "drop_white_space white_space1 (\<lambda>b a. white_space2 a b) (\<lambda>c b a. white_space3 a b c)
      (rev s) \<noteq> []"
    using s by (intro drop_white_space_keeps_last) (auto simp: last_rev)
  ultimately show ?thesis by (simp add: trim_def trim_end_def)
qed

lemma nonblank_lines_unlines:
  "\<forall>l \<in> set ls. is_line l \<Longrightarrow> nonblank_lines (unlines ls) = filter (\<lambda>l. trim l \<noteq> []) ls"
  by (simp add: nonblank_lines_def lines_unlines)

lemma render_pair_line:
  assumes "is_pair kv"
  shows "is_line (render_pair kv)" "trim (render_pair kv) \<noteq> []"
proof -
  have k: "is_token (fst kv)" "ink (hd (fst kv))" and v: "is_token (snd kv)"
    using assms by (auto simp: is_pair_def is_key_def)
  have "CHR 0x0A \<notin> set (fst kv @ '' '')"
    using k(1) by (auto simp: is_token_def is_ascii_whitespace_def)
  from is_line_append_token [OF this v] show "is_line (render_pair kv)"
    by (simp add: render_pair_def)
  have "fst kv \<noteq> []" using k(1) by (simp add: is_token_def)
  with k(2) show "trim (render_pair kv) \<noteq> []"
    by (intro trim_starts_with_ink) (simp_all add: render_pair_def)
qed

lemma is_ascii_whitespace_char [simp]:
  "is_ascii_whitespace (CHR '' '')" "is_ascii_whitespace (CHR 0x0A)"
  by (simp_all add: is_ascii_whitespace_def)

lemma split_render_pair:
  assumes "is_pair kv"
  shows "split_ascii_whitespace (render_pair kv) = [fst kv, snd kv]"
proof -
  have "is_token (fst kv)" "is_token (snd kv)" using assms by (auto simp: is_pair_def is_key_def)
  then show ?thesis
    by (simp add: render_pair_def split_ascii_whitespace_token_space split_ascii_whitespace_token)
qed

lemma parse_key_value_two_tokens:
  "split_ascii_whitespace line = [k, v] \<Longrightarrow> parse_key_value raw vf line = Inr (k, v)"
  by (simp add: parse_key_value_def Parser_defs)

lemma parse_key_value_render: "is_pair kv \<Longrightarrow> parse_key_value raw vf (render_pair kv) = Inr kv"
  using parse_key_value_two_tokens [OF split_render_pair] by simp

theorem KeyedFields_parse_render:
  assumes "\<forall>kv \<in> set kvs. is_pair kv"
  shows "KeyedFields_parse (render_pairs kvs) vf =
    Inr \<lparr>kf_raw = render_pairs kvs, kf_values = btree_collect kvs\<rparr>"
proof -
  have "nonblank_lines (render_pairs kvs) = map render_pair kvs"
    using assms by (simp add: render_pairs_def nonblank_lines_unlines render_pair_line filter_id_conv)
  moreover have "map (parse_key_value raw vf) (map render_pair kvs) = map Inr kvs" for raw
    using assms by (simp add: parse_key_value_render)
  moreover have "collect_results (map Inr kvs) = Inr kvs"
    unfolding collect_results_eq_Inr ..
  ultimately show ?thesis
    by (simp add: KeyedFields_parse_def KeyedFields_new_def del: map_map)
qed

section \<open>When a keyed file is accepted\<close>

lemma parse_key_value_cases:
  "parse_key_value raw vf line =
     (case split_ascii_whitespace line of
        [] \<Rightarrow> Inl (ParseError_missing raw ''key'')
      | [k] \<Rightarrow> Inl (ParseError_missing raw (vf k))
      | [k, v] \<Rightarrow> Inr (k, v)
      | _ \<Rightarrow> Inl (ParseError_excess raw))"
  by (simp add: parse_key_value_def Parser_defs split: list.split)

lemma parse_key_value_Inr_iff:
  "parse_key_value raw vf line = Inr kv \<longleftrightarrow> split_ascii_whitespace line = [fst kv, snd kv]"
  by (cases kv) (auto simp: parse_key_value_cases split: list.splits)

lemma KeyedFields_parse_Inr_iff:
  "KeyedFields_parse raw vf = Inr kf \<longleftrightarrow>
     (\<exists>kvs. map split_ascii_whitespace (nonblank_lines raw) = map (\<lambda>kv. [fst kv, snd kv]) kvs
        \<and> kf = \<lparr>kf_raw = raw, kf_values = btree_collect kvs\<rparr>)"
proof -
  have "map (parse_key_value raw vf) ls = map Inr kvs \<longleftrightarrow>
      map split_ascii_whitespace ls = map (\<lambda>kv. [fst kv, snd kv]) kvs" for ls kvs
  proof (induction ls arbitrary: kvs)
    case Nil
    then show ?case by auto
  next
    case (Cons l ls)
    then show ?case by (cases kvs) (simp_all add: parse_key_value_Inr_iff)
  qed
  then show ?thesis
    by (simp only: KeyedFields_parse_def KeyedFields_new_def map_ok_eq_Inr collect_results_eq_Inr)
qed

lemma KeyedFields_parse_field_irrelevant:
  "KeyedFields_parse raw vf = Inr kf \<Longrightarrow> KeyedFields_parse raw vf' = Inr kf"
  unfolding KeyedFields_parse_Inr_iff .

text \<open>C1: A keyed file is accepted exactly when every line that is not blank has two fields, and then a
  key has the value of its last line. Otherwise the first line that has not is reported, with the
  whole file: one field is a missing value, under the name the reader gives it, and three or more
  are an excess field.\<close>

theorem KeyedFields_parse_correct:
  "KeyedFields_parse raw vf =
    (case find (\<lambda>l. length (split_ascii_whitespace l) \<noteq> 2) (nonblank_lines raw) of
       None \<Rightarrow> Inr \<lparr>kf_raw = raw, kf_values = btree_collect
          (map (\<lambda>l. (split_ascii_whitespace l ! 0, split_ascii_whitespace l ! 1)) (nonblank_lines raw))\<rparr>
     | Some l \<Rightarrow> Inl (if length (split_ascii_whitespace l) = 1
          then ParseError_missing raw (vf (hd (split_ascii_whitespace l))) else ParseError_excess raw))
   \<and> (\<forall>kvs k. btree_get (btree_collect kvs) k = map_of (rev (kvs :: (string \<times> string) list)) k)"
proof -
  let ?c = "\<lambda>ls. case find (\<lambda>l. length (split_ascii_whitespace l) \<noteq> 2) ls of
       None \<Rightarrow> Inr (map (\<lambda>l. (split_ascii_whitespace l ! 0, split_ascii_whitespace l ! 1)) ls)
     | Some l \<Rightarrow> Inl (if length (split_ascii_whitespace l) = 1
          then ParseError_missing raw (vf (hd (split_ascii_whitespace l))) else ParseError_excess raw)"
  have line: "parse_key_value raw vf l =
      (if length (split_ascii_whitespace l) = 2
       then Inr (split_ascii_whitespace l ! 0, split_ascii_whitespace l ! 1)
       else Inl (if length (split_ascii_whitespace l) = 1
          then ParseError_missing raw (vf (hd (split_ascii_whitespace l))) else ParseError_excess raw))"
    if "split_ascii_whitespace l \<noteq> []" for l
    using that by (auto simp: parse_key_value_cases split: list.split)
  have "collect_results (map (parse_key_value raw vf) ls) = ?c ls"
    if "\<forall>l \<in> set ls. split_ascii_whitespace l \<noteq> []" for ls
    using that by (induction ls) (auto simp: line split: option.split)
  moreover have "\<forall>l \<in> set (nonblank_lines raw). split_ascii_whitespace l \<noteq> []"
    by (auto simp: nonblank_lines_def dest: nonblank_has_token)
  ultimately have "collect_results (map (parse_key_value raw vf) (nonblank_lines raw)) = ?c (nonblank_lines raw)"
    by blast
  then show ?thesis
    by (simp add: KeyedFields_parse_def KeyedFields_new_def btree_get_collect split: option.split)
qed

end
