(* ===== verification/Sakai_File.thy ===== *)
theory Sakai_File
  imports Sakai_Parse Rust_Path
begin

text \<open>
  Reading one interface file: \<open>sakai/src/cgroup/v2/file.rs\<close>, the error classification of
  \<open>error.rs\<close> and \<open>Cgroup::read\<close> / \<open>Cgroup::parse\<close> of \<open>handle.rs\<close>. The kernel is not part of
  the repository: the system calls are the fields of a record \<open>os\<close> that every reader takes,
  over an abstract type of descriptors.
\<close>

record 'd os =
  openat_file :: "'d \<Rightarrow> string \<Rightarrow> nat + 'd"  \<comment> \<open>\<open>openat\<close> with \<open>RDONLY|CLOEXEC|NOFOLLOW\<close>: errno or descriptor\<close>
  read_to_string :: "'d \<Rightarrow> io_error + string"

text \<open>The crate's \<open>Error\<close>, with the source of a parse failure.\<close>

datatype ParseSource = FieldSource "ParseValueError ParseError" | TypeSource string

datatype Error =
    FileMissing string
  | NotSupported string io_error
  | NotCgroupV2
  | DeletedCgroup string
  | ParseFailed string ParseSource
  | Operation string string io_error
  | IoError io_error

definition Error_read :: "string \<Rightarrow> io_error \<Rightarrow> Error" where
  "Error_read path error =
     (case io_kind error of
        NotFound \<Rightarrow> FileMissing path
      | Unsupported \<Rightarrow> NotSupported path error
      | _ \<Rightarrow> Operation ''read interface'' path error)"

definition read_file :: "('d, 'x) os_scheme \<Rightarrow> 'd \<Rightarrow> string \<Rightarrow> io_error + string" where
  "read_file os cgroup file =
     (case components file of
        [Normal _] \<Rightarrow> and_then (map_err Os (openat_file os cgroup file)) (read_to_string os)
      | _ \<Rightarrow> Inl (Custom InvalidInput ''cgroup interface must be a single relative file name''))"

text \<open>A pinned cgroup: its directory descriptor and its diagnostic path.\<close>

record 'd Cgroup =
  directory :: 'd
  cgroup_path :: string

definition Cgroup_read :: "('d, 'x) os_scheme \<Rightarrow> 'd Cgroup \<Rightarrow> string \<Rightarrow> Error + string" where
  "Cgroup_read os cg file =
     map_err (Error_read (path_join (cgroup_path cg) file)) (read_file os (directory cg) file)"

definition Cgroup_parse ::
  "(string \<Rightarrow> 'a parsed) \<Rightarrow> ('d, 'x) os_scheme \<Rightarrow> 'd Cgroup \<Rightarrow> string \<Rightarrow> Error + 'a" where
  "Cgroup_parse from_str os cg file =
     and_then (Cgroup_read os cg file) (\<lambda>contents.
       map_err (\<lambda>e. ParseFailed (path_join (cgroup_path cg) file) (FieldSource e)) (from_str contents))"

section \<open>What a read depends on\<close>

lemma read_file_rejects:
  "(\<And>name. components file \<noteq> [Normal name]) \<Longrightarrow>
   read_file os cgroup file =
     Inl (Custom InvalidInput ''cgroup interface must be a single relative file name'')"
  by (auto simp: read_file_def split: list.split Component.split)

lemma read_file_single:
  "components file = [Normal name] \<Longrightarrow>
   read_file os cgroup file = and_then (map_err Os (openat_file os cgroup file)) (read_to_string os)"
  by (simp add: read_file_def)

lemma Cgroup_parse_Inr_iff:
  "Cgroup_parse from_str os cg file = Inr v \<longleftrightarrow>
     (\<exists>contents. read_file os (directory cg) file = Inr contents \<and> from_str contents = Inr v)"
  by (auto simp: Cgroup_parse_def Cgroup_read_def result_simps)

lemma Error_read_not_ParseFailed [simp]:
  "Error_read p err \<noteq> ParseFailed path source" "ParseFailed path source \<noteq> Error_read p err"
  by (auto simp: Error_read_def split: ErrorKind.split)

text \<open>
  A typed reader of an interface: nothing but the contents of its file and the diagnostic path
  decides its result, and a parser's error comes with the path of the file and its contents.
\<close>

definition reads_interface :: "string \<Rightarrow> ('d os \<Rightarrow> 'd Cgroup \<Rightarrow> Error + 'a) \<Rightarrow> bool" where
  "reads_interface file reader \<longleftrightarrow>
     (\<forall>os cg os' cg'. read_file os (directory cg) file = read_file os' (directory cg') file
        \<and> cgroup_path cg = cgroup_path cg' \<longrightarrow> reader os cg = reader os' cg')
     \<and> (\<forall>os cg path e. reader os cg = Inl (ParseFailed path (FieldSource e)) \<longrightarrow>
        path = path_join (cgroup_path cg) file \<and> read_file os (directory cg) file = Inr (error_raw e))"

text \<open>A kernel in which every file of every directory has the given contents.\<close>

definition constant_os :: "string \<Rightarrow> nat os" where
  "constant_os contents = \<lparr>openat_file = \<lambda>d name. Inr d, read_to_string = \<lambda>d. Inr contents\<rparr>"

lemma read_file_constant_os:
  "components file = [Normal name] \<Longrightarrow> read_file (constant_os contents) d file = Inr contents"
  by (simp add: read_file_single constant_os_def)

section \<open>The interface of a snapshot parser\<close>

text \<open>
  Every \<open>FromStr\<close> of a snapshot promises that an error carries the whole input verbatim. What a
  reader gets from it is that a parse failure names the file that was read and its contents.
\<close>

locale snapshot_parser =
  fixes from_str :: "string \<Rightarrow> 'a parsed"
  assumes error_keeps_input: "reports contents (from_str contents)"
begin

lemma parse_failure_source:
  assumes "Cgroup_parse from_str os cg file = Inl (ParseFailed path source)"
  shows "path = path_join (cgroup_path cg) file \<and>
    (\<exists>e. source = FieldSource e \<and> read_file os (directory cg) file = Inr (error_raw e))"
proof -
  from assms obtain contents e where
    "read_file os (directory cg) file = Inr contents" "from_str contents = Inl e"
    "path = path_join (cgroup_path cg) file" "source = FieldSource e"
    by (auto simp: Cgroup_parse_def Cgroup_read_def result_simps)
  moreover from this have "error_raw e = contents"
    using error_keeps_input [of contents] by (simp add: reports_def)
  ultimately show ?thesis by blast
qed

lemma reads_interface: "reads_interface file (\<lambda>(os :: 'd os) cg. Cgroup_parse from_str os cg file)"
  unfolding reads_interface_def
proof (intro conjI allI impI)
  fix os os' :: "'d os" and cg cg' :: "'d Cgroup"
  assume "read_file os (directory cg) file = read_file os' (directory cg') file \<and> cgroup_path cg = cgroup_path cg'"
  then show "Cgroup_parse from_str os cg file = Cgroup_parse from_str os' cg' file"
    by (simp add: Cgroup_parse_def Cgroup_read_def)
next
  fix os :: "'d os" and cg :: "'d Cgroup" and path e
  assume "Cgroup_parse from_str os cg file = Inl (ParseFailed path (FieldSource e))"
  from parse_failure_source [OF this]
  show "path = path_join (cgroup_path cg) file" "read_file os (directory cg) file = Inr (error_raw e)"
    by simp_all
qed

end

end
