(* ===== verification/Py_Error.thy ===== *)
theory Py_Error
  imports Sakai_File
begin

text \<open>
  Errors of the Python bindings, \<open>sakai-python/src/linux/errors.rs\<close>: every error of the crate
  becomes an exception of its own class that carries the path. What the interpreter decides is a
  parameter: whether an attribute can be set, what calling \<open>OSError\<close> gives, how values print.
\<close>

section \<open>Exceptions\<close>

text \<open>The classes the bindings raise; \<open>OsClass\<close> is \<open>OSError\<close> or the subclass Python picks for an errno.\<close>

datatype PyClass =
    SakaiError
  | InterfaceMissingError
  | NotCgroupV2Error
  | DeletedCgroupError
  | CgroupParseError
  | NotSupportedError
  | OsClass "nat option"
  | ValueError
  | RuntimeError
  | OverflowError
  | OtherClass string

datatype PyAttribute = AttrNone | AttrInt nat | AttrText string | AttrPath string

record PyErr =
  error_class :: PyClass
  error_message :: string
  error_attributes :: "string \<rightharpoonup> PyAttribute"

text \<open>The base of each class that \<open>create_exception!\<close> declares.\<close>

fun class_base :: "PyClass \<Rightarrow> PyClass option" where
  "class_base InterfaceMissingError = Some SakaiError"
| "class_base NotCgroupV2Error = Some SakaiError"
| "class_base DeletedCgroupError = Some SakaiError"
| "class_base CgroupParseError = Some SakaiError"
| "class_base NotSupportedError = Some SakaiError"
| "class_base _ = None"

definition new_err :: "PyClass \<Rightarrow> string \<Rightarrow> PyErr" where
  "new_err cls message = \<lparr>error_class = cls, error_message = message, error_attributes = (\<lambda>name. None)\<rparr>"

record python =
  setattr_fails :: "PyErr \<Rightarrow> string \<Rightarrow> PyErr option"
  os_error_call :: "nat option \<Rightarrow> string \<Rightarrow> string option \<Rightarrow> PyErr + PyErr"  \<comment> \<open>\<open>OSError(errno, text, filename)\<close>\<close>
  display_path :: "string \<Rightarrow> string"
  display_io :: "io_error \<Rightarrow> string"
  display_parse :: "ParseSource \<Rightarrow> string"
  display_field :: "ParseValueError ParseError \<Rightarrow> string"

definition setattr :: "python \<Rightarrow> PyErr \<Rightarrow> string \<Rightarrow> PyAttribute \<Rightarrow> PyErr + PyErr" where
  "setattr py error name v =
     (case setattr_fails py error name of
        Some failure \<Rightarrow> Inl failure
      | None \<Rightarrow> Inr (error\<lparr>error_attributes := (error_attributes error)(name \<mapsto> v)\<rparr>))"

fun raw_os_error :: "io_error \<Rightarrow> nat option" where
  "raw_os_error (Os errno) = Some errno"
| "raw_os_error (Custom kind message) = None"

definition errno_attribute :: "nat option \<Rightarrow> PyAttribute" where
  "errno_attribute errno = (case errno of None \<Rightarrow> AttrNone | Some n \<Rightarrow> AttrInt n)"

text \<open>\<open>Ok(()) => error, Err(error) => error\<close>.\<close>

definition either_error :: "PyErr + PyErr \<Rightarrow> PyErr" where
  "either_error r = (case r of Inl error \<Rightarrow> error | Inr error \<Rightarrow> error)"

section \<open>Translation\<close>

definition PythonError_with_path :: "python \<Rightarrow> PyClass \<Rightarrow> string \<Rightarrow> string \<Rightarrow> PyErr" where
  "PythonError_with_path py cls message path =
     either_error (setattr py (new_err cls message) ''path'' (AttrPath path))"

definition PythonError_os_error :: "python \<Rightarrow> io_error \<Rightarrow> string option \<Rightarrow> PyErr" where
  "PythonError_os_error py source path =
     either_error (os_error_call py (raw_os_error source) (display_io py source) path)"

definition PythonError_from_core :: "python \<Rightarrow> Error \<Rightarrow> PyErr" where
  "PythonError_from_core py error =
     (case error of
        FileMissing path \<Rightarrow>
          PythonError_with_path py InterfaceMissingError (''cgroup interface is missing: '' @ display_path py path) path
      | NotSupported path source \<Rightarrow>
          let error = PythonError_with_path py NotSupportedError
            (''reading '' @ display_path py path @ '' is not supported: '' @ display_io py source) path in
          either_error (and_then (setattr py error ''errno'' (errno_attribute (raw_os_error source)))
            (\<lambda>error. setattr py error ''filename'' (AttrPath path)))
      | NotCgroupV2 \<Rightarrow> new_err NotCgroupV2Error ''not a cgroup v2 filesystem''
      | DeletedCgroup path \<Rightarrow>
          PythonError_with_path py DeletedCgroupError (''cgroup has been deleted: '' @ display_path py path) path
      | ParseFailed path source \<Rightarrow>
          PythonError_with_path py CgroupParseError
            (''failed to parse '' @ display_path py path @ '': '' @ display_parse py source) path
      | IoError source \<Rightarrow> PythonError_os_error py source None
      | Operation operation path source \<Rightarrow>
          let error = PythonError_os_error py source (Some path) in
          either_error (and_then (setattr py error ''path'' (AttrPath path))
            (\<lambda>error. setattr py error ''operation'' (AttrText operation))))"

definition PythonError_result :: "python \<Rightarrow> Error + 'a \<Rightarrow> PyErr + 'a" where
  "PythonError_result py r = map_err (PythonError_from_core py) r"

text \<open>A read with the interpreter released, on a handle of its own.\<close>

definition PythonError_read ::
  "python \<Rightarrow> ('d, 'x) os_scheme \<Rightarrow> 'd Cgroup \<Rightarrow> (('d, 'x) os_scheme \<Rightarrow> 'd Cgroup \<Rightarrow> Error + 'a) \<Rightarrow> PyErr + 'a" where
  "PythonError_read py os owner reader = PythonError_result py (reader os owner)"

section \<open>Classes and attributes\<close>

text \<open>
  The interpreter of the documentation: attributes of an exception can be set, and \<open>OSError\<close> with
  an errno has it and the filename as attributes.
\<close>

definition standard_python :: "python \<Rightarrow> bool" where
  "standard_python py \<longleftrightarrow>
     (\<forall>error name. setattr_fails py error name = None)
     \<and> (\<forall>errno text path. os_error_call py errno text path = Inr
          \<lparr>error_class = OsClass errno, error_message = text,
           error_attributes = [''errno'' \<mapsto> errno_attribute errno, ''strerror'' \<mapsto> AttrText text,
             ''filename'' \<mapsto> (case path of None \<Rightarrow> AttrNone | Some path \<Rightarrow> AttrPath path)]\<rparr>)"

lemma setattr_standard [simp]:
  "standard_python py \<Longrightarrow>
     setattr py error name v = Inr (error\<lparr>error_attributes := (error_attributes error)(name \<mapsto> v)\<rparr>)"
  by (simp add: standard_python_def setattr_def)

lemma os_error_standard [simp]:
  "standard_python py \<Longrightarrow> PythonError_os_error py source path =
     \<lparr>error_class = OsClass (raw_os_error source), error_message = display_io py source,
      error_attributes = [''errno'' \<mapsto> errno_attribute (raw_os_error source),
        ''strerror'' \<mapsto> AttrText (display_io py source),
        ''filename'' \<mapsto> (case path of None \<Rightarrow> AttrNone | Some path \<Rightarrow> AttrPath path)]\<rparr>"
  by (simp add: standard_python_def PythonError_os_error_def either_error_def)

text \<open>The path the crate's error names, if it names one, and the errno behind it.\<close>

fun Error_path :: "Error \<Rightarrow> string option" where
  "Error_path (FileMissing path) = Some path"
| "Error_path (NotSupported path source) = Some path"
| "Error_path NotCgroupV2 = None"
| "Error_path (DeletedCgroup path) = Some path"
| "Error_path (ParseFailed path source) = Some path"
| "Error_path (Operation operation path source) = Some path"
| "Error_path (IoError source) = None"

fun Error_source :: "Error \<Rightarrow> io_error option" where
  "Error_source (NotSupported path source) = Some source"
| "Error_source (Operation operation path source) = Some source"
| "Error_source (IoError source) = Some source"
| "Error_source _ = None"

text \<open>C19: Every error of the crate keeps its meaning in Python. Its class tells the kind of failure,
  an operating-system failure is an \<open>OSError\<close> of its errno and everything else a \<open>SakaiError\<close>; the
  attribute \<open>path\<close> is the path the error names and absent when it names none; and the errno
  behind it is the attribute \<open>errno\<close>, with the path then also as the \<open>filename\<close>.\<close>

theorem PythonError_from_core_correct:
  assumes "standard_python py"
  defines "err \<equiv> PythonError_from_core py"
  shows "error_class (err error) =
      (case error of
         FileMissing _ \<Rightarrow> InterfaceMissingError | NotSupported _ _ \<Rightarrow> NotSupportedError
       | NotCgroupV2 \<Rightarrow> NotCgroupV2Error | DeletedCgroup _ \<Rightarrow> DeletedCgroupError
       | ParseFailed _ _ \<Rightarrow> CgroupParseError
       | Operation _ _ source \<Rightarrow> OsClass (raw_os_error source) | IoError source \<Rightarrow> OsClass (raw_os_error source))
    \<and> (class_base (error_class (err error)) = Some SakaiError \<longleftrightarrow>
         (\<forall>source. error \<noteq> IoError source) \<and> (\<forall>operation path source. error \<noteq> Operation operation path source))
    \<and> error_attributes (err error) ''path'' = map_option AttrPath (Error_path error)
    \<and> error_attributes (err error) ''errno'' = map_option (\<lambda>e. errno_attribute (raw_os_error e)) (Error_source error)
    \<and> error_attributes (err error) ''filename'' =
        map_option (\<lambda>e. case Error_path error of None \<Rightarrow> AttrNone | Some path \<Rightarrow> AttrPath path) (Error_source error)
    \<and> error_attributes (err error) ''operation'' =
        (case error of Operation operation _ _ \<Rightarrow> Some (AttrText operation) | _ \<Rightarrow> None)"
  using assms by (cases error)
    (simp_all add: PythonError_from_core_def PythonError_with_path_def new_err_def either_error_def Let_def)

definition demo_python :: python where
  "demo_python =
     \<lparr>setattr_fails = (\<lambda>error name. None),
      os_error_call = (\<lambda>errno text path. Inr \<lparr>error_class = OsClass errno, error_message = text,
        error_attributes = [''errno'' \<mapsto> errno_attribute errno, ''strerror'' \<mapsto> AttrText text,
          ''filename'' \<mapsto> (case path of None \<Rightarrow> AttrNone | Some path \<Rightarrow> AttrPath path)]\<rparr>),
      display_path = (\<lambda>path. path), display_io = (\<lambda>e. ''I/O error''), display_parse = (\<lambda>e. ''invalid''),
      display_field = (\<lambda>e. ''invalid'')\<rparr>"

lemma demo_python_standard: "standard_python demo_python"
  by (simp add: standard_python_def demo_python_def)

theorem PythonError_from_core_correct_witness:
  "error_class (PythonError_from_core demo_python (Operation ''read interface'' ''/sys/fs/cgroup/a/x'' (Os 13))) = OsClass (Some 13)
    \<and> error_attributes (PythonError_from_core demo_python (Operation ''read interface'' ''/sys/fs/cgroup/a/x'' (Os 13))) ''path''
        = Some (AttrPath ''/sys/fs/cgroup/a/x'')"
  using PythonError_from_core_correct [OF demo_python_standard,
      of "Operation ''read interface'' ''/sys/fs/cgroup/a/x'' (Os 13)"] by simp

section \<open>Readers\<close>

text \<open>
  A reader of the bindings reads one interface: nothing but the contents of that file and the
  diagnostic path decides what it gives, and when the file cannot be read, the exception is that of
  the failure with the file's path.
\<close>

definition py_reads :: "string \<Rightarrow> (python \<Rightarrow> 'd os \<Rightarrow> 'd Cgroup \<Rightarrow> PyErr + 'a) \<Rightarrow> bool" where
  "py_reads file reader \<longleftrightarrow>
     (\<forall>py os cg os' cg'. read_file os (directory cg) file = read_file os' (directory cg') file
        \<and> cgroup_path cg = cgroup_path cg' \<longrightarrow> reader py os cg = reader py os' cg')
     \<and> (\<forall>py os cg failure. read_file os (directory cg) file = Inl failure \<longrightarrow>
        reader py os cg = Inl (PythonError_from_core py (Error_read (path_join (cgroup_path cg) file) failure)))"

lemma py_reads_read:
  assumes "\<And>os cg os' cg'. read_file os (directory cg) file = read_file os' (directory cg') file \<Longrightarrow>
        cgroup_path cg = cgroup_path cg' \<Longrightarrow> reader os cg = reader os' cg'"
    and "\<And>os cg failure. read_file os (directory cg) file = Inl failure \<Longrightarrow>
        reader os cg = Inl (Error_read (path_join (cgroup_path cg) file) failure)"
  shows "py_reads file (\<lambda>py (os :: 'd os) cg. map_ok f (PythonError_read py os cg reader))"
  unfolding py_reads_def PythonError_read_def PythonError_result_def
proof (intro conjI allI impI)
  fix py and os os' :: "'d os" and cg cg' :: "'d Cgroup"
  assume "read_file os (directory cg) file = read_file os' (directory cg') file \<and> cgroup_path cg = cgroup_path cg'"
  then have "reader os cg = reader os' cg'" by (intro assms(1)) simp_all
  then show "map_ok f (map_err (PythonError_from_core py) (reader os cg))
    = map_ok f (map_err (PythonError_from_core py) (reader os' cg'))" by (simp only:)
next
  fix py and os :: "'d os" and cg :: "'d Cgroup" and failure
  assume "read_file os (directory cg) file = Inl failure"
  from assms(2) [OF this] show "map_ok f (map_err (PythonError_from_core py) (reader os cg))
    = Inl (PythonError_from_core py (Error_read (path_join (cgroup_path cg) file) failure))" by simp
qed

lemma py_reads_then:
  assumes "\<And>os cg. reader os cg = and_then (Cgroup_read os cg file) (rest (cgroup_path cg))"
  shows "py_reads file (\<lambda>py (os :: 'd os) cg. map_ok f (PythonError_read py os cg reader))"
  by (rule py_reads_read) (simp_all add: assms Cgroup_read_def)

lemma py_reads_parse [simp]:
  "py_reads file (\<lambda>py (os :: 'd os) cg. map_ok f (PythonError_read py os cg (\<lambda>os cg. Cgroup_parse parse os cg file)))"
  by (rule py_reads_read) (simp_all add: Cgroup_parse_def Cgroup_read_def)

end
