(* ===== verification/Py_Quantity.thy ===== *)
theory Py_Quantity
  imports Py_Error Rust_Effect BTree_Map "HOL-Library.AList"
begin

text \<open>
  Values of the Python bindings: quantities as Pint objects (\<open>sakai-python/src/quantity.rs\<close>),
  limits (\<open>linux/limit.rs\<close>) and read-only mappings (\<open>linux/mapping.rs\<close>). Pint and its registry are
  parameters, operations on the state \<open>'w\<close> of the interpreter.
\<close>

section \<open>Quantities\<close>

datatype 'q Quantity = Quantity (quantity_inner: 'q)

text \<open>A Python number: integers are exact, floats are the \<open>f64\<close>.\<close>

datatype number = IntNumber int | FloatNumber f64

record ('r, 'o, 'w) pint =
  application_registry :: "('w, PyErr, 'r) io"  \<comment> \<open>\<open>pint.get_application_registry()\<close>\<close>
  registry_contains :: "'r \<Rightarrow> string \<Rightarrow> ('w, PyErr, bool) io"
  registry_define :: "'r \<Rightarrow> string \<Rightarrow> ('w, PyErr, unit) io"
  registry_quantity :: "'r \<Rightarrow> number \<Rightarrow> string \<Rightarrow> ('w, PyErr, 'o) io"  \<comment> \<open>\<open>registry.Quantity(magnitude, unit)\<close>\<close>
  quantity_class :: "'r \<Rightarrow> ('w, PyErr, unit) io"  \<comment> \<open>the attribute \<open>Quantity\<close>\<close>
  check_dimension :: "'o \<Rightarrow> string \<Rightarrow> ('w, PyErr, bool) io"  \<comment> \<open>\<open>check(dimension)\<close>, extracted as a bool\<close>
  to_base_units :: "'o \<Rightarrow> ('w, PyErr, 'o) io"
  magnitude_eq :: "'o \<Rightarrow> int \<Rightarrow> ('w, PyErr, bool) io"  \<comment> \<open>\<open>magnitude == n\<close>\<close>
  ratio_get :: "Ratio \<Rightarrow> f64"  \<comment> \<open>\<open>get::<ratio>()\<close> of uom\<close>

definition pint_initialize :: "('r, 'o, 'w) pint \<Rightarrow> ('w, PyErr, unit) io" where
  "pint_initialize p = then_io (application_registry p) (\<lambda>registry. quantity_class p registry)"

text \<open>The body of \<open>pint_quantity!\<close>.\<close>

definition pint_quantity :: "('r, 'o, 'w) pint \<Rightarrow> number \<Rightarrow> string \<Rightarrow> ('w, PyErr, 'o) io" where
  "pint_quantity p magnitude unit =
     then_io (application_registry p) (\<lambda>registry. registry_quantity p registry magnitude unit)"

definition Time_into_pyobject :: "('r, 'o, 'w) pint \<Rightarrow> Time Quantity \<Rightarrow> ('w, PyErr, 'o) io" where
  "Time_into_pyobject p q = pint_quantity p (IntNumber (uint (nanosecond (quantity_inner q)))) ''nanosecond''"

definition Bytes_into_pyobject :: "('r, 'o, 'w) pint \<Rightarrow> Bytes Quantity \<Rightarrow> ('w, PyErr, 'o) io" where
  "Bytes_into_pyobject p q = pint_quantity p (IntNumber (uint (byte (quantity_inner q)))) ''byte''"

definition Count_into_pyobject :: "('r, 'o, 'w) pint \<Rightarrow> Count Quantity \<Rightarrow> ('w, PyErr, 'o) io" where
  "Count_into_pyobject p q = pint_quantity p (IntNumber (uint (count_value (quantity_inner q)))) ''count''"

definition BytesPerSecond_into_pyobject ::
  "('r, 'o, 'w) pint \<Rightarrow> BytesPerSecond Quantity \<Rightarrow> ('w, PyErr, 'o) io" where
  "BytesPerSecond_into_pyobject p q =
     pint_quantity p (IntNumber (uint (byte_per_second (quantity_inner q)))) ''byte / second''"

definition OperationsPerSecond_into_pyobject ::
  "('r, 'o, 'w) pint \<Rightarrow> OperationsPerSecond Quantity \<Rightarrow> ('w, PyErr, 'o) io" where
  "OperationsPerSecond_into_pyobject p q =
     pint_quantity p (IntNumber (uint (hertz (quantity_inner q)))) ''count / second''"

definition Ratio_into_pyobject :: "('r, 'o, 'w) pint \<Rightarrow> Ratio Quantity \<Rightarrow> ('w, PyErr, 'o) io" where
  "Ratio_into_pyobject p q = pint_quantity p (FloatNumber (ratio_get p (quantity_inner q))) ''dimensionless''"

definition page_unit_error :: PyErr where
  "page_unit_error = new_err ValueError ''sakai_page must be an unscaled [sakai_page] unit''"

text \<open>The quantity, once the registry knows the unit: unless the unit is scaled or of another dimension.\<close>

definition page_quantity :: "('r, 'o, 'w) pint \<Rightarrow> 'r \<Rightarrow> number \<Rightarrow> ('w, PyErr, 'o) io" where
  "page_quantity p registry n =
     then_io (registry_quantity p registry (IntNumber 1) ''sakai_page'') (\<lambda>unit.
     then_io (check_dimension p unit ''[sakai_page]'') (\<lambda>checked.
     then_io (if \<not> checked then return_io (Inr True)
         else then_io (to_base_units p unit) (\<lambda>base. then_io (magnitude_eq p base 1) (\<lambda>one. return_io (Inr (\<not> one))))) (\<lambda>scaled.
     if scaled then return_io (Inl page_unit_error)
     else registry_quantity p registry n ''sakai_page'')))"

definition Pages_into_pyobject :: "('r, 'o, 'w) pint \<Rightarrow> Pages Quantity \<Rightarrow> ('w, PyErr, 'o) io" where
  "Pages_into_pyobject p q =
     then_io (application_registry p) (\<lambda>registry.
     then_io (registry_contains p registry ''sakai_page'') (\<lambda>known.
     then_io (if \<not> known then registry_define p registry ''sakai_page = [sakai_page]'' else return_io (Inr ())) (\<lambda>_.
     page_quantity p registry (IntNumber (uint (pages_value (quantity_inner q)))))))"

section \<open>Limits\<close>

datatype PythonLimitValue =
    LimitTime "Time Quantity"
  | LimitBytes "Bytes Quantity"
  | LimitCount "Count Quantity"
  | LimitBandwidth "BytesPerSecond Quantity"
  | LimitOperations "OperationsPerSecond Quantity"
  | LimitRatio "Ratio Quantity"

record PyMaxOr =
  max_inner :: "PythonLimitValue option"

definition MaxOr_from_value :: "'a MaxOr \<Rightarrow> ('a \<Rightarrow> PythonLimitValue) \<Rightarrow> PyMaxOr" where
  "MaxOr_from_value limit convert =
     \<lparr>max_inner = (case limit of MaxLimit \<Rightarrow> None | Value v \<Rightarrow> Some (convert v))\<rparr>"

definition MaxOr_from_time :: "NonZeroTime MaxOr \<Rightarrow> PyMaxOr" where
  "MaxOr_from_time limit = MaxOr_from_value limit (\<lambda>time. LimitTime (Quantity (nonzero_inner time)))"

definition MaxOr_from_bytes :: "Bytes MaxOr \<Rightarrow> PyMaxOr" where
  "MaxOr_from_bytes limit = MaxOr_from_value limit (\<lambda>bytes. LimitBytes (Quantity bytes))"

definition MaxOr_from_ratio :: "Ratio MaxOr \<Rightarrow> PyMaxOr" where
  "MaxOr_from_ratio limit = MaxOr_from_value limit (\<lambda>ratio. LimitRatio (Quantity ratio))"

definition MaxOr_from_count :: "Count MaxOr \<Rightarrow> PyMaxOr" where
  "MaxOr_from_count limit = MaxOr_from_value limit (\<lambda>count. LimitCount (Quantity count))"

definition MaxOr_is_max :: "PyMaxOr \<Rightarrow> bool" where
  "MaxOr_is_max limit \<longleftrightarrow> max_inner limit = None"

definition MaxOr_value :: "PyMaxOr \<Rightarrow> PyErr + PythonLimitValue" where
  "MaxOr_value limit = ok_or (new_err ValueError ''max has no numeric value'') (max_inner limit)"

fun limit_into_pyobject :: "('r, 'o, 'w) pint \<Rightarrow> PythonLimitValue \<Rightarrow> ('w, PyErr, 'o) io" where
  "limit_into_pyobject p (LimitTime q) = Time_into_pyobject p q"
| "limit_into_pyobject p (LimitBytes q) = Bytes_into_pyobject p q"
| "limit_into_pyobject p (LimitCount q) = Count_into_pyobject p q"
| "limit_into_pyobject p (LimitBandwidth q) = BytesPerSecond_into_pyobject p q"
| "limit_into_pyobject p (LimitOperations q) = OperationsPerSecond_into_pyobject p q"
| "limit_into_pyobject p (LimitRatio q) = Ratio_into_pyobject p q"

definition MaxOr_repr ::
  "('r, 'o, 'w) pint \<Rightarrow> ('o \<Rightarrow> ('w, PyErr, string) io) \<Rightarrow> PyMaxOr \<Rightarrow> ('w, PyErr, string) io" where
  "MaxOr_repr p repr limit =
     (case max_inner limit of
        None \<Rightarrow> return_io (Inr ''MaxOr(max)'')
      | Some v \<Rightarrow>
          then_io (limit_into_pyobject p v) (\<lambda>obj.
          then_io (repr obj) (\<lambda>text.
          return_io (Inr (''MaxOr(value='' @ text @ '')'')))))"

text \<open>The conversions of limits keep \<open>max\<close> and the number apart.\<close>

lemma MaxOr_from_inj [simp]:
  "MaxOr_from_time a = MaxOr_from_time b \<longleftrightarrow> a = b"
  "MaxOr_from_bytes c = MaxOr_from_bytes d \<longleftrightarrow> c = d"
  "MaxOr_from_ratio e = MaxOr_from_ratio f \<longleftrightarrow> e = f"
  "MaxOr_from_count g = MaxOr_from_count h \<longleftrightarrow> g = h"
  by (auto simp: MaxOr_from_time_def MaxOr_from_bytes_def MaxOr_from_ratio_def MaxOr_from_count_def
      MaxOr_from_value_def nonzero_inner_def split: MaxOr.splits NonZeroTime.splits)

section \<open>Mappings\<close>

text \<open>A fresh dict filled entry by entry in the order of iteration; \<open>into_py_dict\<close> does the same.\<close>

fun mapping_loop ::
  "('v \<Rightarrow> ('w, PyErr, 'o) io) \<Rightarrow> ('k \<times> 'v) list \<Rightarrow> ('k \<times> 'o) list \<Rightarrow> ('w, PyErr, ('k \<times> 'o) list) io" where
  "mapping_loop convert [] dict = return_io (Inr dict)"
| "mapping_loop convert ((key, v) # values) dict =
     then_io (convert v) (\<lambda>obj. mapping_loop convert values (AList.update key obj dict))"

definition mapping :: "('v \<Rightarrow> ('w, PyErr, 'o) io) \<Rightarrow> ('k, 'v) btree \<Rightarrow> ('w, PyErr, ('k \<times> 'o) list) io" where
  "mapping convert values = mapping_loop convert (btree_iter values) []"

text \<open>
  A map collected under other keys: when no two entries get the same key, none is lost.
\<close>

lemma btree_get_renamed:
  assumes "distinct (map fst kvs)" "inj_on r (fst ` set kvs)"
  shows "btree_get (btree_collect (map (\<lambda>(k, v). (r k, g v)) kvs)) n = Some q
    \<longleftrightarrow> (\<exists>k v. (k, v) \<in> set kvs \<and> n = r k \<and> q = g v)"
proof -
  let ?es = "map (\<lambda>(k, v). (r k, g v)) kvs"
  have "map fst ?es = map r (map fst kvs)" by (auto simp: case_prod_beta)
  then have "distinct (map fst ?es)" using assms by (simp only: distinct_map set_map)
  then have "map_of (rev ?es) n = Some q \<longleftrightarrow> (n, q) \<in> set ?es"
    by (subst map_of_eq_Some_iff) (simp_all add: rev_map [symmetric] del: map_map)
  moreover have "(n, q) \<in> set ?es \<longleftrightarrow> (\<exists>k v. (k, v) \<in> set kvs \<and> n = r k \<and> q = g v)" by force
  ultimately show ?thesis by (simp only: btree_get_collect)
qed

lemma option_eqI: "(\<And>q. x = Some q \<longleftrightarrow> y = Some q) \<Longrightarrow> x = y"
  by (cases x; cases y) auto

lemma btree_get_renamed_inj:
  assumes "inj r" "btree_inv m"
  shows "btree_get (btree_collect (map (\<lambda>(k, v). (r k, g v)) (btree_iter m))) (r k) = map_option g (btree_get m k)"
    and "n \<notin> range r \<Longrightarrow> btree_get (btree_collect (map (\<lambda>(k, v). (r k, g v)) (btree_iter m))) n = None"
proof -
  have d: "distinct (map fst m)" using assms(2) by (simp add: btree_inv_def strict_sorted_iff)
  have i: "inj_on r (fst ` set m)" using assms(1) by (rule inj_on_subset) simp
  note renamed = btree_get_renamed [OF d i, of g]
  show "btree_get (btree_collect (map (\<lambda>(k, v). (r k, g v)) (btree_iter m))) (r k) = map_option g (btree_get m k)"
  proof (rule option_eqI)
    fix q
    have "(\<exists>k' v. (k', v) \<in> set m \<and> r k = r k' \<and> q = g v) \<longleftrightarrow> (\<exists>v. (k, v) \<in> set m \<and> q = g v)"
      by (auto simp: inj_eq [OF assms(1)])
    then show "btree_get (btree_collect (map (\<lambda>(k, v). (r k, g v)) (btree_iter m))) (r k) = Some q
      \<longleftrightarrow> map_option g (btree_get m k) = Some q"
      unfolding btree_iter_def renamed by (auto simp: btree_in_set_iff [OF assms(2)])
  qed
  show "btree_get (btree_collect (map (\<lambda>(k, v). (r k, g v)) (btree_iter m))) n = None" if "n \<notin> range r"
  proof (rule option_eqI)
    fix q
    show "btree_get (btree_collect (map (\<lambda>(k, v). (r k, g v)) (btree_iter m))) n = Some q \<longleftrightarrow> None = Some q"
      unfolding btree_iter_def renamed using that by blast
  qed
qed

lemma update_new: "k \<notin> set (map fst d) \<Longrightarrow> AList.update k v d = d @ [(k, v)]"
  by (induction d) auto

text \<open>A mapping has the keys of the map it is made from, in their order, and one object per entry.\<close>

lemma mapping_loop_keys:
  assumes "mapping_loop convert kvs d w = (Inr r, w')" "distinct (map fst d @ map fst kvs)"
  shows "\<exists>objs. length objs = length kvs \<and> r = d @ zip (map fst kvs) objs"
  using assms
proof (induction convert kvs d arbitrary: w rule: mapping_loop.induct)
  case (1 convert d)
  then show ?case by (simp add: return_io_def)
next
  case (2 convert k v kvs d)
  from "2.prems"(1) obtain obj w1 where "mapping_loop convert kvs (AList.update k obj d) w1 = (Inr r, w')"
    by (auto simp: then_io_Inr)
  moreover have "AList.update k obj d = d @ [(k, obj)]" using "2.prems"(2) by (intro update_new) auto
  ultimately have "mapping_loop convert kvs (d @ [(k, obj)]) w1 = (Inr r, w')" by simp
  from "2.IH" [of obj w1] this "2.prems"(2) \<open>AList.update k obj d = _\<close>
  obtain objs where "length objs = length kvs" "r = (d @ [(k, obj)]) @ zip (map fst kvs) objs" by auto
  then show ?case by (intro exI [of _ "obj # objs"]) simp
qed

lemma mapping_keys:
  assumes "mapping convert m w = (Inr dict, w')" "btree_inv m"
  shows "map fst dict = map fst m"
proof -
  have "distinct (map fst m)" using assms(2) by (simp add: btree_inv_def strict_sorted_iff)
  with assms(1) mapping_loop_keys [of convert m "[]" w dict w'] show ?thesis
    by (auto simp: mapping_def btree_iter_def)
qed

lemma mapping_pure:
  assumes "\<And>v w. convert v w = (Inr (g v), w)" "btree_inv m"
  shows "mapping convert m w = (Inr (map (\<lambda>(k, v). (k, g v)) m), w)"
proof -
  have "mapping_loop convert kvs d w = (Inr (d @ map (\<lambda>(k, v). (k, g v)) kvs), w)"
    if "distinct (map fst d @ map fst kvs)" for kvs d
    using that
  proof (induction kvs arbitrary: d)
    case Nil
    then show ?case by (simp add: return_io_def)
  next
    case (Cons kv kvs)
    obtain k v where kv: "kv = (k, v)" by (cases kv)
    have "AList.update k (g v) d = d @ [(k, g v)]" using Cons.prems kv by (intro update_new) auto
    with Cons.IH [of "d @ [(k, g v)]"] Cons.prems kv show ?case
      by (simp add: then_io_eq(1) [OF assms(1)])
  qed
  from this [of "[]" m] assms(2) show ?thesis
    by (simp add: mapping_def btree_iter_def btree_inv_def strict_sorted_iff)
qed

section \<open>Pages\<close>

text \<open>
  What Pint documents of the operations the code calls. \<open>unit_of w name\<close> is the unit a name stands for
  in the registry, with its prefixes and plurals; \<open>dimension\<close> is the dimension of a unit, \<open>own\<close> the
  one that \<open>check('[sakai_page]')\<close> compares with, and \<open>factor\<close> the magnitude of one unit in base
  units. The definition of an unknown unit in a dimension of its own succeeds; nothing is said of the
  other names it adds.
\<close>

definition standard_pint ::
  "('r, 'o, 'w) pint \<Rightarrow> ('w \<Rightarrow> string \<rightharpoonup> 'u) \<Rightarrow> ('w \<Rightarrow> 'u \<Rightarrow> 'k) \<Rightarrow> ('w \<Rightarrow> 'u \<Rightarrow> rat) \<Rightarrow> 'k \<Rightarrow> ('o \<Rightarrow> number \<times> 'u) \<Rightarrow> bool" where
  "standard_pint p unit_of dimension factor own view \<longleftrightarrow>
     (\<forall>w. \<exists>r. application_registry p w = (Inr r, w))
     \<and> (\<forall>r w. registry_contains p r ''sakai_page'' w = (Inr (unit_of w ''sakai_page'' \<noteq> None), w))
     \<and> (\<forall>r w. unit_of w ''sakai_page'' = None \<longrightarrow>
          (\<exists>w' u. registry_define p r ''sakai_page = [sakai_page]'' w = (Inr (), w')
             \<and> unit_of w' ''sakai_page'' = Some u \<and> dimension w' u = own \<and> factor w' u = 1))
     \<and> (\<forall>r n name w u. unit_of w name = Some u \<longrightarrow>
          (\<exists>obj. registry_quantity p r n name w = (Inr obj, w) \<and> view obj = (n, u)))
     \<and> (\<forall>obj n u w. view obj = (n, u) \<longrightarrow> check_dimension p obj ''[sakai_page]'' w = (Inr (dimension w u = own), w))
     \<and> (\<forall>obj u w. view obj = (IntNumber 1, u) \<and> dimension w u = own \<longrightarrow>
          (\<exists>base. to_base_units p obj w = (Inr base, w) \<and> magnitude_eq p base 1 w = (Inr (factor w u = 1), w)))"

lemma standard_pint_registry: "standard_pint p unit_of dimension factor own view \<Longrightarrow> \<exists>r. application_registry p w = (Inr r, w)"
  unfolding standard_pint_def by (elim conjE) blast

lemma standard_pint_contains:
  "standard_pint p unit_of dimension factor own view \<Longrightarrow>
     registry_contains p r ''sakai_page'' w = (Inr (unit_of w ''sakai_page'' \<noteq> None), w)"
  unfolding standard_pint_def by (elim conjE) blast

lemma standard_pint_define:
  "standard_pint p unit_of dimension factor own view \<Longrightarrow> unit_of w ''sakai_page'' = None \<Longrightarrow>
     \<exists>w' u. registry_define p r ''sakai_page = [sakai_page]'' w = (Inr (), w')
       \<and> unit_of w' ''sakai_page'' = Some u \<and> dimension w' u = own \<and> factor w' u = 1"
  unfolding standard_pint_def by (elim conjE) blast

lemma standard_pint_quantity:
  "standard_pint p unit_of dimension factor own view \<Longrightarrow> unit_of w name = Some u \<Longrightarrow>
     \<exists>obj. registry_quantity p r n name w = (Inr obj, w) \<and> view obj = (n, u)"
  unfolding standard_pint_def by (elim conjE) blast

lemma standard_pint_check:
  "standard_pint p unit_of dimension factor own view \<Longrightarrow> view obj = (n, u) \<Longrightarrow>
     check_dimension p obj ''[sakai_page]'' w = (Inr (dimension w u = own), w)"
  unfolding standard_pint_def by (elim conjE) blast

lemma standard_pint_base:
  "standard_pint p unit_of dimension factor own view \<Longrightarrow> view obj = (IntNumber 1, u) \<Longrightarrow> dimension w u = own \<Longrightarrow>
     \<exists>base. to_base_units p obj w = (Inr base, w) \<and> magnitude_eq p base 1 w = (Inr (factor w u = 1), w)"
  unfolding standard_pint_def by (elim conjE) blast

lemma pint_quantity_standard:
  assumes "standard_pint p unit_of dimension factor own view" "unit_of w name = Some u"
  shows "\<exists>obj. pint_quantity p n name w = (Inr obj, w) \<and> view obj = (n, u)"
proof -
  obtain r where "application_registry p w = (Inr r, w)" using standard_pint_registry [OF assms(1)] by blast
  moreover obtain obj where "registry_quantity p r n name w = (Inr obj, w)" "view obj = (n, u)"
    using standard_pint_quantity [OF assms(1), OF assms(2)] by blast
  ultimately show ?thesis by (simp add: pint_quantity_def then_io_def)
qed

lemma page_quantity_result:
  assumes "standard_pint p unit_of dimension factor own view" "unit_of v ''sakai_page'' = Some u"
  obtains obj where "page_quantity p r n v = (if dimension v u = own \<and> factor v u = 1 then Inr obj else Inl page_unit_error, v)"
    "view obj = (n, u)"
proof -
  obtain one where one: "registry_quantity p r (IntNumber 1) ''sakai_page'' v = (Inr one, v)" "view one = (IntNumber 1, u)"
    using standard_pint_quantity [OF assms(1), OF assms(2)] by blast
  obtain obj where obj: "registry_quantity p r n ''sakai_page'' v = (Inr obj, v)" "view obj = (n, u)"
    using standard_pint_quantity [OF assms(1), OF assms(2)] by blast
  have checked: "check_dimension p one ''[sakai_page]'' v = (Inr (dimension v u = own), v)"
    by (rule standard_pint_check [OF assms(1), OF one(2)])
  show thesis
  proof (rule that [OF _ obj(2)], cases "dimension v u = own")
    case True
    then obtain base where "to_base_units p one v = (Inr base, v)" "magnitude_eq p base 1 v = (Inr (factor v u = 1), v)"
      using standard_pint_base [OF assms(1), OF one(2)] by blast
    with True one(1) obj(1) checked
    show "page_quantity p r n v = (if dimension v u = own \<and> factor v u = 1 then Inr obj else Inl page_unit_error, v)"
      by (simp add: page_quantity_def then_io_def return_io_def)
  next
    case False
    with one(1) checked
    show "page_quantity p r n v = (if dimension v u = own \<and> factor v u = 1 then Inr obj else Inl page_unit_error, v)"
      by (simp add: page_quantity_def then_io_def return_io_def)
  qed
qed

text \<open>C29: A count of pages is only given to Python in an unscaled unit \<open>sakai_page\<close> of its own
  dimension, with the exact magnitude. Where the application's registry knows a unit of that name,
  one made of a prefix or a plural included, nothing is defined and the registry stays as it is: the
  count comes in that unit, or is a \<open>ValueError\<close> when the unit is scaled or of another dimension.
  Otherwise the one definition \<open>sakai_page = [sakai_page]\<close> is all that happens to the registry.\<close>

theorem Pages_into_pyobject_correct:
  assumes "standard_pint p unit_of dimension factor own view"
    and "Pages_into_pyobject p (Quantity (Pages n)) w = (result, w')"
  shows "(case unit_of w ''sakai_page'' of
       None \<Rightarrow> (\<exists>r. registry_define p r ''sakai_page = [sakai_page]'' w = (Inr (), w'))
         \<and> (\<exists>obj u. result = Inr obj \<and> view obj = (IntNumber (uint n), u)
              \<and> unit_of w' ''sakai_page'' = Some u \<and> dimension w' u = own \<and> factor w' u = 1)
     | Some u \<Rightarrow> w' = w
         \<and> (if dimension w u = own \<and> factor w u = 1
            then \<exists>obj. result = Inr obj \<and> view obj = (IntNumber (uint n), u)
            else result = Inl (new_err ValueError ''sakai_page must be an unscaled [sakai_page] unit'')))"
proof -
  obtain r where r: "application_registry p w = (Inr r, w)"
    using standard_pint_registry [OF assms(1)] by blast
  note contains = standard_pint_contains [OF assms(1), of r w]
  show ?thesis
  proof (cases "unit_of w ''sakai_page''")
    case None
    then obtain v u where v: "registry_define p r ''sakai_page = [sakai_page]'' w = (Inr (), v)"
        "unit_of v ''sakai_page'' = Some u" "dimension v u = own" "factor v u = 1"
      using standard_pint_define [OF assms(1), OF None] by blast
    from page_quantity_result [OF assms(1), OF v(2)] obtain obj where
      "page_quantity p r (IntNumber (uint n)) v
        = (if dimension v u = own \<and> factor v u = 1 then Inr obj else Inl page_unit_error, v)"
      "view obj = (IntNumber (uint n), u)" .
    with assms(2) None v show ?thesis
      by (auto simp: Pages_into_pyobject_def then_io_eq(1) [where m = "application_registry p", OF r]
          then_io_eq(1) [where m = "registry_contains p r _", OF contains] then_io_eq(1) [where m = "registry_define p r _", OF v(1)])
  next
    case (Some u)
    from page_quantity_result [OF assms(1), OF Some] obtain obj where
      "page_quantity p r (IntNumber (uint n)) w = (if dimension w u = own \<and> factor w u = 1 then Inr obj else Inl page_unit_error, w)"
      "view obj = (IntNumber (uint n), u)" .
    with assms(2) Some show ?thesis
      by (auto simp: Pages_into_pyobject_def then_io_eq(1) [where m = "application_registry p", OF r]
          then_io_eq(1) [where m = "registry_contains p r _", OF contains] page_unit_error_def)
  qed
qed

text \<open>
  A registry with units by name, each with its dimension and factor. A name also stands for a unit as
  its plural or with the prefix \<open>kilo\<close>: the unit is then the prefix's factor and the unit's name.
\<close>

type_synonym demo_units = "(string \<times> string \<times> rat) list"

definition demo_names :: "demo_units \<Rightarrow> string \<Rightarrow> (rat \<times> string) option" where
  "demo_names w name =
     (let singular = (case strip_suffix ''s'' name of Some n \<Rightarrow> n | None \<Rightarrow> name)
      in if map_of w name \<noteq> None then Some (1, name)
         else if map_of w singular \<noteq> None then Some (1, singular)
         else case strip_prefix ''kilo'' singular of
             Some n \<Rightarrow> if map_of w n \<noteq> None then Some (1000, n) else None
           | None \<Rightarrow> None)"

definition demo_dimension :: "demo_units \<Rightarrow> rat \<times> string \<Rightarrow> string" where
  "demo_dimension w u = (case map_of w (snd u) of Some (dimension, _) \<Rightarrow> dimension | None \<Rightarrow> '''')"

definition demo_factor :: "demo_units \<Rightarrow> rat \<times> string \<Rightarrow> rat" where
  "demo_factor w u = (case map_of w (snd u) of Some (_, factor) \<Rightarrow> fst u * factor | None \<Rightarrow> 0)"

definition demo_pint :: "(unit, number \<times> rat \<times> string, demo_units) pint" where
  "demo_pint =
     \<lparr>application_registry = (\<lambda>w. (Inr (), w)),
      registry_contains = (\<lambda>r name w. (Inr (demo_names w name \<noteq> None), w)),
      registry_define = (\<lambda>r text w. (Inr (), (''sakai_page'', ''[sakai_page]'', 1) # w)),
      registry_quantity = (\<lambda>r n name w. (case demo_names w name of Some u \<Rightarrow> Inr (n, u)
        | None \<Rightarrow> Inl (new_err (OtherClass ''UndefinedUnitError'') name), w)),
      quantity_class = (\<lambda>r w. (Inr (), w)),
      check_dimension = (\<lambda>obj d w. (Inr (demo_dimension w (snd obj) = d), w)),
      to_base_units = (\<lambda>obj w. (Inr obj, w)),
      magnitude_eq = (\<lambda>obj k w. (Inr (case fst obj of
          IntNumber n \<Rightarrow> of_int n * demo_factor w (snd obj) = of_int k | FloatNumber x \<Rightarrow> False), w)),
      ratio_get = (\<lambda>r. case r of Ratio_percent x \<Rightarrow> x | Ratio_ratio x \<Rightarrow> x)\<rparr>"

lemma demo_pint_standard:
  "standard_pint demo_pint demo_names demo_dimension demo_factor ''[sakai_page]'' (\<lambda>obj. obj)"
  unfolding standard_pint_def
  by (intro conjI allI impI)
    (auto simp: demo_pint_def demo_names_def demo_dimension_def demo_factor_def Let_def)

text \<open>
  A registry without the unit; one that has it; and one where the name is the application's own
  unit of 4096 bytes.
\<close>

theorem Pages_into_pyobject_correct_witness:
  "(\<exists>obj w'. Pages_into_pyobject demo_pint (Quantity (Pages 7)) [] = (Inr obj, w')
      \<and> obj = (IntNumber 7, 1, ''sakai_page'') \<and> demo_factor w' (snd obj) = 1 \<and> demo_names w' ''kilosakai_pages'' = Some (1000, ''sakai_page''))
   \<and> (\<exists>obj. Pages_into_pyobject demo_pint (Quantity (Pages 7)) [(''sakai_page'', ''[sakai_page]'', 1)]
        = (Inr obj, [(''sakai_page'', ''[sakai_page]'', 1)]) \<and> obj = (IntNumber 7, 1, ''sakai_page''))
   \<and> Pages_into_pyobject demo_pint (Quantity (Pages 7)) [(''sakai_page'', ''[information]'', 4096)]
        = (Inl (new_err ValueError ''sakai_page must be an unscaled [sakai_page] unit''), [(''sakai_page'', ''[information]'', 4096)])"
proof (intro conjI)
  note correct = Pages_into_pyobject_correct [OF demo_pint_standard, of 7]
  obtain result w' where run: "Pages_into_pyobject demo_pint (Quantity (Pages 7)) [] = (result, w')" by fastforce
  have none: "demo_names [] ''sakai_page'' = None" by code_simp
  from correct [OF run] obtain r obj u where
    found: "registry_define demo_pint r ''sakai_page = [sakai_page]'' [] = (Inr (), w')"
    "result = Inr obj" "obj = (IntNumber (uint (7 :: u64)), u)" "demo_names w' ''sakai_page'' = Some u" "demo_factor w' u = 1"
    unfolding none option.case by (elim conjE exE) (rule that)
  from found(1) have w': "w' = [(''sakai_page'', ''[sakai_page]'', 1)]" by (simp add: demo_pint_def)
  have "demo_names w' ''sakai_page'' = Some (1, ''sakai_page'')" "demo_names w' ''kilosakai_pages'' = Some (1000, ''sakai_page'')"
    unfolding w' by code_simp+
  with found run show "\<exists>obj w'. Pages_into_pyobject demo_pint (Quantity (Pages 7)) [] = (Inr obj, w')
      \<and> obj = (IntNumber 7, 1, ''sakai_page'') \<and> demo_factor w' (snd obj) = 1 \<and> demo_names w' ''kilosakai_pages'' = Some (1000, ''sakai_page'')"
    by (intro exI [of _ obj] exI [of _ w']) simp
next
  let ?w = "[(''sakai_page'', ''[sakai_page]'', 1 :: rat)]"
  obtain result w' where run: "Pages_into_pyobject demo_pint (Quantity (Pages 7)) ?w = (result, w')" by fastforce
  have u: "demo_names ?w ''sakai_page'' = Some (1, ''sakai_page'')" by code_simp
  have plain: "(demo_dimension ?w (1, ''sakai_page'') = ''[sakai_page]'' \<and> demo_factor ?w (1, ''sakai_page'') = 1) = True"
    by (simp add: demo_dimension_def demo_factor_def)
  from Pages_into_pyobject_correct [OF demo_pint_standard, OF run] have "w' = ?w" "result = Inr (IntNumber 7, 1, ''sakai_page'')"
    unfolding u option.case plain if_True by auto
  with run show "\<exists>obj. Pages_into_pyobject demo_pint (Quantity (Pages 7)) ?w = (Inr obj, ?w) \<and> obj = (IntNumber 7, 1, ''sakai_page'')"
    by simp
next
  let ?w = "[(''sakai_page'', ''[information]'', 4096 :: rat)]"
  obtain result w' where run: "Pages_into_pyobject demo_pint (Quantity (Pages 7)) ?w = (result, w')" by fastforce
  have u: "demo_names ?w ''sakai_page'' = Some (1, ''sakai_page'')" by code_simp
  have other: "(demo_dimension ?w (1, ''sakai_page'') = ''[sakai_page]'' \<and> demo_factor ?w (1, ''sakai_page'') = 1) = False"
    by (simp add: demo_dimension_def)
  from Pages_into_pyobject_correct [OF demo_pint_standard, OF run] have "w' = ?w"
    "result = Inl (new_err ValueError ''sakai_page must be an unscaled [sakai_page] unit'')"
    unfolding u option.case other if_False by auto
  with run show "Pages_into_pyobject demo_pint (Quantity (Pages 7)) ?w
      = (Inl (new_err ValueError ''sakai_page must be an unscaled [sakai_page] unit''), ?w)" by simp
qed

end
