(* ===== verification/Sakai_Scalar.thy ===== *)
theory Sakai_Scalar
  imports Sakai_File
begin

text \<open>
  \<open>sakai/src/scalar.rs\<close>: snapshots of one value. An \<open>Interface\<close> marker gives the file and the
  diagnostic field name; the type of the value gives its encoding.
\<close>

datatype Interface =
    ICgroupFreeze | ICgroupMaxDepth | ICgroupMaxDescendants | ICgroupPressure
  | IPidsCurrent | IPidsPeak | IPidsMax
  | IMemoryOomGroup | IMemoryCurrent | IMemoryPeak | IMemoryMax | IMemoryHigh | IMemoryLow | IMemoryMin
  | ISwapCurrent | ISwapPeak | ISwapMax | ISwapHigh
  | IZswapCurrent | IZswapMax | IZswapWriteback
  | ICpuIdle | ICpuMaxBurst | ICpuUclampMin | ICpuUclampMax

fun Interface_FIELD :: "Interface \<Rightarrow> string" where
  "Interface_FIELD ICgroupFreeze = ''freeze''"
| "Interface_FIELD ICgroupMaxDepth = ''depth''"
| "Interface_FIELD ICgroupMaxDescendants = ''descendants''"
| "Interface_FIELD ICgroupPressure = ''pressure''"
| "Interface_FIELD IPidsCurrent = ''current''"
| "Interface_FIELD IPidsPeak = ''peak''"
| "Interface_FIELD IPidsMax = ''max''"
| "Interface_FIELD IMemoryOomGroup = ''oom.group''"
| "Interface_FIELD IMemoryCurrent = ''current''"
| "Interface_FIELD IMemoryPeak = ''peak''"
| "Interface_FIELD IMemoryMax = ''max''"
| "Interface_FIELD IMemoryHigh = ''high''"
| "Interface_FIELD IMemoryLow = ''low''"
| "Interface_FIELD IMemoryMin = ''min''"
| "Interface_FIELD ISwapCurrent = ''current''"
| "Interface_FIELD ISwapPeak = ''peak''"
| "Interface_FIELD ISwapMax = ''max''"
| "Interface_FIELD ISwapHigh = ''high''"
| "Interface_FIELD IZswapCurrent = ''current''"
| "Interface_FIELD IZswapMax = ''max''"
| "Interface_FIELD IZswapWriteback = ''writeback''"
| "Interface_FIELD ICpuIdle = ''idle''"
| "Interface_FIELD ICpuMaxBurst = ''burst''"
| "Interface_FIELD ICpuUclampMin = ''utilization''"
| "Interface_FIELD ICpuUclampMax = ''utilization''"

fun Interface_FILE_NAME :: "Interface \<Rightarrow> string" where
  "Interface_FILE_NAME ICgroupFreeze = ''cgroup.freeze''"
| "Interface_FILE_NAME ICgroupMaxDepth = ''cgroup.max.depth''"
| "Interface_FILE_NAME ICgroupMaxDescendants = ''cgroup.max.descendants''"
| "Interface_FILE_NAME ICgroupPressure = ''cgroup.pressure''"
| "Interface_FILE_NAME IPidsCurrent = ''pids.current''"
| "Interface_FILE_NAME IPidsPeak = ''pids.peak''"
| "Interface_FILE_NAME IPidsMax = ''pids.max''"
| "Interface_FILE_NAME IMemoryOomGroup = ''memory.oom.group''"
| "Interface_FILE_NAME IMemoryCurrent = ''memory.current''"
| "Interface_FILE_NAME IMemoryPeak = ''memory.peak''"
| "Interface_FILE_NAME IMemoryMax = ''memory.max''"
| "Interface_FILE_NAME IMemoryHigh = ''memory.high''"
| "Interface_FILE_NAME IMemoryLow = ''memory.low''"
| "Interface_FILE_NAME IMemoryMin = ''memory.min''"
| "Interface_FILE_NAME ISwapCurrent = ''memory.swap.current''"
| "Interface_FILE_NAME ISwapPeak = ''memory.swap.peak''"
| "Interface_FILE_NAME ISwapMax = ''memory.swap.max''"
| "Interface_FILE_NAME ISwapHigh = ''memory.swap.high''"
| "Interface_FILE_NAME IZswapCurrent = ''memory.zswap.current''"
| "Interface_FILE_NAME IZswapMax = ''memory.zswap.max''"
| "Interface_FILE_NAME IZswapWriteback = ''memory.zswap.writeback''"
| "Interface_FILE_NAME ICpuIdle = ''cpu.idle''"
| "Interface_FILE_NAME ICpuMaxBurst = ''cpu.max.burst''"
| "Interface_FILE_NAME ICpuUclampMin = ''cpu.uclamp.min''"
| "Interface_FILE_NAME ICpuUclampMax = ''cpu.uclamp.max''"

record 'a Scalar =
  scalar_value :: 'a

definition Scalar_new :: "'a \<Rightarrow> 'a Scalar" where
  "Scalar_new v = \<lparr>scalar_value = v\<rparr>"

text \<open>\<open>FromStr for Scalar<T, I>\<close>; the first argument is \<open>T\<close>'s parser for its \<open>Encoding\<close>.\<close>

definition Scalar_from_str ::
  "(string \<Rightarrow> ParseValueError + 'a) \<Rightarrow> Interface \<Rightarrow> string \<Rightarrow> 'a Scalar parsed" where
  "Scalar_from_str parse i contents = map_ok Scalar_new (Parser_single parse contents (Interface_FIELD i))"

text \<open>A live read of a scalar: its own file, then its parser.\<close>

definition Scalar_read ::
  "(string \<Rightarrow> ParseValueError + 'a) \<Rightarrow> Interface \<Rightarrow> ('d, 'x) os_scheme \<Rightarrow> 'd Cgroup \<Rightarrow> Error + 'a Scalar" where
  "Scalar_read parse i os cg = Cgroup_parse (Scalar_from_str parse i) os cg (Interface_FILE_NAME i)"

lemma Scalar_from_str_Inr_iff:
  "Scalar_from_str parse i contents = Inr s \<longleftrightarrow>
     (\<exists>w. split_ascii_whitespace contents = [w] \<and> parse w = Inr (scalar_value s))"
proof -
  have "s = Scalar_new v \<longleftrightarrow> scalar_value s = v" for v by (cases s) (auto simp: Scalar_new_def)
  then show ?thesis by (auto simp: Scalar_from_str_def map_ok_eq_Inr Parser_single_Inr_iff)
qed

interpretation scalar: snapshot_parser "Scalar_from_str parse i"
  by unfold_locales (simp add: Scalar_from_str_def reports_map_ok reports_Parser_single)

context cgroup_value
begin

text \<open>The text the kernel writes for a value is read back as that value.\<close>

lemma scalar_render: "valid v \<Longrightarrow> Scalar_from_str parse i (render v @ [CHR 0x0A]) = Inr (Scalar_new v)"
  by (simp add: Scalar_from_str_def single_render)

end

context checked_value
begin

lemma scalar_valid: "Scalar_from_str parse i contents = Inr s \<Longrightarrow> valid (scalar_value s)"
  by (auto simp: Scalar_from_str_Inr_iff intro: parse_valid)

end

end
