(* ===== verification/Kernel_Text.thy ===== *)
theory Kernel_Text
  imports Sakai_Parse
begin

text \<open>
  The texts the kernel writes: lines of words separated by one space, \<open>key=value\<close>
  assignments, and decimal fractions. The parsers' round trips are stated against them.
\<close>

section \<open>Lines of words\<close>

fun unwords :: "string list \<Rightarrow> string" where
  "unwords [] = ''''"
| "unwords [w] = w"
| "unwords (w # v # ws) = w @ '' '' @ unwords (v # ws)"

definition is_word_line :: "string list \<Rightarrow> bool" where
  "is_word_line ws \<longleftrightarrow> ws \<noteq> [] \<and> list_all is_token ws \<and> ink (hd (hd ws))"

lemma split_unwords: "list_all is_token ws \<Longrightarrow> split_ascii_whitespace (unwords ws) = ws"
  by (induction ws rule: unwords.induct)
    (simp_all add: split_ascii_whitespace_token split_ascii_whitespace_token_space)

lemma unwords_shape:
  "list_all is_token ws \<Longrightarrow> ws \<noteq> [] \<Longrightarrow>
   CHR 0x0A \<notin> set (unwords ws) \<and> unwords ws \<noteq> [] \<and> last (unwords ws) = last (last ws)
     \<and> hd (unwords ws) = hd (hd ws)"
  by (induction ws rule: unwords.induct)
    (auto simp: is_token_def is_ascii_whitespace_def)

lemma unwords_line:
  assumes "is_word_line ws"
  shows "is_line (unwords ws)" "trim (unwords ws) \<noteq> []" "split_ascii_whitespace (unwords ws) = ws"
proof -
  have ws: "list_all is_token ws" "ws \<noteq> []" "ink (hd (hd ws))"
    using assms by (auto simp: is_word_line_def)
  note shape = unwords_shape [OF ws(1,2)]
  have "is_token (last ws)" using ws(1,2) by (auto simp: list_all_iff)
  then have "last (last ws) \<noteq> CHR 0x0D"
    by (auto simp: is_token_def is_ascii_whitespace_def dest: last_in_set)
  with shape show "is_line (unwords ws)" by (simp add: is_line_def)
  from shape ws(3) show "trim (unwords ws) \<noteq> []" by (intro trim_starts_with_ink) simp_all
  from ws(1) show "split_ascii_whitespace (unwords ws) = ws" by (rule split_unwords)
qed

lemma nonblank_lines_words:
  assumes "\<forall>ws \<in> set wss. is_word_line ws"
  shows "nonblank_lines (unlines (map unwords wss)) = map unwords wss"
  using assms by (simp add: nonblank_lines_unlines unwords_line filter_id_conv)

section \<open>Assignments\<close>

definition assignment :: "string \<Rightarrow> string \<Rightarrow> string" where
  "assignment key value = key @ ''='' @ value"

lemma split_assignment: "CHR ''='' \<notin> set key \<Longrightarrow> split_once ''='' (assignment key value) = Some (key, value)"
  by (simp add: assignment_def split_once_char)

lemma is_token_assignment: "is_token key \<Longrightarrow> is_token value \<Longrightarrow> is_token (assignment key value)"
  by (simp add: assignment_def) (simp add: is_token_def is_ascii_whitespace_def)

section \<open>Decimal fractions\<close>

lemma takeWhile_digits:
  assumes "all_digits s" "r = [] \<or> \<not> is_ascii_digit (hd r)"
  shows "takeWhile is_ascii_digit (s @ r) = s" "dropWhile is_ascii_digit (s @ r) = r"
proof -
  have "takeWhile is_ascii_digit r = []" "dropWhile is_ascii_digit r = r"
    using assms(2) by (cases r; simp)+
  with assms(1) show "takeWhile is_ascii_digit (s @ r) = s" "dropWhile is_ascii_digit (s @ r) = r"
    by (simp_all add: all_digits_def takeWhile_append2 dropWhile_append2)
qed

lemma parse_number_decimal:
  assumes "all_digits ip" "all_digits fp" "ip @ fp \<noteq> []"
  shows "parse_number (ip @ CHR ''.'' # fp) = Some (of_nat (digits_value 0 (ip @ fp)) / 10 ^ length fp)"
proof -
  have dot: "CHR ''.'' # fp = [] \<or> \<not> is_ascii_digit (hd (CHR ''.'' # fp))" by simp
  note ip = takeWhile_digits [OF assms(1) dot]
  have fp: "takeWhile is_ascii_digit fp = fp" "dropWhile is_ascii_digit fp = []"
    using takeWhile_digits [OF assms(2), of "[]"] by simp_all
  show ?thesis
    using assms(3) by (simp add: parse_number_def Let_def ip fp pow10_def del: append_is_Nil_conv)
qed

lemma parse_f64_decimal:
  assumes "all_digits ip" "all_digits fp" "ip \<noteq> []"
  shows "parse_f64 (ip @ CHR ''.'' # fp) =
    Inr (round_f64 False (of_nat (digits_value 0 (ip @ fp)) / 10 ^ length fp))"
  using assms all_digits_head [OF assms(1,3)] by (simp add: parse_f64_def parse_number_decimal)

text \<open>A percentage with two decimals, given in hundredths of a percent.\<close>

definition render_hundredths :: "nat \<Rightarrow> string" where
  "render_hundredths n =
     show_nat (n div 100) @ ''.'' @ [digit_char (n mod 100 div 10), digit_char (n mod 10)]"

definition hundredths :: "nat \<Rightarrow> Ratio" where
  "hundredths n = Ratio_percent (round_f64 False (of_nat n / 100))"

lemma digits_value_hundredths:
  "digits_value 0 (show_nat (n div 100) @ [digit_char (n mod 100 div 10), digit_char (n mod 10)]) = n"
proof -
  have "n mod 100 div 10 * 10 + n mod 100 mod 10 = n mod 100" by (rule div_mult_mod_eq)
  moreover have "n mod 100 mod 10 = n mod 10" by (simp add: mod_mod_cancel)
  moreover have "n div 100 * 100 + n mod 100 = n" by (rule div_mult_mod_eq)
  moreover have "(n div 100 * 10 + n mod 100 div 10) * 10 + n mod 10
      = n div 100 * 100 + (n mod 100 div 10 * 10 + n mod 10)" by (simp only: add_mult_distrib)
  ultimately have "(n div 100 * 10 + n mod 100 div 10) * 10 + n mod 10 = n" by simp
  moreover have "n mod 100 div 10 < 10" "n mod 10 < 10" by (simp_all add: less_mult_imp_div_less)
  ultimately show ?thesis by (simp only: digits_value_append digits_value.simps digits_value_show_nat
      to_digit_digit_char option.sel)
qed

lemma hundredths_valid: "n \<le> 10000 \<Longrightarrow> valid_percent (hundredths n)"
proof -
  assume "n \<le> 10000"
  then have "(of_nat n :: rat) / 100 \<le> of_nat 100" by simp
  then obtain m where "round_f64 False (of_nat n / 100) = Finite False m" "0 \<le> m" "m \<le> of_nat 100"
    using round_f64_le_nat [of "of_nat n / 100" 100 False] by auto
  then have "hundredths n = Ratio_percent (Finite False m) \<and> 0 \<le> m \<and> m \<le> 100"
    by (simp add: hundredths_def)
  then show ?thesis unfolding valid_percent_def by (intro exI [of _ False] exI [of _ m]) simp
qed

lemma parse_f64_hundredths: "parse_f64 (render_hundredths n) = Inr (round_f64 False (of_nat n / 100))"
proof -
  let ?d = "digit_char (n mod 100 div 10)" and ?e = "digit_char (n mod 10)"
  have "n mod 100 div 10 < 10" "n mod 10 < 10" by simp_all
  then have "parse_f64 (show_nat (n div 100) @ CHR ''.'' # [?d, ?e]) =
    Inr (round_f64 False (of_nat (digits_value 0 (show_nat (n div 100) @ [?d, ?e])) / 10 ^ length [?d, ?e]))"
    by (intro parse_f64_decimal) simp_all
  then show ?thesis unfolding digits_value_hundredths by (simp add: render_hundredths_def)
qed

lemma parse_percent_hundredths: "n \<le> 10000 \<Longrightarrow> parse_percent (render_hundredths n) = Inr (hundredths n)"
  using hundredths_valid [of n]
  by (simp add: parse_percent_Inr_iff parse_f64_hundredths) (simp add: hundredths_def)

lemma is_token_hundredths [simp]: "is_token (render_hundredths n)"
proof -
  have "is_token [digit_char (n mod 100 div 10), digit_char (n mod 10)]" by (intro is_token_digits) simp_all
  then show ?thesis by (simp add: render_hundredths_def) (simp add: is_token_def is_ascii_whitespace_def)
qed

end
