(* ===== verification/Field_Record.thy ===== *)
theory Field_Record
  imports Sakai_File Kernel_Text
begin

text \<open>
  Structures read from keyed fields. Every \<open>from_fields\<close> of the crate turns a \<open>KeyedFields\<close>
  into a structure; the fields come from the lines of a file or from the \<open>key=value\<close> tokens
  of a line. The locale \<open>field_record\<close> is that contract: errors carry the input, and the
  fields the kernel writes for a structure are read back as it. Its lemmas lift the contract
  to whole files and to lines.
\<close>

section \<open>Assignments as keyed fields\<close>

text \<open>
  \<open>KeyedFields::new(raw, tokens.map(|token| token.split_once('=').ok_or_else(...)))\<close>, which
  the readers of device lines share.
\<close>

definition assignment_token :: "string \<Rightarrow> string \<Rightarrow> (string \<times> string) parsed" where
  "assignment_token raw token =
     ok_or (ParseError_invalid raw ''value'' token OutOfRange) (split_once ''='' token)"

definition assignments :: "string \<Rightarrow> string list \<Rightarrow> KeyedFields parsed" where
  "assignments raw tokens = KeyedFields_new raw (map (assignment_token raw) tokens)"

definition render_assignments :: "(string \<times> string) list \<Rightarrow> string list" where
  "render_assignments kvs = map (\<lambda>(k, v). assignment k v) kvs"

lemma reports_assignments [reports_intros]: "reports raw (assignments raw tokens)"
  by (auto simp: assignments_def assignment_token_def intro!: reports_intros)

lemma kf_raw_assignments: "assignments raw tokens = Inr kf \<Longrightarrow> kf_raw kf = raw"
  by (auto simp: assignments_def KeyedFields_new_def result_simps)

lemma assignments_render:
  assumes "\<forall>kv \<in> set kvs. CHR ''='' \<notin> set (fst kv)"
  shows "assignments raw (render_assignments kvs) = Inr \<lparr>kf_raw = raw, kf_values = btree_collect kvs\<rparr>"
proof -
  have "map (assignment_token raw) (render_assignments kvs) = map Inr kvs"
    using assms by (auto simp: render_assignments_def assignment_token_def split_assignment)
  then show ?thesis by (simp add: assignments_def KeyedFields_new_def)
qed

section \<open>Optional fields\<close>

fun opt_pair :: "string \<Rightarrow> ('v \<Rightarrow> string) \<Rightarrow> 'v option \<Rightarrow> (string \<times> string) list" where
  "opt_pair k render None = []"
| "opt_pair k render (Some v) = [(k, render v)]"

lemma rev_opt_pair [simp]: "rev (opt_pair k render v) = opt_pair k render v"
  by (cases v) auto

lemma set_opt_pair: "set (opt_pair k render v) = (\<lambda>x. (k, render x)) ` set_option v"
  by (cases v) auto

lemma map_of_opt_pair [simp]: "map_of (opt_pair k render v) k' = (if k' = k then map_option render v else None)"
  by (cases v) auto

lemma opt_pair_Nil_iff [simp]: "opt_pair k render v = [] \<longleftrightarrow> v = None"
  by (cases v) auto

text \<open>Looking a key up in fields given as a concatenation.\<close>

lemma btree_get_collect_append:
  "btree_get (btree_collect (xs @ ys)) k =
     (case btree_get (btree_collect ys) k of None \<Rightarrow> btree_get (btree_collect xs) k | Some v \<Rightarrow> Some v)"
  by (simp add: btree_get_collect map_add_def split: option.split)

lemma btree_get_collect_Cons:
  "btree_get (btree_collect ((k', v) # ys)) k =
     (case btree_get (btree_collect ys) k of
        None \<Rightarrow> if k = k' then Some v else None | Some v \<Rightarrow> Some v)"
  by (simp add: btree_get_collect map_add_def split: option.split)

lemma btree_get_collect_opt [simp]:
  "btree_get (btree_collect (opt_pair k' render v)) k = (if k = k' then map_option render v else None)"
  by (simp add: btree_get_collect)

lemma btree_get_collect_Nil [simp]: "btree_get (btree_collect []) k = None"
  by (simp add: btree_get_collect)

lemma case_option_eta [simp]: "(case x of None \<Rightarrow> None | Some v \<Rightarrow> Some v) = x"
  by (cases x) auto

lemma case_map_option [simp]:
  "(case x of None \<Rightarrow> None | Some v \<Rightarrow> (Some \<circ> f) v) = map_option f x"
  "(case x of None \<Rightarrow> None | Some v \<Rightarrow> Some (f v)) = map_option f x"
  by (cases x; simp)+

lemmas field_lookup = btree_get_collect_append btree_get_collect_Cons

lemma pred_option_True [simp]: "pred_option (\<lambda>_. True) v"
  by (cases v) auto

context cgroup_value
begin

lemma required_lookup:
  "btree_get (kf_values kf) field = Some (render v) \<Longrightarrow> valid v \<Longrightarrow> required parse kf field = Inr v"
  by (rule required_render)

lemma optional_lookup:
  "pred_option valid v \<Longrightarrow> transpose (map_option (parse_field parse raw field) (map_option render v)) = Inr v"
  by (cases v) (simp_all add: field_render)

end

section \<open>The contract of \<open>from_fields\<close>\<close>

definition plain_pair :: "string \<times> string \<Rightarrow> bool" where
  "plain_pair kv \<longleftrightarrow> is_pair kv \<and> CHR ''='' \<notin> set (fst kv)"

lemma plain_pair_iff: "plain_pair (k, v) \<longleftrightarrow> is_key k \<and> CHR ''='' \<notin> set k \<and> is_token v"
  by (auto simp: plain_pair_def is_pair_def)

lemma list_all_opt_pair [simp]:
  "list_all P (opt_pair k render v) \<longleftrightarrow> (\<forall>x. v = Some x \<longrightarrow> P (k, render x))"
  by (cases v) auto

locale field_record =
  fixes from_fields :: "KeyedFields \<Rightarrow> 'v parsed"
    and valid :: "'a \<Rightarrow> bool"
    and fields :: "'a \<Rightarrow> (string \<times> string) list"
    and view :: "'a \<Rightarrow> 'v"
  assumes fields_reports: "kf_raw kf = raw \<Longrightarrow> reports raw (from_fields kf)"
    and fields_plain: "valid a \<Longrightarrow> list_all plain_pair (fields a)"
    and from_fields_render:
      "valid a \<Longrightarrow> from_fields \<lparr>kf_raw = raw, kf_values = btree_collect (fields a)\<rparr> = Inr (view a)"
begin

lemma file_reports: "reports raw (and_then (KeyedFields_parse raw vf) from_fields)"
  by (auto intro!: reports_intros fields_reports)

lemma file_round_trip:
  "valid a \<Longrightarrow> and_then (KeyedFields_parse (render_pairs (fields a)) vf) from_fields = Inr (view a)"
proof -
  assume a: "valid a"
  then have "\<forall>kv \<in> set (fields a). is_pair kv"
    using fields_plain [OF a] by (auto simp: list_all_iff plain_pair_def)
  then show ?thesis by (simp add: KeyedFields_parse_render from_fields_render [OF a])
qed

lemma tokens_round_trip:
  "valid a \<Longrightarrow> and_then (assignments raw (render_assignments (fields a))) from_fields = Inr (view a)"
  using fields_plain [of a]
  by (simp add: assignments_render list_all_iff plain_pair_def from_fields_render)

lemma tokens_are_tokens:
  "valid a \<Longrightarrow> list_all is_token (render_assignments (fields a))"
  using fields_plain [of a]
  by (auto simp: list_all_iff plain_pair_def is_pair_def is_key_def render_assignments_def
      intro!: is_token_assignment)

lemma tokens_empty: "render_assignments (fields a) = [] \<longleftrightarrow> fields a = []"
  by (simp add: render_assignments_def)

lemma tokens_reports: "reports raw (and_then (assignments raw tokens) from_fields)"
  by (auto intro!: reports_intros fields_reports dest: kf_raw_assignments)

end

end
