(* ===== verification/Sakai_Pids.thy ===== *)
theory Sakai_Pids
  imports Sakai_Scalar Field_Record
begin

text \<open>
  The PID controller, \<open>sakai/src/cgroup/v2/pids.rs\<close>: its scalar files and the counter of
  forks the limit refused, hierarchical and local.
\<close>

record PidsEvents = pids_max :: Count

definition PidsEvents_from_fields :: "KeyedFields \<Rightarrow> PidsEvents parsed" where
  "PidsEvents_from_fields kf =
     and_then (required parse_count kf ''max'') (\<lambda>max. Inr \<lparr>pids_max = max\<rparr>)"

definition PidsEvents_from_str :: "string \<Rightarrow> PidsEvents parsed" where
  "PidsEvents_from_str contents =
     and_then (KeyedFields_parse contents (\<lambda>_. ''value'')) PidsEvents_from_fields"

definition Pids_current :: "('d, 'x) os_scheme \<Rightarrow> 'd Cgroup \<Rightarrow> Error + Count Scalar" where
  "Pids_current os cg = Scalar_read parse_count IPidsCurrent os cg"

definition Pids_peak :: "('d, 'x) os_scheme \<Rightarrow> 'd Cgroup \<Rightarrow> Error + Count Scalar" where
  "Pids_peak os cg = Scalar_read parse_count IPidsPeak os cg"

definition Pids_max :: "('d, 'x) os_scheme \<Rightarrow> 'd Cgroup \<Rightarrow> Error + Count MaxOr Scalar" where
  "Pids_max os cg = Scalar_read (parse_max_or parse_count) IPidsMax os cg"

definition Pids_events :: "('d, 'x) os_scheme \<Rightarrow> 'd Cgroup \<Rightarrow> Error + PidsEvents" where
  "Pids_events os cg = Cgroup_parse PidsEvents_from_str os cg ''pids.events''"

definition Pids_events_local :: "('d, 'x) os_scheme \<Rightarrow> 'd Cgroup \<Rightarrow> Error + PidsEvents" where
  "Pids_events_local os cg = Cgroup_parse PidsEvents_from_str os cg ''pids.events.local''"

definition PidsEvents_fields :: "PidsEvents \<Rightarrow> (string \<times> string) list" where
  "PidsEvents_fields e = [(''max'', render_count (pids_max e))]"

lemma reports_PidsEvents: "kf_raw kf = raw \<Longrightarrow> reports raw (PidsEvents_from_fields kf)"
  unfolding PidsEvents_from_fields_def by (intro reports_intros)

interpretation pids_events: field_record PidsEvents_from_fields "\<lambda>_. True" PidsEvents_fields "\<lambda>e. e"
proof unfold_locales
  fix e raw
  show "PidsEvents_from_fields \<lparr>kf_raw = raw, kf_values = btree_collect (PidsEvents_fields e)\<rparr> = Inr e"
    by (cases e) (simp add: PidsEvents_from_fields_def PidsEvents_fields_def field_lookup v_count.required_lookup)
  show "list_all plain_pair (PidsEvents_fields e)"
    by (simp add: PidsEvents_fields_def plain_pair_iff v_count.render_token is_key_def ink_def white_space1_def)
qed (rule reports_PidsEvents)

interpretation pids_events_file: snapshot_parser PidsEvents_from_str
  by unfold_locales (simp add: PidsEvents_from_str_def pids_events.file_reports)

end
