(* ===== verification/Strum_Enum.thy ===== *)
theory Strum_Enum
  imports Rust_Str
begin

text \<open>
  Enumerations with \<open>strum::EnumString\<close> and \<open>strum::IntoStaticStr\<close>: a table of the variants'
  names, read in both directions. The locale is what the readers use of it.
\<close>

definition enum_from_str :: "('f \<Rightarrow> string) \<Rightarrow> 'f list \<Rightarrow> string \<Rightarrow> 'f option" where
  "enum_from_str name variants s = List.find (\<lambda>f. name f = s) variants"

locale strum_enum =
  fixes name :: "'f \<Rightarrow> string"
    and variants :: "'f list"
  assumes names_distinct: "distinct (map name variants)"
    and variants_complete: "f \<in> set variants"
begin

lemma name_inj: "name f = name g \<Longrightarrow> f = g"
  using names_distinct variants_complete by (auto simp: distinct_map dest: inj_onD)

lemma from_str_Some_iff: "enum_from_str name variants s = Some f \<longleftrightarrow> name f = s"
proof
  assume "enum_from_str name variants s = Some f"
  then show "name f = s" by (auto simp: enum_from_str_def find_Some_iff)
next
  assume s: "name f = s"
  then have "enum_from_str name variants s \<noteq> None"
    using variants_complete [of f] by (auto simp: enum_from_str_def find_None_iff)
  then obtain g where g: "enum_from_str name variants s = Some g" by blast
  then have "name g = s" by (auto simp: enum_from_str_def find_Some_iff)
  with s have "g = f" by (intro name_inj) simp
  with g show "enum_from_str name variants s = Some f" by simp
qed

lemma from_str_name: "enum_from_str name variants (name f) = Some f"
  by (simp add: from_str_Some_iff)

lemma from_str_None_iff: "enum_from_str name variants s = None \<longleftrightarrow> s \<notin> range name"
  by (auto simp: not_Some_eq [symmetric] from_str_Some_iff simp del: not_Some_eq)

end

end
