(* ===== verification/Field_Table.thy ===== *)
theory Field_Table
  imports Sakai_Parse Strum_Enum
begin

text \<open>
  Ordered maps from the fields of a table to the values of a keyed file: what it means that
  such a map holds exactly the fields present, each with the parsed value of its last line, and
  the steps that keep this while a reader goes through the lines.
\<close>

definition reads ::
  "(string \<Rightarrow> ParseValueError + 'v) \<Rightarrow> ('f \<Rightarrow> string) \<Rightarrow> (string \<Rightarrow> string option) \<Rightarrow> ('f, 'v) btree \<Rightarrow> bool"
where
  "reads parse name m t \<longleftrightarrow>
     (\<forall>f. case m (name f) of
            None \<Rightarrow> btree_get t f = None
          | Some v \<Rightarrow> (\<exists>x. parse v = Inr x \<and> btree_get t f = Some x))"

lemma reads_optional:
  "reads parse name (btree_get (kf_values kf)) t \<longleftrightarrow>
     (\<forall>f. optional parse kf (name f) = Inr (btree_get t f))"
  by (simp add: reads_def optional_Inr_iff)

lemma reads_empty: "reads parse name Map.empty []"
  by (simp add: reads_def)

lemma reads_other: "reads parse name m t \<Longrightarrow> k \<notin> range name \<Longrightarrow> reads parse name (m(k \<mapsto> v)) t"
  by (auto simp: reads_def)

text \<open>The value of a field does not depend on the map it was read into.\<close>

lemma reads_unique:
  "reads parse name m s \<Longrightarrow> reads parse name m t \<Longrightarrow> btree_inv s \<Longrightarrow> btree_inv t \<Longrightarrow> s = t"
proof (rule btree_ext, assumption+, rule ext)
  fix f
  assume "reads parse name m s" "reads parse name m t"
  then show "btree_get s f = btree_get t f"
    by (cases "m (name f)") (fastforce simp: reads_def split: option.splits dest: spec [of _ f])+
qed

lemma reads_None: "reads parse name m t \<Longrightarrow> btree_get t f = None \<longleftrightarrow> m (name f) = None"
  by (cases "m (name f)") (fastforce simp: reads_def split: option.splits dest: spec [of _ f])+

text \<open>An enumeration that is the key type of an ordered map.\<close>

locale field_table = strum_enum name variants
  for name :: "'f::linorder \<Rightarrow> string" and variants :: "'f list"
begin

lemma reads_insert:
  assumes "reads parse name m t" "btree_inv t" "parse v = Inr x"
  shows "reads parse name (m(name f \<mapsto> v)) (btree_insert f x t)"
  unfolding reads_def
proof (rule allI)
  fix g
  have "case m (name g) of None \<Rightarrow> btree_get t g = None
    | Some v \<Rightarrow> \<exists>y. parse v = Inr y \<and> btree_get t g = Some y"
    using assms(1) by (simp add: reads_def)
  then show "case (m(name f \<mapsto> v)) (name g) of
      None \<Rightarrow> btree_get (btree_insert f x t) g = None
    | Some v \<Rightarrow> \<exists>y. parse v = Inr y \<and> btree_get (btree_insert f x t) g = Some y"
    using assms(2,3)
    by (cases "g = f") (auto simp: btree_get_insert split: option.splits dest: name_inj)
qed

end

text \<open>The lines of a table's entries, and what they are as a map from keys.\<close>

definition table_pairs :: "('f \<Rightarrow> string) \<Rightarrow> ('v \<Rightarrow> string) \<Rightarrow> ('f, 'v) btree \<Rightarrow> (string \<times> string) list" where
  "table_pairs name render t = map (\<lambda>(f, v). (name f, render v)) t"

lemma table_pairs_keys: "fst ` set (table_pairs name render t) \<subseteq> range name"
  by (auto simp: table_pairs_def)

lemma is_pair_table_pairs:
  "(\<And>f. is_key (name f)) \<Longrightarrow> (\<And>v. is_token (render v)) \<Longrightarrow>
   \<forall>kv \<in> set (table_pairs name render t). is_pair kv"
  by (auto simp: table_pairs_def is_pair_def)

context field_table
begin

lemma map_of_table_pairs: "map_of (table_pairs name render t) (name f) = map_option render (btree_get t f)"
  by (induction t) (auto simp: table_pairs_def btree_get_def dest: name_inj)

lemma distinct_table_pairs:
  "btree_inv t \<Longrightarrow> distinct (map fst (table_pairs name render t))"
proof -
  assume "btree_inv t"
  then have "distinct (map fst t)" by (simp add: btree_inv_def strict_sorted_iff)
  moreover have "map fst (table_pairs name render t) = map name (map fst t)"
    by (simp add: table_pairs_def) auto
  moreover have "inj name" by (auto intro: injI dest: name_inj)
  ultimately show ?thesis by (simp add: distinct_map comp_inj_on inj_on_subset)
qed

end

text \<open>A map with distinct keys is the same read from either end.\<close>

lemma map_of_rev_distinct: "distinct (map fst xs) \<Longrightarrow> map_of (rev xs) = map_of xs"
  by (metis distinct_rev map_of_inject_set rev_map set_rev)

lemma map_of_None_range: "fst ` set xs \<subseteq> A \<Longrightarrow> k \<notin> A \<Longrightarrow> map_of xs k = None"
  by (auto simp: map_of_eq_None_iff)

end
