(* ===== verification/Keyed_Entries.thy ===== *)
theory Keyed_Entries
  imports Field_Table Field_Record
begin

text \<open>
  Maps built from the entries of a keyed file: the readers pick some of the keys, decode
  each to a key of the result and parse its value. The lemmas here relate the resulting map to
  the file, whatever the order in which the texts of the keys sort.
\<close>

section \<open>Entries selected by a part of the key\<close>

text \<open>
  \<open>iter().filter_map(|(key, value)| pick(key).map(|name| (name, value)))\<close>, where the selected
  part determines the key.
\<close>

definition selected :: "(string \<Rightarrow> string option) \<Rightarrow> (string \<times> string) list \<Rightarrow> (string \<times> string) list" where
  "selected pick kvs =
     List.map_filter (\<lambda>(key, value). map_option (\<lambda>name. (name, value)) (pick key)) kvs"

lemma selected_filter: "selected pick kvs = selected pick (filter (\<lambda>kv. pick (fst kv) \<noteq> None) kvs)"
  by (induction kvs) (auto simp: selected_def List.map_filter_simps split: option.split)

lemma selected_Cons:
  "selected pick ((k, v) # kvs) =
     (case pick k of None \<Rightarrow> selected pick kvs | Some name \<Rightarrow> (name, v) # selected pick kvs)"
  by (simp add: selected_def List.map_filter_simps split: option.split)

lemma set_selected_pick: "(name, v) \<in> set (selected pick kvs) \<longleftrightarrow> (\<exists>k. (k, v) \<in> set kvs \<and> pick k = Some name)"
  by (induction kvs) (auto simp: selected_def List.map_filter_simps split: option.split)

lemma set_selected:
  assumes "\<And>k name. pick k = Some name \<longleftrightarrow> k = key_of name"
  shows "(name, v) \<in> set (selected pick kvs) \<longleftrightarrow> (key_of name, v) \<in> set kvs"
  by (simp add: set_selected_pick assms)

lemma distinct_selected:
  assumes "\<And>k name. pick k = Some name \<longleftrightarrow> k = key_of name" "distinct (map fst kvs)"
  shows "distinct (map fst (selected pick kvs))"
  using assms(2)
proof (induction kvs)
  case Nil
  then show ?case by (simp add: selected_def List.map_filter_simps)
next
  case (Cons kv kvs)
  obtain k v where kv: "kv = (k, v)" by (cases kv)
  show ?case
  proof (cases "pick k")
    case None
    with Cons kv show ?thesis by (simp add: selected_def List.map_filter_simps)
  next
    case (Some name)
    then have k: "k = key_of name" by (simp add: assms(1))
    have "(name, w) \<notin> set (selected pick kvs)" for w
      using Cons.prems kv k by (force simp: set_selected [OF assms(1)])
    then have "name \<notin> set (map fst (selected pick kvs))" by auto
    with Cons kv Some show ?thesis by (simp add: selected_def List.map_filter_simps)
  qed
qed

text \<open>
  When every selected entry decodes, by \<open>decode\<close> on the accepted names and by \<open>parse\<close> on the
  values, the collected map has under each decoded name what an optional read of the key gives.
\<close>

lemma selected_lookup:
  assumes pick: "\<And>k name. pick k = Some name \<longleftrightarrow> k = key_of name"
    and entry: "\<And>name v c n. entry (name, v) = Inr (c, n) \<longleftrightarrow> ok name \<and> c = decode name \<and> parse v = Inr n"
    and inj: "\<And>name name'. decode name = decode name' \<Longrightarrow> name = name'"
    and xs: "map entry (selected pick (KeyedFields_iter kf)) = map Inr xs"
    and inv: "btree_inv (kf_values kf)"
  shows "optional parse kf (key_of name) = Inr (map_of (rev xs) (decode name))"
    and "\<not> ok name \<Longrightarrow> btree_get (kf_values kf) (key_of name) = None"
    and "distinct (map fst xs)"
proof -
  let ?es = "selected pick (KeyedFields_iter kf)"
  have es: "(name, v) \<in> set ?es \<longleftrightarrow> btree_get (kf_values kf) (key_of name) = Some v" for name v
    using inv by (simp add: set_selected [OF pick] KeyedFields_iter_def btree_iter_def btree_in_set_iff)
  have "distinct (map fst ?es)"
    using inv by (intro distinct_selected [OF pick])
      (simp add: KeyedFields_iter_def btree_iter_def btree_inv_def strict_sorted_iff)
  then have "distinct (map decode (map fst ?es))"
    by (subst distinct_map) (auto intro: inj_onI inj)
  moreover have keys: "map fst ys = map decode (map fst es)" if "map entry es = map Inr ys" for es ys
    using that
  proof (induction es arbitrary: ys)
    case Nil
    then show ?case by simp
  next
    case (Cons e es)
    then obtain y ys' where y: "ys = y # ys'" "entry e = Inr y" "map entry es = map Inr ys'"
      by (cases ys) auto
    then have "fst y = decode (fst e)" by (cases e; cases y) (simp add: entry)
    with y Cons.IH [OF y(3)] show ?case by simp
  qed
  ultimately show dist: "distinct (map fst xs)" by (simp only: keys [OF xs])
  then have m: "map_of (rev xs) c = Some n \<longleftrightarrow> (c, n) \<in> set xs" for c n
    by (metis distinct_rev map_of_eq_Some_iff rev_map set_rev)
  have fwd: "\<exists>n. ok name \<and> parse v = Inr n \<and> (decode name, n) \<in> set xs" if "(name, v) \<in> set ?es" for name v
  proof -
    from that have "entry (name, v) \<in> set (map entry ?es)" by simp
    then obtain c n where "(c, n) \<in> set xs" "entry (name, v) = Inr (c, n)" unfolding xs by auto
    then show ?thesis by (auto simp: entry)
  qed
  have bwd: "\<exists>v. (name, v) \<in> set ?es" if "(decode name, n) \<in> set xs" for name n
  proof -
    from that have "Inr (decode name, n) \<in> set (map entry ?es)" by (simp add: xs)
    then obtain e where "e \<in> set ?es" "entry e = Inr (decode name, n)" by (metis (no_types, lifting) imageE set_map)
    moreover obtain name' v where "e = (name', v)" by fastforce
    ultimately show ?thesis by (auto simp: entry dest: inj)
  qed
  show "btree_get (kf_values kf) (key_of name) = None" if "\<not> ok name"
  proof (rule ccontr)
    assume "btree_get (kf_values kf) (key_of name) \<noteq> None"
    then obtain v where "(name, v) \<in> set ?es" by (auto simp: es)
    with fwd that show False by blast
  qed
  show "optional parse kf (key_of name) = Inr (map_of (rev xs) (decode name))"
  proof (cases "btree_get (kf_values kf) (key_of name)")
    case None
    have "map_of (rev xs) (decode name) = None"
    proof (rule ccontr)
      assume "map_of (rev xs) (decode name) \<noteq> None"
      then obtain v where "(name, v) \<in> set ?es" using bwd by (auto simp: m)
      with None show False by (simp add: es)
    qed
    with None show ?thesis by (simp add: optional_Inr_iff)
  next
    case (Some v)
    then have "(name, v) \<in> set ?es" by (simp add: es)
    from fwd [OF this] obtain n where "parse v = Inr n" "map_of (rev xs) (decode name) = Some n"
      by (auto simp: m)
    with Some show ?thesis by (simp add: optional_Inr_iff)
  qed
qed

section \<open>Values under the keys of the file\<close>

text \<open>
  \<open>KeyedFields::parse_values\<close> succeeds when every value of the file parses, and the map it gives
  has under each key what an optional read of the key gives.
\<close>

lemma parse_values_lookup:
  assumes "parse_values parse kf field = Inr m" "btree_inv (kf_values kf)"
  shows "optional parse kf k = Inr (btree_get m k)" "btree_inv m"
proof -
  from assms(1) obtain xs where
    xs: "map (\<lambda>(key, value). and_then (parse_field parse (kf_raw kf) field value) (\<lambda>v. Inr (key, v)))
      (KeyedFields_iter kf) = map Inr xs" and m: "m = btree_collect xs"
    unfolding parse_values_def map_ok_eq_Inr collect_results_eq_Inr by blast
  have "selected Some kvs = kvs" for kvs
    by (induction kvs) (auto simp: selected_def List.map_filter_simps)
  with xs have "map (\<lambda>(key, value). and_then (parse_field parse (kf_raw kf) field value) (\<lambda>v. Inr (key, v)))
      (selected Some (KeyedFields_iter kf)) = map Inr xs" by simp
  note selected = this
  have entry: "(case (name, v) of (key, value) \<Rightarrow>
      and_then (parse_field parse (kf_raw kf) field value) (\<lambda>v. Inr (key, v))) = Inr (c, n)
      \<longleftrightarrow> True \<and> c = name \<and> parse v = Inr n" for name v c n
    by (auto simp: parse_field_def result_simps)
  have "optional parse kf k = Inr (map_of (rev xs) k)"
    by (rule selected_lookup(1) [where pick = Some and key_of = "\<lambda>k. k" and ok = "\<lambda>_. True"
          and decode = "\<lambda>k. k", OF _ entry _ selected assms(2)]) auto
  then show "optional parse kf k = Inr (btree_get m k)" by (simp add: m btree_get_collect)
  show "btree_inv m" by (simp add: m)
qed

section \<open>Entries written by encoding keys\<close>

text \<open>
  The entries of a map \<open>t\<close>, written with encoded keys beside other lines and sorted by the texts
  of the keys, are the entries of \<open>t\<close> in some order, so collecting them gives \<open>t\<close> back.
\<close>

lemma encoded_entries:
  assumes inv: "btree_inv t"
    and enc: "\<And>y. fst (enc y) = key (fst y)" "\<And>a b. key a = key b \<Longrightarrow> a = b"
    and dist: "distinct (map fst (xs @ map enc t))"
    and sel: "\<forall>x \<in> set xs. \<not> P x" "\<forall>y \<in> set t. P (enc y)" "inj_on enc (set t)"
  shows "\<exists>ts. filter P (btree_collect (xs @ map enc t)) = map enc ts \<and> set ts = set t \<and> btree_collect ts = t"
proof -
  let ?m = "btree_collect (xs @ map enc t)"
  have "x \<in> set ?m \<longleftrightarrow> x \<in> set (xs @ map enc t)" for x
  proof (cases x)
    case (Pair a b)
    have "(a, b) \<in> set ?m \<longleftrightarrow> map_of (rev (xs @ map enc t)) a = Some b"
      by (simp only: btree_in_set_iff [OF btree_inv_collect] btree_get_collect)
    also have "\<dots> \<longleftrightarrow> (a, b) \<in> set (xs @ map enc t)"
      by (simp only: map_of_rev_distinct [OF dist] map_of_eq_Some_iff [OF dist])
    finally show ?thesis unfolding Pair .
  qed
  then have sf: "set (filter P ?m) = enc ` set t" using sel(1,2) by auto
  then have "\<forall>x \<in> set (filter P ?m). \<exists>y. y \<in> set t \<and> x = enc y" by blast
  then obtain g where g: "\<forall>x \<in> set (filter P ?m). g x \<in> set t \<and> x = enc (g x)" by metis
  define ts where "ts = map g (filter P ?m)"
  have "map (\<lambda>x. enc (g x)) (filter P ?m) = filter P ?m" by (rule map_idI) (use g in metis)
  then have f: "filter P ?m = map enc ts" unfolding ts_def map_map comp_def by (rule sym)
  have sub: "set ts \<subseteq> set t" unfolding ts_def set_map using g by blast
  have "enc ` set ts = enc ` set t" using sf f by (metis set_map)
  then have st: "set ts = set t" using inj_on_image_eq_iff [OF sel(3) sub subset_refl] by blast
  have "distinct (map fst ?m)"
    using btree_inv_collect [of "xs @ map enc t"] by (simp add: btree_inv_def strict_sorted_iff)
  then have "distinct (map fst (filter P ?m))" by (rule distinct_map_filter)
  then have "distinct (map key (map fst ts))" unfolding f by (simp add: o_def enc(1))
  then have dts: "distinct (map fst ts)" by (simp only: distinct_map)
  have "distinct (map fst t)" using inv by (simp add: btree_inv_def strict_sorted_iff)
  with dts st have "map_of ts = map_of t" by (metis map_of_inject_set)
  moreover have "btree_get (btree_collect ts) = map_of ts"
    using dts by (simp add: btree_get_collect map_of_rev_distinct)
  moreover have "btree_get t = map_of t" by (simp add: fun_eq_iff btree_get_def)
  ultimately have "btree_collect ts = t" using inv by (intro btree_ext) auto
  with f st show ?thesis by blast
qed

section \<open>Files of named values\<close>

context cgroup_value
begin

definition named_pairs :: "(string, 'a) btree \<Rightarrow> (string \<times> string) list" where
  "named_pairs t = map (\<lambda>(k, v). (k, render v)) t"

lemma parse_values_render:
  assumes "btree_inv t" "\<forall>(k, v) \<in> set t. is_key k \<and> valid v"
  shows "and_then (KeyedFields_parse (render_pairs (named_pairs t)) vf) (\<lambda>kf. parse_values parse kf field) = Inr t"
proof -
  have "\<forall>kv \<in> set (named_pairs t). is_pair kv"
    using assms(2) by (auto simp: named_pairs_def is_pair_def render_token)
  moreover have "btree_collect (named_pairs t) = named_pairs t"
    using btree_collect_map_values [OF assms(1), of "\<lambda>k. render"] by (simp add: named_pairs_def)
  moreover have "map (\<lambda>(key, value). and_then (parse_field parse raw field value) (\<lambda>v. Inr (key, v))) (named_pairs t)
      = map Inr t" for raw
    using assms(2) by (auto simp: named_pairs_def field_render)
  ultimately show ?thesis
    using assms(1)
    by (simp add: KeyedFields_parse_render parse_values_def KeyedFields_iter_def btree_iter_def btree_collect_id)
qed

end

end
