(* ===== verification/Sakai_Core.thy ===== *)
theory Sakai_Core
  imports Sakai_Scalar Keyed_Entries
begin

text \<open>
  The core interface files every cgroup has, \<open>sakai/src/cgroup/v2/core.rs\<close>,
  \<open>core/state.rs\<close> and \<open>core/task.rs\<close>: state events, descendant statistics, the cgroup type,
  controllers and task identifiers.
\<close>

section \<open>Controllers and types\<close>

datatype CgroupController =
  Cpu | Cpuset | Io | Memory | Hugetlb | Pids | Rdma | Misc | Dmem | PerfEvent | Other string

text \<open>\<open>strum::Display\<close> with \<open>serialize_all = "snake_case"\<close>; \<open>Other\<close> prints its name.\<close>

fun CgroupController_display :: "CgroupController \<Rightarrow> string" where
  "CgroupController_display Cpu = ''cpu''"
| "CgroupController_display Cpuset = ''cpuset''"
| "CgroupController_display Io = ''io''"
| "CgroupController_display Memory = ''memory''"
| "CgroupController_display Hugetlb = ''hugetlb''"
| "CgroupController_display Pids = ''pids''"
| "CgroupController_display Rdma = ''rdma''"
| "CgroupController_display Misc = ''misc''"
| "CgroupController_display Dmem = ''dmem''"
| "CgroupController_display PerfEvent = ''perf_event''"
| "CgroupController_display (Other name) = name"

definition CgroupController_known :: "CgroupController list" where
  "CgroupController_known = [Cpu, Cpuset, Io, Memory, Hugetlb, Pids, Rdma, Misc, Dmem, PerfEvent]"

text \<open>\<open>From<&str>\<close> of \<open>strum::EnumString\<close> with a \<open>default\<close> variant.\<close>

definition CgroupController_from :: "string \<Rightarrow> CgroupController" where
  "CgroupController_from s =
     (case enum_from_str CgroupController_display CgroupController_known s of
        Some c \<Rightarrow> c | None \<Rightarrow> Other s)"

datatype CgroupType = Domain | DomainThreaded | DomainInvalid | Threaded

fun CgroupType_name :: "CgroupType \<Rightarrow> string" where
  "CgroupType_name Domain = ''domain''"
| "CgroupType_name DomainThreaded = ''domain threaded''"
| "CgroupType_name DomainInvalid = ''domain invalid''"
| "CgroupType_name Threaded = ''threaded''"

definition CgroupType_variants :: "CgroupType list" where
  "CgroupType_variants = [Domain, DomainThreaded, DomainInvalid, Threaded]"

section \<open>Tasks\<close>

text \<open>The nutype \<open>TaskId\<close>: \<open>predicate = |id| *id >= 0\<close> over \<open>i32\<close>.\<close>

datatype TaskId = TaskId (task_id: i32)

definition TaskId_try_new :: "i32 \<Rightarrow> TaskId option" where
  "TaskId_try_new n = (if 0 \<le> sint n then Some (TaskId n) else None)"

definition TaskId_parse_line :: "string \<Rightarrow> string \<Rightarrow> TaskId parsed" where
  "TaskId_parse_line contents line =
     (let raw = trim line in
      and_then (map_err (\<lambda>e. ParseError_invalid contents ''task_id'' raw (Integer e)) (parse_i raw)) (\<lambda>n.
      ok_or (ParseError_invalid contents ''task_id'' raw OutOfRange) (TaskId_try_new n)))"

definition TaskId_parse_list :: "string \<Rightarrow> TaskId list parsed" where
  "TaskId_parse_list contents =
     collect_results (map (TaskId_parse_line contents) (nonblank_lines contents))"

section \<open>State snapshots\<close>

record CgroupEvents =
  populated :: bool
  frozen :: "bool option"

definition CgroupEvents_from_fields :: "KeyedFields \<Rightarrow> CgroupEvents parsed" where
  "CgroupEvents_from_fields kf =
     and_then (required parse_boolean kf ''populated'') (\<lambda>p.
     and_then (optional parse_boolean kf ''frozen'') (\<lambda>f.
     Inr \<lparr>populated = p, frozen = f\<rparr>))"

definition CgroupEvents_from_str :: "string \<Rightarrow> CgroupEvents parsed" where
  "CgroupEvents_from_str contents =
     and_then (KeyedFields_parse contents (\<lambda>_. ''value'')) CgroupEvents_from_fields"

record CgroupStatLocal = frozen_time :: Time

definition CgroupStatLocal_from_fields :: "KeyedFields \<Rightarrow> CgroupStatLocal parsed" where
  "CgroupStatLocal_from_fields kf =
     and_then (required parse_microseconds kf ''frozen_usec'') (\<lambda>t. Inr \<lparr>frozen_time = t\<rparr>)"

definition CgroupStatLocal_from_str :: "string \<Rightarrow> CgroupStatLocal parsed" where
  "CgroupStatLocal_from_str contents =
     and_then (KeyedFields_parse contents (\<lambda>_. ''value'')) CgroupStatLocal_from_fields"

text \<open>The \<open>HashMap\<close> by controller is a finite map.\<close>

record CgroupStat =
  descendants :: Count
  dying_descendants :: Count
  subsystems :: "CgroupController \<Rightarrow> Count option"
  dying_subsystems :: "CgroupController \<Rightarrow> Count option"

definition subsystem_entry :: "string \<Rightarrow> string \<Rightarrow> string \<times> string \<Rightarrow> (CgroupController \<times> Count) parsed" where
  "subsystem_entry raw pre nv =
     (if fst nv = [] then Inl (ParseError_invalid raw ''controller'' (fst nv) OutOfRange)
      else and_then (parse_field parse_count raw pre (snd nv)) (\<lambda>n.
             Inr (CgroupController_from (fst nv), n)))"

definition parse_subsystems :: "string \<Rightarrow> KeyedFields \<Rightarrow> string \<Rightarrow> (CgroupController \<Rightarrow> Count option) parsed" where
  "parse_subsystems raw kf pre =
     map_ok (\<lambda>entries. map_of (rev entries))
       (collect_results (map (subsystem_entry raw pre) (selected (strip_prefix pre) (KeyedFields_iter kf))))"

definition CgroupStat_from_str :: "string \<Rightarrow> CgroupStat parsed" where
  "CgroupStat_from_str contents =
     and_then (KeyedFields_parse contents (\<lambda>_. ''value'')) (\<lambda>kf.
     and_then (required parse_count kf ''nr_descendants'') (\<lambda>d.
     and_then (required parse_count kf ''nr_dying_descendants'') (\<lambda>dd.
     and_then (parse_subsystems contents kf ''nr_subsys_'') (\<lambda>s.
     and_then (parse_subsystems contents kf ''nr_dying_subsys_'') (\<lambda>ds.
     Inr \<lparr>descendants = d, dying_descendants = dd, subsystems = s, dying_subsystems = ds\<rparr>)))))"

section \<open>The readers\<close>

definition task_ids :: "('d, 'x) os_scheme \<Rightarrow> 'd Cgroup \<Rightarrow> string \<Rightarrow> Error + TaskId list" where
  "task_ids os cg file =
     and_then (Cgroup_read os cg file) (\<lambda>contents.
       map_err (\<lambda>e. ParseFailed (path_join (cgroup_path cg) file) (FieldSource e)) (TaskId_parse_list contents))"

definition controller_list :: "('d, 'x) os_scheme \<Rightarrow> 'd Cgroup \<Rightarrow> string \<Rightarrow> Error + CgroupController list" where
  "controller_list os cg file =
     map_ok (\<lambda>contents. map CgroupController_from (split_ascii_whitespace contents)) (Cgroup_read os cg file)"

definition Core_procs :: "('d, 'x) os_scheme \<Rightarrow> 'd Cgroup \<Rightarrow> Error + TaskId list" where
  "Core_procs os cg = task_ids os cg ''cgroup.procs''"

definition Core_threads :: "('d, 'x) os_scheme \<Rightarrow> 'd Cgroup \<Rightarrow> Error + TaskId list" where
  "Core_threads os cg = task_ids os cg ''cgroup.threads''"

definition Core_events :: "('d, 'x) os_scheme \<Rightarrow> 'd Cgroup \<Rightarrow> Error + CgroupEvents" where
  "Core_events os cg = Cgroup_parse CgroupEvents_from_str os cg ''cgroup.events''"

definition Core_stat :: "('d, 'x) os_scheme \<Rightarrow> 'd Cgroup \<Rightarrow> Error + CgroupStat" where
  "Core_stat os cg = Cgroup_parse CgroupStat_from_str os cg ''cgroup.stat''"

definition Core_stat_local :: "('d, 'x) os_scheme \<Rightarrow> 'd Cgroup \<Rightarrow> Error + CgroupStatLocal" where
  "Core_stat_local os cg = Cgroup_parse CgroupStatLocal_from_str os cg ''cgroup.stat.local''"

definition Core_freeze :: "('d, 'x) os_scheme \<Rightarrow> 'd Cgroup \<Rightarrow> Error + bool Scalar" where
  "Core_freeze os cg = Scalar_read parse_boolean ICgroupFreeze os cg"

definition Core_max_depth :: "('d, 'x) os_scheme \<Rightarrow> 'd Cgroup \<Rightarrow> Error + Count MaxOr Scalar" where
  "Core_max_depth os cg = Scalar_read (parse_max_or parse_count) ICgroupMaxDepth os cg"

definition Core_max_descendants :: "('d, 'x) os_scheme \<Rightarrow> 'd Cgroup \<Rightarrow> Error + Count MaxOr Scalar" where
  "Core_max_descendants os cg = Scalar_read (parse_max_or parse_count) ICgroupMaxDescendants os cg"

definition Core_pressure_enabled :: "('d, 'x) os_scheme \<Rightarrow> 'd Cgroup \<Rightarrow> Error + bool Scalar" where
  "Core_pressure_enabled os cg = Scalar_read parse_boolean ICgroupPressure os cg"

definition Core_kind :: "('d, 'x) os_scheme \<Rightarrow> 'd Cgroup \<Rightarrow> Error + CgroupType" where
  "Core_kind os cg =
     and_then (Cgroup_read os cg ''cgroup.type'') (\<lambda>contents.
       ok_or (ParseFailed (path_join (cgroup_path cg) ''cgroup.type'') (TypeSource contents))
         (enum_from_str CgroupType_name CgroupType_variants (trim contents)))"

definition Core_controllers :: "('d, 'x) os_scheme \<Rightarrow> 'd Cgroup \<Rightarrow> Error + CgroupController list" where
  "Core_controllers os cg = controller_list os cg ''cgroup.controllers''"

definition Core_subtree_control :: "('d, 'x) os_scheme \<Rightarrow> 'd Cgroup \<Rightarrow> Error + CgroupController list" where
  "Core_subtree_control os cg = controller_list os cg ''cgroup.subtree_control''"

section \<open>Controller names\<close>

lemma CgroupController_display_from [simp]: "CgroupController_display (CgroupController_from s) = s"
  by (auto simp: CgroupController_from_def enum_from_str_def find_Some_iff split: option.split)

lemma CgroupController_from_eq_iff: "CgroupController_from s = CgroupController_from t \<longleftrightarrow> s = t"
  by (metis CgroupController_display_from)

lemma CgroupController_from_known: "c \<in> set CgroupController_known \<Longrightarrow> CgroupController_from (CgroupController_display c) = c"
  by (cases c) (simp_all add: CgroupController_known_def CgroupController_from_def enum_from_str_def)

lemma known_or_other: "c \<in> set CgroupController_known \<or> (\<exists>name. c = Other name)"
  by (cases c) (auto simp: CgroupController_known_def)

text \<open>Reading controller names loses nothing and invents nothing: printing what was read gives the
  name back, and reading what is printed gives the controller back, except for an \<open>Other\<close> that
  holds the name of a known controller, which no reader produces.\<close>

theorem CgroupController_round_trip:
  "CgroupController_display (CgroupController_from s) = s
   \<and> (CgroupController_from (CgroupController_display c) = c \<longleftrightarrow>
        c \<notin> Other ` (CgroupController_display ` set CgroupController_known))"
proof
  show "CgroupController_display (CgroupController_from s) = s" by simp
  show "CgroupController_from (CgroupController_display c) = c \<longleftrightarrow>
     c \<notin> Other ` (CgroupController_display ` set CgroupController_known)"
  proof (cases "c \<in> set CgroupController_known")
    case True
    then have "c \<notin> range Other" by (auto simp: CgroupController_known_def)
    with True show ?thesis by (auto simp: CgroupController_from_known)
  next
    case False
    then obtain name where c: "c = Other name" using known_or_other by blast
    have "CgroupController_from name = Other name \<longleftrightarrow> name \<notin> CgroupController_display ` set CgroupController_known"
    proof
      assume "CgroupController_from name = Other name"
      moreover have "CgroupController_from name = d" "d \<notin> range Other"
        if "d \<in> set CgroupController_known" "name = CgroupController_display d" for d
        using that by (auto simp: CgroupController_from_known) (auto simp: CgroupController_known_def)
      ultimately show "name \<notin> CgroupController_display ` set CgroupController_known" by fastforce
    next
      assume "name \<notin> CgroupController_display ` set CgroupController_known"
      then have "enum_from_str CgroupController_display CgroupController_known name = None"
        by (auto simp: enum_from_str_def find_None_iff)
      then show "CgroupController_from name = Other name" by (simp add: CgroupController_from_def)
    qed
    with c show ?thesis by auto
  qed
qed

lemma split_unwords_controllers:
  "list_all is_token names \<Longrightarrow>
   map CgroupController_from (split_ascii_whitespace (unwords names @ [CHR 0x0A])) = map CgroupController_from names"
proof -
  assume names: "list_all is_token names"
  have "split_ascii_whitespace (s @ [CHR 0x0A]) = split_ascii_whitespace s" for s
    by (simp add: split_ascii_whitespace_append_space)
  with names show ?thesis by (simp add: split_unwords)
qed

section \<open>Errors carry the input\<close>

interpretation cgroup_type: strum_enum CgroupType_name CgroupType_variants
proof
  show "f \<in> set CgroupType_variants" for f by (cases f) (simp_all add: CgroupType_variants_def)
qed (simp add: CgroupType_variants_def)

lemma reports_CgroupEvents: "kf_raw kf = raw \<Longrightarrow> reports raw (CgroupEvents_from_fields kf)"
  unfolding CgroupEvents_from_fields_def by (intro reports_intros)

lemma reports_CgroupStatLocal: "kf_raw kf = raw \<Longrightarrow> reports raw (CgroupStatLocal_from_fields kf)"
  unfolding CgroupStatLocal_from_fields_def by (intro reports_intros)

lemma reports_parse_subsystems [reports_intros]: "reports raw (parse_subsystems raw kf pre)"
  by (auto simp: parse_subsystems_def subsystem_entry_def intro!: reports_intros)

lemma reports_TaskId_parse_list: "reports raw (TaskId_parse_list raw)"
  by (auto simp: TaskId_parse_list_def TaskId_parse_line_def Let_def intro!: reports_intros)

definition CgroupEvents_fields :: "CgroupEvents \<Rightarrow> (string \<times> string) list" where
  "CgroupEvents_fields e = (''populated'', render_boolean (populated e)) # opt_pair ''frozen'' render_boolean (frozen e)"

definition CgroupStatLocal_fields :: "CgroupStatLocal \<Rightarrow> (string \<times> string) list" where
  "CgroupStatLocal_fields s = [(''frozen_usec'', render_microseconds (frozen_time s))]"

lemma key_core [simp]: "is_key ''populated''" "is_key ''frozen''" "is_key ''frozen_usec''"
  by (simp_all add: is_key_def is_token_def is_ascii_whitespace_def ink_def white_space1_def)

interpretation cgroup_events: field_record CgroupEvents_from_fields "\<lambda>_. True" CgroupEvents_fields "\<lambda>e. e"
proof unfold_locales
  fix e raw
  show "CgroupEvents_from_fields \<lparr>kf_raw = raw, kf_values = btree_collect (CgroupEvents_fields e)\<rparr> = Inr e"
    by (cases e) (simp add: CgroupEvents_from_fields_def CgroupEvents_fields_def field_lookup optional_def
        v_boolean.required_lookup v_boolean.optional_lookup cong: option.case_cong)
qed (auto simp: CgroupEvents_fields_def plain_pair_iff v_boolean.render_token intro: reports_CgroupEvents)

interpretation cgroup_stat_local:
  field_record CgroupStatLocal_from_fields "\<lambda>s :: CgroupStatLocal. valid_microseconds (frozen_time s)" CgroupStatLocal_fields "\<lambda>e. e"
proof unfold_locales
  fix s :: CgroupStatLocal and raw
  assume "valid_microseconds (frozen_time s)"
  then show "CgroupStatLocal_from_fields \<lparr>kf_raw = raw, kf_values = btree_collect (CgroupStatLocal_fields s)\<rparr> = Inr s"
    by (cases s) (simp add: CgroupStatLocal_from_fields_def CgroupStatLocal_fields_def field_lookup
        v_microseconds.required_lookup)
qed (auto simp: CgroupStatLocal_fields_def plain_pair_iff v_microseconds.render_token intro: reports_CgroupStatLocal)

interpretation cgroup_events_file: snapshot_parser CgroupEvents_from_str
  by unfold_locales (simp add: CgroupEvents_from_str_def cgroup_events.file_reports)

interpretation cgroup_stat_local_file: snapshot_parser CgroupStatLocal_from_str
  by unfold_locales (simp add: CgroupStatLocal_from_str_def cgroup_stat_local.file_reports)

interpretation cgroup_stat_file: snapshot_parser CgroupStat_from_str
  by unfold_locales (auto simp: CgroupStat_from_str_def intro!: reports_intros)

interpretation task_list: snapshot_parser TaskId_parse_list
  by unfold_locales (rule reports_TaskId_parse_list)

section \<open>The subsystem counters\<close>

text \<open>The counters of one prefix: exactly the keys \<open>prefix + name\<close>, under the controller of the name.\<close>

lemma subsystem_entry_Inr_iff:
  "subsystem_entry raw pre (name, v) = Inr (c, n) \<longleftrightarrow>
     name \<noteq> [] \<and> c = CgroupController_from name \<and> parse_count v = Inr n"
  by (auto simp: subsystem_entry_def result_simps parse_field_def)

lemma parse_subsystems_lookup:
  assumes "parse_subsystems raw kf pre = Inr m" "btree_inv (kf_values kf)"
  shows "optional parse_count kf (pre @ name) = Inr (m (CgroupController_from name))"
    and "btree_get (kf_values kf) pre = None"
proof -
  from assms(1) obtain xs where m: "m = map_of (rev xs)"
    and xs: "map (subsystem_entry raw pre) (selected (strip_prefix pre) (KeyedFields_iter kf)) = map Inr xs"
    by (auto simp: parse_subsystems_def map_ok_eq_Inr collect_results_eq_Inr)
  note lookup = selected_lookup [where key_of = "\<lambda>name. pre @ name" and ok = "\<lambda>name. name \<noteq> []"
      and decode = CgroupController_from, OF strip_prefix_Some_iff subsystem_entry_Inr_iff _ xs assms(2)]
  show "optional parse_count kf (pre @ name) = Inr (m (CgroupController_from name))"
    unfolding m by (rule lookup(1)) (simp add: CgroupController_from_eq_iff)
  show "btree_get (kf_values kf) pre = None"
    using lookup(2) [of "[]"] by (simp add: CgroupController_from_eq_iff)
qed

text \<open>C26: An accepted \<open>cgroup.stat\<close> holds, for every controller name, the parsed value of the line
  \<open>nr_subsys_<name>\<close> and of \<open>nr_dying_subsys_<name>\<close> where the file has them and nothing where
  it does not, and a line with the bare prefix makes the file rejected.\<close>

theorem CgroupStat_from_str_subsystems:
  assumes "CgroupStat_from_str contents = Inr st"
  shows "\<exists>kf. KeyedFields_parse contents (\<lambda>_. ''value'') = Inr kf
    \<and> required parse_count kf ''nr_descendants'' = Inr (descendants st)
    \<and> required parse_count kf ''nr_dying_descendants'' = Inr (dying_descendants st)
    \<and> (\<forall>name. optional parse_count kf (''nr_subsys_'' @ name) = Inr (subsystems st (CgroupController_from name))
         \<and> optional parse_count kf (''nr_dying_subsys_'' @ name) = Inr (dying_subsystems st (CgroupController_from name)))
    \<and> btree_get (kf_values kf) ''nr_subsys_'' = None \<and> btree_get (kf_values kf) ''nr_dying_subsys_'' = None"
proof -
  from assms obtain kf where kf: "KeyedFields_parse contents (\<lambda>_. ''value'') = Inr kf"
    and d: "required parse_count kf ''nr_descendants'' = Inr (descendants st)"
    "required parse_count kf ''nr_dying_descendants'' = Inr (dying_descendants st)"
    and s: "parse_subsystems contents kf ''nr_subsys_'' = Inr (subsystems st)"
    "parse_subsystems contents kf ''nr_dying_subsys_'' = Inr (dying_subsystems st)"
    by (auto simp: CgroupStat_from_str_def and_then_eq_Inr)
  from kf have inv: "btree_inv (kf_values kf)" by (rule btree_inv_KeyedFields_parse)
  from kf d parse_subsystems_lookup [OF s(1) inv] parse_subsystems_lookup [OF s(2) inv]
  show ?thesis by blast
qed

section \<open>Task identifiers\<close>

definition TaskId_valid :: "TaskId \<Rightarrow> bool" where
  "TaskId_valid t \<longleftrightarrow> 0 \<le> sint (task_id t)"

definition render_task :: "TaskId \<Rightarrow> string" where
  "render_task t = show_int (sint (task_id t))"

lemma render_task_line:
  assumes "TaskId_valid t"
  shows "is_line (render_task t)" "trim (render_task t) = render_task t" "render_task t \<noteq> []"
proof -
  have ds: "all_digits (render_task t)" "render_task t \<noteq> []"
    using assms by (simp_all add: render_task_def TaskId_valid_def show_int_def)
  then have ink: "ink c" if "c \<in> set (render_task t)" for c
    using that by (auto simp: all_digits_def is_ascii_digit_ink)
  show "trim (render_task t) = render_task t" using ds(2) ink by (intro trim_id) auto
  show "render_task t \<noteq> []" by (rule ds(2))
  have "is_token (render_task t)" using ds by (rule is_token_digits)
  then show "is_line (render_task t)" using is_line_append_token [of "[]"] by simp
qed

text \<open>A task list that is accepted holds no negative identifier, and the lines the kernel prints
  for a list of tasks, one decimal per line, are read back as that list in the same order.\<close>

lemma TaskId_parse_list_correct:
  "(TaskId_parse_list contents = Inr ids \<longrightarrow> list_all TaskId_valid ids)
   \<and> (list_all TaskId_valid ts \<longrightarrow> TaskId_parse_list (unlines (map render_task ts)) = Inr ts)"
proof (intro conjI impI)
  assume "TaskId_parse_list contents = Inr ids"
  then have eq: "map (TaskId_parse_line contents) (nonblank_lines contents) = map Inr ids"
    by (simp add: TaskId_parse_list_def collect_results_eq_Inr)
  have "TaskId_valid t" if "t \<in> set ids" for t
  proof -
    from that have "Inr t \<in> set (map (TaskId_parse_line contents) (nonblank_lines contents))" by (simp add: eq)
    then show ?thesis
      by (auto simp: TaskId_parse_line_def Let_def result_simps TaskId_try_new_def TaskId_valid_def
          split: if_splits dest!: sym [of "Inr _"])
  qed
  then show "list_all TaskId_valid ids" by (simp add: list_all_iff)
next
  assume ts: "list_all TaskId_valid ts"
  let ?raw = "unlines (map render_task ts)"
  have "nonblank_lines ?raw = map render_task ts"
    using ts by (subst nonblank_lines_unlines) (auto simp: list_all_iff render_task_line filter_id_conv)
  moreover have "map (TaskId_parse_line ?raw) (map render_task ts) = map Inr ts"
    using ts by (auto simp: list_all_iff TaskId_parse_line_def Let_def render_task_line)
      (simp add: render_task_def parse_i_show_int TaskId_try_new_def TaskId_valid_def)
  ultimately show "TaskId_parse_list ?raw = Inr ts"
    by (simp only: TaskId_parse_list_def collect_results_Inr)
qed

lemma TaskId_parse_list_correct_witness:
  "TaskId_parse_list (unlines (map render_task [TaskId 1, TaskId 4711])) = Inr [TaskId 1, TaskId 4711]
    \<and> list_all TaskId_valid [TaskId 1, TaskId 4711]"
proof -
  have "list_all TaskId_valid [TaskId 1, TaskId 4711]" by (simp add: TaskId_valid_def)
  then show ?thesis
    using TaskId_parse_list_correct [of "unlines (map render_task [TaskId 1, TaskId 4711])"
        "[TaskId 1, TaskId 4711]" "[TaskId 1, TaskId 4711]"] by blast
qed

section \<open>The cgroup type\<close>

text \<open>\<open>Core::kind\<close> accepts exactly the four texts of the kernel up to surrounding white space;
  any other content is a parse failure that names the file and keeps the content.\<close>

theorem Core_kind_correct:
  assumes "read_file os (directory cg) ''cgroup.type'' = Inr contents"
  shows "(Core_kind os cg = Inr t \<longleftrightarrow> trim contents = CgroupType_name t)
    \<and> (trim contents \<notin> range CgroupType_name \<longrightarrow>
         Core_kind os cg = Inl (ParseFailed (path_join (cgroup_path cg) ''cgroup.type'') (TypeSource contents)))"
  using assms
  by (auto simp: Core_kind_def Cgroup_read_def ok_or_eq_Inr ok_or_eq_Inl cgroup_type.from_str_Some_iff
      cgroup_type.from_str_None_iff)

lemma Core_kind_correct_witness:
  "Core_kind (constant_os (''domain threaded'' @ [CHR 0x0A])) \<lparr>directory = 0, cgroup_path = ''/sys/fs/cgroup/a''\<rparr> = Inr DomainThreaded
   \<and> Core_kind (constant_os ''tree'') \<lparr>directory = 0, cgroup_path = ''/sys/fs/cgroup/a''\<rparr>
      = Inl (ParseFailed ''/sys/fs/cgroup/a/cgroup.type'' (TypeSource ''tree''))"
proof -
  have contents: "read_file (constant_os c) (directory \<lparr>directory = 0, cgroup_path = ''/sys/fs/cgroup/a''\<rparr>) ''cgroup.type'' = Inr c" for c
    using components_single [of "''cgroup.type''"] by (simp add: read_file_constant_os)
  have "trim (''domain threaded'' @ [CHR 0x0A]) = CgroupType_name DomainThreaded"
    by (subst trim_line) (simp_all add: ink_def white_space1_def)
  moreover have "trim ''tree'' = ''tree''" by (rule trim_id) (simp_all add: ink_def white_space1_def)
  moreover have "''tree'' \<notin> range CgroupType_name"
  proof
    assume "''tree'' \<in> range CgroupType_name"
    then obtain t where "''tree'' = CgroupType_name t" by auto
    then show False by (cases t) simp_all
  qed
  ultimately show ?thesis
    using Core_kind_correct [OF contents [of "''domain threaded'' @ [CHR 0x0A]"], of DomainThreaded]
      Core_kind_correct [OF contents [of "''tree''"], of Domain]
    by (simp add: path_join_def is_absolute_def)
qed

lemma CgroupStat_from_str_subsystems_witness:
  "\<exists>st. CgroupStat_from_str (render_pairs
       [(''nr_descendants'', ''7''), (''nr_subsys_cpu'', ''3''), (''nr_dying_descendants'', ''0'')]) = Inr st
     \<and> subsystems st Cpu = Some (Count 3) \<and> dying_subsystems st Cpu = None"
proof -
  let ?kvs = "[(''nr_descendants'', ''7''), (''nr_subsys_cpu'', ''3''), (''nr_dying_descendants'', ''0'')]"
  have pairs: "\<forall>kv \<in> set ?kvs. is_pair kv"
    by (simp add: is_pair_def is_key_def is_token_def is_ascii_whitespace_def ink_def white_space1_def)
  have counts: "parse_count ''7'' = Inr (Count 7)" "parse_count ''3'' = Inr (Count 3)" "parse_count ''0'' = Inr (Count 0)"
    by (simp_all add: parse_count_def parse_uint_def parse_u_def parse_unsigned_def to_digit_def)
  have collect: "btree_collect ?kvs =
    [(''nr_descendants'', ''7''), (''nr_dying_descendants'', ''0''), (''nr_subsys_cpu'', ''3'')]"
    by (simp add: btree_collect_def less_char_def)
  have cpu: "CgroupController_from ''cpu'' = Cpu"
    by (simp add: CgroupController_from_def enum_from_str_def CgroupController_known_def)
  have "CgroupStat_from_str (render_pairs ?kvs) = Inr \<lparr>descendants = Count 7, dying_descendants = Count 0,
      subsystems = map_of [(Cpu, Count 3)], dying_subsystems = map_of []\<rparr>"
    unfolding CgroupStat_from_str_def KeyedFields_parse_render [OF pairs] collect
    by (simp add: required_def parse_field_def btree_get_def counts parse_subsystems_def KeyedFields_iter_def
        btree_iter_def selected_def List.map_filter_simps subsystem_entry_def cpu)
  from this CgroupStat_from_str_subsystems [OF this] show ?thesis by (intro exI conjI) (assumption, simp_all)
qed

end
