(* ===== verification/Variant_Order.thy ===== *)
theory Variant_Order
  imports Main
begin

text \<open>
  The derived \<open>Ord\<close> of a fieldless enumeration: variants compare by their position in the
  declaration. The key types of the parsers' maps get their \<open>linorder\<close> instance from it.
\<close>

definition variant_index :: "'f list \<Rightarrow> 'f \<Rightarrow> nat" where
  "variant_index variants f = length (takeWhile (\<lambda>g. g \<noteq> f) variants)"

lemma nth_variant_index: "f \<in> set variants \<Longrightarrow> variants ! variant_index variants f = f"
  by (induction variants) (auto simp: variant_index_def)

lemma variant_index_inj:
  "f \<in> set variants \<Longrightarrow> g \<in> set variants \<Longrightarrow> variant_index variants f = variant_index variants g \<Longrightarrow> f = g"
  by (metis nth_variant_index)

end
