(* ===== verification/Sakai_Pressure.thy ===== *)
theory Sakai_Pressure
  imports Sakai_File Strum_Enum Variant_Order Kernel_Text
begin

text \<open>
  Pressure stall information, \<open>sakai/src/pressure.rs\<close>: the \<open>some\<close> and \<open>full\<close> lines of a
  \<open>*.pressure\<close> file, read into a map by kind, each line a set of \<open>key=value\<close> fields.
\<close>

section \<open>The parser\<close>

datatype PressureKind = SomeStall | FullStall

definition PressureKind_variants :: "PressureKind list" where
  "PressureKind_variants = [SomeStall, FullStall]"

fun PressureKind_name :: "PressureKind \<Rightarrow> string" where
  "PressureKind_name SomeStall = ''some''"
| "PressureKind_name FullStall = ''full''"

datatype PressureField = Avg10 | Avg60 | Avg300 | Total

definition PressureField_variants :: "PressureField list" where
  "PressureField_variants = [Avg10, Avg60, Avg300, Total]"

fun PressureField_name :: "PressureField \<Rightarrow> string" where
  "PressureField_name Avg10 = ''avg10''"
| "PressureField_name Avg60 = ''avg60''"
| "PressureField_name Avg300 = ''avg300''"
| "PressureField_name Total = ''total''"

lemma PressureKind_mem: "f \<in> set PressureKind_variants"
  by (cases f) (simp_all add: PressureKind_variants_def)

instantiation PressureKind :: linorder
begin

definition less_eq_PressureKind :: "PressureKind \<Rightarrow> PressureKind \<Rightarrow> bool" where
  "a \<le> b \<longleftrightarrow> variant_index PressureKind_variants a \<le> variant_index PressureKind_variants b"

definition less_PressureKind :: "PressureKind \<Rightarrow> PressureKind \<Rightarrow> bool" where
  "a < b \<longleftrightarrow> variant_index PressureKind_variants a < variant_index PressureKind_variants b"

instance
  by intro_classes (auto simp: less_eq_PressureKind_def less_PressureKind_def
      intro: variant_index_inj [OF PressureKind_mem PressureKind_mem])

end

record PressureLine =
  avg10 :: Ratio
  avg60 :: Ratio
  avg300 :: Ratio
  total :: Time

record Pressure =
  pressure_some :: PressureLine
  pressure_full :: "PressureLine option"

record IrqPressure =
  irq_full :: PressureLine

definition PressureLine_from_fields :: "KeyedFields \<Rightarrow> PressureLine parsed" where
  "PressureLine_from_fields kf =
     and_then (required parse_percent kf (PressureField_name Avg10)) (\<lambda>a.
     and_then (required parse_percent kf (PressureField_name Avg60)) (\<lambda>b.
     and_then (required parse_percent kf (PressureField_name Avg300)) (\<lambda>c.
     and_then (required parse_microseconds kf (PressureField_name Total)) (\<lambda>t.
     Inr \<lparr>avg10 = a, avg60 = b, avg300 = c, total = t\<rparr>))))"

text \<open>One token after the kind: a known key, an unknown key to skip, or an error without \<open>=\<close>.\<close>

definition pressure_token :: "string \<Rightarrow> string \<Rightarrow> (string \<times> string) parsed option" where
  "pressure_token raw token =
     (case split_once ''='' token of
        Some (key, value) \<Rightarrow>
          map_option (\<lambda>_. Inr (key, value)) (enum_from_str PressureField_name PressureField_variants key)
      | None \<Rightarrow> Some (Inl (ParseError_invalid raw ''value'' token OutOfRange)))"

definition PressureKind_parse :: "string \<Rightarrow> string \<Rightarrow> (PressureKind \<times> KeyedFields) option parsed" where
  "PressureKind_parse raw line =
     (case split_ascii_whitespace line of
        [] \<Rightarrow> Inl (ParseError_missing raw ''kind'')
      | kind # tokens \<Rightarrow>
          (case enum_from_str PressureKind_name PressureKind_variants kind of
             None \<Rightarrow> Inr None
           | Some k \<Rightarrow>
               map_ok (\<lambda>kf. Some (k, kf))
                 (KeyedFields_new raw (List.map_filter (pressure_token raw) tokens))))"

definition pressure_lines :: "string \<Rightarrow> (PressureKind, PressureLine) btree parsed" where
  "pressure_lines contents =
     map_ok btree_collect (collect_results
       (map (\<lambda>result. and_then result (\<lambda>(kind, kf). and_then (PressureLine_from_fields kf) (\<lambda>l. Inr (kind, l))))
         (List.map_filter (\<lambda>line. transpose_result (PressureKind_parse contents line))
           (nonblank_lines contents))))"

definition Pressure_from_str :: "string \<Rightarrow> Pressure parsed" where
  "Pressure_from_str contents =
     and_then (pressure_lines contents) (\<lambda>ls.
     and_then (ok_or (ParseError_missing contents ''some'') (btree_get ls SomeStall)) (\<lambda>s.
     Inr \<lparr>pressure_some = s, pressure_full = btree_get ls FullStall\<rparr>))"

definition IrqPressure_from_str :: "string \<Rightarrow> IrqPressure parsed" where
  "IrqPressure_from_str contents =
     and_then (pressure_lines contents) (\<lambda>ls.
     and_then (ok_or (ParseError_missing contents ''full'') (btree_get ls FullStall)) (\<lambda>f.
     Inr \<lparr>irq_full = f\<rparr>))"

definition Pressure_CPU_FILE_NAME :: string where "Pressure_CPU_FILE_NAME = ''cpu.pressure''"
definition Pressure_IO_FILE_NAME :: string where "Pressure_IO_FILE_NAME = ''io.pressure''"
definition Pressure_MEMORY_FILE_NAME :: string where "Pressure_MEMORY_FILE_NAME = ''memory.pressure''"
definition IrqPressure_FILE_NAME :: string where "IrqPressure_FILE_NAME = ''irq.pressure''"

section \<open>Errors carry the input\<close>

interpretation pressure_kind: strum_enum PressureKind_name PressureKind_variants
proof
  show "f \<in> set PressureKind_variants" for f by (cases f) (simp_all add: PressureKind_variants_def)
qed (simp add: PressureKind_variants_def)

interpretation pressure_field: strum_enum PressureField_name PressureField_variants
proof
  show "f \<in> set PressureField_variants" for f by (cases f) (simp_all add: PressureField_variants_def)
qed (simp add: PressureField_variants_def)

lemma reports_PressureLine [reports_intros]:
  "kf_raw kf = raw \<Longrightarrow> reports raw (PressureLine_from_fields kf)"
  by (auto simp: PressureLine_from_fields_def intro!: reports_intros)

lemma reports_pressure_tokens [reports_intros]:
  "reports raw (KeyedFields_new raw (List.map_filter (pressure_token raw) tokens))"
  by (rule reports_KeyedFields_new)
    (auto simp: List.map_filter_def pressure_token_def split: option.splits intro!: reports_intros)

lemma reports_PressureKind_parse: "reports raw (PressureKind_parse raw line)"
  by (auto simp: PressureKind_parse_def split: list.split option.split intro!: reports_intros)

lemma KeyedFields_new_raw: "KeyedFields_new raw fs = Inr kf \<Longrightarrow> kf_raw kf = raw"
  by (auto simp: KeyedFields_new_def result_simps)

lemma PressureKind_parse_raw: "PressureKind_parse raw line = Inr (Some (k, kf)) \<Longrightarrow> kf_raw kf = raw"
  by (auto simp: PressureKind_parse_def result_simps split: list.splits option.splits
      dest: KeyedFields_new_raw)

lemma transpose_result_Some_iff:
  "transpose_result r = Some q \<longleftrightarrow> (\<exists>e. r = Inl e \<and> q = Inl e) \<or> (\<exists>v. r = Inr (Some v) \<and> q = Inr v)"
  by (cases r rule: transpose_result.cases) auto

lemma reports_pressure_lines [reports_intros]: "reports raw (pressure_lines raw)"
  unfolding pressure_lines_def
proof (intro reports_map_ok reports_collect, clarsimp simp: List.map_filter_def)
  fix line y
  assume y: "transpose_result (PressureKind_parse raw line) = Some y"
  then have "reports raw y"
    using reports_PressureKind_parse [of raw line] by (auto simp: transpose_result_Some_iff reports_def)
  moreover have "reports raw (and_then (PressureLine_from_fields kf) (\<lambda>l. Inr (k, l)))"
    if "y = Inr (k, kf)" for k kf
    using y that by (auto simp: transpose_result_Some_iff dest!: PressureKind_parse_raw intro!: reports_intros)
  ultimately show "reports raw (and_then y (\<lambda>(kind, kf). and_then (PressureLine_from_fields kf) (\<lambda>l. Inr (kind, l))))"
    by (intro reports_and_then) auto
qed

interpretation pressure: snapshot_parser Pressure_from_str
  by unfold_locales (auto simp: Pressure_from_str_def intro!: reports_intros)

interpretation irq_pressure: snapshot_parser IrqPressure_from_str
  by unfold_locales (auto simp: IrqPressure_from_str_def intro!: reports_intros)

section \<open>What a reading holds\<close>

definition PressureLine_valid :: "PressureLine \<Rightarrow> bool" where
  "PressureLine_valid l \<longleftrightarrow>
     valid_percent (avg10 l) \<and> valid_percent (avg60 l) \<and> valid_percent (avg300 l) \<and> valid_microseconds (total l)"

lemma PressureLine_from_fields_valid: "PressureLine_from_fields kf = Inr l \<Longrightarrow> PressureLine_valid l"
  by (auto simp: PressureLine_from_fields_def PressureLine_valid_def result_simps
      dest: v_percent.required_valid v_microseconds.required_valid)

lemma pressure_lines_valid:
  assumes "pressure_lines contents = Inr ls" "btree_get ls k = Some l"
  shows "PressureLine_valid l"
proof -
  let ?f = "\<lambda>result. and_then result (\<lambda>(kind, kf). and_then (PressureLine_from_fields kf) (\<lambda>l. Inr (kind, l)))"
  from assms(1) obtain rs kls where rs: "map ?f rs = map Inr kls" "ls = btree_collect kls"
    unfolding pressure_lines_def map_ok_eq_Inr collect_results_eq_Inr by blast
  from assms(2) rs(2) have "(k, l) \<in> set kls"
    by (auto simp: btree_get_collect dest: map_of_SomeD)
  then have "Inr (k, l) \<in> set (map ?f rs)" unfolding rs(1) by simp
  then obtain r where "?f r = Inr (k, l)" by (metis (no_types, lifting) imageE set_map)
  then show ?thesis by (auto simp: result_simps dest: PressureLine_from_fields_valid)
qed

text \<open>C40: Every pressure reading the parser accepts has averages from 0 to 100 percent, on the
  \<open>some\<close> line and, where present, on the \<open>full\<close> line, and totals that are whole microseconds.\<close>

theorem Pressure_valid:
  assumes "Pressure_from_str contents = Inr p"
  shows "PressureLine_valid (pressure_some p) \<and> pred_option PressureLine_valid (pressure_full p)"
  using assms
  by (auto simp: Pressure_from_str_def result_simps option.pred_set intro: pressure_lines_valid)

section \<open>Files the kernel writes\<close>

text \<open>A line in the kernel's units: three averages in hundredths of a percent, and a total.\<close>

type_synonym stall = "nat \<times> nat \<times> nat \<times> Time"

fun valid_stall :: "stall \<Rightarrow> bool" where
  "valid_stall (a, b, c, t) \<longleftrightarrow> a \<le> 10000 \<and> b \<le> 10000 \<and> c \<le> 10000 \<and> valid_microseconds t"

fun stall_line :: "stall \<Rightarrow> PressureLine" where
  "stall_line (a, b, c, t) = \<lparr>avg10 = hundredths a, avg60 = hundredths b, avg300 = hundredths c, total = t\<rparr>"

fun stall_fields :: "stall \<Rightarrow> (string \<times> string) list" where
  "stall_fields (a, b, c, t) =
     [(PressureField_name Avg10, render_hundredths a), (PressureField_name Avg60, render_hundredths b),
      (PressureField_name Avg300, render_hundredths c), (PressureField_name Total, render_microseconds t)]"

definition stall_words :: "PressureKind \<times> stall \<Rightarrow> string list" where
  "stall_words kl = PressureKind_name (fst kl) # map (\<lambda>(k, v). assignment k v) (stall_fields (snd kl))"

definition render_pressure :: "(PressureKind \<times> stall) list \<Rightarrow> string" where
  "render_pressure kls = unlines (map unwords (map stall_words kls))"

lemma is_token_name [simp]: "is_token (PressureKind_name k)" "is_token (PressureField_name f)"
  by (cases k; simp add: is_token_def is_ascii_whitespace_def)
    (cases f; simp add: is_token_def is_ascii_whitespace_def)

lemma stall_words_line:
  assumes "valid_stall l"
  shows "is_word_line (stall_words (k, l))"
proof -
  obtain a b c t where l: "l = (a, b, c, t)" by (cases l)
  have "ink (hd (PressureKind_name k))" by (cases k) (simp_all add: ink_def white_space1_def)
  moreover have "is_token (render_microseconds t)"
    using assms l by (simp add: v_microseconds.render_token)
  ultimately show ?thesis
    by (simp add: is_word_line_def stall_words_def l is_token_assignment del: PressureField_name.simps)
qed

lemma pressure_token_field:
  "pressure_token raw (assignment (PressureField_name f) v) = Some (Inr (PressureField_name f, v))"
proof -
  have "CHR ''='' \<notin> set (PressureField_name f)" by (cases f) simp_all
  then show ?thesis by (simp add: pressure_token_def split_assignment pressure_field.from_str_name)
qed

definition stall_kf :: "string \<Rightarrow> stall \<Rightarrow> KeyedFields" where
  "stall_kf raw l = \<lparr>kf_raw = raw, kf_values = btree_collect (stall_fields l)\<rparr>"

lemma PressureKind_parse_stall:
  assumes "valid_stall l"
  shows "PressureKind_parse raw (unwords (stall_words (k, l))) = Inr (Some (k, stall_kf raw l))"
proof -
  obtain a b c t where l: "l = (a, b, c, t)" by (cases l)
  note split = unwords_line(3) [OF stall_words_line [OF assms, of k]]
  show ?thesis
    unfolding PressureKind_parse_def split
    unfolding stall_words_def
    by (simp add: l pressure_kind.from_str_name pressure_token_field List.map_filter_simps
        KeyedFields_new_def stall_kf_def del: PressureField_name.simps)
qed

lemma PressureLine_from_stall:
  assumes "valid_stall l"
  shows "PressureLine_from_fields (stall_kf raw l) = Inr (stall_line l)"
proof -
  obtain a b c t where l: "l = (a, b, c, t)" by (cases l)
  have "map_of (rev (stall_fields l)) = map_of (stall_fields l)" by (simp add: l fun_eq_iff)
  then have kf: "btree_get (kf_values (stall_kf raw l)) = map_of (stall_fields l)"
    by (simp add: stall_kf_def btree_get_collect)
  show ?thesis
    using assms
    by (simp add: PressureLine_from_fields_def required_def parse_field_def kf [unfolded l] l
        parse_percent_hundredths v_microseconds.parse_render)
qed

lemma pressure_lines_render:
  assumes "\<forall>kl \<in> set kls. valid_stall (snd kl)"
  shows "pressure_lines (render_pressure kls) = Inr (btree_collect (map (\<lambda>(k, l). (k, stall_line l)) kls))"
proof -
  let ?raw = "render_pressure kls"
  have "nonblank_lines ?raw = map unwords (map stall_words kls)"
    unfolding render_pressure_def using assms stall_words_line
    by (intro nonblank_lines_words) fastforce
  moreover have "List.map_filter (\<lambda>line. transpose_result (PressureKind_parse raw line))
      (map unwords (map stall_words kls)) = map (\<lambda>(k, l). Inr (k, stall_kf raw l)) kls" for raw
    using assms by (induction kls) (auto simp: List.map_filter_simps PressureKind_parse_stall)
  moreover have "map (\<lambda>result. and_then result (\<lambda>(kind, kf). and_then (PressureLine_from_fields kf) (\<lambda>l. Inr (kind, l))))
      (map (\<lambda>(k, l). Inr (k, stall_kf raw l)) kls) = map Inr (map (\<lambda>(k, l). (k, stall_line l)) kls)" for raw
    using assms by (auto simp: PressureLine_from_stall)
  ultimately show ?thesis by (simp only: pressure_lines_def collect_results_Inr map_ok.simps)
qed

lemma map_of_map_pair: "map_of (map (\<lambda>(k, l). (k, f l)) kls) k = map_option f (map_of kls k)"
  by (induction kls) auto

text \<open>C39: Reading back what the kernel writes for a list of stall lines gives, for each kind, the
  last line of that kind with its averages rounded to the nearest binary64 percentage; \<open>some\<close>
  is mandatory and \<open>full\<close> is not.\<close>

theorem Pressure_from_str_render:
  assumes "\<forall>kl \<in> set kls. valid_stall (snd kl)"
  shows "Pressure_from_str (render_pressure kls) =
    (case map_of (rev kls) SomeStall of
       None \<Rightarrow> Inl (ParseError_missing (render_pressure kls) ''some'')
     | Some s \<Rightarrow> Inr \<lparr>pressure_some = stall_line s,
                      pressure_full = map_option stall_line (map_of (rev kls) FullStall)\<rparr>)"
  using assms
  by (simp add: Pressure_from_str_def pressure_lines_render btree_get_collect rev_map
      map_of_map_pair split: option.split)

lemma Pressure_from_str_render_witness:
  "Pressure_from_str (render_pressure
     [(SomeStall, (150, 0, 3, Time_ns 42000)), (FullStall, (25, 0, 0, Time_ns 7000))]) =
   Inr \<lparr>pressure_some = stall_line (150, 0, 3, Time_ns 42000),
        pressure_full = Some (stall_line (25, 0, 0, Time_ns 7000))\<rparr>"
  by (subst Pressure_from_str_render) (simp_all add: valid_microseconds_def)

lemma Pressure_valid_witness:
  "\<exists>p. Pressure_from_str (render_pressure [(SomeStall, (150, 0, 3, Time_ns 42000))]) = Inr p
     \<and> PressureLine_valid (pressure_some p)"
proof -
  have "Pressure_from_str (render_pressure [(SomeStall, (150, 0, 3, Time_ns 42000))]) =
    Inr \<lparr>pressure_some = stall_line (150, 0, 3, Time_ns 42000), pressure_full = None\<rparr>"
    by (simp add: Pressure_from_str_def pressure_lines_render btree_get_collect valid_microseconds_def)
  from this Pressure_valid [OF this] show ?thesis by blast
qed

end
