(* ===== verification/Py_Core.thy ===== *)
theory Py_Core
  imports Py_Quantity Sakai_Pids Sakai_Core Sakai_Pressure
begin

text \<open>
  The core files, pids and pressure in Python: \<open>sakai-python/src/linux/core.rs\<close>, \<open>pids.rs\<close> and
  \<open>pressure.rs\<close>. A snapshot of the crate becomes an immutable object with stored values; a method
  of a reader object is a fresh read. An object of a reader is the handle it owns.
\<close>

section \<open>Pressure\<close>

record PyPressureLine =
  py_avg10 :: "Ratio Quantity"
  py_avg60 :: "Ratio Quantity"
  py_avg300 :: "Ratio Quantity"
  py_total :: "Time Quantity"

record PyPressure =
  py_some :: PyPressureLine
  py_full :: "PyPressureLine option"

record PyIrqPressure =
  py_irq_full :: PyPressureLine

definition PyPressureLine_from :: "PressureLine \<Rightarrow> PyPressureLine" where
  "PyPressureLine_from v =
     \<lparr>py_avg10 = Quantity (avg10 v), py_avg60 = Quantity (avg60 v), py_avg300 = Quantity (avg300 v),
      py_total = Quantity (total v)\<rparr>"

definition PyPressure_from :: "Pressure \<Rightarrow> PyPressure" where
  "PyPressure_from v =
     \<lparr>py_some = PyPressureLine_from (pressure_some v), py_full = map_option PyPressureLine_from (pressure_full v)\<rparr>"

definition PyIrqPressure_from :: "IrqPressure \<Rightarrow> PyIrqPressure" where
  "PyIrqPressure_from v = \<lparr>py_irq_full = PyPressureLine_from (irq_full v)\<rparr>"

section \<open>Pids\<close>

record PyPidsEvents = py_pids_max :: "Count Quantity"

definition PyPidsEvents_from :: "PidsEvents \<Rightarrow> PyPidsEvents" where
  "PyPidsEvents_from v = \<lparr>py_pids_max = Quantity (pids_max v)\<rparr>"

definition PyPids_current :: "python \<Rightarrow> ('d, 'x) os_scheme \<Rightarrow> 'd Cgroup \<Rightarrow> PyErr + Count Quantity" where
  "PyPids_current py os owner = map_ok (\<lambda>v. Quantity (scalar_value v)) (PythonError_read py os owner Pids_current)"

definition PyPids_peak :: "python \<Rightarrow> ('d, 'x) os_scheme \<Rightarrow> 'd Cgroup \<Rightarrow> PyErr + Count Quantity" where
  "PyPids_peak py os owner = map_ok (\<lambda>v. Quantity (scalar_value v)) (PythonError_read py os owner Pids_peak)"

definition PyPids_max :: "python \<Rightarrow> ('d, 'x) os_scheme \<Rightarrow> 'd Cgroup \<Rightarrow> PyErr + PyMaxOr" where
  "PyPids_max py os owner = map_ok (\<lambda>v. MaxOr_from_count (scalar_value v)) (PythonError_read py os owner Pids_max)"

definition PyPids_events :: "python \<Rightarrow> ('d, 'x) os_scheme \<Rightarrow> 'd Cgroup \<Rightarrow> PyErr + PyPidsEvents" where
  "PyPids_events py os owner = map_ok PyPidsEvents_from (PythonError_read py os owner Pids_events)"

definition PyPids_events_local :: "python \<Rightarrow> ('d, 'x) os_scheme \<Rightarrow> 'd Cgroup \<Rightarrow> PyErr + PyPidsEvents" where
  "PyPids_events_local py os owner = map_ok PyPidsEvents_from (PythonError_read py os owner Pids_events_local)"

section \<open>Core files\<close>

record PyCgroupEvents =
  py_populated :: bool
  py_frozen :: "bool option"

definition PyCgroupEvents_from :: "CgroupEvents \<Rightarrow> PyCgroupEvents" where
  "PyCgroupEvents_from v = \<lparr>py_populated = populated v, py_frozen = frozen v\<rparr>"

record PyCgroupStat =
  py_descendants :: "Count Quantity"
  py_dying_descendants :: "Count Quantity"
  py_subsystems :: "(string, Count Quantity) btree"
  py_dying_subsystems :: "(string, Count Quantity) btree"

text \<open>The iteration of a \<open>HashMap\<close> is in an order of its own, the argument \<open>iter\<close>.\<close>

type_synonym hash_iter = "(CgroupController \<Rightarrow> Count option) \<Rightarrow> (CgroupController \<times> Count) list"

definition iterates :: "hash_iter \<Rightarrow> (CgroupController \<Rightarrow> Count option) \<Rightarrow> bool" where
  "iterates iter m \<longleftrightarrow> distinct (map fst (iter m)) \<and> map_of (iter m) = m"

definition subsystem_names :: "hash_iter \<Rightarrow> (CgroupController \<Rightarrow> Count option) \<Rightarrow> (string, Count Quantity) btree" where
  "subsystem_names iter m =
     btree_collect (map (\<lambda>(controller, count). (CgroupController_display controller, Quantity count)) (iter m))"

definition PyCgroupStat_from :: "hash_iter \<Rightarrow> CgroupStat \<Rightarrow> PyCgroupStat" where
  "PyCgroupStat_from iter v =
     \<lparr>py_descendants = Quantity (descendants v), py_dying_descendants = Quantity (dying_descendants v),
      py_subsystems = subsystem_names iter (subsystems v),
      py_dying_subsystems = subsystem_names iter (dying_subsystems v)\<rparr>"

definition PyCgroupStat_subsystems ::
  "('r, 'o, 'w) pint \<Rightarrow> PyCgroupStat \<Rightarrow> ('w, PyErr, (string \<times> 'o) list) io" where
  "PyCgroupStat_subsystems p v = mapping (Count_into_pyobject p) (py_subsystems v)"

definition PyCgroupStat_dying_subsystems ::
  "('r, 'o, 'w) pint \<Rightarrow> PyCgroupStat \<Rightarrow> ('w, PyErr, (string \<times> 'o) list) io" where
  "PyCgroupStat_dying_subsystems p v = mapping (Count_into_pyobject p) (py_dying_subsystems v)"

record PyCgroupStatLocal = py_frozen_time :: "Time Quantity"

definition PyCgroupStatLocal_from :: "CgroupStatLocal \<Rightarrow> PyCgroupStatLocal" where
  "PyCgroupStatLocal_from v = \<lparr>py_frozen_time = Quantity (frozen_time v)\<rparr>"

definition PyCore_procs :: "python \<Rightarrow> ('d, 'x) os_scheme \<Rightarrow> 'd Cgroup \<Rightarrow> PyErr + i32 list" where
  "PyCore_procs py os owner = map_ok (map task_id) (PythonError_read py os owner Core_procs)"

definition PyCore_threads :: "python \<Rightarrow> ('d, 'x) os_scheme \<Rightarrow> 'd Cgroup \<Rightarrow> PyErr + i32 list" where
  "PyCore_threads py os owner = map_ok (map task_id) (PythonError_read py os owner Core_threads)"

definition PyCore_events :: "python \<Rightarrow> ('d, 'x) os_scheme \<Rightarrow> 'd Cgroup \<Rightarrow> PyErr + PyCgroupEvents" where
  "PyCore_events py os owner = map_ok PyCgroupEvents_from (PythonError_read py os owner Core_events)"

definition PyCore_stat :: "hash_iter \<Rightarrow> python \<Rightarrow> ('d, 'x) os_scheme \<Rightarrow> 'd Cgroup \<Rightarrow> PyErr + PyCgroupStat" where
  "PyCore_stat iter py os owner = map_ok (PyCgroupStat_from iter) (PythonError_read py os owner Core_stat)"

definition PyCore_stat_local :: "python \<Rightarrow> ('d, 'x) os_scheme \<Rightarrow> 'd Cgroup \<Rightarrow> PyErr + PyCgroupStatLocal" where
  "PyCore_stat_local py os owner = map_ok PyCgroupStatLocal_from (PythonError_read py os owner Core_stat_local)"

definition PyCore_freeze :: "python \<Rightarrow> ('d, 'x) os_scheme \<Rightarrow> 'd Cgroup \<Rightarrow> PyErr + bool" where
  "PyCore_freeze py os owner = map_ok scalar_value (PythonError_read py os owner Core_freeze)"

definition PyCore_max_depth :: "python \<Rightarrow> ('d, 'x) os_scheme \<Rightarrow> 'd Cgroup \<Rightarrow> PyErr + PyMaxOr" where
  "PyCore_max_depth py os owner =
     map_ok (\<lambda>v. MaxOr_from_count (scalar_value v)) (PythonError_read py os owner Core_max_depth)"

definition PyCore_max_descendants :: "python \<Rightarrow> ('d, 'x) os_scheme \<Rightarrow> 'd Cgroup \<Rightarrow> PyErr + PyMaxOr" where
  "PyCore_max_descendants py os owner =
     map_ok (\<lambda>v. MaxOr_from_count (scalar_value v)) (PythonError_read py os owner Core_max_descendants)"

definition PyCore_pressure_enabled :: "python \<Rightarrow> ('d, 'x) os_scheme \<Rightarrow> 'd Cgroup \<Rightarrow> PyErr + bool" where
  "PyCore_pressure_enabled py os owner = map_ok scalar_value (PythonError_read py os owner Core_pressure_enabled)"

definition PyCore_kind :: "python \<Rightarrow> ('d, 'x) os_scheme \<Rightarrow> 'd Cgroup \<Rightarrow> PyErr + string" where
  "PyCore_kind py os owner = map_ok CgroupType_name (PythonError_read py os owner Core_kind)"

definition PyCore_controllers :: "python \<Rightarrow> ('d, 'x) os_scheme \<Rightarrow> 'd Cgroup \<Rightarrow> PyErr + string list" where
  "PyCore_controllers py os owner =
     map_ok (map CgroupController_display) (PythonError_read py os owner Core_controllers)"

definition PyCore_subtree_control :: "python \<Rightarrow> ('d, 'x) os_scheme \<Rightarrow> 'd Cgroup \<Rightarrow> PyErr + string list" where
  "PyCore_subtree_control py os owner =
     map_ok (map CgroupController_display) (PythonError_read py os owner Core_subtree_control)"

section \<open>Every reader reads its own file\<close>

lemma pids_reads:
  "py_reads ''pids.current'' PyPids_current \<and> py_reads ''pids.peak'' PyPids_peak \<and> py_reads ''pids.max'' PyPids_max
   \<and> py_reads ''pids.events'' PyPids_events \<and> py_reads ''pids.events.local'' PyPids_events_local"
  unfolding PyPids_current_def [abs_def] PyPids_peak_def [abs_def] PyPids_max_def [abs_def]
    PyPids_events_def [abs_def] PyPids_events_local_def [abs_def] Pids_current_def [abs_def] Pids_peak_def [abs_def]
    Pids_max_def [abs_def] Pids_events_def [abs_def] Pids_events_local_def [abs_def] Scalar_read_def
  by simp

lemma py_reads_tasks:
  "py_reads name (\<lambda>py (os :: 'd os) cg. map_ok f (PythonError_read py os cg (\<lambda>os cg. task_ids os cg name)))"
  by (rule py_reads_then [where rest = "\<lambda>path contents.
      map_err (\<lambda>e. ParseFailed (path_join path name) (FieldSource e)) (TaskId_parse_list contents)"])
    (simp add: task_ids_def)

lemma py_reads_controllers:
  "py_reads name (\<lambda>py (os :: 'd os) cg. map_ok f (PythonError_read py os cg (\<lambda>os cg. controller_list os cg name)))"
proof (rule py_reads_then [where rest = "\<lambda>path contents. Inr (map CgroupController_from (split_ascii_whitespace contents))"])
  fix os :: "'d os" and cg :: "'d Cgroup"
  show "controller_list os cg name = and_then (Cgroup_read os cg name)
      (\<lambda>contents. Inr (map CgroupController_from (split_ascii_whitespace contents)))"
    by (cases "Cgroup_read os cg name") (simp_all add: controller_list_def)
qed

lemma task_reads:
  "py_reads ''cgroup.procs'' PyCore_procs \<and> py_reads ''cgroup.threads'' PyCore_threads
   \<and> py_reads ''cgroup.controllers'' PyCore_controllers \<and> py_reads ''cgroup.subtree_control'' PyCore_subtree_control
   \<and> py_reads ''cgroup.type'' PyCore_kind"
  unfolding PyCore_procs_def [abs_def] PyCore_threads_def [abs_def] PyCore_controllers_def [abs_def]
    PyCore_subtree_control_def [abs_def] PyCore_kind_def [abs_def]
    Core_procs_def [abs_def] Core_threads_def [abs_def] Core_controllers_def [abs_def] Core_subtree_control_def [abs_def]
  by (intro conjI py_reads_tasks py_reads_controllers py_reads_then [where rest = "\<lambda>path contents.
        ok_or (ParseFailed (path_join path ''cgroup.type'') (TypeSource contents))
          (enum_from_str CgroupType_name CgroupType_variants (trim contents))"]) (simp add: Core_kind_def)

lemma core_reads:
  "py_reads ''cgroup.events'' PyCore_events \<and> py_reads ''cgroup.stat'' (PyCore_stat iter)
   \<and> py_reads ''cgroup.stat.local'' PyCore_stat_local \<and> py_reads ''cgroup.freeze'' PyCore_freeze
   \<and> py_reads ''cgroup.max.depth'' PyCore_max_depth \<and> py_reads ''cgroup.max.descendants'' PyCore_max_descendants
   \<and> py_reads ''cgroup.pressure'' PyCore_pressure_enabled"
  unfolding PyCore_events_def [abs_def] PyCore_stat_def [abs_def] PyCore_stat_local_def [abs_def] PyCore_freeze_def [abs_def]
    PyCore_max_depth_def [abs_def] PyCore_max_descendants_def [abs_def] PyCore_pressure_enabled_def [abs_def]
    Core_events_def [abs_def] Core_stat_def [abs_def] Core_stat_local_def [abs_def] Core_freeze_def [abs_def]
    Core_max_depth_def [abs_def] Core_max_descendants_def [abs_def] Core_pressure_enabled_def [abs_def] Scalar_read_def
  by simp

section \<open>The names of subsystems\<close>

text \<open>
  A map with the controllers that \<open>CgroupController_from\<close> gives becomes the map of their texts, in
  the order of the texts, whatever the order of the hash table.
\<close>

lemma subsystem_names_correct:
  assumes "iterates iter m" "\<And>c. m c \<noteq> None \<Longrightarrow> CgroupController_from (CgroupController_display c) = c"
  shows "btree_get (subsystem_names iter m) name = map_option Quantity (m (CgroupController_from name))"
    and "btree_inv (subsystem_names iter m)"
proof -
  have keys: "(c, n) \<in> set (iter m) \<longleftrightarrow> m c = Some n" for c n
    using assms(1) by (metis iterates_def map_of_eq_Some_iff)
  have "distinct (map fst (iter m))" using assms(1) by (simp add: iterates_def)
  moreover have "inj_on CgroupController_display (fst ` set (iter m))"
  proof (rule inj_onI)
    fix a b
    assume "a \<in> fst ` set (iter m)" "b \<in> fst ` set (iter m)" and same: "CgroupController_display a = CgroupController_display b"
    then have "m a \<noteq> None" "m b \<noteq> None" using keys by fastforce+
    then show "a = b" using same assms(2) by metis
  qed
  ultimately have lookup: "btree_get (subsystem_names iter m) name = Some q
      \<longleftrightarrow> (\<exists>c n. m c = Some n \<and> name = CgroupController_display c \<and> q = Quantity n)" for q
    unfolding subsystem_names_def by (simp add: btree_get_renamed keys)
  show "btree_get (subsystem_names iter m) name = map_option Quantity (m (CgroupController_from name))"
  proof (rule option_eqI)
    fix q
    have "CgroupController_from name = c" if "m c = Some n" "name = CgroupController_display c" for c n
      using that assms(2) by simp
    then show "btree_get (subsystem_names iter m) name = Some q
      \<longleftrightarrow> map_option Quantity (m (CgroupController_from name)) = Some q"
      unfolding lookup by (auto simp: map_option_eq_Some) (metis CgroupController_display_from)
  qed
  show "btree_inv (subsystem_names iter m)" by (simp add: subsystem_names_def)
qed

end
