(* ===== verification/Sakai_Cpu.thy ===== *)
theory Sakai_Cpu
  imports Sakai_Scalar Sakai_Pressure Field_Record
begin

text \<open>
  The CPU controller, \<open>sakai/src/cgroup/v2/cpu/\<close>: usage and bandwidth statistics
  (\<open>stat.rs\<close>), the bandwidth limit (\<open>max.rs\<close>), weight and nice value, the scalar settings,
  and the readers of \<open>mod.rs\<close>.
\<close>

section \<open>\<open>cpu.stat\<close>\<close>

datatype CpuStatField =
  UsageUsec | UserUsec | SystemUsec | NiceUsec | ForceIdleUsec
  | NrPeriods | NrThrottled | ThrottledUsec | NrBursts | BurstUsec

fun CpuStatField_name :: "CpuStatField \<Rightarrow> string" where
  "CpuStatField_name UsageUsec = ''usage_usec''"
| "CpuStatField_name UserUsec = ''user_usec''"
| "CpuStatField_name SystemUsec = ''system_usec''"
| "CpuStatField_name NiceUsec = ''nice_usec''"
| "CpuStatField_name ForceIdleUsec = ''core_sched.force_idle_usec''"
| "CpuStatField_name NrPeriods = ''nr_periods''"
| "CpuStatField_name NrThrottled = ''nr_throttled''"
| "CpuStatField_name ThrottledUsec = ''throttled_usec''"
| "CpuStatField_name NrBursts = ''nr_bursts''"
| "CpuStatField_name BurstUsec = ''burst_usec''"

definition CpuStatField_variants :: "CpuStatField list" where
  "CpuStatField_variants =
     [UsageUsec, UserUsec, SystemUsec, NiceUsec, ForceIdleUsec,
      NrPeriods, NrThrottled, ThrottledUsec, NrBursts, BurstUsec]"

definition CpuStatField_fields :: "string \<Rightarrow> KeyedFields parsed" where
  "CpuStatField_fields raw = KeyedFields_parse raw (\<lambda>key.
     case enum_from_str CpuStatField_name CpuStatField_variants key of
       Some f \<Rightarrow> CpuStatField_name f | None \<Rightarrow> ''value'')"

definition bandwidth_fields :: "CpuStatField list" where
  "bandwidth_fields = [NrPeriods, NrThrottled, ThrottledUsec, NrBursts, BurstUsec]"

definition bandwidth_burst_fields :: "CpuStatField list" where
  "bandwidth_burst_fields = [NrBursts, BurstUsec]"

text \<open>
  The kernel prints these counters through a signed 32-bit format: a negative text is the bit
  pattern of the unsigned counter.
\<close>

definition parse_bandwidth_count :: "string \<Rightarrow> ParseValueError + Count" where
  "parse_bandwidth_count value =
     map_ok Count
       (if value \<noteq> [] \<and> hd value = CHR ''-''
        then map_ok (\<lambda>n :: i32. ucast (n :: u32)) (parse_int value)
        else parse_uint value)"

record CpuTimeStat =
  time_usage :: Time
  time_user :: Time
  time_system :: Time
  time_nice :: "Time option"
  time_force_idle :: "Time option"

record CpuBurstStat =
  burst_nr_bursts :: Count
  burst_burst :: Time

record CpuBandwidthStat =
  bandwidth_nr_periods :: Count
  bandwidth_nr_throttled :: Count
  bandwidth_throttled :: Time
  bandwidth_burst :: "CpuBurstStat option"

record CpuStat =
  stat_time :: CpuTimeStat
  stat_bandwidth :: "CpuBandwidthStat option"

record CpuStatLocal =
  local_throttled :: "Time option"

definition CpuTimeStat_from_fields :: "KeyedFields \<Rightarrow> CpuTimeStat parsed" where
  "CpuTimeStat_from_fields kf =
     and_then (required parse_microseconds kf (CpuStatField_name UsageUsec)) (\<lambda>usage.
     and_then (required parse_microseconds kf (CpuStatField_name UserUsec)) (\<lambda>user.
     and_then (required parse_microseconds kf (CpuStatField_name SystemUsec)) (\<lambda>system.
     and_then (optional parse_microseconds kf (CpuStatField_name NiceUsec)) (\<lambda>nice.
     and_then (optional parse_microseconds kf (CpuStatField_name ForceIdleUsec)) (\<lambda>force_idle.
     Inr \<lparr>time_usage = usage, time_user = user, time_system = system,
          time_nice = nice, time_force_idle = force_idle\<rparr>)))))"

definition CpuBurstStat_from_fields :: "KeyedFields \<Rightarrow> CpuBurstStat parsed" where
  "CpuBurstStat_from_fields kf =
     and_then (required parse_bandwidth_count kf (CpuStatField_name NrBursts)) (\<lambda>nr_bursts.
     and_then (required parse_microseconds kf (CpuStatField_name BurstUsec)) (\<lambda>burst.
     Inr \<lparr>burst_nr_bursts = nr_bursts, burst_burst = burst\<rparr>))"

text \<open>The burst group is read first, then the counters every bandwidth report has.\<close>

definition CpuBandwidthStat_from_fields :: "KeyedFields \<Rightarrow> CpuBandwidthStat parsed" where
  "CpuBandwidthStat_from_fields kf =
     and_then (if contains_any kf (map CpuStatField_name bandwidth_burst_fields)
               then map_ok Some (CpuBurstStat_from_fields kf) else Inr None) (\<lambda>burst.
     and_then (required parse_bandwidth_count kf (CpuStatField_name NrPeriods)) (\<lambda>nr_periods.
     and_then (required parse_bandwidth_count kf (CpuStatField_name NrThrottled)) (\<lambda>nr_throttled.
     and_then (required parse_microseconds kf (CpuStatField_name ThrottledUsec)) (\<lambda>throttled.
     Inr \<lparr>bandwidth_nr_periods = nr_periods, bandwidth_nr_throttled = nr_throttled,
          bandwidth_throttled = throttled, bandwidth_burst = burst\<rparr>))))"

definition CpuStat_from_str :: "string \<Rightarrow> CpuStat parsed" where
  "CpuStat_from_str contents =
     and_then (CpuStatField_fields contents) (\<lambda>kf.
     and_then (CpuTimeStat_from_fields kf) (\<lambda>time.
     and_then (if contains_any kf (map CpuStatField_name bandwidth_fields)
               then map_ok Some (CpuBandwidthStat_from_fields kf) else Inr None) (\<lambda>bandwidth.
     Inr \<lparr>stat_time = time, stat_bandwidth = bandwidth\<rparr>)))"

definition CpuTimeStat_from_str :: "string \<Rightarrow> CpuTimeStat parsed" where
  "CpuTimeStat_from_str contents = and_then (CpuStatField_fields contents) CpuTimeStat_from_fields"

definition CpuBandwidthStat_from_str :: "string \<Rightarrow> CpuBandwidthStat parsed" where
  "CpuBandwidthStat_from_str contents = and_then (CpuStatField_fields contents) CpuBandwidthStat_from_fields"

definition CpuBurstStat_from_str :: "string \<Rightarrow> CpuBurstStat parsed" where
  "CpuBurstStat_from_str contents = and_then (CpuStatField_fields contents) CpuBurstStat_from_fields"

definition CpuStatLocal_from_str :: "string \<Rightarrow> CpuStatLocal parsed" where
  "CpuStatLocal_from_str contents =
     and_then (CpuStatField_fields contents) (\<lambda>kf.
     and_then (optional parse_microseconds kf ''throttled_usec'') (\<lambda>throttled.
     Inr \<lparr>local_throttled = throttled\<rparr>))"

section \<open>\<open>cpu.max\<close>\<close>

record CpuMax =
  max_quota :: "NonZeroTime MaxOr"
  max_period :: NonZeroTime

definition CpuMax_from_str :: "string \<Rightarrow> CpuMax parsed" where
  "CpuMax_from_str contents = Parser_parse contents (\<lambda>p.
     and_then (next_field (parse_max_or parse_nonzero_microseconds) p ''quota'') (\<lambda>(quota, p).
     and_then (next_field parse_nonzero_microseconds p ''period'') (\<lambda>(period, p).
     Inr (\<lparr>max_quota = quota, max_period = period\<rparr>, p))))"

text \<open>\<open>get_microsecond\<close> is \<open>get::<microsecond>\<close> of \<open>uom\<close>.\<close>

definition CpuMax_cpu_count :: "(Time \<Rightarrow> u64) \<Rightarrow> CpuMax \<Rightarrow> Ratio MaxOr" where
  "CpuMax_cpu_count get_microsecond cpu_max =
     (case max_quota cpu_max of
        MaxLimit \<Rightarrow> MaxLimit
      | Value quota \<Rightarrow>
          let q = f64_of_u64 (get_microsecond (nonzero_inner quota));
              p = f64_of_u64 (get_microsecond (nonzero_inner (max_period cpu_max)))
          in Value (Ratio_ratio (f64_div_pos q p)))"

section \<open>\<open>cpu.weight\<close> and \<open>cpu.weight.nice\<close>\<close>

text \<open>The nutype \<open>Weight\<close>: \<open>greater_or_equal = 1, less_or_equal = 10_000\<close> over \<open>u16\<close>.\<close>

datatype Weight = Weight (weight_inner: u16)

definition Weight_try_new :: "u16 \<Rightarrow> Weight option" where
  "Weight_try_new n = (if 1 \<le> n \<and> n \<le> 10000 then Some (Weight n) else None)"

datatype CpuWeight = Idle | Shares Weight

definition parse_cpu_weight :: "string \<Rightarrow> ParseValueError + CpuWeight" where
  "parse_cpu_weight value = and_then (parse_uint value) (\<lambda>n :: u16.
     if n = 0 then Inr Idle else ok_or OutOfRange (map_option Shares (Weight_try_new n)))"

definition CpuWeight_from_str :: "string \<Rightarrow> CpuWeight parsed" where
  "CpuWeight_from_str contents = Parser_parse contents (\<lambda>p. next_field parse_cpu_weight p ''weight'')"

text \<open>The nutype \<open>Nice\<close>: \<open>greater_or_equal = -20, less_or_equal = 19\<close> over \<open>i8\<close>.\<close>

datatype Nice = Nice (nice_inner: i8)

definition Nice_try_new :: "i8 \<Rightarrow> Nice option" where
  "Nice_try_new n = (if - 20 \<le> sint n \<and> sint n \<le> 19 then Some (Nice n) else None)"

definition parse_nice :: "string \<Rightarrow> ParseValueError + Nice" where
  "parse_nice value = and_then (parse_int value) (\<lambda>n. ok_or OutOfRange (Nice_try_new n))"

definition Nice_from_str :: "string \<Rightarrow> Nice parsed" where
  "Nice_from_str contents = Parser_parse contents (\<lambda>p. next_field parse_nice p ''nice'')"

section \<open>The readers\<close>

definition Cpu_stat :: "('d, 'x) os_scheme \<Rightarrow> 'd Cgroup \<Rightarrow> Error + CpuStat" where
  "Cpu_stat os cg = Cgroup_parse CpuStat_from_str os cg ''cpu.stat''"

definition Cpu_stat_local :: "('d, 'x) os_scheme \<Rightarrow> 'd Cgroup \<Rightarrow> Error + CpuStatLocal" where
  "Cpu_stat_local os cg = Cgroup_parse CpuStatLocal_from_str os cg ''cpu.stat.local''"

definition Cpu_weight :: "('d, 'x) os_scheme \<Rightarrow> 'd Cgroup \<Rightarrow> Error + CpuWeight" where
  "Cpu_weight os cg = Cgroup_parse CpuWeight_from_str os cg ''cpu.weight''"

definition Cpu_weight_nice :: "('d, 'x) os_scheme \<Rightarrow> 'd Cgroup \<Rightarrow> Error + Nice" where
  "Cpu_weight_nice os cg = Cgroup_parse Nice_from_str os cg ''cpu.weight.nice''"

definition Cpu_max :: "('d, 'x) os_scheme \<Rightarrow> 'd Cgroup \<Rightarrow> Error + CpuMax" where
  "Cpu_max os cg = Cgroup_parse CpuMax_from_str os cg ''cpu.max''"

definition Cpu_max_burst :: "('d, 'x) os_scheme \<Rightarrow> 'd Cgroup \<Rightarrow> Error + Time Scalar" where
  "Cpu_max_burst os cg = Scalar_read parse_microseconds ICpuMaxBurst os cg"

definition Cpu_pressure :: "('d, 'x) os_scheme \<Rightarrow> 'd Cgroup \<Rightarrow> Error + Pressure" where
  "Cpu_pressure os cg = Cgroup_parse Pressure_from_str os cg Pressure_CPU_FILE_NAME"

definition Cpu_uclamp_min :: "('d, 'x) os_scheme \<Rightarrow> 'd Cgroup \<Rightarrow> Error + Ratio Scalar" where
  "Cpu_uclamp_min os cg = Scalar_read parse_percent ICpuUclampMin os cg"

definition Cpu_uclamp_max :: "('d, 'x) os_scheme \<Rightarrow> 'd Cgroup \<Rightarrow> Error + Ratio MaxOr Scalar" where
  "Cpu_uclamp_max os cg = Scalar_read (parse_max_or parse_percent) ICpuUclampMax os cg"

definition Cpu_idle :: "('d, 'x) os_scheme \<Rightarrow> 'd Cgroup \<Rightarrow> Error + bool Scalar" where
  "Cpu_idle os cg = Scalar_read parse_boolean ICpuIdle os cg"

section \<open>Errors carry the input\<close>

interpretation cpu_stat_field: strum_enum CpuStatField_name CpuStatField_variants
proof
  show "f \<in> set CpuStatField_variants" for f by (cases f) (simp_all add: CpuStatField_variants_def)
qed (simp add: CpuStatField_variants_def)

lemma reports_CpuStatField_fields [reports_intros]: "reports raw (CpuStatField_fields raw)"
  by (simp add: CpuStatField_fields_def reports_KeyedFields_parse)

lemma kf_raw_CpuStatField_fields: "CpuStatField_fields raw = Inr kf \<Longrightarrow> kf_raw kf = raw"
  by (simp add: CpuStatField_fields_def)

lemma reports_CpuTimeStat [reports_intros]: "kf_raw kf = raw \<Longrightarrow> reports raw (CpuTimeStat_from_fields kf)"
  unfolding CpuTimeStat_from_fields_def by (intro reports_intros)

lemma reports_CpuBurstStat [reports_intros]: "kf_raw kf = raw \<Longrightarrow> reports raw (CpuBurstStat_from_fields kf)"
  unfolding CpuBurstStat_from_fields_def by (intro reports_intros)

lemma reports_CpuBandwidthStat [reports_intros]: "kf_raw kf = raw \<Longrightarrow> reports raw (CpuBandwidthStat_from_fields kf)"
  by (auto simp: CpuBandwidthStat_from_fields_def intro!: reports_intros)

text \<open>The reading of the fields that \<open>CpuStat::from_str\<close> makes once it has them.\<close>

definition CpuStat_of_fields :: "KeyedFields \<Rightarrow> CpuStat parsed" where
  "CpuStat_of_fields kf =
     and_then (CpuTimeStat_from_fields kf) (\<lambda>time.
     and_then (if contains_any kf (map CpuStatField_name bandwidth_fields)
               then map_ok Some (CpuBandwidthStat_from_fields kf) else Inr None) (\<lambda>bandwidth.
     Inr \<lparr>stat_time = time, stat_bandwidth = bandwidth\<rparr>))"

lemma CpuStat_from_str_eq: "CpuStat_from_str contents = and_then (CpuStatField_fields contents) CpuStat_of_fields"
  by (simp add: CpuStat_from_str_def CpuStat_of_fields_def [abs_def])

lemma reports_CpuStat: "kf_raw kf = raw \<Longrightarrow> reports raw (CpuStat_of_fields kf)"
  by (auto simp: CpuStat_of_fields_def intro!: reports_intros)

interpretation cpu_stat_file: snapshot_parser CpuStat_from_str
  by unfold_locales
    (auto simp: CpuStat_from_str_eq intro!: reports_intros reports_CpuStat kf_raw_CpuStatField_fields)

interpretation cpu_stat_local_file: snapshot_parser CpuStatLocal_from_str
  by unfold_locales
    (auto simp: CpuStatLocal_from_str_def intro!: reports_intros kf_raw_CpuStatField_fields)

interpretation cpu_time_stat_file: snapshot_parser CpuTimeStat_from_str
  by unfold_locales
    (auto simp: CpuTimeStat_from_str_def intro!: reports_intros kf_raw_CpuStatField_fields)

interpretation cpu_bandwidth_stat_file: snapshot_parser CpuBandwidthStat_from_str
  by unfold_locales
    (auto simp: CpuBandwidthStat_from_str_def intro!: reports_intros kf_raw_CpuStatField_fields)

interpretation cpu_burst_stat_file: snapshot_parser CpuBurstStat_from_str
  by unfold_locales
    (auto simp: CpuBurstStat_from_str_def intro!: reports_intros kf_raw_CpuStatField_fields)

lemma reports_Parser_parse_field:
  "reports raw (Parser_parse raw (\<lambda>p. next_field parse p field))"
  using reports_Parser_single [of raw parse field] by (simp add: Parser_single_def)

interpretation cpu_max_file: snapshot_parser CpuMax_from_str
  by unfold_locales
    (auto simp: CpuMax_from_str_def Parser_parse_def Parser_new_def result_simps split: prod.split
      intro!: reports_parse_line reports_intros dest!: next_field_raw)

interpretation cpu_weight_file: snapshot_parser CpuWeight_from_str
  by unfold_locales (simp add: CpuWeight_from_str_def reports_Parser_parse_field)

interpretation nice_file: snapshot_parser Nice_from_str
  by unfold_locales (simp add: Nice_from_str_def reports_Parser_parse_field)

section \<open>Bandwidth counters\<close>

lemma show_int_nonneg: "0 \<le> i \<Longrightarrow> show_int i = show_nat (nat i)"
  by (simp add: show_int_def)

lemma parse_uint_show_nat: "n < 2 ^ LENGTH('a) \<Longrightarrow> parse_uint (show_nat n) = Inr (of_nat n :: 'a::len word)"
  by (simp add: parse_uint_def map_err_eq_Inr parse_u_Inr_iff of_nat_inverse)

lemma hd_show_nat_not_minus: "hd (show_nat n) \<noteq> CHR ''-''"
  using all_digits_head [of "show_nat n"] by simp

text \<open>C37: A bandwidth counter is recovered exactly however the kernel prints it: a 32-bit counter printed
  through a signed format, so that values from 2^31 on come out negative, and a 64-bit counter
  printed unsigned.\<close>

theorem parse_bandwidth_count_recovers:
  "parse_bandwidth_count (show_int (sint w)) = Inr (Count (ucast (w :: u32)))
   \<and> parse_bandwidth_count (show_u n) = Inr (Count n)"
proof
  show "parse_bandwidth_count (show_int (sint w)) = Inr (Count (ucast w))"
  proof (cases "sint w < 0")
    case True
    then have "hd (show_int (sint w)) = CHR ''-''" "show_int (sint w) \<noteq> []" by (simp_all add: show_int_def)
    then show ?thesis by (simp add: parse_bandwidth_count_def parse_int_def parse_i_show_int)
  next
    case False
    have "sint w < 2 ^ (LENGTH(32) - 1)" by (rule sint_lt)
    with False have "take_bit LENGTH(32) (sint w) = sint w" by (intro take_bit_int_eq_self) simp_all
    then have "uint w = sint w" by (simp add: uint_sint)
    then have u: "nat (sint w) = unat w" by (metis nat_uint_eq)
    have "unat w < 2 ^ LENGTH(64)" using unsigned_less [of w] by (rule less_trans) simp
    with False u show ?thesis
      by (simp add: parse_bandwidth_count_def show_int_nonneg hd_show_nat_not_minus parse_uint_show_nat)
  qed
  have "hd (show_u n) \<noteq> CHR ''-''" by (simp add: show_u_def hd_show_nat_not_minus)
  then show "parse_bandwidth_count (show_u n) = Inr (Count n)"
    by (simp add: parse_bandwidth_count_def)
qed

section \<open>\<open>cpu.stat\<close> is read back\<close>

definition CpuTimeStat_fields :: "CpuTimeStat \<Rightarrow> (string \<times> string) list" where
  "CpuTimeStat_fields t =
     [(''usage_usec'', render_microseconds (time_usage t)), (''user_usec'', render_microseconds (time_user t)),
      (''system_usec'', render_microseconds (time_system t))]
     @ opt_pair ''nice_usec'' render_microseconds (time_nice t)
     @ opt_pair ''core_sched.force_idle_usec'' render_microseconds (time_force_idle t)"

definition CpuTimeStat_valid :: "CpuTimeStat \<Rightarrow> bool" where
  "CpuTimeStat_valid t \<longleftrightarrow> valid_microseconds (time_usage t) \<and> valid_microseconds (time_user t)
     \<and> valid_microseconds (time_system t) \<and> pred_option valid_microseconds (time_nice t)
     \<and> pred_option valid_microseconds (time_force_idle t)"

fun CpuBurstStat_fields :: "CpuBurstStat option \<Rightarrow> (string \<times> string) list" where
  "CpuBurstStat_fields None = []"
| "CpuBurstStat_fields (Some b) =
     [(''nr_bursts'', render_count (burst_nr_bursts b)), (''burst_usec'', render_microseconds (burst_burst b))]"

fun CpuBandwidthStat_fields :: "CpuBandwidthStat option \<Rightarrow> (string \<times> string) list" where
  "CpuBandwidthStat_fields None = []"
| "CpuBandwidthStat_fields (Some b) =
     [(''nr_periods'', render_count (bandwidth_nr_periods b)),
      (''nr_throttled'', render_count (bandwidth_nr_throttled b)),
      (''throttled_usec'', render_microseconds (bandwidth_throttled b))]
     @ CpuBurstStat_fields (bandwidth_burst b)"

definition CpuBandwidthStat_valid :: "CpuBandwidthStat \<Rightarrow> bool" where
  "CpuBandwidthStat_valid b \<longleftrightarrow> valid_microseconds (bandwidth_throttled b)
     \<and> pred_option (\<lambda>u. valid_microseconds (burst_burst u)) (bandwidth_burst b)"

definition CpuStat_fields :: "CpuStat \<Rightarrow> (string \<times> string) list" where
  "CpuStat_fields s = CpuTimeStat_fields (stat_time s) @ CpuBandwidthStat_fields (stat_bandwidth s)"

definition CpuStat_valid :: "CpuStat \<Rightarrow> bool" where
  "CpuStat_valid s \<longleftrightarrow> CpuTimeStat_valid (stat_time s) \<and> pred_option CpuBandwidthStat_valid (stat_bandwidth s)"

lemma key_cpu [simp]:
  "is_key ''usage_usec''" "is_key ''user_usec''" "is_key ''system_usec''" "is_key ''nice_usec''"
  "is_key ''core_sched.force_idle_usec''" "is_key ''nr_periods''" "is_key ''nr_throttled''"
  "is_key ''throttled_usec''" "is_key ''nr_bursts''" "is_key ''burst_usec''"
  by (simp_all add: is_key_def is_token_def is_ascii_whitespace_def ink_def white_space1_def)

lemma is_token_microseconds [simp]: "is_token (render_microseconds t)"
  by (simp add: render_microseconds_def)

lemma parse_bandwidth_count_render: "parse_bandwidth_count (render_count c) = Inr c"
proof -
  have "hd (show_u (count_value c)) \<noteq> CHR ''-''" by (simp add: show_u_def hd_show_nat_not_minus)
  then show ?thesis by (cases c) (simp add: parse_bandwidth_count_def render_count_def)
qed

lemma required_bandwidth_count:
  "btree_get (kf_values kf) field = Some (render_count c) \<Longrightarrow> required parse_bandwidth_count kf field = Inr c"
  by (simp add: required_Inr_iff parse_bandwidth_count_render)

lemmas cpu_lookup = field_lookup optional_def contains_any_def btree_contains_key_def
  v_microseconds.required_lookup v_microseconds.optional_lookup required_bandwidth_count

lemma CpuTimeStat_render:
  assumes "CpuTimeStat_valid (stat_time s)"
  shows "CpuTimeStat_from_fields \<lparr>kf_raw = raw, kf_values = btree_collect (CpuStat_fields s)\<rparr> = Inr (stat_time s)"
proof -
  obtain t where t: "stat_time s = t" by blast
  have none: "btree_get (btree_collect (CpuBandwidthStat_fields (stat_bandwidth s))) k = None"
    if "k \<notin> {''nr_periods'', ''nr_throttled'', ''throttled_usec'', ''nr_bursts'', ''burst_usec''}" for k
    using that by (cases "stat_bandwidth s" rule: CpuBandwidthStat_fields.cases; simp add: field_lookup)
      (rename_tac b, case_tac "bandwidth_burst b", simp_all add: field_lookup)
  show ?thesis
    using assms unfolding CpuStat_fields_def t
    by (cases t) (simp add: CpuTimeStat_from_fields_def CpuTimeStat_fields_def CpuTimeStat_valid_def
        cpu_lookup none cong: option.case_cong)
qed

lemma CpuTimeStat_fields_lookup:
  "k \<in> {''nr_periods'', ''nr_throttled'', ''throttled_usec'', ''nr_bursts'', ''burst_usec''} \<Longrightarrow>
   btree_get (btree_collect (CpuTimeStat_fields t)) k = None"
  by (auto simp: CpuTimeStat_fields_def field_lookup cong: option.case_cong)

text \<open>The group of bandwidth counters is present when one of its keys is.\<close>

lemma CpuStat_fields_bandwidth_keys:
  "contains_any \<lparr>kf_raw = raw, kf_values = btree_collect (CpuStat_fields s)\<rparr> (map CpuStatField_name bandwidth_fields)
     \<longleftrightarrow> stat_bandwidth s \<noteq> None"
proof (cases "stat_bandwidth s")
  case None
  then show ?thesis
    by (simp add: CpuStat_fields_def bandwidth_fields_def contains_any_def btree_contains_key_def
        CpuTimeStat_fields_lookup)
next
  case (Some b)
  then show ?thesis
    by (cases "bandwidth_burst b")
      (simp_all add: CpuStat_fields_def bandwidth_fields_def contains_any_def btree_contains_key_def
        CpuTimeStat_fields_lookup field_lookup cong: option.case_cong)
qed

lemma CpuBandwidthStat_render:
  assumes "stat_bandwidth s = Some b" "CpuBandwidthStat_valid b"
  shows "CpuBandwidthStat_from_fields \<lparr>kf_raw = raw, kf_values = btree_collect (CpuStat_fields s)\<rparr> = Inr b"
proof (cases "bandwidth_burst b")
  case None
  with assms show ?thesis
    by (cases b) (simp add: CpuStat_fields_def CpuBandwidthStat_from_fields_def bandwidth_burst_fields_def
        CpuTimeStat_fields_lookup cpu_lookup CpuBandwidthStat_valid_def cong: option.case_cong)
next
  case (Some u)
  with assms show ?thesis
    by (cases b; cases u) (simp add: CpuStat_fields_def CpuBandwidthStat_from_fields_def bandwidth_burst_fields_def
        CpuBurstStat_from_fields_def CpuTimeStat_fields_lookup cpu_lookup CpuBandwidthStat_valid_def
        cong: option.case_cong)
qed

interpretation cpu_stat: field_record CpuStat_of_fields CpuStat_valid CpuStat_fields "\<lambda>s. s"
proof unfold_locales
  fix s raw
  assume "CpuStat_valid s"
  then show "CpuStat_of_fields \<lparr>kf_raw = raw, kf_values = btree_collect (CpuStat_fields s)\<rparr> = Inr s"
    by (cases "stat_bandwidth s")
      (simp_all add: CpuStat_of_fields_def CpuStat_valid_def CpuTimeStat_render CpuBandwidthStat_render
        CpuStat_fields_bandwidth_keys)
next
  fix s
  show "list_all plain_pair (CpuStat_fields s)"
  proof (cases "stat_bandwidth s")
    case None
    then show ?thesis by (simp add: CpuStat_fields_def CpuTimeStat_fields_def plain_pair_iff)
  next
    case (Some b)
    then show ?thesis
      by (cases "bandwidth_burst b")
        (simp_all add: CpuStat_fields_def CpuTimeStat_fields_def plain_pair_iff v_count.render_token)
  qed
qed (rule reports_CpuStat)

text \<open>C35: Reading \<open>cpu.stat\<close> as the kernel prints it gives the statistics back, in each of its shapes:
  without the bandwidth group, with it, and with it and the burst counters, and with or without
  the optional times.\<close>

theorem CpuStat_round_trip:
  assumes "CpuStat_valid s"
  shows "CpuStat_from_str (render_pairs (CpuStat_fields s)) = Inr s"
  unfolding CpuStat_from_str_eq CpuStatField_fields_def by (rule cpu_stat.file_round_trip [OF assms])

lemma CpuStat_round_trip_witness:
  "CpuStat_from_str (render_pairs (CpuStat_fields
     \<lparr>stat_time = \<lparr>time_usage = Time_ns 9000, time_user = Time_ns 5000, time_system = Time_ns 4000,
        time_nice = Some (Time_ns 0), time_force_idle = None\<rparr>,
      stat_bandwidth = Some \<lparr>bandwidth_nr_periods = Count 3, bandwidth_nr_throttled = Count 1,
        bandwidth_throttled = Time_ns 2000, bandwidth_burst = None\<rparr>\<rparr>)) =
   Inr \<lparr>stat_time = \<lparr>time_usage = Time_ns 9000, time_user = Time_ns 5000, time_system = Time_ns 4000,
        time_nice = Some (Time_ns 0), time_force_idle = None\<rparr>,
      stat_bandwidth = Some \<lparr>bandwidth_nr_periods = Count 3, bandwidth_nr_throttled = Count 1,
        bandwidth_throttled = Time_ns 2000, bandwidth_burst = None\<rparr>\<rparr>"
  by (rule CpuStat_round_trip)
    (simp add: CpuStat_valid_def CpuTimeStat_valid_def CpuBandwidthStat_valid_def valid_microseconds_def)

text \<open>The bandwidth group of an accepted \<open>cpu.stat\<close> is all or nothing: it is absent exactly when none
  of its five keys is in the file, otherwise its three base counters are; and the burst counters
  are absent exactly when neither of their two keys is in the file.\<close>

lemma CpuStat_bandwidth_presence:
  assumes "CpuStat_from_str contents = Inr s"
  shows "\<exists>kf. KeyedFields_parse contents (\<lambda>_. ''value'') = Inr kf
    \<and> (stat_bandwidth s = None \<longleftrightarrow>
         (\<forall>k \<in> {''nr_periods'', ''nr_throttled'', ''throttled_usec'', ''nr_bursts'', ''burst_usec''}.
            btree_get (kf_values kf) k = None))
    \<and> (\<forall>b. stat_bandwidth s = Some b \<longrightarrow>
         required parse_bandwidth_count kf ''nr_periods'' = Inr (bandwidth_nr_periods b)
       \<and> required parse_bandwidth_count kf ''nr_throttled'' = Inr (bandwidth_nr_throttled b)
       \<and> required parse_microseconds kf ''throttled_usec'' = Inr (bandwidth_throttled b)
       \<and> (bandwidth_burst b = None \<longleftrightarrow>
            btree_get (kf_values kf) ''nr_bursts'' = None \<and> btree_get (kf_values kf) ''burst_usec'' = None))"
proof -
  from assms obtain kf where kf: "CpuStatField_fields contents = Inr kf" "CpuStat_of_fields kf = Inr s"
    by (auto simp: CpuStat_from_str_eq and_then_eq_Inr)
  have parsed: "KeyedFields_parse contents (\<lambda>_. ''value'') = Inr kf"
    using kf(1) unfolding CpuStatField_fields_def by (rule KeyedFields_parse_field_irrelevant)
  let ?keys = "{''nr_periods'', ''nr_throttled'', ''throttled_usec'', ''nr_bursts'', ''burst_usec''}"
  have any: "contains_any kf (map CpuStatField_name bandwidth_fields) \<longleftrightarrow>
      (\<exists>k \<in> ?keys. btree_get (kf_values kf) k \<noteq> None)"
    "contains_any kf (map CpuStatField_name bandwidth_burst_fields) \<longleftrightarrow>
      btree_get (kf_values kf) ''nr_bursts'' \<noteq> None \<or> btree_get (kf_values kf) ''burst_usec'' \<noteq> None"
    by (simp_all add: contains_any_def bandwidth_fields_def bandwidth_burst_fields_def btree_contains_key_def)
  from kf(2) have "stat_bandwidth s = None \<longleftrightarrow> \<not> contains_any kf (map CpuStatField_name bandwidth_fields)"
    and b: "\<And>b. stat_bandwidth s = Some b \<Longrightarrow> CpuBandwidthStat_from_fields kf = Inr b"
    by (auto simp: CpuStat_of_fields_def and_then_eq_Inr map_ok_eq_Inr split: if_splits)
  moreover have "required parse_bandwidth_count kf ''nr_periods'' = Inr (bandwidth_nr_periods b)
       \<and> required parse_bandwidth_count kf ''nr_throttled'' = Inr (bandwidth_nr_throttled b)
       \<and> required parse_microseconds kf ''throttled_usec'' = Inr (bandwidth_throttled b)
       \<and> (bandwidth_burst b = None \<longleftrightarrow> \<not> contains_any kf (map CpuStatField_name bandwidth_burst_fields))"
    if "stat_bandwidth s = Some b" for b
    using b [OF that]
    by (auto simp: CpuBandwidthStat_from_fields_def and_then_eq_Inr map_ok_eq_Inr split: if_splits)
  ultimately show ?thesis using parsed unfolding any by auto
qed

lemma CpuStat_bandwidth_presence_witness:
  "\<exists>s. CpuStat_from_str (render_pairs (CpuStat_fields
     \<lparr>stat_time = \<lparr>time_usage = Time_ns 9000, time_user = Time_ns 5000, time_system = Time_ns 4000,
        time_nice = None, time_force_idle = None\<rparr>, stat_bandwidth = None\<rparr>)) = Inr s
     \<and> stat_bandwidth s = None
     \<and> (\<exists>kf. KeyedFields_parse (render_pairs (CpuStat_fields s)) (\<lambda>_. ''value'') = Inr kf
          \<and> btree_get (kf_values kf) ''nr_periods'' = None)"
proof -
  let ?s = "\<lparr>stat_time = \<lparr>time_usage = Time_ns 9000, time_user = Time_ns 5000, time_system = Time_ns 4000,
        time_nice = None, time_force_idle = None\<rparr>, stat_bandwidth = None\<rparr>"
  have "CpuStat_valid ?s"
    by (simp add: CpuStat_valid_def CpuTimeStat_valid_def valid_microseconds_def)
  then have "CpuStat_from_str (render_pairs (CpuStat_fields ?s)) = Inr ?s"
    unfolding CpuStat_from_str_eq CpuStatField_fields_def by (rule cpu_stat.file_round_trip)
  from this CpuStat_bandwidth_presence [OF this] show ?thesis by (intro exI [of _ ?s]) auto
qed

section \<open>\<open>cpu.max\<close>, the weight and the nice value are read back\<close>

definition CpuMax_render :: "CpuMax \<Rightarrow> string" where
  "CpuMax_render m =
     unwords [render_max_or render_nonzero_microseconds (max_quota m), render_nonzero_microseconds (max_period m)]
     @ [CHR 0x0A]"

definition CpuMax_valid :: "CpuMax \<Rightarrow> bool" where
  "CpuMax_valid m \<longleftrightarrow> valid_max_or valid_nonzero_microseconds (max_quota m)
     \<and> valid_nonzero_microseconds (max_period m)"

lemma CpuMax_from_str_tokens:
  "CpuMax_from_str contents = Inr m \<longleftrightarrow>
     (\<exists>q p. split_ascii_whitespace contents = [q, p]
        \<and> parse_max_or parse_nonzero_microseconds q = Inr (max_quota m)
        \<and> parse_nonzero_microseconds p = Inr (max_period m))"
proof (cases "split_ascii_whitespace contents")
  case (Cons q ws)
  then show ?thesis
    by (cases ws; cases "tl ws"; cases m)
      (auto simp: CpuMax_from_str_def Parser_defs parse_field_def result_simps)
qed (simp add: CpuMax_from_str_def Parser_defs)

text \<open>\<open>cpu.max\<close> is accepted only as a quota and a period that are whole positive numbers of
  microseconds, or \<open>max\<close> for the quota, and the text the kernel prints for such a limit is read
  back as that limit.\<close>

theorem CpuMax_correct:
  "(CpuMax_from_str contents = Inr m \<longrightarrow> CpuMax_valid m)
   \<and> (CpuMax_valid m' \<longrightarrow> CpuMax_from_str (CpuMax_render m') = Inr m')"
proof (intro conjI impI)
  assume "CpuMax_from_str contents = Inr m"
  then show "CpuMax_valid m"
    by (auto simp: CpuMax_from_str_tokens CpuMax_valid_def intro: v_nonzero.max_or.parse_valid v_nonzero.parse_valid)
next
  assume m: "CpuMax_valid m'"
  then have "split_ascii_whitespace (CpuMax_render m') =
      [render_max_or render_nonzero_microseconds (max_quota m'), render_nonzero_microseconds (max_period m')]"
    unfolding CpuMax_render_def
    by (subst split_ascii_whitespace_append_space, simp, subst split_unwords)
      (simp_all add: CpuMax_valid_def v_nonzero.max_or.render_token v_nonzero.render_token)
  with m show "CpuMax_from_str (CpuMax_render m') = Inr m'"
    by (simp add: CpuMax_from_str_tokens CpuMax_valid_def v_nonzero.max_or.parse_render v_nonzero.parse_render)
qed

lemma CpuMax_correct_witness:
  "CpuMax_from_str (CpuMax_render \<lparr>max_quota = Value (NonZeroTime (Time_ns 50000000)), max_period = NonZeroTime (Time_ns 100000000)\<rparr>)
   = Inr \<lparr>max_quota = Value (NonZeroTime (Time_ns 50000000)), max_period = NonZeroTime (Time_ns 100000000)\<rparr>"
proof -
  let ?m = "\<lparr>max_quota = Value (NonZeroTime (Time_ns 50000000)), max_period = NonZeroTime (Time_ns 100000000)\<rparr>"
  have "CpuMax_valid ?m"
    by (simp add: CpuMax_valid_def valid_nonzero_microseconds_def valid_microseconds_def NonZeroTime_valid_def)
  with CpuMax_correct [of undefined undefined ?m] show ?thesis by blast
qed

text \<open>Every decimal weight: zero is idle, 1 to 10000 are shares, larger values that fit 16 bits are out
  of range and the rest overflow.\<close>

lemma parse_cpu_weight_decimal:
  "parse_cpu_weight (show_nat n) =
    (if n = 0 then Inr Idle
     else if n \<le> 10000 then Inr (Shares (Weight (of_nat n)))
     else if n < 65536 then Inl OutOfRange else Inl (Integer PosOverflow))"
proof (cases "n < 65536")
  case True
  then have "n < 2 ^ LENGTH(16)" by simp
  then have u: "unat (of_nat n :: u16) = n" by (rule of_nat_inverse [OF refl])
  have "(of_nat n :: u16) = 0 \<longleftrightarrow> n = 0" "1 \<le> (of_nat n :: u16) \<longleftrightarrow> 1 \<le> n" "(of_nat n :: u16) \<le> 10000 \<longleftrightarrow> n \<le> 10000"
    using u by (simp_all add: word_unat_eq_iff word_le_nat_alt)
  with True show ?thesis
    by (simp add: parse_cpu_weight_def parse_uint_show_nat Weight_try_new_def)
next
  case False
  then have "(parse_u (show_nat n) :: IntErrorKind + u16) = Inl PosOverflow"
    by (intro parse_u_overflow) simp_all
  with False show ?thesis by (simp add: parse_cpu_weight_def parse_uint_def)
qed

text \<open>Every signed decimal nice value: -20 to 19 are accepted, other values that fit 8 bits are out of
  range and the rest overflow in their direction.\<close>

theorem parse_nice_decimal:
  "parse_nice (show_int i) =
    (if - 20 \<le> i \<and> i \<le> 19 then Inr (Nice (of_int i))
     else if - 128 \<le> i \<and> i \<le> 127 then Inl OutOfRange
     else Inl (Integer (if i < 0 then NegOverflow else PosOverflow)))"
proof (cases "- 128 \<le> i \<and> i \<le> 127")
  case True
  then have "sint (of_int i :: i8) = i" by (simp add: signed_of_int signed_take_bit_int_eq_self)
  moreover from True have "(parse_i (show_int i) :: IntErrorKind + i8) = Inr (of_int i)"
    by (simp add: parse_i_def parse_signed_show_int)
  ultimately show ?thesis using True by (simp add: parse_nice_def parse_int_def Nice_try_new_def)
next
  case False
  then have "(parse_i (show_int i) :: IntErrorKind + i8) = Inl (if i < 0 then NegOverflow else PosOverflow)"
    by (auto simp: parse_i_def show_int_def parse_signed_neg parse_signed_pos)
  moreover from False have "\<not> (- 20 \<le> i \<and> i \<le> 19)" by linarith
  ultimately show ?thesis using False by (simp add: parse_nice_def parse_int_def)
qed

end
