(* ===== verification/Sakai_Cpuset.thy ===== *)
theory Sakai_Cpuset
  imports Sakai_File
begin

text \<open>
  The cpuset controller, \<open>sakai/src/cgroup/v2/cpuset/\<close>: lists of CPUs and memory nodes
  (\<open>list.rs\<close>), the partition state (\<open>partition.rs\<close>) and the readers of \<open>mod.rs\<close>.
\<close>

section \<open>Lists of identifiers\<close>

text \<open>A \<open>RangeInclusive<u32>\<close> is its two bounds.\<close>

type_synonym id_range = "u32 \<times> u32"

definition id_number :: "string \<Rightarrow> string \<Rightarrow> string \<Rightarrow> string \<Rightarrow> u32 parsed" where
  "id_number raw field part text =
     (if text \<noteq> [] \<and> list_all is_ascii_digit text
      then map_err (\<lambda>e. ParseError_invalid raw field part (Integer e)) (parse_u text)
      else Inl (ParseError_invalid raw field part OutOfRange))"

definition id_part :: "string \<Rightarrow> string \<Rightarrow> string \<Rightarrow> id_range parsed" where
  "id_part raw field part =
     and_then
       (case split_once ''-'' part of
          Some (s, e) \<Rightarrow>
            and_then (id_number raw field part s) (\<lambda>a.
            and_then (id_number raw field part e) (\<lambda>b. Inr (a, b)))
        | None \<Rightarrow> and_then (id_number raw field part part) (\<lambda>a. Inr (a, a)))
       (\<lambda>(a, b). if a \<le> b then Inr (a, b) else Inl (ParseError_invalid raw field part OutOfRange))"

definition ranges_ascend :: "id_range list \<Rightarrow> bool" where
  "ranges_ascend ranges \<longleftrightarrow> list_all (\<lambda>(p, n). snd p < fst n) (zip ranges (drop 1 ranges))"

definition IdList_parse :: "string \<Rightarrow> string \<Rightarrow> id_range list parsed" where
  "IdList_parse raw field =
     (let value = trim raw in
      and_then
        (if value = [] then Inr []
         else collect_results (map (id_part raw field) (split_pred (\<lambda>c. c = CHR '','') value)))
        (\<lambda>ranges. if ranges_ascend ranges then Inr ranges
                  else Inl (ParseError_invalid raw field value OutOfRange)))"

record CpuList = cpu_ranges :: "id_range list"
record MemoryNodeList = node_ranges :: "id_range list"

definition CpuList_from_str :: "string \<Rightarrow> CpuList parsed" where
  "CpuList_from_str raw = map_ok (\<lambda>rs. \<lparr>cpu_ranges = rs\<rparr>) (IdList_parse raw ''cpus'')"

definition MemoryNodeList_from_str :: "string \<Rightarrow> MemoryNodeList parsed" where
  "MemoryNodeList_from_str raw = map_ok (\<lambda>rs. \<lparr>node_ranges = rs\<rparr>) (IdList_parse raw ''mems'')"

text \<open>\<open>ids\<close> and \<open>contains\<close>, which the two lists share through the macro.\<close>

definition range_ids :: "id_range \<Rightarrow> u32 list" where
  "range_ids r = map of_nat [unat (fst r) ..< Suc (unat (snd r))]"

definition list_ids :: "id_range list \<Rightarrow> u32 list" where
  "list_ids ranges = concat (map range_ids ranges)"

definition list_contains :: "id_range list \<Rightarrow> u32 \<Rightarrow> bool" where
  "list_contains ranges i \<longleftrightarrow> list_ex (\<lambda>r. fst r \<le> i \<and> i \<le> snd r) ranges"

section \<open>Partitions\<close>

datatype CpusetPartition =
    PartitionMember
  | PartitionRoot
  | PartitionIsolated
  | RootInvalid "string option"
  | IsolatedInvalid "string option"

fun partition_state :: "CpusetPartition \<Rightarrow> string" where
  "partition_state PartitionMember = ''member''"
| "partition_state PartitionRoot = ''root''"
| "partition_state PartitionIsolated = ''isolated''"
| "partition_state (RootInvalid reason) = ''root''"
| "partition_state (IsolatedInvalid reason) = ''isolated''"

fun partition_is_invalid :: "CpusetPartition \<Rightarrow> bool" where
  "partition_is_invalid (RootInvalid reason) = True"
| "partition_is_invalid (IsolatedInvalid reason) = True"
| "partition_is_invalid p = False"

fun partition_reason :: "CpusetPartition \<Rightarrow> string option" where
  "partition_reason (RootInvalid reason) = reason"
| "partition_reason (IsolatedInvalid reason) = reason"
| "partition_reason p = None"

definition reason_ok :: "string \<Rightarrow> bool" where
  "reason_ok reason \<longleftrightarrow> trim reason \<noteq> [] \<and> CHR 0x0A \<notin> set reason \<and> CHR 0x0D \<notin> set reason"

definition CpusetPartition_from_str :: "string \<Rightarrow> CpusetPartition parsed" where
  "CpusetPartition_from_str raw =
     (let value = trim raw;
          invalid = ParseError_invalid raw ''partition'' value OutOfRange
      in if value = '''' then Inl (ParseError_missing raw ''partition'')
         else if value = ''member'' then Inr PartitionMember
         else if value = ''root'' then Inr PartitionRoot
         else if value = ''isolated'' then Inr PartitionIsolated
         else if value = ''root invalid'' then Inr (RootInvalid None)
         else if value = ''isolated invalid'' then Inr (IsolatedInvalid None)
         else and_then (ok_or invalid (split_once '' invalid ('' value)) (\<lambda>(state, reason).
              and_then (ok_or invalid
                (case strip_suffix '')'' reason of
                   Some r \<Rightarrow> if reason_ok r then Some r else None
                 | None \<Rightarrow> None)) (\<lambda>r.
              if state = ''root'' then Inr (RootInvalid (Some r))
              else if state = ''isolated'' then Inr (IsolatedInvalid (Some r))
              else Inl invalid)))"

section \<open>The readers\<close>

definition Cpuset_cpus :: "('d, 'x) os_scheme \<Rightarrow> 'd Cgroup \<Rightarrow> Error + CpuList" where
  "Cpuset_cpus os cg = Cgroup_parse CpuList_from_str os cg ''cpuset.cpus''"

definition Cpuset_cpus_effective :: "('d, 'x) os_scheme \<Rightarrow> 'd Cgroup \<Rightarrow> Error + CpuList" where
  "Cpuset_cpus_effective os cg = Cgroup_parse CpuList_from_str os cg ''cpuset.cpus.effective''"

definition Cpuset_cpus_exclusive :: "('d, 'x) os_scheme \<Rightarrow> 'd Cgroup \<Rightarrow> Error + CpuList" where
  "Cpuset_cpus_exclusive os cg = Cgroup_parse CpuList_from_str os cg ''cpuset.cpus.exclusive''"

definition Cpuset_cpus_exclusive_effective :: "('d, 'x) os_scheme \<Rightarrow> 'd Cgroup \<Rightarrow> Error + CpuList" where
  "Cpuset_cpus_exclusive_effective os cg = Cgroup_parse CpuList_from_str os cg ''cpuset.cpus.exclusive.effective''"

definition Cpuset_cpus_isolated :: "('d, 'x) os_scheme \<Rightarrow> 'd Cgroup \<Rightarrow> Error + CpuList" where
  "Cpuset_cpus_isolated os cg = Cgroup_parse CpuList_from_str os cg ''cpuset.cpus.isolated''"

definition Cpuset_mems :: "('d, 'x) os_scheme \<Rightarrow> 'd Cgroup \<Rightarrow> Error + MemoryNodeList" where
  "Cpuset_mems os cg = Cgroup_parse MemoryNodeList_from_str os cg ''cpuset.mems''"

definition Cpuset_mems_effective :: "('d, 'x) os_scheme \<Rightarrow> 'd Cgroup \<Rightarrow> Error + MemoryNodeList" where
  "Cpuset_mems_effective os cg = Cgroup_parse MemoryNodeList_from_str os cg ''cpuset.mems.effective''"

definition Cpuset_partition :: "('d, 'x) os_scheme \<Rightarrow> 'd Cgroup \<Rightarrow> Error + CpusetPartition" where
  "Cpuset_partition os cg = Cgroup_parse CpusetPartition_from_str os cg ''cpuset.cpus.partition''"

section \<open>Errors carry the input\<close>

lemma reports_id_part [reports_intros]: "reports raw (id_part raw field part)"
  by (auto simp: id_part_def id_number_def split: option.split prod.split intro!: reports_intros)

lemma reports_IdList [reports_intros]: "reports raw (IdList_parse raw field)"
  by (auto simp: IdList_parse_def Let_def intro!: reports_intros)

interpretation cpu_list: snapshot_parser CpuList_from_str
  by unfold_locales (auto simp: CpuList_from_str_def intro!: reports_intros)

interpretation memory_node_list: snapshot_parser MemoryNodeList_from_str
  by unfold_locales (auto simp: MemoryNodeList_from_str_def intro!: reports_intros)

interpretation cpuset_partition: snapshot_parser CpusetPartition_from_str
  by unfold_locales (auto simp: CpusetPartition_from_str_def Let_def split: prod.split intro!: reports_intros)

section \<open>What an accepted list holds\<close>

definition ranges_ok :: "id_range list \<Rightarrow> bool" where
  "ranges_ok rs \<longleftrightarrow> list_all (\<lambda>r. fst r \<le> snd r) rs \<and> ranges_ascend rs"

lemma ranges_ascend_simps [simp]:
  "ranges_ascend []" "ranges_ascend [r]"
  "ranges_ascend (r # r' # rs) \<longleftrightarrow> snd r < fst r' \<and> ranges_ascend (r' # rs)"
  by (auto simp: ranges_ascend_def)

lemma ranges_ok_Cons: "ranges_ok (r # rs) \<Longrightarrow> ranges_ok rs \<and> (\<forall>r' \<in> set rs. snd r < fst r')"
proof (induction rs arbitrary: r)
  case Nil
  then show ?case by (simp add: ranges_ok_def)
next
  case (Cons r' rs)
  then have r: "ranges_ok (r' # rs)" "snd r < fst r'" by (auto simp: ranges_ok_def)
  from Cons.IH [OF r(1)] have "\<forall>q \<in> set rs. snd r' < fst q" by blast
  moreover have "fst r' \<le> snd r'" using r(1) by (simp add: ranges_ok_def)
  ultimately show ?case using r by (auto intro: less_trans le_less_trans)
qed

lemma set_range_ids: "fst r \<le> snd r \<Longrightarrow> set (range_ids r) = {fst r .. snd r}"
proof -
  have "x \<in> set (range_ids r) \<longleftrightarrow> fst r \<le> x \<and> x \<le> snd r" for x
  proof
    assume "x \<in> set (range_ids r)"
    then obtain n where n: "x = of_nat n" "unat (fst r) \<le> n" "n \<le> unat (snd r)"
      by (auto simp: range_ids_def)
    have "n < 2 ^ LENGTH(32)" using n(3) unsigned_less [of "snd r"] by (rule le_less_trans)
    then have "unat x = n" unfolding n(1) by (rule of_nat_inverse [OF refl])
    with n show "fst r \<le> x \<and> x \<le> snd r" by (simp add: word_le_nat_alt)
  next
    assume "fst r \<le> x \<and> x \<le> snd r"
    then have "unat (fst r) \<le> unat x \<and> unat x < Suc (unat (snd r))" by (auto simp: word_le_nat_alt)
    then have "unat x \<in> set [unat (fst r) ..< Suc (unat (snd r))]" by (simp only: set_upt atLeastLessThan_iff)
    then have "of_nat (unat x) \<in> set (range_ids r)" unfolding range_ids_def set_map by (rule imageI)
    moreover have "of_nat (unat x) = x" by (simp only: of_nat_unat ucast_id)
    ultimately show "x \<in> set (range_ids r)" by (simp only:)
  qed
  then show ?thesis by (intro set_eqI) (simp only: atLeastAtMost_iff)
qed

lemma sorted_range_ids: "sorted_wrt (<) (range_ids r)"
proof -
  have "sorted_wrt (\<lambda>m n. (of_nat m :: u32) < of_nat n) [unat (fst r) ..< Suc (unat (snd r))]"
  proof (rule sorted_wrt_mono_rel [OF _ sorted_wrt_upt])
    fix m n :: nat
    assume "m \<in> set [unat (fst r) ..< Suc (unat (snd r))]" "n \<in> set [unat (fst r) ..< Suc (unat (snd r))]" "m < n"
    then have "m < n" "n < 2 ^ LENGTH(32)" using unsigned_less [of "snd r"] by auto
    moreover from this have "unat (of_nat m :: u32) = m" "unat (of_nat n :: u32) = n"
      by (auto intro!: of_nat_inverse [OF refl])
    ultimately show "(of_nat m :: u32) < of_nat n" by (simp add: word_less_nat_alt)
  qed
  then show ?thesis by (simp add: range_ids_def sorted_wrt_map)
qed

lemma set_list_ids: "list_all (\<lambda>r. fst r \<le> snd r) rs \<Longrightarrow> set (list_ids rs) = {i. list_contains rs i}"
  by (force simp: list_ids_def list_contains_def list_all_iff list_ex_iff set_range_ids)

lemma sorted_list_ids: "ranges_ok rs \<Longrightarrow> sorted_wrt (<) (list_ids rs)"
proof (induction rs)
  case Nil
  then show ?case by (simp add: list_ids_def)
next
  case (Cons r rs)
  from ranges_ok_Cons [OF Cons.prems] have rs: "ranges_ok rs" "\<forall>r' \<in> set rs. snd r < fst r'" by auto
  have "i < j" if "i \<in> set (range_ids r)" "j \<in> set (list_ids rs)" for i j
  proof -
    from that(2) rs(1) obtain r' where "r' \<in> set rs" "fst r' \<le> j"
      by (auto simp: set_list_ids ranges_ok_def list_contains_def list_ex_iff)
    moreover from that(1) Cons.prems have "i \<le> snd r" by (simp add: ranges_ok_def set_range_ids)
    ultimately show ?thesis using rs(2) by (meson le_less_trans less_le_trans)
  qed
  with Cons.IH [OF rs(1)] sorted_range_ids [of r] show ?case
    by (simp add: list_ids_def sorted_wrt_append)
qed

lemma id_part_Inr: "id_part raw field part = Inr r \<Longrightarrow> fst r \<le> snd r"
  by (auto simp: id_part_def and_then_eq_Inr split: if_splits)

lemma IdList_parse_ok: "IdList_parse raw field = Inr rs \<Longrightarrow> ranges_ok rs"
proof -
  assume "IdList_parse raw field = Inr rs"
  then have asc: "ranges_ascend rs" and
    rs: "rs = [] \<or> map (id_part raw field) (split_pred (\<lambda>c. c = CHR '','') (trim raw)) = map Inr rs"
    by (auto simp: IdList_parse_def Let_def and_then_eq_Inr collect_results_eq_Inr split: if_splits)
  have "fst r \<le> snd r" if "r \<in> set rs" for r
  proof -
    from that rs have eq: "map (id_part raw field) (split_pred (\<lambda>c. c = CHR '','') (trim raw)) = map Inr rs" by auto
    have "Inr r \<in> set (map (id_part raw field) (split_pred (\<lambda>c. c = CHR '','') (trim raw)))"
      unfolding eq using that by simp
    then obtain part where "id_part raw field part = Inr r" by (metis (no_types, lifting) imageE set_map)
    then show ?thesis by (rule id_part_Inr)
  qed
  with asc show ?thesis by (simp add: ranges_ok_def list_all_iff)
qed

text \<open>C22: In every accepted CPU list the identifiers come out strictly increasing, so without
  duplicates, and an identifier is contained in the list exactly when it is one of them.\<close>

theorem CpuList_ids_correct:
  assumes "CpuList_from_str raw = Inr l"
  shows "sorted_wrt (<) (list_ids (cpu_ranges l)) \<and> distinct (list_ids (cpu_ranges l))
    \<and> (list_contains (cpu_ranges l) i \<longleftrightarrow> i \<in> set (list_ids (cpu_ranges l)))"
proof -
  have "ranges_ok (cpu_ranges l)"
    using assms by (auto simp: CpuList_from_str_def map_ok_eq_Inr dest: IdList_parse_ok)
  then show ?thesis
    using sorted_list_ids [of "cpu_ranges l"]
    by (auto simp: strict_sorted_iff set_list_ids ranges_ok_def)
qed

section \<open>Lists are read back\<close>

definition render_range :: "id_range \<Rightarrow> string" where
  "render_range r = (if fst r = snd r then show_u (fst r) else show_u (fst r) @ ''-'' @ show_u (snd r))"

fun render_ranges :: "id_range list \<Rightarrow> string" where
  "render_ranges [] = ''''"
| "render_ranges [r] = render_range r"
| "render_ranges (r # r' # rs) = render_range r @ '','' @ render_ranges (r' # rs)"

lemma render_range_chars: "c \<in> set (render_range r) \<Longrightarrow> is_ascii_digit c \<or> c = CHR ''-''"
  using all_digits_show_u [of "fst r"] all_digits_show_u [of "snd r"]
  by (auto simp: render_range_def all_digits_def split: if_splits)

lemma render_range_shape: "render_range r \<noteq> [] \<and> is_ascii_digit (hd (render_range r)) \<and> is_ascii_digit (last (render_range r))"
  using all_digits_show_u [of "fst r"] all_digits_show_u [of "snd r"]
    hd_in_set [of "show_u (fst r)"] last_in_set [of "show_u (fst r)"] last_in_set [of "show_u (snd r)"]
  by (auto simp: render_range_def all_digits_def)

lemma split_render_ranges: "rs \<noteq> [] \<Longrightarrow> split_pred (\<lambda>c. c = CHR '','') (render_ranges rs) = map render_range rs"
proof (induction rs rule: render_ranges.induct)
  case (2 r)
  have "\<forall>c \<in> set (render_range r). c \<noteq> CHR '',''" using render_range_chars by fastforce
  then show ?case by (simp add: split_pred_no_sep)
next
  case (3 r r' rs)
  have "\<forall>c \<in> set (render_range r). c \<noteq> CHR '',''" using render_range_chars by fastforce
  with 3 show ?case by (simp add: split_pred_append_sep)
qed simp

lemma render_ranges_shape:
  "rs \<noteq> [] \<Longrightarrow> render_ranges rs \<noteq> [] \<and> hd (render_ranges rs) = hd (render_range (hd rs))
     \<and> last (render_ranges rs) = last (render_range (last rs))"
  by (induction rs rule: render_ranges.induct) (auto simp: render_range_shape)

lemma trim_render_ranges: "trim (render_ranges rs @ [CHR 0x0A]) = render_ranges rs"
proof (cases "rs = []")
  case True
  then show ?thesis by (simp add: trim_all_ascii_whitespace)
next
  case False
  from render_ranges_shape [OF this] render_range_shape [of "hd rs"] render_range_shape [of "last rs"]
  show ?thesis by (intro trim_line) (auto intro: is_ascii_digit_ink)
qed

lemma id_number_show: "id_number raw field part (show_u w) = Inr w"
  using all_digits_show_u [of w] by (simp add: id_number_def list_all_iff all_digits_def)

lemma id_part_render: "fst r \<le> snd r \<Longrightarrow> id_part raw field (render_range r) = Inr r"
proof -
  assume r: "fst r \<le> snd r"
  have no: "CHR ''-'' \<notin> set (show_u w)" for w :: u32 by (rule not_digit_not_in_digits) simp_all
  show ?thesis
  proof (cases "fst r = snd r")
    case True
    moreover have "split_once ''-'' (show_u (snd r)) = None" using no by (simp add: split_once_char_None_iff)
    ultimately show ?thesis by (cases r) (simp add: render_range_def id_part_def id_number_show)
  next
    case False
    with r no show ?thesis
      by (cases r) (simp add: render_range_def id_part_def id_number_show split_once_char)
  qed
qed

text \<open>C33: The list the kernel prints for ascending ranges, the empty list included, is read back as those
  ranges, and every accepted list has ascending, nonempty ranges.\<close>

theorem CpuList_round_trip:
  "(ranges_ok rs \<longrightarrow> CpuList_from_str (render_ranges rs @ [CHR 0x0A]) = Inr \<lparr>cpu_ranges = rs\<rparr>)
   \<and> (CpuList_from_str raw = Inr l \<longrightarrow> ranges_ok (cpu_ranges l))"
proof (intro conjI impI)
  assume rs: "ranges_ok rs"
  have "map (id_part raw field) (map render_range rs) = map Inr rs" for raw field
    using rs by (auto simp: ranges_ok_def list_all_iff id_part_render)
  then have parts: "collect_results (map (id_part raw field) (map render_range rs)) = Inr rs" for raw field
    by (simp only: collect_results_Inr)
  have "IdList_parse (render_ranges rs @ [CHR 0x0A]) ''cpus'' = Inr rs"
  proof (cases "rs = []")
    case True
    then show ?thesis using trim_render_ranges [of rs] by (simp add: IdList_parse_def)
  next
    case False
    from render_ranges_shape [OF this] have "render_ranges rs \<noteq> []" by blast
    with rs show ?thesis
      unfolding IdList_parse_def trim_render_ranges Let_def split_render_ranges [OF False] parts
      by (simp add: ranges_ok_def)
  qed
  then show "CpuList_from_str (render_ranges rs @ [CHR 0x0A]) = Inr \<lparr>cpu_ranges = rs\<rparr>"
    by (simp add: CpuList_from_str_def)
next
  assume "CpuList_from_str raw = Inr l"
  then show "ranges_ok (cpu_ranges l)"
    by (auto simp: CpuList_from_str_def map_ok_eq_Inr dest: IdList_parse_ok)
qed

lemma CpuList_round_trip_witness:
  "CpuList_from_str (render_ranges [(0, 3), (8, 8), (10, 4294967295)] @ [CHR 0x0A])
     = Inr \<lparr>cpu_ranges = [(0, 3), (8, 8), (10, 4294967295)]\<rparr>"
proof -
  have "ranges_ok [(0, 3), (8, 8), (10, 4294967295)]" by (simp add: ranges_ok_def)
  with CpuList_round_trip show ?thesis by blast
qed

lemma CpuList_ids_correct_witness:
  "\<exists>l. CpuList_from_str [CHR 0x0A] = Inr l \<and> distinct (list_ids (cpu_ranges l)) \<and> \<not> list_contains (cpu_ranges l) 7"
proof -
  have "trim [CHR 0x0A] = []" by (rule trim_all_ascii_whitespace) simp
  then have l: "CpuList_from_str [CHR 0x0A] = Inr \<lparr>cpu_ranges = []\<rparr>"
    by (simp add: CpuList_from_str_def IdList_parse_def)
  from this CpuList_ids_correct [OF this, of 7] show ?thesis
    by (intro exI [of _ "\<lparr>cpu_ranges = []\<rparr>"]) (simp add: list_contains_def)
qed

section \<open>The partition state\<close>

text \<open>The text of a partition state, without the line feed that ends it in the file.\<close>

fun render_partition :: "CpusetPartition \<Rightarrow> string" where
  "render_partition PartitionMember = ''member''"
| "render_partition PartitionRoot = ''root''"
| "render_partition PartitionIsolated = ''isolated''"
| "render_partition (RootInvalid None) = ''root invalid''"
| "render_partition (IsolatedInvalid None) = ''isolated invalid''"
| "render_partition (RootInvalid (Some r)) = ''root invalid ('' @ r @ '')''"
| "render_partition (IsolatedInvalid (Some r)) = ''isolated invalid ('' @ r @ '')''"

definition partition_valid :: "CpusetPartition \<Rightarrow> bool" where
  "partition_valid p \<longleftrightarrow>
     pred_option (\<lambda>r. trim r \<noteq> [] \<and> CHR 0x0A \<notin> set r \<and> CHR 0x0D \<notin> set r) (partition_reason p)"

lemma partition_valid_reason: "partition_valid p \<longleftrightarrow> pred_option reason_ok (partition_reason p)"
  unfolding partition_valid_def reason_ok_def ..

lemma split_invalid:
  "split_once '' invalid ('' (''root invalid ('' @ s) = Some (''root'', s)"
  "split_once '' invalid ('' (''isolated invalid ('' @ s) = Some (''isolated'', s)"
  by simp_all

lemma strip_paren: "strip_suffix '')'' (s @ '')'') = Some s"
  by (rule strip_suffix_append)

lemma CpusetPartition_of_text:
  assumes "trim raw = render_partition p" "partition_valid p"
  shows "CpusetPartition_from_str raw = Inr p"
proof (cases p rule: render_partition.cases)
  case (6 r)
  with assms(2) have r: "reason_ok r" by (simp add: partition_valid_reason)
  have "trim raw = ''root invalid ('' @ (r @ '')'')" using assms(1) 6 by simp
  then show ?thesis
    unfolding CpusetPartition_from_str_def Let_def
    using r 6 by (simp only: split_invalid strip_paren) simp
next
  case (7 r)
  with assms(2) have r: "reason_ok r" by (simp add: partition_valid_reason)
  have "trim raw = ''isolated invalid ('' @ (r @ '')'')" using assms(1) 7 by simp
  then show ?thesis
    unfolding CpusetPartition_from_str_def Let_def
    using r 7 by (simp only: split_invalid strip_paren) simp
qed (use assms(1) in \<open>simp_all add: CpusetPartition_from_str_def\<close>)

lemma CpusetPartition_text_of:
  assumes "CpusetPartition_from_str raw = Inr p"
  shows "trim raw = render_partition p \<and> partition_valid p"
proof -
  consider (lit) "trim raw \<in> {''member'', ''root'', ''isolated'', ''root invalid'', ''isolated invalid''}"
    | (reason) state r where "split_once '' invalid ('' (trim raw) = Some (state, r @ '')'')" "reason_ok r"
        "state = ''root'' \<and> p = RootInvalid (Some r) \<or> state = ''isolated'' \<and> p = IsolatedInvalid (Some r)"
    using assms
    by (auto simp: CpusetPartition_from_str_def Let_def and_then_eq_Inr ok_or_eq_Inr strip_suffix_Some_iff
        split: if_splits option.splits)
  then show ?thesis
  proof cases
    case lit
    with assms show ?thesis
      by (auto simp: CpusetPartition_from_str_def Let_def partition_valid_reason)
  next
    case reason
    from split_once_Some_append [OF reason(1)] reason(2,3) show ?thesis
      by (auto simp: partition_valid_reason)
  qed
qed

text \<open>C21: The partition state is read from exactly the texts of the kernel: the three states, the two
  invalid states, and an invalid state with a reason in parentheses that is not blank and on one
  line, whatever parentheses the reason itself holds. So a state is read back from its text and
  no two states share a text.\<close>

theorem CpusetPartition_correct:
  "CpusetPartition_from_str raw = Inr p \<longleftrightarrow> trim raw = render_partition p \<and> partition_valid p"
  using CpusetPartition_of_text CpusetPartition_text_of by blast

end
