(* ===== verification/Py_Cpu.thy ===== *)
theory Py_Cpu
  imports Py_Core Sakai_Cpu Sakai_Cpuset
begin

text \<open>
  The cpu and cpuset controllers in Python: \<open>sakai-python/src/linux/cpu.rs\<close> and \<open>cpuset.rs\<close>.
\<close>

section \<open>Snapshots of the cpu controller\<close>

record PyCpuTimeStat =
  py_usage :: "Time Quantity"
  py_user :: "Time Quantity"
  py_system :: "Time Quantity"
  py_nice :: "Time Quantity option"
  py_force_idle :: "Time Quantity option"

record PyCpuBurstStat =
  py_nr_bursts :: "Count Quantity"
  py_burst :: "Time Quantity"

record PyCpuBandwidthStat =
  py_nr_periods :: "Count Quantity"
  py_nr_throttled :: "Count Quantity"
  py_throttled :: "Time Quantity"
  py_bandwidth_burst :: "PyCpuBurstStat option"

record PyCpuStat =
  py_time :: PyCpuTimeStat
  py_bandwidth :: "PyCpuBandwidthStat option"

record PyCpuStatLocal =
  py_local_throttled :: "Time Quantity option"

record PyCpuMax =
  py_quota :: PyMaxOr
  py_period :: "Time Quantity"
  py_cpu_count :: PyMaxOr

record PyCpuWeight =
  py_is_idle :: bool
  py_weight :: "u16 option"

definition PyCpuTimeStat_from :: "CpuTimeStat \<Rightarrow> PyCpuTimeStat" where
  "PyCpuTimeStat_from v =
     \<lparr>py_usage = Quantity (time_usage v), py_user = Quantity (time_user v), py_system = Quantity (time_system v),
      py_nice = map_option Quantity (time_nice v), py_force_idle = map_option Quantity (time_force_idle v)\<rparr>"

definition PyCpuBurstStat_from :: "CpuBurstStat \<Rightarrow> PyCpuBurstStat" where
  "PyCpuBurstStat_from v = \<lparr>py_nr_bursts = Quantity (burst_nr_bursts v), py_burst = Quantity (burst_burst v)\<rparr>"

definition PyCpuBandwidthStat_from :: "CpuBandwidthStat \<Rightarrow> PyCpuBandwidthStat" where
  "PyCpuBandwidthStat_from v =
     \<lparr>py_nr_periods = Quantity (bandwidth_nr_periods v), py_nr_throttled = Quantity (bandwidth_nr_throttled v),
      py_throttled = Quantity (bandwidth_throttled v),
      py_bandwidth_burst = map_option PyCpuBurstStat_from (bandwidth_burst v)\<rparr>"

definition PyCpuStat_from :: "CpuStat \<Rightarrow> PyCpuStat" where
  "PyCpuStat_from v =
     \<lparr>py_time = PyCpuTimeStat_from (stat_time v), py_bandwidth = map_option PyCpuBandwidthStat_from (stat_bandwidth v)\<rparr>"

definition PyCpuStatLocal_from :: "CpuStatLocal \<Rightarrow> PyCpuStatLocal" where
  "PyCpuStatLocal_from v = \<lparr>py_local_throttled = map_option Quantity (local_throttled v)\<rparr>"

text \<open>The argument is the conversion of times that \<open>CpuMax::cpu_count\<close> takes.\<close>

definition PyCpuMax_from :: "(Time \<Rightarrow> u64) \<Rightarrow> CpuMax \<Rightarrow> PyCpuMax" where
  "PyCpuMax_from to_units v =
     \<lparr>py_quota = MaxOr_from_time (max_quota v), py_period = Quantity (nonzero_inner (max_period v)),
      py_cpu_count = MaxOr_from_ratio (CpuMax_cpu_count to_units v)\<rparr>"

definition PyCpuWeight_from :: "CpuWeight \<Rightarrow> PyCpuWeight" where
  "PyCpuWeight_from v =
     (case v of
        Idle \<Rightarrow> \<lparr>py_is_idle = True, py_weight = None\<rparr>
      | Shares weight \<Rightarrow> \<lparr>py_is_idle = False, py_weight = Some (weight_inner weight)\<rparr>)"

section \<open>Readers of the cpu controller\<close>

definition PyCpu_stat :: "python \<Rightarrow> ('d, 'x) os_scheme \<Rightarrow> 'd Cgroup \<Rightarrow> PyErr + PyCpuStat" where
  "PyCpu_stat py os owner = map_ok PyCpuStat_from (PythonError_read py os owner Cpu_stat)"

definition PyCpu_stat_local :: "python \<Rightarrow> ('d, 'x) os_scheme \<Rightarrow> 'd Cgroup \<Rightarrow> PyErr + PyCpuStatLocal" where
  "PyCpu_stat_local py os owner = map_ok PyCpuStatLocal_from (PythonError_read py os owner Cpu_stat_local)"

definition PyCpu_max :: "(Time \<Rightarrow> u64) \<Rightarrow> python \<Rightarrow> ('d, 'x) os_scheme \<Rightarrow> 'd Cgroup \<Rightarrow> PyErr + PyCpuMax" where
  "PyCpu_max to_units py os owner = map_ok (PyCpuMax_from to_units) (PythonError_read py os owner Cpu_max)"

definition PyCpu_weight :: "python \<Rightarrow> ('d, 'x) os_scheme \<Rightarrow> 'd Cgroup \<Rightarrow> PyErr + PyCpuWeight" where
  "PyCpu_weight py os owner = map_ok PyCpuWeight_from (PythonError_read py os owner Cpu_weight)"

definition PyCpu_weight_nice :: "python \<Rightarrow> ('d, 'x) os_scheme \<Rightarrow> 'd Cgroup \<Rightarrow> PyErr + i8" where
  "PyCpu_weight_nice py os owner = map_ok nice_inner (PythonError_read py os owner Cpu_weight_nice)"

definition PyCpu_max_burst :: "python \<Rightarrow> ('d, 'x) os_scheme \<Rightarrow> 'd Cgroup \<Rightarrow> PyErr + Time Quantity" where
  "PyCpu_max_burst py os owner = map_ok (\<lambda>v. Quantity (scalar_value v)) (PythonError_read py os owner Cpu_max_burst)"

definition PyCpu_idle :: "python \<Rightarrow> ('d, 'x) os_scheme \<Rightarrow> 'd Cgroup \<Rightarrow> PyErr + bool" where
  "PyCpu_idle py os owner = map_ok scalar_value (PythonError_read py os owner Cpu_idle)"

definition PyCpu_uclamp_min :: "python \<Rightarrow> ('d, 'x) os_scheme \<Rightarrow> 'd Cgroup \<Rightarrow> PyErr + Ratio Quantity" where
  "PyCpu_uclamp_min py os owner = map_ok (\<lambda>v. Quantity (scalar_value v)) (PythonError_read py os owner Cpu_uclamp_min)"

definition PyCpu_uclamp_max :: "python \<Rightarrow> ('d, 'x) os_scheme \<Rightarrow> 'd Cgroup \<Rightarrow> PyErr + PyMaxOr" where
  "PyCpu_uclamp_max py os owner =
     map_ok (\<lambda>v. MaxOr_from_ratio (scalar_value v)) (PythonError_read py os owner Cpu_uclamp_max)"

definition PyCpu_pressure :: "python \<Rightarrow> ('d, 'x) os_scheme \<Rightarrow> 'd Cgroup \<Rightarrow> PyErr + PyPressure" where
  "PyCpu_pressure py os owner = map_ok PyPressure_from (PythonError_read py os owner Cpu_pressure)"

section \<open>The cpuset controller\<close>

record PyCpuList = py_cpu_list :: CpuList
record PyMemoryNodeList = py_node_list :: MemoryNodeList

record PyCpusetPartition =
  py_state :: string
  py_is_invalid :: bool
  py_reason :: "string option"

definition PyCpuList_from :: "CpuList \<Rightarrow> PyCpuList" where
  "PyCpuList_from inner = \<lparr>py_cpu_list = inner\<rparr>"

definition PyMemoryNodeList_from :: "MemoryNodeList \<Rightarrow> PyMemoryNodeList" where
  "PyMemoryNodeList_from inner = \<lparr>py_node_list = inner\<rparr>"

text \<open>A tuple of pairs of Python integers.\<close>

definition PyCpuList_ranges :: "PyCpuList \<Rightarrow> (u32 \<times> u32) list" where
  "PyCpuList_ranges v = map (\<lambda>range. (fst range, snd range)) (cpu_ranges (py_cpu_list v))"

definition PyCpuList_contains :: "PyCpuList \<Rightarrow> u32 \<Rightarrow> bool" where
  "PyCpuList_contains v identifier = list_contains (cpu_ranges (py_cpu_list v)) identifier"

definition PyMemoryNodeList_ranges :: "PyMemoryNodeList \<Rightarrow> (u32 \<times> u32) list" where
  "PyMemoryNodeList_ranges v = map (\<lambda>range. (fst range, snd range)) (node_ranges (py_node_list v))"

definition PyMemoryNodeList_contains :: "PyMemoryNodeList \<Rightarrow> u32 \<Rightarrow> bool" where
  "PyMemoryNodeList_contains v identifier = list_contains (node_ranges (py_node_list v)) identifier"

definition PyCpusetPartition_from :: "CpusetPartition \<Rightarrow> PyCpusetPartition" where
  "PyCpusetPartition_from v =
     \<lparr>py_state = partition_state v, py_is_invalid = partition_is_invalid v, py_reason = partition_reason v\<rparr>"

definition PyCpuset_cpus :: "python \<Rightarrow> ('d, 'x) os_scheme \<Rightarrow> 'd Cgroup \<Rightarrow> PyErr + PyCpuList" where
  "PyCpuset_cpus py os owner = map_ok PyCpuList_from (PythonError_read py os owner Cpuset_cpus)"

definition PyCpuset_cpus_effective :: "python \<Rightarrow> ('d, 'x) os_scheme \<Rightarrow> 'd Cgroup \<Rightarrow> PyErr + PyCpuList" where
  "PyCpuset_cpus_effective py os owner = map_ok PyCpuList_from (PythonError_read py os owner Cpuset_cpus_effective)"

definition PyCpuset_cpus_exclusive :: "python \<Rightarrow> ('d, 'x) os_scheme \<Rightarrow> 'd Cgroup \<Rightarrow> PyErr + PyCpuList" where
  "PyCpuset_cpus_exclusive py os owner = map_ok PyCpuList_from (PythonError_read py os owner Cpuset_cpus_exclusive)"

definition PyCpuset_cpus_exclusive_effective :: "python \<Rightarrow> ('d, 'x) os_scheme \<Rightarrow> 'd Cgroup \<Rightarrow> PyErr + PyCpuList" where
  "PyCpuset_cpus_exclusive_effective py os owner =
     map_ok PyCpuList_from (PythonError_read py os owner Cpuset_cpus_exclusive_effective)"

definition PyCpuset_cpus_isolated :: "python \<Rightarrow> ('d, 'x) os_scheme \<Rightarrow> 'd Cgroup \<Rightarrow> PyErr + PyCpuList" where
  "PyCpuset_cpus_isolated py os owner = map_ok PyCpuList_from (PythonError_read py os owner Cpuset_cpus_isolated)"

definition PyCpuset_mems :: "python \<Rightarrow> ('d, 'x) os_scheme \<Rightarrow> 'd Cgroup \<Rightarrow> PyErr + PyMemoryNodeList" where
  "PyCpuset_mems py os owner = map_ok PyMemoryNodeList_from (PythonError_read py os owner Cpuset_mems)"

definition PyCpuset_mems_effective :: "python \<Rightarrow> ('d, 'x) os_scheme \<Rightarrow> 'd Cgroup \<Rightarrow> PyErr + PyMemoryNodeList" where
  "PyCpuset_mems_effective py os owner =
     map_ok PyMemoryNodeList_from (PythonError_read py os owner Cpuset_mems_effective)"

definition PyCpuset_partition :: "python \<Rightarrow> ('d, 'x) os_scheme \<Rightarrow> 'd Cgroup \<Rightarrow> PyErr + PyCpusetPartition" where
  "PyCpuset_partition py os owner = map_ok PyCpusetPartition_from (PythonError_read py os owner Cpuset_partition)"

section \<open>Every reader reads its own file\<close>

lemma cpu_reads:
  "py_reads ''cpu.stat'' PyCpu_stat \<and> py_reads ''cpu.stat.local'' PyCpu_stat_local
   \<and> py_reads ''cpu.max'' (PyCpu_max to_units) \<and> py_reads ''cpu.weight'' PyCpu_weight
   \<and> py_reads ''cpu.weight.nice'' PyCpu_weight_nice \<and> py_reads ''cpu.max.burst'' PyCpu_max_burst
   \<and> py_reads ''cpu.idle'' PyCpu_idle \<and> py_reads ''cpu.uclamp.min'' PyCpu_uclamp_min
   \<and> py_reads ''cpu.uclamp.max'' PyCpu_uclamp_max \<and> py_reads ''cpu.pressure'' PyCpu_pressure"
  unfolding PyCpu_stat_def [abs_def] PyCpu_stat_local_def [abs_def] PyCpu_max_def [abs_def] PyCpu_weight_def [abs_def]
    PyCpu_weight_nice_def [abs_def] PyCpu_max_burst_def [abs_def] PyCpu_idle_def [abs_def] PyCpu_uclamp_min_def [abs_def]
    PyCpu_uclamp_max_def [abs_def] PyCpu_pressure_def [abs_def]
    Cpu_stat_def [abs_def] Cpu_stat_local_def [abs_def] Cpu_max_def [abs_def] Cpu_weight_def [abs_def]
    Cpu_weight_nice_def [abs_def] Cpu_max_burst_def [abs_def] Cpu_idle_def [abs_def] Cpu_uclamp_min_def [abs_def]
    Cpu_uclamp_max_def [abs_def] Cpu_pressure_def [abs_def] Scalar_read_def Pressure_CPU_FILE_NAME_def
  by simp

lemma cpuset_reads:
  "py_reads ''cpuset.cpus'' PyCpuset_cpus \<and> py_reads ''cpuset.cpus.effective'' PyCpuset_cpus_effective
   \<and> py_reads ''cpuset.cpus.exclusive'' PyCpuset_cpus_exclusive
   \<and> py_reads ''cpuset.cpus.exclusive.effective'' PyCpuset_cpus_exclusive_effective
   \<and> py_reads ''cpuset.cpus.isolated'' PyCpuset_cpus_isolated \<and> py_reads ''cpuset.mems'' PyCpuset_mems
   \<and> py_reads ''cpuset.mems.effective'' PyCpuset_mems_effective
   \<and> py_reads ''cpuset.cpus.partition'' PyCpuset_partition"
  unfolding PyCpuset_cpus_def [abs_def] PyCpuset_cpus_effective_def [abs_def] PyCpuset_cpus_exclusive_def [abs_def]
    PyCpuset_cpus_exclusive_effective_def [abs_def] PyCpuset_cpus_isolated_def [abs_def] PyCpuset_mems_def [abs_def]
    PyCpuset_mems_effective_def [abs_def] PyCpuset_partition_def [abs_def]
    Cpuset_cpus_def [abs_def] Cpuset_cpus_effective_def [abs_def] Cpuset_cpus_exclusive_def [abs_def]
    Cpuset_cpus_exclusive_effective_def [abs_def] Cpuset_cpus_isolated_def [abs_def] Cpuset_mems_def [abs_def]
    Cpuset_mems_effective_def [abs_def] Cpuset_partition_def [abs_def]
  by simp

end
