(* ===== verification/Sakai_Memory_Stat.thy ===== *)
theory Sakai_Memory_Stat
  imports Sakai_File Field_Table Variant_Order Kernel_Text
begin

text \<open>
  \<open>memory.stat\<close>, \<open>sakai/src/cgroup/v2/memory/stat.rs\<close>: the tables of the byte, page and
  event fields, the snapshot (one ordered map per table) and its parser. Lines with a key of no
  table are ignored; \<open>anon\<close> and \<open>file\<close> must be present.
\<close>

section \<open>The field tables\<close>

datatype MemoryStatByteField =
  Anon | File | Kernel | KernelStack | Pagetables | SecPagetables | Percpu | Sock |
  Vmalloc | Shmem | Zswap | ZswapIncomp | Zswapped | FileMapped | FileDirty |
  FileWriteback | Swapcached | AnonThp | FileThp | ShmemThp | InactiveAnon | ActiveAnon |
  InactiveFile | ActiveFile | Unevictable | SlabReclaimable | SlabUnreclaimable | Slab |
  Hugetlb

definition MemoryStatByteField_variants :: "MemoryStatByteField list" where
  "MemoryStatByteField_variants =
     [Anon, File, Kernel, KernelStack, Pagetables, SecPagetables, Percpu, Sock, Vmalloc,
      Shmem, Zswap, ZswapIncomp, Zswapped, FileMapped, FileDirty, FileWriteback,
      Swapcached, AnonThp, FileThp, ShmemThp, InactiveAnon, ActiveAnon, InactiveFile,
      ActiveFile, Unevictable, SlabReclaimable, SlabUnreclaimable, Slab, Hugetlb]"

fun MemoryStatByteField_name :: "MemoryStatByteField \<Rightarrow> string" where
  "MemoryStatByteField_name Anon = ''anon''"
| "MemoryStatByteField_name File = ''file''"
| "MemoryStatByteField_name Kernel = ''kernel''"
| "MemoryStatByteField_name KernelStack = ''kernel_stack''"
| "MemoryStatByteField_name Pagetables = ''pagetables''"
| "MemoryStatByteField_name SecPagetables = ''sec_pagetables''"
| "MemoryStatByteField_name Percpu = ''percpu''"
| "MemoryStatByteField_name Sock = ''sock''"
| "MemoryStatByteField_name Vmalloc = ''vmalloc''"
| "MemoryStatByteField_name Shmem = ''shmem''"
| "MemoryStatByteField_name Zswap = ''zswap''"
| "MemoryStatByteField_name ZswapIncomp = ''zswap_incomp''"
| "MemoryStatByteField_name Zswapped = ''zswapped''"
| "MemoryStatByteField_name FileMapped = ''file_mapped''"
| "MemoryStatByteField_name FileDirty = ''file_dirty''"
| "MemoryStatByteField_name FileWriteback = ''file_writeback''"
| "MemoryStatByteField_name Swapcached = ''swapcached''"
| "MemoryStatByteField_name AnonThp = ''anon_thp''"
| "MemoryStatByteField_name FileThp = ''file_thp''"
| "MemoryStatByteField_name ShmemThp = ''shmem_thp''"
| "MemoryStatByteField_name InactiveAnon = ''inactive_anon''"
| "MemoryStatByteField_name ActiveAnon = ''active_anon''"
| "MemoryStatByteField_name InactiveFile = ''inactive_file''"
| "MemoryStatByteField_name ActiveFile = ''active_file''"
| "MemoryStatByteField_name Unevictable = ''unevictable''"
| "MemoryStatByteField_name SlabReclaimable = ''slab_reclaimable''"
| "MemoryStatByteField_name SlabUnreclaimable = ''slab_unreclaimable''"
| "MemoryStatByteField_name Slab = ''slab''"
| "MemoryStatByteField_name Hugetlb = ''hugetlb''"

lemma MemoryStatByteField_mem: "f \<in> set MemoryStatByteField_variants"
  by (cases f) (simp_all add: MemoryStatByteField_variants_def)

instantiation MemoryStatByteField :: linorder
begin

definition less_eq_MemoryStatByteField :: "MemoryStatByteField \<Rightarrow> MemoryStatByteField \<Rightarrow> bool" where
  "a \<le> b \<longleftrightarrow> variant_index MemoryStatByteField_variants a \<le> variant_index MemoryStatByteField_variants b"

definition less_MemoryStatByteField :: "MemoryStatByteField \<Rightarrow> MemoryStatByteField \<Rightarrow> bool" where
  "a < b \<longleftrightarrow> variant_index MemoryStatByteField_variants a < variant_index MemoryStatByteField_variants b"

instance
  by intro_classes (auto simp: less_eq_MemoryStatByteField_def less_MemoryStatByteField_def
      intro: variant_index_inj [OF MemoryStatByteField_mem MemoryStatByteField_mem])

end

interpretation byte_field: field_table MemoryStatByteField_name MemoryStatByteField_variants
  by unfold_locales (simp add: MemoryStatByteField_variants_def, rule MemoryStatByteField_mem)

datatype MemoryStatPageField =
  Pswpin | Pswpout | Pgscan | Pgsteal | PgscanKswapd | PgscanDirect | PgscanKhugepaged |
  PgscanProactive | PgstealKswapd | PgstealDirect | PgstealKhugepaged | PgstealProactive |
  Pgrefill | Pgactivate | Pgdeactivate | Pglazyfree | Pglazyfreed | SwpinZero |
  SwpoutZero | Zswpin | Zswpout | Zswpwb | NumaPagesMigrated | NumaPteUpdates |
  PgdemoteKswapd | PgdemoteDirect | PgdemoteKhugepaged | PgdemoteProactive |
  PgpromoteSuccess

definition MemoryStatPageField_variants :: "MemoryStatPageField list" where
  "MemoryStatPageField_variants =
     [Pswpin, Pswpout, Pgscan, Pgsteal, PgscanKswapd, PgscanDirect, PgscanKhugepaged,
      PgscanProactive, PgstealKswapd, PgstealDirect, PgstealKhugepaged, PgstealProactive,
      Pgrefill, Pgactivate, Pgdeactivate, Pglazyfree, Pglazyfreed, SwpinZero, SwpoutZero,
      Zswpin, Zswpout, Zswpwb, NumaPagesMigrated, NumaPteUpdates, PgdemoteKswapd,
      PgdemoteDirect, PgdemoteKhugepaged, PgdemoteProactive, PgpromoteSuccess]"

fun MemoryStatPageField_name :: "MemoryStatPageField \<Rightarrow> string" where
  "MemoryStatPageField_name Pswpin = ''pswpin''"
| "MemoryStatPageField_name Pswpout = ''pswpout''"
| "MemoryStatPageField_name Pgscan = ''pgscan''"
| "MemoryStatPageField_name Pgsteal = ''pgsteal''"
| "MemoryStatPageField_name PgscanKswapd = ''pgscan_kswapd''"
| "MemoryStatPageField_name PgscanDirect = ''pgscan_direct''"
| "MemoryStatPageField_name PgscanKhugepaged = ''pgscan_khugepaged''"
| "MemoryStatPageField_name PgscanProactive = ''pgscan_proactive''"
| "MemoryStatPageField_name PgstealKswapd = ''pgsteal_kswapd''"
| "MemoryStatPageField_name PgstealDirect = ''pgsteal_direct''"
| "MemoryStatPageField_name PgstealKhugepaged = ''pgsteal_khugepaged''"
| "MemoryStatPageField_name PgstealProactive = ''pgsteal_proactive''"
| "MemoryStatPageField_name Pgrefill = ''pgrefill''"
| "MemoryStatPageField_name Pgactivate = ''pgactivate''"
| "MemoryStatPageField_name Pgdeactivate = ''pgdeactivate''"
| "MemoryStatPageField_name Pglazyfree = ''pglazyfree''"
| "MemoryStatPageField_name Pglazyfreed = ''pglazyfreed''"
| "MemoryStatPageField_name SwpinZero = ''swpin_zero''"
| "MemoryStatPageField_name SwpoutZero = ''swpout_zero''"
| "MemoryStatPageField_name Zswpin = ''zswpin''"
| "MemoryStatPageField_name Zswpout = ''zswpout''"
| "MemoryStatPageField_name Zswpwb = ''zswpwb''"
| "MemoryStatPageField_name NumaPagesMigrated = ''numa_pages_migrated''"
| "MemoryStatPageField_name NumaPteUpdates = ''numa_pte_updates''"
| "MemoryStatPageField_name PgdemoteKswapd = ''pgdemote_kswapd''"
| "MemoryStatPageField_name PgdemoteDirect = ''pgdemote_direct''"
| "MemoryStatPageField_name PgdemoteKhugepaged = ''pgdemote_khugepaged''"
| "MemoryStatPageField_name PgdemoteProactive = ''pgdemote_proactive''"
| "MemoryStatPageField_name PgpromoteSuccess = ''pgpromote_success''"

lemma MemoryStatPageField_mem: "f \<in> set MemoryStatPageField_variants"
  by (cases f) (simp_all add: MemoryStatPageField_variants_def)

instantiation MemoryStatPageField :: linorder
begin

definition less_eq_MemoryStatPageField :: "MemoryStatPageField \<Rightarrow> MemoryStatPageField \<Rightarrow> bool" where
  "a \<le> b \<longleftrightarrow> variant_index MemoryStatPageField_variants a \<le> variant_index MemoryStatPageField_variants b"

definition less_MemoryStatPageField :: "MemoryStatPageField \<Rightarrow> MemoryStatPageField \<Rightarrow> bool" where
  "a < b \<longleftrightarrow> variant_index MemoryStatPageField_variants a < variant_index MemoryStatPageField_variants b"

instance
  by intro_classes (auto simp: less_eq_MemoryStatPageField_def less_MemoryStatPageField_def
      intro: variant_index_inj [OF MemoryStatPageField_mem MemoryStatPageField_mem])

end

interpretation page_field: field_table MemoryStatPageField_name MemoryStatPageField_variants
  by unfold_locales (simp add: MemoryStatPageField_variants_def, rule MemoryStatPageField_mem)

datatype MemoryStatCountField =
  WorkingsetRefaultAnon | WorkingsetRefaultFile | WorkingsetActivateAnon |
  WorkingsetActivateFile | WorkingsetRestoreAnon | WorkingsetRestoreFile |
  WorkingsetNodereclaim | Pgfault | Pgmajfault | ThpFaultAlloc | ThpCollapseAlloc |
  ThpSwpout | ThpSwpoutFallback | NumaHintFaults

definition MemoryStatCountField_variants :: "MemoryStatCountField list" where
  "MemoryStatCountField_variants =
     [WorkingsetRefaultAnon, WorkingsetRefaultFile, WorkingsetActivateAnon,
      WorkingsetActivateFile, WorkingsetRestoreAnon, WorkingsetRestoreFile,
      WorkingsetNodereclaim, Pgfault, Pgmajfault, ThpFaultAlloc, ThpCollapseAlloc,
      ThpSwpout, ThpSwpoutFallback, NumaHintFaults]"

fun MemoryStatCountField_name :: "MemoryStatCountField \<Rightarrow> string" where
  "MemoryStatCountField_name WorkingsetRefaultAnon = ''workingset_refault_anon''"
| "MemoryStatCountField_name WorkingsetRefaultFile = ''workingset_refault_file''"
| "MemoryStatCountField_name WorkingsetActivateAnon = ''workingset_activate_anon''"
| "MemoryStatCountField_name WorkingsetActivateFile = ''workingset_activate_file''"
| "MemoryStatCountField_name WorkingsetRestoreAnon = ''workingset_restore_anon''"
| "MemoryStatCountField_name WorkingsetRestoreFile = ''workingset_restore_file''"
| "MemoryStatCountField_name WorkingsetNodereclaim = ''workingset_nodereclaim''"
| "MemoryStatCountField_name Pgfault = ''pgfault''"
| "MemoryStatCountField_name Pgmajfault = ''pgmajfault''"
| "MemoryStatCountField_name ThpFaultAlloc = ''thp_fault_alloc''"
| "MemoryStatCountField_name ThpCollapseAlloc = ''thp_collapse_alloc''"
| "MemoryStatCountField_name ThpSwpout = ''thp_swpout''"
| "MemoryStatCountField_name ThpSwpoutFallback = ''thp_swpout_fallback''"
| "MemoryStatCountField_name NumaHintFaults = ''numa_hint_faults''"

lemma MemoryStatCountField_mem: "f \<in> set MemoryStatCountField_variants"
  by (cases f) (simp_all add: MemoryStatCountField_variants_def)

instantiation MemoryStatCountField :: linorder
begin

definition less_eq_MemoryStatCountField :: "MemoryStatCountField \<Rightarrow> MemoryStatCountField \<Rightarrow> bool" where
  "a \<le> b \<longleftrightarrow> variant_index MemoryStatCountField_variants a \<le> variant_index MemoryStatCountField_variants b"

definition less_MemoryStatCountField :: "MemoryStatCountField \<Rightarrow> MemoryStatCountField \<Rightarrow> bool" where
  "a < b \<longleftrightarrow> variant_index MemoryStatCountField_variants a < variant_index MemoryStatCountField_variants b"

instance
  by intro_classes (auto simp: less_eq_MemoryStatCountField_def less_MemoryStatCountField_def
      intro: variant_index_inj [OF MemoryStatCountField_mem MemoryStatCountField_mem])

end

interpretation count_field: field_table MemoryStatCountField_name MemoryStatCountField_variants
  by unfold_locales (simp add: MemoryStatCountField_variants_def, rule MemoryStatCountField_mem)

section \<open>The snapshot and its parser\<close>

record MemoryStat =
  stat_bytes :: "(MemoryStatByteField, Bytes) btree"
  stat_pages :: "(MemoryStatPageField, Pages) btree"
  stat_counts :: "(MemoryStatCountField, Count) btree"

definition MemoryStat_default :: MemoryStat where
  "MemoryStat_default = \<lparr>stat_bytes = [], stat_pages = [], stat_counts = []\<rparr>"

definition MemoryStat_insert :: "string \<Rightarrow> string \<Rightarrow> string \<Rightarrow> MemoryStat \<Rightarrow> MemoryStat parsed" where
  "MemoryStat_insert raw key value stat =
     (case enum_from_str MemoryStatByteField_name MemoryStatByteField_variants key of
        Some f \<Rightarrow>
          map_ok (\<lambda>v. stat\<lparr>stat_bytes := btree_insert f v (stat_bytes stat)\<rparr>)
            (parse_field parse_bytes raw (MemoryStatByteField_name f) value)
      | None \<Rightarrow>
     (case enum_from_str MemoryStatPageField_name MemoryStatPageField_variants key of
        Some f \<Rightarrow>
          map_ok (\<lambda>v. stat\<lparr>stat_pages := btree_insert f v (stat_pages stat)\<rparr>)
            (parse_field parse_pages raw (MemoryStatPageField_name f) value)
      | None \<Rightarrow>
     (case enum_from_str MemoryStatCountField_name MemoryStatCountField_variants key of
        Some f \<Rightarrow>
          map_ok (\<lambda>v. stat\<lparr>stat_counts := btree_insert f v (stat_counts stat)\<rparr>)
            (parse_field parse_count raw (MemoryStatCountField_name f) value)
      | None \<Rightarrow> Inr stat)))"

text \<open>The loop over \<open>[Anon, File]\<close>, which returns at the first absent field.\<close>

definition require_baseline :: "string \<Rightarrow> (MemoryStatByteField, 'v) btree \<Rightarrow> unit parsed" where
  "require_baseline raw m =
     try_fold (\<lambda>_ f. if btree_contains_key m f then Inr ()
                      else Inl (ParseError_missing raw (MemoryStatByteField_name f))) () [Anon, File]"

definition MemoryStat_line :: "string \<Rightarrow> MemoryStat \<Rightarrow> string \<Rightarrow> MemoryStat parsed" where
  "MemoryStat_line contents stat line =
     and_then (parse_line contents line (\<lambda>p.
       and_then (next_raw_field p ''key'') (\<lambda>(key, p).
       and_then (next_raw_field p ''value'') (\<lambda>(value, p). Inr ((key, value), p)))))
     (\<lambda>(key, value). MemoryStat_insert contents key value stat)"

definition MemoryStat_from_str :: "string \<Rightarrow> MemoryStat parsed" where
  "MemoryStat_from_str contents =
     and_then (try_fold (MemoryStat_line contents) MemoryStat_default (nonblank_lines contents)) (\<lambda>stat.
     and_then (require_baseline contents (stat_bytes stat)) (\<lambda>_. Inr stat))"

section \<open>The tables share no key\<close>

lemma memory_stat_names_distinct:
  "distinct (map MemoryStatByteField_name MemoryStatByteField_variants
    @ map MemoryStatPageField_name MemoryStatPageField_variants
    @ map MemoryStatCountField_name MemoryStatCountField_variants)"
  by (simp add: MemoryStatByteField_variants_def MemoryStatPageField_variants_def
      MemoryStatCountField_variants_def)

lemma tables_disjoint [simp]:
  "MemoryStatPageField_name p \<noteq> MemoryStatByteField_name b"
  "MemoryStatCountField_name c \<noteq> MemoryStatByteField_name b"
  "MemoryStatCountField_name c \<noteq> MemoryStatPageField_name p"
  using memory_stat_names_distinct MemoryStatByteField_mem [of b] MemoryStatPageField_mem [of p]
    MemoryStatCountField_mem [of c]
  by (auto simp: distinct_append image_iff set_eq_iff)

lemma tables_disjoint_range [simp]:
  "MemoryStatPageField_name p \<notin> range MemoryStatByteField_name"
  "MemoryStatCountField_name c \<notin> range MemoryStatByteField_name"
  "MemoryStatCountField_name c \<notin> range MemoryStatPageField_name"
  "MemoryStatByteField_name b \<notin> range MemoryStatPageField_name"
  "MemoryStatByteField_name b \<notin> range MemoryStatCountField_name"
  "MemoryStatPageField_name p \<notin> range MemoryStatCountField_name"
  using tables_disjoint [symmetric] by (auto simp: image_iff)

lemma memory_stat_lookup:
  "enum_from_str MemoryStatByteField_name MemoryStatByteField_variants (MemoryStatByteField_name b) = Some b"
  "enum_from_str MemoryStatByteField_name MemoryStatByteField_variants (MemoryStatPageField_name p) = None"
  "enum_from_str MemoryStatPageField_name MemoryStatPageField_variants (MemoryStatPageField_name p) = Some p"
  "enum_from_str MemoryStatByteField_name MemoryStatByteField_variants (MemoryStatCountField_name c) = None"
  "enum_from_str MemoryStatPageField_name MemoryStatPageField_variants (MemoryStatCountField_name c) = None"
  "enum_from_str MemoryStatCountField_name MemoryStatCountField_variants (MemoryStatCountField_name c) = Some c"
  by (simp_all add: byte_field.from_str_name page_field.from_str_name count_field.from_str_name
      byte_field.from_str_None_iff page_field.from_str_None_iff)

section \<open>The fold over the lines reads the map of the keyed fields\<close>

definition MemoryStat_reads :: "(string \<Rightarrow> string option) \<Rightarrow> MemoryStat \<Rightarrow> bool" where
  "MemoryStat_reads m stat \<longleftrightarrow>
     reads parse_bytes MemoryStatByteField_name m (stat_bytes stat)
   \<and> reads parse_pages MemoryStatPageField_name m (stat_pages stat)
   \<and> reads parse_count MemoryStatCountField_name m (stat_counts stat)"

definition MemoryStat_inv :: "MemoryStat \<Rightarrow> bool" where
  "MemoryStat_inv stat \<longleftrightarrow>
     btree_inv (stat_bytes stat) \<and> btree_inv (stat_pages stat) \<and> btree_inv (stat_counts stat)"

lemma parse_field_eq_Inr: "parse_field parse raw field v = Inr x \<longleftrightarrow> parse v = Inr x"
  by (simp add: parse_field_def map_err_eq_Inr)

lemma MemoryStat_insert_reads:
  assumes "MemoryStat_insert raw key value stat = Inr stat'" "MemoryStat_reads m stat" "MemoryStat_inv stat"
  shows "MemoryStat_reads (m(key \<mapsto> value)) stat' \<and> MemoryStat_inv stat'"
proof -
  consider (b) f where "key = MemoryStatByteField_name f"
    | (p) f where "key = MemoryStatPageField_name f"
    | (c) f where "key = MemoryStatCountField_name f"
    | (n) "key \<notin> range MemoryStatByteField_name" "key \<notin> range MemoryStatPageField_name"
        "key \<notin> range MemoryStatCountField_name"
    by blast
  then show ?thesis
  proof cases
    case (b f)
    with assms show ?thesis
      by (auto simp: MemoryStat_insert_def memory_stat_lookup map_ok_eq_Inr parse_field_eq_Inr
          MemoryStat_reads_def MemoryStat_inv_def btree_inv_insert reads_other byte_field.reads_insert)
  next
    case (p f)
    with assms show ?thesis
      by (auto simp: MemoryStat_insert_def memory_stat_lookup map_ok_eq_Inr parse_field_eq_Inr
          MemoryStat_reads_def MemoryStat_inv_def btree_inv_insert reads_other page_field.reads_insert)
  next
    case (c f)
    with assms show ?thesis
      by (auto simp: MemoryStat_insert_def memory_stat_lookup map_ok_eq_Inr parse_field_eq_Inr
          MemoryStat_reads_def MemoryStat_inv_def btree_inv_insert reads_other count_field.reads_insert)
  next
    case n
    then have "MemoryStat_insert raw key value stat = Inr stat"
      by (simp add: MemoryStat_insert_def byte_field.from_str_None_iff [THEN iffD2]
          page_field.from_str_None_iff [THEN iffD2] count_field.from_str_None_iff [THEN iffD2])
    with n assms show ?thesis by (simp add: MemoryStat_reads_def reads_other)
  qed
qed

lemma MemoryStat_line_eq:
  "MemoryStat_line raw stat line =
     and_then (parse_key_value raw (\<lambda>_. ''value'') line)
       (\<lambda>(key, value). MemoryStat_insert raw key value stat)"
  by (simp add: MemoryStat_line_def parse_key_value_def)

lemma MemoryStat_fold:
  assumes "try_fold (MemoryStat_line raw) stat ls = Inr stat'" "MemoryStat_reads m stat" "MemoryStat_inv stat"
  shows "\<exists>kvs. map (parse_key_value raw (\<lambda>_. ''value'')) ls = map Inr kvs
    \<and> MemoryStat_reads (m ++ map_of (rev kvs)) stat' \<and> MemoryStat_inv stat'"
  using assms
proof (induction ls arbitrary: stat m)
  case Nil
  then show ?case by simp
next
  case (Cons l ls)
  from Cons.prems(1) obtain key v st where l: "parse_key_value raw (\<lambda>_. ''value'') l = Inr (key, v)"
    and st: "MemoryStat_insert raw key v stat = Inr st" and ls: "try_fold (MemoryStat_line raw) st ls = Inr stat'"
  proof -
    from Cons.prems(1) obtain st where "MemoryStat_line raw stat l = Inr st"
      "try_fold (MemoryStat_line raw) st ls = Inr stat'" by (auto simp: and_then_eq_Inr)
    then show ?thesis using that by (auto simp: MemoryStat_line_eq and_then_eq_Inr simp del: try_fold.simps)
  qed
  from MemoryStat_insert_reads [OF st Cons.prems(2,3)] Cons.IH [OF ls]
  obtain kvs where kvs: "map (parse_key_value raw (\<lambda>_. ''value'')) ls = map Inr kvs"
    "MemoryStat_reads (m(key \<mapsto> v) ++ map_of (rev kvs)) stat'" "MemoryStat_inv stat'" by blast
  have "m ++ map_of (rev ((key, v) # kvs)) = m(key \<mapsto> v) ++ map_of (rev kvs)"
    by (simp add: map_add_def fun_eq_iff split: option.split)
  with l kvs show ?case by (intro exI [of _ "(key, v) # kvs"]) simp
qed

lemma require_baseline_Inr_iff:
  "require_baseline raw t = Inr u \<longleftrightarrow> btree_contains_key t Anon \<and> btree_contains_key t File"
  by (cases u) (auto simp: require_baseline_def)

lemma MemoryStat_default_reads: "MemoryStat_reads Map.empty MemoryStat_default" "MemoryStat_inv MemoryStat_default"
  by (simp_all add: MemoryStat_default_def MemoryStat_reads_def MemoryStat_inv_def reads_empty)

lemma MemoryStat_from_str_keyed:
  assumes "MemoryStat_from_str contents = Inr stat"
  shows "\<exists>kf. KeyedFields_parse contents (\<lambda>_. ''value'') = Inr kf
    \<and> MemoryStat_reads (btree_get (kf_values kf)) stat \<and> MemoryStat_inv stat
    \<and> btree_contains_key (stat_bytes stat) Anon \<and> btree_contains_key (stat_bytes stat) File"
proof -
  from assms have f: "try_fold (MemoryStat_line contents) MemoryStat_default (nonblank_lines contents) = Inr stat"
    and b: "btree_contains_key (stat_bytes stat) Anon" "btree_contains_key (stat_bytes stat) File"
    by (auto simp: MemoryStat_from_str_def and_then_eq_Inr require_baseline_Inr_iff)
  from MemoryStat_fold [OF f MemoryStat_default_reads] obtain kvs where
    kvs: "map (parse_key_value contents (\<lambda>_. ''value'')) (nonblank_lines contents) = map Inr kvs"
    "MemoryStat_reads (map_of (rev kvs)) stat" "MemoryStat_inv stat" by auto
  then have "KeyedFields_parse contents (\<lambda>_. ''value'') =
      Inr \<lparr>kf_raw = contents, kf_values = btree_collect kvs\<rparr>"
    by (simp add: KeyedFields_parse_def KeyedFields_new_def)
  with kvs b show ?thesis by (simp add: btree_get_collect)
qed

text \<open>A \<open>memory.stat\<close> snapshot that is accepted holds, for every field of the three tables,
  exactly what an optional read of the file as keyed fields gives: the parsed value of the last line with
  that key, or nothing when no line has it; and it always holds \<open>anon\<close> and \<open>file\<close>.\<close>

lemma MemoryStat_from_str_fields:
  assumes "MemoryStat_from_str contents = Inr stat"
  shows "\<exists>kf. KeyedFields_parse contents (\<lambda>_. ''value'') = Inr kf
    \<and> (\<forall>f. optional parse_bytes kf (MemoryStatByteField_name f) = Inr (btree_get (stat_bytes stat) f))
    \<and> (\<forall>f. optional parse_pages kf (MemoryStatPageField_name f) = Inr (btree_get (stat_pages stat) f))
    \<and> (\<forall>f. optional parse_count kf (MemoryStatCountField_name f) = Inr (btree_get (stat_counts stat) f))
    \<and> btree_get (stat_bytes stat) Anon \<noteq> None \<and> btree_get (stat_bytes stat) File \<noteq> None"
  using MemoryStat_from_str_keyed [OF assms]
  by (auto simp: MemoryStat_reads_def reads_optional btree_contains_key_def)

section \<open>Reading back a snapshot\<close>

definition MemoryStat_pairs :: "MemoryStat \<Rightarrow> (string \<times> string) list" where
  "MemoryStat_pairs stat =
     table_pairs MemoryStatByteField_name render_bytes (stat_bytes stat)
   @ table_pairs MemoryStatPageField_name render_pages (stat_pages stat)
   @ table_pairs MemoryStatCountField_name render_count (stat_counts stat)"

lemma is_key_memory_stat [simp]:
  "is_key (MemoryStatByteField_name b)" "is_key (MemoryStatPageField_name p)"
  "is_key (MemoryStatCountField_name c)"
proof -
  show "is_key (MemoryStatByteField_name b)"
    by (cases b) (simp_all add: is_key_def is_token_def is_ascii_whitespace_def ink_def white_space1_def)
  show "is_key (MemoryStatPageField_name p)"
    by (cases p) (simp_all add: is_key_def is_token_def is_ascii_whitespace_def ink_def white_space1_def)
  show "is_key (MemoryStatCountField_name c)"
    by (cases c) (simp_all add: is_key_def is_token_def is_ascii_whitespace_def ink_def white_space1_def)
qed

lemma MemoryStat_pairs_ok: "\<forall>kv \<in> set (MemoryStat_pairs stat). is_pair kv"
  using is_pair_table_pairs [of MemoryStatByteField_name render_bytes]
    is_pair_table_pairs [of MemoryStatPageField_name render_pages]
    is_pair_table_pairs [of MemoryStatCountField_name render_count]
  by (auto simp: MemoryStat_pairs_def v_bytes.render_token v_pages.render_token v_count.render_token)

lemma MemoryStat_insert_total:
  "(key, v) \<in> set (MemoryStat_pairs stat) \<Longrightarrow> \<exists>st'. MemoryStat_insert raw key v st = Inr st'"
  by (auto simp: MemoryStat_pairs_def table_pairs_def MemoryStat_insert_def memory_stat_lookup
      v_bytes.field_render v_pages.field_render v_count.field_render)

lemma try_fold_total:
  "(\<And>x st. x \<in> set xs \<Longrightarrow> \<exists>st'. f st x = Inr st') \<Longrightarrow> \<exists>st'. try_fold f st xs = Inr st'"
proof (induction xs arbitrary: st)
  case Nil
  then show ?case by simp
next
  case (Cons x xs)
  obtain st' where "f st x = Inr st'" using Cons.prems [of x st] by auto
  moreover obtain st'' where "try_fold f st' xs = Inr st''" using Cons by (metis list.set_intros(2))
  ultimately show ?case by simp
qed

lemma MemoryStat_pairs_reads:
  assumes "MemoryStat_inv stat"
  shows "MemoryStat_reads (map_of (rev (MemoryStat_pairs stat))) stat"
proof -
  let ?b = "table_pairs MemoryStatByteField_name render_bytes (stat_bytes stat)"
  let ?p = "table_pairs MemoryStatPageField_name render_pages (stat_pages stat)"
  let ?c = "table_pairs MemoryStatCountField_name render_count (stat_counts stat)"
  have m: "map_of (rev (MemoryStat_pairs stat)) = map_of ?b ++ map_of ?p ++ map_of ?c"
    using assms by (simp add: MemoryStat_pairs_def MemoryStat_inv_def map_of_rev_distinct
        byte_field.distinct_table_pairs page_field.distinct_table_pairs count_field.distinct_table_pairs)
  have none: "map_of ?c (MemoryStatByteField_name b) = None" "map_of ?p (MemoryStatByteField_name b) = None"
    "map_of ?b (MemoryStatPageField_name p) = None" "map_of ?c (MemoryStatPageField_name p) = None"
    "map_of ?b (MemoryStatCountField_name c) = None" "map_of ?p (MemoryStatCountField_name c) = None" for b p c
    by (rule map_of_None_range [OF table_pairs_keys]; simp)+
  have "map_of (rev (MemoryStat_pairs stat)) (MemoryStatByteField_name b) = map_option render_bytes (btree_get (stat_bytes stat) b)"
    "map_of (rev (MemoryStat_pairs stat)) (MemoryStatPageField_name p) = map_option render_pages (btree_get (stat_pages stat) p)"
    "map_of (rev (MemoryStat_pairs stat)) (MemoryStatCountField_name c) = map_option render_count (btree_get (stat_counts stat) c)"
    for b p c
    by (simp_all add: m map_add_def none byte_field.map_of_table_pairs page_field.map_of_table_pairs
        count_field.map_of_table_pairs split: option.split)
  then show ?thesis
    by (auto simp: MemoryStat_reads_def reads_def v_bytes.parse_render v_pages.parse_render
        v_count.parse_render split: option.split)
qed

lemma MemoryStat_line_total:
  "kv \<in> set (MemoryStat_pairs stat) \<Longrightarrow> \<exists>st'. MemoryStat_line raw st (render_pair kv) = Inr st'"
  using MemoryStat_pairs_ok [of stat] MemoryStat_insert_total [of "fst kv" "snd kv" stat raw st]
  by (cases kv) (simp add: MemoryStat_line_eq parse_key_value_render)

lemma MemoryStat_fold_render:
  assumes "MemoryStat_inv stat"
  shows "try_fold (MemoryStat_line (render_pairs (MemoryStat_pairs stat))) MemoryStat_default
    (nonblank_lines (render_pairs (MemoryStat_pairs stat))) = Inr stat"
proof -
  let ?raw = "render_pairs (MemoryStat_pairs stat)"
  have nl: "nonblank_lines ?raw = map render_pair (MemoryStat_pairs stat)"
    using MemoryStat_pairs_ok [of stat]
    by (simp add: render_pairs_def nonblank_lines_unlines render_pair_line filter_id_conv)
  have "\<exists>st'. MemoryStat_line ?raw st l = Inr st'" if "l \<in> set (nonblank_lines ?raw)" for l st
    using that unfolding nl
    by (metis (no_types, lifting) MemoryStat_line_total imageE set_map)
  then obtain stat' where st': "try_fold (MemoryStat_line ?raw) MemoryStat_default (nonblank_lines ?raw) = Inr stat'"
    using try_fold_total [of "nonblank_lines ?raw" "MemoryStat_line ?raw" MemoryStat_default] by metis
  from MemoryStat_fold [OF st' MemoryStat_default_reads] obtain kvs where
    kvs: "map (parse_key_value ?raw (\<lambda>_. ''value'')) (nonblank_lines ?raw) = map Inr kvs"
    "MemoryStat_reads (map_of (rev kvs)) stat'" "MemoryStat_inv stat'" by auto
  have "map (parse_key_value ?raw (\<lambda>_. ''value'')) (nonblank_lines ?raw) = map Inr (MemoryStat_pairs stat)"
    using MemoryStat_pairs_ok [of stat] unfolding nl by (simp add: parse_key_value_render)
  with kvs(1) have "kvs = MemoryStat_pairs stat" by (metis collect_results_Inr sum.inject(2))
  with kvs(2,3) MemoryStat_pairs_reads [OF assms] assms have "stat' = stat"
    by (cases stat; cases stat') (auto simp: MemoryStat_reads_def MemoryStat_inv_def intro: reads_unique)
  with st' show ?thesis by simp
qed

text \<open>C32: Reading back the lines of a well-formed \<open>memory.stat\<close> snapshot gives exactly that
  snapshot when it has \<open>anon\<close> and \<open>file\<close>; otherwise the first of the two that is absent is
  reported as missing.\<close>

theorem MemoryStat_round_trip:
  assumes "MemoryStat_inv stat"
  shows "MemoryStat_from_str (render_pairs (MemoryStat_pairs stat)) =
    (if btree_get (stat_bytes stat) Anon = None
     then Inl (ParseError_missing (render_pairs (MemoryStat_pairs stat)) ''anon'')
     else if btree_get (stat_bytes stat) File = None
     then Inl (ParseError_missing (render_pairs (MemoryStat_pairs stat)) ''file'')
     else Inr stat)"
  using MemoryStat_fold_render [OF assms]
  by (simp add: MemoryStat_from_str_def require_baseline_def btree_contains_key_def)

definition MemoryStat_example :: MemoryStat where
  "MemoryStat_example =
     \<lparr>stat_bytes = [(Anon, Bytes_byte 8192), (File, Bytes_byte 4096)], stat_pages = [(Pgscan, Pages 7)],
      stat_counts = [(Pgfault, Count 3)]\<rparr>"

lemma MemoryStat_example_inv: "MemoryStat_inv MemoryStat_example"
  by (simp add: MemoryStat_inv_def MemoryStat_example_def btree_inv_def less_MemoryStatByteField_def
      MemoryStatByteField_variants_def variant_index_def)

lemma MemoryStat_round_trip_witness:
  "MemoryStat_from_str (render_pairs (MemoryStat_pairs MemoryStat_example)) = Inr MemoryStat_example"
  using MemoryStat_round_trip [OF MemoryStat_example_inv]
  by (simp add: MemoryStat_example_def btree_get_def)

lemma MemoryStat_from_str_fields_witness:
  "\<exists>kf. KeyedFields_parse (render_pairs (MemoryStat_pairs MemoryStat_example)) (\<lambda>_. ''value'') = Inr kf
     \<and> optional parse_bytes kf ''anon'' = Inr (Some (Bytes_byte 8192)) \<and> optional parse_bytes kf ''slab'' = Inr None"
proof -
  have "MemoryStat_from_str (render_pairs (MemoryStat_pairs MemoryStat_example)) = Inr MemoryStat_example"
    using MemoryStat_fold_render [OF MemoryStat_example_inv]
    by (simp add: MemoryStat_from_str_def require_baseline_Inr_iff and_then_eq_Inr btree_contains_key_def)
      (simp add: MemoryStat_example_def btree_get_def)
  from MemoryStat_from_str_fields [OF this] obtain kf where
    "KeyedFields_parse (render_pairs (MemoryStat_pairs MemoryStat_example)) (\<lambda>_. ''value'') = Inr kf"
    "\<And>f. optional parse_bytes kf (MemoryStatByteField_name f) = Inr (btree_get (stat_bytes MemoryStat_example) f)"
    by blast
  moreover from this(2) [of Anon] this(2) [of Slab] have
    "optional parse_bytes kf ''anon'' = Inr (Some (Bytes_byte 8192))" "optional parse_bytes kf ''slab'' = Inr None"
    by (simp_all add: MemoryStat_example_def btree_get_def)
  ultimately show ?thesis by blast
qed

section \<open>Errors carry the input\<close>

lemma reports_MemoryStat_line: "reports raw (MemoryStat_line raw stat line)"
  by (auto simp: MemoryStat_line_eq MemoryStat_insert_def split: option.split intro!: reports_intros)

lemma reports_require_baseline [reports_intros]: "reports raw (require_baseline raw t)"
  by (auto simp: require_baseline_def intro!: reports_intros)

interpretation memory_stat: snapshot_parser MemoryStat_from_str
  by unfold_locales
    (auto simp: MemoryStat_from_str_def intro!: reports_and_then reports_try_fold
      reports_MemoryStat_line reports_intros)

end
