(* ===== verification/Sakai_Memory_Numa.thy ===== *)
theory Sakai_Memory_Numa
  imports Sakai_Memory_Stat
begin

text \<open>
  \<open>memory.numa_stat\<close>, \<open>sakai/src/cgroup/v2/memory/numa_stat.rs\<close>: the fields of
  \<open>memory.stat\<close>, each with one value per NUMA node on its line.
\<close>

section \<open>The parser\<close>

type_synonym 'v nodes = "(u32, 'v) btree"

record MemoryNumaStat =
  numa_bytes :: "(MemoryStatByteField, Bytes nodes) btree"
  numa_pages :: "(MemoryStatPageField, Pages nodes) btree"
  numa_counts :: "(MemoryStatCountField, Count nodes) btree"

definition MemoryNumaStat_default :: MemoryNumaStat where
  "MemoryNumaStat_default = \<lparr>numa_bytes = [], numa_pages = [], numa_counts = []\<rparr>"

text \<open>One \<open>N<id>=<value>\<close> token.\<close>

definition parse_node ::
  "(string \<Rightarrow> ParseValueError + 'v) \<Rightarrow> string \<Rightarrow> string \<Rightarrow> string \<Rightarrow> (u32 \<times> 'v) parsed" where
  "parse_node parse raw field token =
     and_then (ok_or (ParseError_invalid raw ''node'' token OutOfRange) (split_once ''='' token)) (\<lambda>(node, value).
     and_then (ok_or (ParseError_invalid raw ''node'' token OutOfRange) (strip_prefix ''N'' node)) (\<lambda>n.
     and_then (map_err (\<lambda>e. ParseError_invalid raw ''node'' token (Integer e)) (parse_u n)) (\<lambda>id.
     and_then (parse_field parse raw field value) (\<lambda>v. Inr (id, v)))))"

definition parse_nodes ::
  "(string \<Rightarrow> ParseValueError + 'v) \<Rightarrow> string \<Rightarrow> string \<Rightarrow> string list \<Rightarrow> 'v nodes parsed" where
  "parse_nodes parse raw field tokens =
     (if tokens = [] then Inl (ParseError_missing raw ''node'')
      else map_ok btree_collect (collect_results (map (parse_node parse raw field) tokens)))"

definition MemoryNumaStat_insert ::
  "string \<Rightarrow> string \<Rightarrow> string list \<Rightarrow> MemoryNumaStat \<Rightarrow> MemoryNumaStat parsed" where
  "MemoryNumaStat_insert raw key tokens stat =
     (case enum_from_str MemoryStatByteField_name MemoryStatByteField_variants key of
        Some f \<Rightarrow>
          map_ok (\<lambda>v. stat\<lparr>numa_bytes := btree_insert f v (numa_bytes stat)\<rparr>)
            (parse_nodes parse_bytes raw (MemoryStatByteField_name f) tokens)
      | None \<Rightarrow>
     (case enum_from_str MemoryStatPageField_name MemoryStatPageField_variants key of
        Some f \<Rightarrow>
          map_ok (\<lambda>v. stat\<lparr>numa_pages := btree_insert f v (numa_pages stat)\<rparr>)
            (parse_nodes parse_pages raw (MemoryStatPageField_name f) tokens)
      | None \<Rightarrow>
     (case enum_from_str MemoryStatCountField_name MemoryStatCountField_variants key of
        Some f \<Rightarrow>
          map_ok (\<lambda>v. stat\<lparr>numa_counts := btree_insert f v (numa_counts stat)\<rparr>)
            (parse_nodes parse_count raw (MemoryStatCountField_name f) tokens)
      | None \<Rightarrow> Inr stat)))"

definition MemoryNumaStat_line :: "string \<Rightarrow> MemoryNumaStat \<Rightarrow> string \<Rightarrow> MemoryNumaStat parsed" where
  "MemoryNumaStat_line contents stat line =
     (case split_ascii_whitespace line of
        [] \<Rightarrow> Inl (ParseError_missing contents ''key'')
      | key # tokens \<Rightarrow> MemoryNumaStat_insert contents key tokens stat)"

definition MemoryNumaStat_from_str :: "string \<Rightarrow> MemoryNumaStat parsed" where
  "MemoryNumaStat_from_str contents =
     and_then (try_fold (MemoryNumaStat_line contents) MemoryNumaStat_default (nonblank_lines contents)) (\<lambda>stat.
     and_then (require_baseline contents (numa_bytes stat)) (\<lambda>_. Inr stat))"

section \<open>Errors carry the input\<close>

lemma reports_parse_nodes [reports_intros]: "reports raw (parse_nodes parse raw field tokens)"
  by (auto simp: parse_nodes_def parse_node_def intro!: reports_intros)

lemma reports_MemoryNumaStat_line: "reports raw (MemoryNumaStat_line raw stat line)"
  by (auto simp: MemoryNumaStat_line_def MemoryNumaStat_insert_def
      split: option.split list.split intro!: reports_intros)

interpretation memory_numa_stat: snapshot_parser MemoryNumaStat_from_str
  by unfold_locales
    (auto simp: MemoryNumaStat_from_str_def intro!: reports_and_then reports_try_fold
      reports_MemoryNumaStat_line reports_intros)

section \<open>What a snapshot holds\<close>

text \<open>Ordered maps, and at least one node for every field that is present.\<close>

definition nodes_ok :: "('f::linorder, 'v nodes) btree \<Rightarrow> bool" where
  "nodes_ok t \<longleftrightarrow> btree_inv t \<and> (\<forall>(f, ns) \<in> set t. btree_inv ns \<and> ns \<noteq> [])"

definition MemoryNumaStat_ok :: "MemoryNumaStat \<Rightarrow> bool" where
  "MemoryNumaStat_ok stat \<longleftrightarrow>
     nodes_ok (numa_bytes stat) \<and> nodes_ok (numa_pages stat) \<and> nodes_ok (numa_counts stat)"

lemma set_btree_insert_subset: "set (btree_insert k v m) \<subseteq> insert (k, v) (set m)"
  by (induction k v m rule: btree_insert.induct) auto

lemma btree_insert_not_Nil: "btree_insert k v m \<noteq> []"
  by (cases m) (auto split: if_splits)

lemma btree_collect_not_Nil: "xs \<noteq> [] \<Longrightarrow> btree_collect xs \<noteq> []"
  by (cases xs rule: rev_cases) (auto simp: btree_collect_def btree_insert_not_Nil split: prod.split)

lemma parse_nodes_ok: "parse_nodes parse raw field tokens = Inr ns \<Longrightarrow> btree_inv ns \<and> ns \<noteq> []"
proof -
  assume "parse_nodes parse raw field tokens = Inr ns"
  then obtain xs where "tokens \<noteq> []" "map (parse_node parse raw field) tokens = map Inr xs" "ns = btree_collect xs"
    by (auto simp: parse_nodes_def map_ok_eq_Inr collect_results_eq_Inr split: if_splits)
  moreover from this have "xs \<noteq> []" by auto
  ultimately show ?thesis by (simp add: btree_collect_not_Nil)
qed

lemma nodes_ok_insert: "nodes_ok t \<Longrightarrow> btree_inv ns \<Longrightarrow> ns \<noteq> [] \<Longrightarrow> nodes_ok (btree_insert f ns t)"
  using set_btree_insert_subset [of f ns t] by (auto simp: nodes_ok_def btree_inv_insert)

lemma MemoryNumaStat_line_ok:
  "MemoryNumaStat_line raw stat line = Inr stat' \<Longrightarrow> MemoryNumaStat_ok stat \<Longrightarrow> MemoryNumaStat_ok stat'"
  by (auto simp: MemoryNumaStat_line_def MemoryNumaStat_insert_def MemoryNumaStat_ok_def map_ok_eq_Inr
      split: list.splits option.splits dest!: parse_nodes_ok intro: nodes_ok_insert)

lemma MemoryNumaStat_default_ok: "MemoryNumaStat_ok MemoryNumaStat_default"
  by (simp add: MemoryNumaStat_default_def MemoryNumaStat_ok_def nodes_ok_def)

text \<open>C25: In every accepted \<open>memory.numa_stat\<close> snapshot the maps are ordered, every field that
  is present has at least one node, and \<open>anon\<close> and \<open>file\<close> are present.\<close>

theorem MemoryNumaStat_from_str_ok:
  assumes "MemoryNumaStat_from_str contents = Inr stat"
  shows "MemoryNumaStat_ok stat \<and> btree_get (numa_bytes stat) Anon \<noteq> None
    \<and> btree_get (numa_bytes stat) File \<noteq> None"
proof -
  from assms have f: "try_fold (MemoryNumaStat_line contents) MemoryNumaStat_default (nonblank_lines contents) = Inr stat"
    and b: "btree_contains_key (numa_bytes stat) Anon" "btree_contains_key (numa_bytes stat) File"
    by (auto simp: MemoryNumaStat_from_str_def and_then_eq_Inr require_baseline_Inr_iff)
  from f have "MemoryNumaStat_ok stat"
    by (rule try_fold_invariant) (auto intro: MemoryNumaStat_default_ok MemoryNumaStat_line_ok)
  with b show ?thesis by (simp add: btree_contains_key_def)
qed

section \<open>Reading back a snapshot\<close>

definition node_words :: "('v \<Rightarrow> string) \<Rightarrow> string \<times> 'v nodes \<Rightarrow> string list" where
  "node_words render e = fst e # map (\<lambda>(n, v). assignment (CHR ''N'' # show_u n) (render v)) (snd e)"

definition MemoryNumaStat_words :: "MemoryNumaStat \<Rightarrow> string list list" where
  "MemoryNumaStat_words stat =
     map (\<lambda>(f, ns). node_words render_bytes (MemoryStatByteField_name f, ns)) (numa_bytes stat)
   @ map (\<lambda>(f, ns). node_words render_pages (MemoryStatPageField_name f, ns)) (numa_pages stat)
   @ map (\<lambda>(f, ns). node_words render_count (MemoryStatCountField_name f, ns)) (numa_counts stat)"

definition MemoryNumaStat_render :: "MemoryNumaStat \<Rightarrow> string" where
  "MemoryNumaStat_render stat = unlines (map unwords (MemoryNumaStat_words stat))"

lemma is_token_node: "is_token (CHR ''N'' # show_u n)"
proof -
  have "is_token ''N''" by (simp add: is_token_def is_ascii_whitespace_def)
  then show ?thesis using is_token_append [of "''N''" "show_u n"] by simp
qed

lemma node_words_line:
  "is_key k \<Longrightarrow> (\<And>v. is_token (render v)) \<Longrightarrow> is_word_line (node_words render (k, ns))"
  by (auto simp: is_word_line_def node_words_def is_key_def list_all_iff is_token_node is_token_assignment)

lemma MemoryNumaStat_words_lines: "\<forall>ws \<in> set (MemoryNumaStat_words stat). is_word_line ws"
  by (auto simp: MemoryNumaStat_words_def v_bytes.render_token v_pages.render_token
      v_count.render_token intro!: node_words_line)

context cgroup_value
begin

lemma node_render:
  "valid v \<Longrightarrow> parse_node parse raw field (assignment (CHR ''N'' # show_u n) (render v)) = Inr (n, v)"
proof -
  assume "valid v"
  moreover have "CHR ''='' \<notin> set (CHR ''N'' # show_u n)"
    using not_digit_not_in_digits [of "show_u n" "CHR ''=''"] by simp
  ultimately show ?thesis by (simp add: parse_node_def split_assignment field_render)
qed

lemma nodes_render:
  assumes "btree_inv ns" "ns \<noteq> []" "\<forall>(n, v) \<in> set ns. valid v"
  shows "parse_nodes parse raw field (map (\<lambda>(n, v). assignment (CHR ''N'' # show_u n) (render v)) ns) = Inr ns"
proof -
  have "map (parse_node parse raw field) (map (\<lambda>(n, v). assignment (CHR ''N'' # show_u n) (render v)) ns)
      = map Inr ns"
    using assms(3) by (auto simp: node_render)
  with assms(1,2) show ?thesis
    by (simp only: parse_nodes_def map_is_Nil_conv if_False collect_results_Inr map_ok.simps btree_collect_id)
qed

end

lemma try_fold_steps:
  "(\<And>s x. x \<in> set xs \<Longrightarrow> f s (g x) = Inr (h s x)) \<Longrightarrow> try_fold f s (map g xs) = Inr (foldl h s xs)"
  by (induction xs arbitrary: s) auto

lemma foldl_numa:
  "foldl (\<lambda>st (f, ns). st\<lparr>numa_bytes := btree_insert f ns (numa_bytes st)\<rparr>) st b
     = st\<lparr>numa_bytes := foldl (\<lambda>m (k, v). btree_insert k v m) (numa_bytes st) b\<rparr>"
  "foldl (\<lambda>st (f, ns). st\<lparr>numa_pages := btree_insert f ns (numa_pages st)\<rparr>) st p
     = st\<lparr>numa_pages := foldl (\<lambda>m (k, v). btree_insert k v m) (numa_pages st) p\<rparr>"
  "foldl (\<lambda>st (f, ns). st\<lparr>numa_counts := btree_insert f ns (numa_counts st)\<rparr>) st c
     = st\<lparr>numa_counts := foldl (\<lambda>m (k, v). btree_insert k v m) (numa_counts st) c\<rparr>"
proof -
  show "foldl (\<lambda>st (f, ns). st\<lparr>numa_bytes := btree_insert f ns (numa_bytes st)\<rparr>) st b
     = st\<lparr>numa_bytes := foldl (\<lambda>m (k, v). btree_insert k v m) (numa_bytes st) b\<rparr>"
    by (induction b arbitrary: st) auto
  show "foldl (\<lambda>st (f, ns). st\<lparr>numa_pages := btree_insert f ns (numa_pages st)\<rparr>) st p
     = st\<lparr>numa_pages := foldl (\<lambda>m (k, v). btree_insert k v m) (numa_pages st) p\<rparr>"
    by (induction p arbitrary: st) auto
  show "foldl (\<lambda>st (f, ns). st\<lparr>numa_counts := btree_insert f ns (numa_counts st)\<rparr>) st c
     = st\<lparr>numa_counts := foldl (\<lambda>m (k, v). btree_insert k v m) (numa_counts st) c\<rparr>"
    by (induction c arbitrary: st) auto
qed

lemma foldl_collect: "btree_inv m \<Longrightarrow> foldl (\<lambda>m (k, v). btree_insert k v m) [] m = m"
  using btree_collect_id [of m] by (simp add: btree_collect_def)

lemma MemoryNumaStat_line_words:
  assumes "is_key k" "\<And>v. is_token (render v)"
  shows "MemoryNumaStat_line raw stat (unwords (node_words render (k, ns))) =
    MemoryNumaStat_insert raw k (map (\<lambda>(n, v). assignment (CHR ''N'' # show_u n) (render v)) ns) stat"
proof -
  note split = unwords_line(3) [OF node_words_line [OF assms]]
  show ?thesis by (simp add: MemoryNumaStat_line_def split) (simp add: node_words_def)
qed

lemma MemoryNumaStat_line_render:
  assumes "btree_inv ns" "ns \<noteq> []"
  shows "MemoryNumaStat_line raw stat (unwords (node_words render_bytes (MemoryStatByteField_name b, ns)))
      = Inr (stat\<lparr>numa_bytes := btree_insert b ns (numa_bytes stat)\<rparr>)"
  using assms
  by (simp add: MemoryNumaStat_line_words v_bytes.render_token MemoryNumaStat_insert_def
      memory_stat_lookup v_bytes.nodes_render)

lemma MemoryNumaStat_line_render_pages:
  assumes "btree_inv ns" "ns \<noteq> []"
  shows "MemoryNumaStat_line raw stat (unwords (node_words render_pages (MemoryStatPageField_name p, ns)))
      = Inr (stat\<lparr>numa_pages := btree_insert p ns (numa_pages stat)\<rparr>)"
  using assms
  by (simp add: MemoryNumaStat_line_words v_pages.render_token MemoryNumaStat_insert_def
      memory_stat_lookup v_pages.nodes_render)

lemma MemoryNumaStat_line_render_counts:
  assumes "btree_inv ns" "ns \<noteq> []"
  shows "MemoryNumaStat_line raw stat (unwords (node_words render_count (MemoryStatCountField_name c, ns)))
      = Inr (stat\<lparr>numa_counts := btree_insert c ns (numa_counts stat)\<rparr>)"
  using assms
  by (simp add: MemoryNumaStat_line_words v_count.render_token MemoryNumaStat_insert_def
      memory_stat_lookup v_count.nodes_render)

lemma MemoryNumaStat_fold_render:
  assumes "MemoryNumaStat_ok stat"
  shows "try_fold (MemoryNumaStat_line raw) MemoryNumaStat_default
    (map unwords (MemoryNumaStat_words stat)) = Inr stat"
proof -
  have b: "try_fold (MemoryNumaStat_line raw) s
      (map (\<lambda>(f, ns). unwords (node_words render_bytes (MemoryStatByteField_name f, ns))) (numa_bytes stat))
      = Inr (foldl (\<lambda>st (f, ns). st\<lparr>numa_bytes := btree_insert f ns (numa_bytes st)\<rparr>) s (numa_bytes stat))" for s
    using assms by (intro try_fold_steps)
      (auto simp: MemoryNumaStat_ok_def nodes_ok_def MemoryNumaStat_line_render)
  have p: "try_fold (MemoryNumaStat_line raw) s
      (map (\<lambda>(f, ns). unwords (node_words render_pages (MemoryStatPageField_name f, ns))) (numa_pages stat))
      = Inr (foldl (\<lambda>st (f, ns). st\<lparr>numa_pages := btree_insert f ns (numa_pages st)\<rparr>) s (numa_pages stat))" for s
    using assms by (intro try_fold_steps)
      (auto simp: MemoryNumaStat_ok_def nodes_ok_def MemoryNumaStat_line_render_pages)
  have c: "try_fold (MemoryNumaStat_line raw) s
      (map (\<lambda>(f, ns). unwords (node_words render_count (MemoryStatCountField_name f, ns))) (numa_counts stat))
      = Inr (foldl (\<lambda>st (f, ns). st\<lparr>numa_counts := btree_insert f ns (numa_counts st)\<rparr>) s (numa_counts stat))" for s
    using assms by (intro try_fold_steps)
      (auto simp: MemoryNumaStat_ok_def nodes_ok_def MemoryNumaStat_line_render_counts)
  have comp: "map unwords (map (\<lambda>(f, ns). node_words render (name f, ns)) t)
      = map (\<lambda>(f, ns). unwords (node_words render (name f, ns))) t"
    for render :: "'v \<Rightarrow> string" and name :: "'f \<Rightarrow> string" and t
    by auto
  show ?thesis
    using assms
    by (simp only: MemoryNumaStat_words_def map_append comp try_fold_append b p c and_then.simps foldl_numa)
      (simp add: MemoryNumaStat_default_def foldl_collect MemoryNumaStat_ok_def nodes_ok_def)
qed

text \<open>C34: Reading back the lines of a well-formed \<open>memory.numa_stat\<close> snapshot, one line per field
  with one \<open>N<id>=<value>\<close> per node, gives exactly that snapshot when it has \<open>anon\<close> and \<open>file\<close>.\<close>

theorem MemoryNumaStat_round_trip:
  assumes "MemoryNumaStat_ok stat" "btree_get (numa_bytes stat) Anon \<noteq> None" "btree_get (numa_bytes stat) File \<noteq> None"
  shows "MemoryNumaStat_from_str (MemoryNumaStat_render stat) = Inr stat"
  using assms MemoryNumaStat_fold_render [OF assms(1)]
  by (simp add: MemoryNumaStat_from_str_def MemoryNumaStat_render_def nonblank_lines_words
      MemoryNumaStat_words_lines require_baseline_def btree_contains_key_def del: map_map)

definition MemoryNumaStat_example :: MemoryNumaStat where
  "MemoryNumaStat_example =
     \<lparr>numa_bytes = [(Anon, [(0, Bytes_byte 8192), (1, Bytes_byte 0)]), (File, [(0, Bytes_byte 4096)])],
      numa_pages = [], numa_counts = [(Pgfault, [(1, Count 3)])]\<rparr>"

lemma MemoryNumaStat_example_ok: "MemoryNumaStat_ok MemoryNumaStat_example"
  by (simp add: MemoryNumaStat_ok_def nodes_ok_def MemoryNumaStat_example_def btree_inv_def
      less_MemoryStatByteField_def MemoryStatByteField_variants_def variant_index_def)

lemma MemoryNumaStat_round_trip_witness:
  "MemoryNumaStat_from_str (MemoryNumaStat_render MemoryNumaStat_example) = Inr MemoryNumaStat_example"
  by (rule MemoryNumaStat_round_trip [OF MemoryNumaStat_example_ok])
    (simp_all add: MemoryNumaStat_example_def btree_get_def)

lemma MemoryNumaStat_from_str_ok_witness:
  "\<exists>stat. MemoryNumaStat_from_str (MemoryNumaStat_render MemoryNumaStat_example) = Inr stat
     \<and> btree_get (numa_bytes stat) Anon \<noteq> None"
proof -
  have "MemoryNumaStat_from_str (MemoryNumaStat_render MemoryNumaStat_example) = Inr MemoryNumaStat_example"
    using MemoryNumaStat_fold_render [OF MemoryNumaStat_example_ok]
    by (simp add: MemoryNumaStat_from_str_def MemoryNumaStat_render_def nonblank_lines_words
        MemoryNumaStat_words_lines require_baseline_Inr_iff and_then_eq_Inr btree_contains_key_def del: map_map)
      (simp add: MemoryNumaStat_example_def btree_get_def)
  from this MemoryNumaStat_from_str_ok [OF this] show ?thesis by blast
qed

end
