(* ===== verification/Sakai_Memory.thy ===== *)
theory Sakai_Memory
  imports Sakai_Memory_Numa Sakai_Pressure Sakai_Scalar Field_Record
begin

text \<open>
  The rest of the memory controller, \<open>sakai/src/cgroup/v2/memory.rs\<close>, \<open>memory/events.rs\<close>,
  \<open>memory/swap.rs\<close> and \<open>memory/zswap.rs\<close>: the event counters and every reader.
\<close>

section \<open>Events\<close>

record MemoryEventCounts =
  events_low :: Count
  events_high :: Count
  events_max :: Count
  events_oom :: Count
  events_oom_kill :: Count
  events_oom_group_kill :: "Count option"
  events_sock_throttled :: "Count option"

definition MemoryEventCounts_from_fields :: "KeyedFields \<Rightarrow> MemoryEventCounts parsed" where
  "MemoryEventCounts_from_fields kf =
     and_then (required parse_count kf ''low'') (\<lambda>low.
     and_then (required parse_count kf ''high'') (\<lambda>high.
     and_then (required parse_count kf ''max'') (\<lambda>max.
     and_then (required parse_count kf ''oom'') (\<lambda>oom.
     and_then (required parse_count kf ''oom_kill'') (\<lambda>oom_kill.
     and_then (optional parse_count kf ''oom_group_kill'') (\<lambda>oom_group_kill.
     and_then (optional parse_count kf ''sock_throttled'') (\<lambda>sock_throttled.
     Inr \<lparr>events_low = low, events_high = high, events_max = max, events_oom = oom,
          events_oom_kill = oom_kill, events_oom_group_kill = oom_group_kill,
          events_sock_throttled = sock_throttled\<rparr>)))))))"

definition MemoryEventCounts_from_str :: "string \<Rightarrow> MemoryEventCounts parsed" where
  "MemoryEventCounts_from_str contents =
     and_then (KeyedFields_parse contents (\<lambda>_. ''value'')) MemoryEventCounts_from_fields"

record MemoryEvents = memory_events_counts :: MemoryEventCounts
record MemoryEventsLocal = memory_events_local_counts :: MemoryEventCounts

definition MemoryEvents_from_str :: "string \<Rightarrow> MemoryEvents parsed" where
  "MemoryEvents_from_str contents =
     and_then (MemoryEventCounts_from_str contents) (\<lambda>c. Inr \<lparr>memory_events_counts = c\<rparr>)"

definition MemoryEventsLocal_from_str :: "string \<Rightarrow> MemoryEventsLocal parsed" where
  "MemoryEventsLocal_from_str contents =
     and_then (MemoryEventCounts_from_str contents) (\<lambda>c. Inr \<lparr>memory_events_local_counts = c\<rparr>)"

record SwapEvents =
  swap_high :: "Count option"
  swap_max :: Count
  swap_fail :: Count

definition SwapEvents_from_fields :: "KeyedFields \<Rightarrow> SwapEvents parsed" where
  "SwapEvents_from_fields kf =
     and_then (optional parse_count kf ''high'') (\<lambda>high.
     and_then (required parse_count kf ''max'') (\<lambda>max.
     and_then (required parse_count kf ''fail'') (\<lambda>fail.
     Inr \<lparr>swap_high = high, swap_max = max, swap_fail = fail\<rparr>)))"

definition SwapEvents_from_str :: "string \<Rightarrow> SwapEvents parsed" where
  "SwapEvents_from_str contents =
     and_then (KeyedFields_parse contents (\<lambda>key.
       if key = ''high'' then ''high'' else if key = ''max'' then ''max''
       else if key = ''fail'' then ''fail'' else ''value'')) SwapEvents_from_fields"

section \<open>The readers\<close>

definition Memory_current :: "('d, 'x) os_scheme \<Rightarrow> 'd Cgroup \<Rightarrow> Error + Bytes Scalar" where
  "Memory_current os cg = Scalar_read parse_bytes IMemoryCurrent os cg"

definition Memory_peak :: "('d, 'x) os_scheme \<Rightarrow> 'd Cgroup \<Rightarrow> Error + Bytes Scalar" where
  "Memory_peak os cg = Scalar_read parse_bytes IMemoryPeak os cg"

definition Memory_stat :: "('d, 'x) os_scheme \<Rightarrow> 'd Cgroup \<Rightarrow> Error + MemoryStat" where
  "Memory_stat os cg = Cgroup_parse MemoryStat_from_str os cg ''memory.stat''"

definition Memory_events :: "('d, 'x) os_scheme \<Rightarrow> 'd Cgroup \<Rightarrow> Error + MemoryEvents" where
  "Memory_events os cg = Cgroup_parse MemoryEvents_from_str os cg ''memory.events''"

definition Memory_events_local :: "('d, 'x) os_scheme \<Rightarrow> 'd Cgroup \<Rightarrow> Error + MemoryEventsLocal" where
  "Memory_events_local os cg = Cgroup_parse MemoryEventsLocal_from_str os cg ''memory.events.local''"

definition Memory_numa_stat :: "('d, 'x) os_scheme \<Rightarrow> 'd Cgroup \<Rightarrow> Error + MemoryNumaStat" where
  "Memory_numa_stat os cg = Cgroup_parse MemoryNumaStat_from_str os cg ''memory.numa_stat''"

definition Memory_pressure :: "('d, 'x) os_scheme \<Rightarrow> 'd Cgroup \<Rightarrow> Error + Pressure" where
  "Memory_pressure os cg = Cgroup_parse Pressure_from_str os cg Pressure_MEMORY_FILE_NAME"

definition Memory_max :: "('d, 'x) os_scheme \<Rightarrow> 'd Cgroup \<Rightarrow> Error + Bytes MaxOr Scalar" where
  "Memory_max os cg = Scalar_read (parse_max_or parse_bytes) IMemoryMax os cg"

definition Memory_high :: "('d, 'x) os_scheme \<Rightarrow> 'd Cgroup \<Rightarrow> Error + Bytes MaxOr Scalar" where
  "Memory_high os cg = Scalar_read (parse_max_or parse_bytes) IMemoryHigh os cg"

definition Memory_low :: "('d, 'x) os_scheme \<Rightarrow> 'd Cgroup \<Rightarrow> Error + Bytes MaxOr Scalar" where
  "Memory_low os cg = Scalar_read (parse_max_or parse_bytes) IMemoryLow os cg"

definition Memory_min :: "('d, 'x) os_scheme \<Rightarrow> 'd Cgroup \<Rightarrow> Error + Bytes MaxOr Scalar" where
  "Memory_min os cg = Scalar_read (parse_max_or parse_bytes) IMemoryMin os cg"

definition Memory_oom_group :: "('d, 'x) os_scheme \<Rightarrow> 'd Cgroup \<Rightarrow> Error + bool Scalar" where
  "Memory_oom_group os cg = Scalar_read parse_boolean IMemoryOomGroup os cg"

definition Swap_current :: "('d, 'x) os_scheme \<Rightarrow> 'd Cgroup \<Rightarrow> Error + Bytes Scalar" where
  "Swap_current os cg = Scalar_read parse_bytes ISwapCurrent os cg"

definition Swap_peak :: "('d, 'x) os_scheme \<Rightarrow> 'd Cgroup \<Rightarrow> Error + Bytes Scalar" where
  "Swap_peak os cg = Scalar_read parse_bytes ISwapPeak os cg"

definition Swap_max :: "('d, 'x) os_scheme \<Rightarrow> 'd Cgroup \<Rightarrow> Error + Bytes MaxOr Scalar" where
  "Swap_max os cg = Scalar_read (parse_max_or parse_bytes) ISwapMax os cg"

definition Swap_high :: "('d, 'x) os_scheme \<Rightarrow> 'd Cgroup \<Rightarrow> Error + Bytes MaxOr Scalar" where
  "Swap_high os cg = Scalar_read (parse_max_or parse_bytes) ISwapHigh os cg"

definition Swap_events :: "('d, 'x) os_scheme \<Rightarrow> 'd Cgroup \<Rightarrow> Error + SwapEvents" where
  "Swap_events os cg = Cgroup_parse SwapEvents_from_str os cg ''memory.swap.events''"

definition Zswap_current :: "('d, 'x) os_scheme \<Rightarrow> 'd Cgroup \<Rightarrow> Error + Bytes Scalar" where
  "Zswap_current os cg = Scalar_read parse_bytes IZswapCurrent os cg"

definition Zswap_max :: "('d, 'x) os_scheme \<Rightarrow> 'd Cgroup \<Rightarrow> Error + Bytes MaxOr Scalar" where
  "Zswap_max os cg = Scalar_read (parse_max_or parse_bytes) IZswapMax os cg"

definition Zswap_writeback :: "('d, 'x) os_scheme \<Rightarrow> 'd Cgroup \<Rightarrow> Error + bool Scalar" where
  "Zswap_writeback os cg = Scalar_read parse_boolean IZswapWriteback os cg"

section \<open>The records keep their contract\<close>

definition MemoryEventCounts_fields :: "MemoryEventCounts \<Rightarrow> (string \<times> string) list" where
  "MemoryEventCounts_fields e =
     [(''low'', render_count (events_low e)), (''high'', render_count (events_high e)),
      (''max'', render_count (events_max e)), (''oom'', render_count (events_oom e)),
      (''oom_kill'', render_count (events_oom_kill e))]
     @ opt_pair ''oom_group_kill'' render_count (events_oom_group_kill e)
     @ opt_pair ''sock_throttled'' render_count (events_sock_throttled e)"

definition SwapEvents_fields :: "SwapEvents \<Rightarrow> (string \<times> string) list" where
  "SwapEvents_fields e =
     opt_pair ''high'' render_count (swap_high e)
     @ [(''max'', render_count (swap_max e)), (''fail'', render_count (swap_fail e))]"

lemmas key_defs = is_key_def is_token_def is_ascii_whitespace_def ink_def white_space1_def

lemma key_memory_events [simp]:
  "is_key ''low''" "is_key ''high''" "is_key ''max''" "is_key ''oom''" "is_key ''oom_kill''"
  "is_key ''oom_group_kill''" "is_key ''sock_throttled''" "is_key ''fail''"
  by (simp_all add: key_defs)

lemma reports_MemoryEventCounts: "kf_raw kf = raw \<Longrightarrow> reports raw (MemoryEventCounts_from_fields kf)"
  unfolding MemoryEventCounts_from_fields_def by (intro reports_intros)

lemma reports_SwapEvents: "kf_raw kf = raw \<Longrightarrow> reports raw (SwapEvents_from_fields kf)"
  unfolding SwapEvents_from_fields_def by (intro reports_intros)

interpretation memory_event_counts:
  field_record MemoryEventCounts_from_fields "\<lambda>_. True" MemoryEventCounts_fields "\<lambda>e. e"
proof unfold_locales
  fix e raw
  show "MemoryEventCounts_from_fields \<lparr>kf_raw = raw, kf_values = btree_collect (MemoryEventCounts_fields e)\<rparr> = Inr e"
    by (cases e) (simp add: MemoryEventCounts_from_fields_def MemoryEventCounts_fields_def field_lookup
        optional_def v_count.required_lookup v_count.optional_lookup cong: option.case_cong)
qed (auto simp: MemoryEventCounts_fields_def plain_pair_iff v_count.render_token intro: reports_MemoryEventCounts)

interpretation swap_events: field_record SwapEvents_from_fields "\<lambda>_. True" SwapEvents_fields "\<lambda>e. e"
proof unfold_locales
  fix e raw
  show "SwapEvents_from_fields \<lparr>kf_raw = raw, kf_values = btree_collect (SwapEvents_fields e)\<rparr> = Inr e"
    by (cases e) (simp add: SwapEvents_from_fields_def SwapEvents_fields_def field_lookup
        optional_def v_count.required_lookup v_count.optional_lookup cong: option.case_cong)
qed (auto simp: SwapEvents_fields_def plain_pair_iff v_count.render_token intro: reports_SwapEvents)

interpretation memory_event_counts_file: snapshot_parser MemoryEventCounts_from_str
  by unfold_locales (simp add: MemoryEventCounts_from_str_def memory_event_counts.file_reports)

interpretation memory_events: snapshot_parser MemoryEvents_from_str
  by unfold_locales
    (auto simp: MemoryEvents_from_str_def intro!: reports_intros memory_event_counts_file.error_keeps_input)

interpretation memory_events_local: snapshot_parser MemoryEventsLocal_from_str
  by unfold_locales
    (auto simp: MemoryEventsLocal_from_str_def intro!: reports_intros memory_event_counts_file.error_keeps_input)

interpretation swap_events_file: snapshot_parser SwapEvents_from_str
  by unfold_locales (simp add: SwapEvents_from_str_def swap_events.file_reports)

end
