(* ===== verification/Py_Memory.thy ===== *)
theory Py_Memory
  imports Py_Core Sakai_Memory
begin

text \<open>
  The memory controller in Python, \<open>sakai-python/src/linux/memory.rs\<close>, with swap and zswap. The
  maps of \<open>memory.stat\<close> and \<open>memory.numa_stat\<close> get the kernel's names as keys.
\<close>

section \<open>Snapshots\<close>

record PyMemoryEventCounts =
  py_low :: "Count Quantity"
  py_high :: "Count Quantity"
  py_max :: "Count Quantity"
  py_oom :: "Count Quantity"
  py_oom_kill :: "Count Quantity"
  py_oom_group_kill :: "Count Quantity option"
  py_sock_throttled :: "Count Quantity option"

definition PyMemoryEventCounts_from :: "MemoryEventCounts \<Rightarrow> PyMemoryEventCounts" where
  "PyMemoryEventCounts_from v =
     \<lparr>py_low = Quantity (events_low v), py_high = Quantity (events_high v), py_max = Quantity (events_max v),
      py_oom = Quantity (events_oom v), py_oom_kill = Quantity (events_oom_kill v),
      py_oom_group_kill = map_option Quantity (events_oom_group_kill v),
      py_sock_throttled = map_option Quantity (events_sock_throttled v)\<rparr>"

record PySwapEvents =
  py_swap_high :: "Count Quantity option"
  py_swap_max :: "Count Quantity"
  py_swap_fail :: "Count Quantity"

definition PySwapEvents_from :: "SwapEvents \<Rightarrow> PySwapEvents" where
  "PySwapEvents_from v =
     \<lparr>py_swap_high = map_option Quantity (swap_high v), py_swap_max = Quantity (swap_max v),
      py_swap_fail = Quantity (swap_fail v)\<rparr>"

text \<open>\<open>MemoryValues::fields\<close> and \<open>MemoryValues::nodes\<close>; a field becomes its name.\<close>

definition MemoryValues_fields :: "('f \<Rightarrow> string) \<Rightarrow> ('f, 'v) btree \<Rightarrow> ('v \<Rightarrow> 'o) \<Rightarrow> (string, 'o) btree" where
  "MemoryValues_fields name values convert = btree_collect (map (\<lambda>(key, v). (name key, convert v)) (btree_iter values))"

definition MemoryValues_nodes :: "(u32, 'v) btree \<Rightarrow> ('v \<Rightarrow> 'q Quantity) \<Rightarrow> (u32, 'q Quantity) btree" where
  "MemoryValues_nodes values convert = btree_collect (map (\<lambda>(node, v). (node, convert v)) (btree_iter values))"

record PyMemoryStat =
  py_stat_bytes :: "(string, Bytes Quantity) btree"
  py_stat_pages :: "(string, Pages Quantity) btree"
  py_stat_counts :: "(string, Count Quantity) btree"

definition PyMemoryStat_from :: "MemoryStat \<Rightarrow> PyMemoryStat" where
  "PyMemoryStat_from v =
     \<lparr>py_stat_bytes = MemoryValues_fields MemoryStatByteField_name (stat_bytes v) Quantity,
      py_stat_pages = MemoryValues_fields MemoryStatPageField_name (stat_pages v) Quantity,
      py_stat_counts = MemoryValues_fields MemoryStatCountField_name (stat_counts v) Quantity\<rparr>"

definition PyMemoryStat_bytes :: "('r, 'o, 'w) pint \<Rightarrow> PyMemoryStat \<Rightarrow> ('w, PyErr, (string \<times> 'o) list) io" where
  "PyMemoryStat_bytes p v = mapping (Bytes_into_pyobject p) (py_stat_bytes v)"

definition PyMemoryStat_pages :: "('r, 'o, 'w) pint \<Rightarrow> PyMemoryStat \<Rightarrow> ('w, PyErr, (string \<times> 'o) list) io" where
  "PyMemoryStat_pages p v = mapping (Pages_into_pyobject p) (py_stat_pages v)"

definition PyMemoryStat_counts :: "('r, 'o, 'w) pint \<Rightarrow> PyMemoryStat \<Rightarrow> ('w, PyErr, (string \<times> 'o) list) io" where
  "PyMemoryStat_counts p v = mapping (Count_into_pyobject p) (py_stat_counts v)"

record PyMemoryNumaStat =
  py_numa_bytes :: "(string, (u32, Bytes Quantity) btree) btree"
  py_numa_pages :: "(string, (u32, Pages Quantity) btree) btree"
  py_numa_counts :: "(string, (u32, Count Quantity) btree) btree"

definition PyMemoryNumaStat_from :: "MemoryNumaStat \<Rightarrow> PyMemoryNumaStat" where
  "PyMemoryNumaStat_from v =
     \<lparr>py_numa_bytes = MemoryValues_fields MemoryStatByteField_name (numa_bytes v) (\<lambda>nodes. MemoryValues_nodes nodes Quantity),
      py_numa_pages = MemoryValues_fields MemoryStatPageField_name (numa_pages v) (\<lambda>nodes. MemoryValues_nodes nodes Quantity),
      py_numa_counts = MemoryValues_fields MemoryStatCountField_name (numa_counts v) (\<lambda>nodes. MemoryValues_nodes nodes Quantity)\<rparr>"

text \<open>A mapping of mappings.\<close>

definition PyMemoryNumaStat_mapping ::
  "('q Quantity \<Rightarrow> ('w, PyErr, 'o) io) \<Rightarrow> (string, (u32, 'q Quantity) btree) btree \<Rightarrow>
     ('w, PyErr, (string \<times> (u32 \<times> 'o) list) list) io" where
  "PyMemoryNumaStat_mapping convert values = mapping (mapping convert) values"

definition PyMemoryNumaStat_bytes ::
  "('r, 'o, 'w) pint \<Rightarrow> PyMemoryNumaStat \<Rightarrow> ('w, PyErr, (string \<times> (u32 \<times> 'o) list) list) io" where
  "PyMemoryNumaStat_bytes p v = PyMemoryNumaStat_mapping (Bytes_into_pyobject p) (py_numa_bytes v)"

definition PyMemoryNumaStat_pages ::
  "('r, 'o, 'w) pint \<Rightarrow> PyMemoryNumaStat \<Rightarrow> ('w, PyErr, (string \<times> (u32 \<times> 'o) list) list) io" where
  "PyMemoryNumaStat_pages p v = PyMemoryNumaStat_mapping (Pages_into_pyobject p) (py_numa_pages v)"

definition PyMemoryNumaStat_counts ::
  "('r, 'o, 'w) pint \<Rightarrow> PyMemoryNumaStat \<Rightarrow> ('w, PyErr, (string \<times> (u32 \<times> 'o) list) list) io" where
  "PyMemoryNumaStat_counts p v = PyMemoryNumaStat_mapping (Count_into_pyobject p) (py_numa_counts v)"

section \<open>Readers\<close>

definition PyMemory_current :: "python \<Rightarrow> ('d, 'x) os_scheme \<Rightarrow> 'd Cgroup \<Rightarrow> PyErr + Bytes Quantity" where
  "PyMemory_current py os owner =
     map_ok (\<lambda>v. Quantity (scalar_value v)) (PythonError_read py os owner Memory_current)"

definition PyMemory_peak :: "python \<Rightarrow> ('d, 'x) os_scheme \<Rightarrow> 'd Cgroup \<Rightarrow> PyErr + Bytes Quantity" where
  "PyMemory_peak py os owner =
     map_ok (\<lambda>v. Quantity (scalar_value v)) (PythonError_read py os owner Memory_peak)"

definition PyMemory_max :: "python \<Rightarrow> ('d, 'x) os_scheme \<Rightarrow> 'd Cgroup \<Rightarrow> PyErr + PyMaxOr" where
  "PyMemory_max py os owner =
     map_ok (\<lambda>v. MaxOr_from_bytes (scalar_value v)) (PythonError_read py os owner Memory_max)"

definition PyMemory_high :: "python \<Rightarrow> ('d, 'x) os_scheme \<Rightarrow> 'd Cgroup \<Rightarrow> PyErr + PyMaxOr" where
  "PyMemory_high py os owner =
     map_ok (\<lambda>v. MaxOr_from_bytes (scalar_value v)) (PythonError_read py os owner Memory_high)"

definition PyMemory_low :: "python \<Rightarrow> ('d, 'x) os_scheme \<Rightarrow> 'd Cgroup \<Rightarrow> PyErr + PyMaxOr" where
  "PyMemory_low py os owner =
     map_ok (\<lambda>v. MaxOr_from_bytes (scalar_value v)) (PythonError_read py os owner Memory_low)"

definition PyMemory_min :: "python \<Rightarrow> ('d, 'x) os_scheme \<Rightarrow> 'd Cgroup \<Rightarrow> PyErr + PyMaxOr" where
  "PyMemory_min py os owner =
     map_ok (\<lambda>v. MaxOr_from_bytes (scalar_value v)) (PythonError_read py os owner Memory_min)"

definition PyMemory_oom_group :: "python \<Rightarrow> ('d, 'x) os_scheme \<Rightarrow> 'd Cgroup \<Rightarrow> PyErr + bool" where
  "PyMemory_oom_group py os owner = map_ok scalar_value (PythonError_read py os owner Memory_oom_group)"

definition PyMemory_events :: "python \<Rightarrow> ('d, 'x) os_scheme \<Rightarrow> 'd Cgroup \<Rightarrow> PyErr + PyMemoryEventCounts" where
  "PyMemory_events py os owner =
     map_ok (\<lambda>v. PyMemoryEventCounts_from (memory_events_counts v)) (PythonError_read py os owner Memory_events)"

definition PyMemory_events_local :: "python \<Rightarrow> ('d, 'x) os_scheme \<Rightarrow> 'd Cgroup \<Rightarrow> PyErr + PyMemoryEventCounts" where
  "PyMemory_events_local py os owner =
     map_ok (\<lambda>v. PyMemoryEventCounts_from (memory_events_local_counts v)) (PythonError_read py os owner Memory_events_local)"

definition PyMemory_stat :: "python \<Rightarrow> ('d, 'x) os_scheme \<Rightarrow> 'd Cgroup \<Rightarrow> PyErr + PyMemoryStat" where
  "PyMemory_stat py os owner = map_ok PyMemoryStat_from (PythonError_read py os owner Memory_stat)"

definition PyMemory_numa_stat :: "python \<Rightarrow> ('d, 'x) os_scheme \<Rightarrow> 'd Cgroup \<Rightarrow> PyErr + PyMemoryNumaStat" where
  "PyMemory_numa_stat py os owner = map_ok PyMemoryNumaStat_from (PythonError_read py os owner Memory_numa_stat)"

definition PyMemory_pressure :: "python \<Rightarrow> ('d, 'x) os_scheme \<Rightarrow> 'd Cgroup \<Rightarrow> PyErr + PyPressure" where
  "PyMemory_pressure py os owner = map_ok PyPressure_from (PythonError_read py os owner Memory_pressure)"

definition PySwap_current :: "python \<Rightarrow> ('d, 'x) os_scheme \<Rightarrow> 'd Cgroup \<Rightarrow> PyErr + Bytes Quantity" where
  "PySwap_current py os owner =
     map_ok (\<lambda>v. Quantity (scalar_value v)) (PythonError_read py os owner Swap_current)"

definition PySwap_peak :: "python \<Rightarrow> ('d, 'x) os_scheme \<Rightarrow> 'd Cgroup \<Rightarrow> PyErr + Bytes Quantity" where
  "PySwap_peak py os owner = map_ok (\<lambda>v. Quantity (scalar_value v)) (PythonError_read py os owner Swap_peak)"

definition PySwap_max :: "python \<Rightarrow> ('d, 'x) os_scheme \<Rightarrow> 'd Cgroup \<Rightarrow> PyErr + PyMaxOr" where
  "PySwap_max py os owner =
     map_ok (\<lambda>v. MaxOr_from_bytes (scalar_value v)) (PythonError_read py os owner Swap_max)"

definition PySwap_high :: "python \<Rightarrow> ('d, 'x) os_scheme \<Rightarrow> 'd Cgroup \<Rightarrow> PyErr + PyMaxOr" where
  "PySwap_high py os owner =
     map_ok (\<lambda>v. MaxOr_from_bytes (scalar_value v)) (PythonError_read py os owner Swap_high)"

definition PySwap_events :: "python \<Rightarrow> ('d, 'x) os_scheme \<Rightarrow> 'd Cgroup \<Rightarrow> PyErr + PySwapEvents" where
  "PySwap_events py os owner = map_ok PySwapEvents_from (PythonError_read py os owner Swap_events)"

definition PyZswap_current :: "python \<Rightarrow> ('d, 'x) os_scheme \<Rightarrow> 'd Cgroup \<Rightarrow> PyErr + Bytes Quantity" where
  "PyZswap_current py os owner =
     map_ok (\<lambda>v. Quantity (scalar_value v)) (PythonError_read py os owner Zswap_current)"

definition PyZswap_max :: "python \<Rightarrow> ('d, 'x) os_scheme \<Rightarrow> 'd Cgroup \<Rightarrow> PyErr + PyMaxOr" where
  "PyZswap_max py os owner =
     map_ok (\<lambda>v. MaxOr_from_bytes (scalar_value v)) (PythonError_read py os owner Zswap_max)"

definition PyZswap_writeback :: "python \<Rightarrow> ('d, 'x) os_scheme \<Rightarrow> 'd Cgroup \<Rightarrow> PyErr + bool" where
  "PyZswap_writeback py os owner = map_ok scalar_value (PythonError_read py os owner Zswap_writeback)"

section \<open>Every reader reads its own file\<close>

lemma memory_reads:
  "py_reads ''memory.current'' PyMemory_current
   \<and> py_reads ''memory.peak'' PyMemory_peak
   \<and> py_reads ''memory.max'' PyMemory_max
   \<and> py_reads ''memory.high'' PyMemory_high
   \<and> py_reads ''memory.low'' PyMemory_low
   \<and> py_reads ''memory.min'' PyMemory_min
   \<and> py_reads ''memory.oom.group'' PyMemory_oom_group
   \<and> py_reads ''memory.events'' PyMemory_events
   \<and> py_reads ''memory.events.local'' PyMemory_events_local
   \<and> py_reads ''memory.stat'' PyMemory_stat
   \<and> py_reads ''memory.numa_stat'' PyMemory_numa_stat
   \<and> py_reads ''memory.pressure'' PyMemory_pressure"
  unfolding
    PyMemory_current_def [abs_def] PyMemory_peak_def [abs_def] PyMemory_max_def [abs_def] PyMemory_high_def [abs_def] PyMemory_low_def [abs_def] PyMemory_min_def [abs_def] PyMemory_oom_group_def [abs_def]
    PyMemory_events_def [abs_def] PyMemory_events_local_def [abs_def] PyMemory_stat_def [abs_def]
    PyMemory_numa_stat_def [abs_def] PyMemory_pressure_def [abs_def] Memory_current_def [abs_def]
    Memory_peak_def [abs_def] Memory_max_def [abs_def] Memory_high_def [abs_def] Memory_low_def [abs_def]
    Memory_min_def [abs_def] Memory_oom_group_def [abs_def] Memory_events_def [abs_def] Memory_events_local_def [abs_def] Memory_stat_def [abs_def] Memory_numa_stat_def [abs_def] Memory_pressure_def [abs_def]
    Scalar_read_def Pressure_MEMORY_FILE_NAME_def
  by simp

lemma swap_reads:
  "py_reads ''memory.swap.current'' PySwap_current
   \<and> py_reads ''memory.swap.peak'' PySwap_peak
   \<and> py_reads ''memory.swap.max'' PySwap_max
   \<and> py_reads ''memory.swap.high'' PySwap_high
   \<and> py_reads ''memory.swap.events'' PySwap_events
   \<and> py_reads ''memory.zswap.current'' PyZswap_current
   \<and> py_reads ''memory.zswap.max'' PyZswap_max
   \<and> py_reads ''memory.zswap.writeback'' PyZswap_writeback"
  unfolding
    PySwap_current_def [abs_def] PySwap_peak_def [abs_def] PySwap_max_def [abs_def] PySwap_high_def [abs_def]
    PySwap_events_def [abs_def] PyZswap_current_def [abs_def] PyZswap_max_def [abs_def] PyZswap_writeback_def [abs_def] Swap_current_def [abs_def] Swap_peak_def [abs_def] Swap_max_def [abs_def] Swap_high_def [abs_def]
    Swap_events_def [abs_def] Zswap_current_def [abs_def] Zswap_max_def [abs_def] Zswap_writeback_def [abs_def]
    Scalar_read_def
  by simp

section \<open>From the file to the Python mapping\<close>

text \<open>
  A mapping of Python shows a table of fields: under the kernel's name of a field the parsed value
  of its key in the file, nothing when the file has no such key, and nothing under other names.
\<close>

definition shows_table ::
  "(string \<Rightarrow> ParseValueError + 'v) \<Rightarrow> ('f \<Rightarrow> string) \<Rightarrow> KeyedFields \<Rightarrow> (string, 'v Quantity) btree \<Rightarrow> bool" where
  "shows_table parse name kf t \<longleftrightarrow>
     (\<forall>f. optional parse kf (name f) = Inr (map_option quantity_inner (btree_get t (name f))))
     \<and> (\<forall>n. n \<notin> range name \<longrightarrow> btree_get t n = None)"

lemma shows_table_fields:
  assumes "reads parse name (btree_get (kf_values kf)) t" "inj name" "btree_inv t"
  shows "shows_table parse name kf (MemoryValues_fields name t Quantity)"
  using assms(1) unfolding shows_table_def MemoryValues_fields_def reads_optional
  by (simp add: btree_get_renamed_inj [OF assms(2,3)] option.map_comp comp_def option.map_ident)

lemma inj_MemoryStat_names:
  "inj MemoryStatByteField_name" "inj MemoryStatPageField_name" "inj MemoryStatCountField_name"
  by (auto intro!: injI dest: byte_field.name_inj page_field.name_inj count_field.name_inj)

text \<open>C14: \<open>Memory.stat()\<close> in Python shows the kernel's file. When it returns, the file \<open>memory.stat\<close> of
  the handle's directory was read and is a file of keyed fields, and the mappings of bytes, pages and
  counts show exactly the tables of the crate over it: under the kernel's name the value of the last
  line with that key, nothing for an absent key or another name, and always \<open>anon\<close> and \<open>file\<close>.\<close>

theorem PyMemory_stat_correct:
  assumes "PyMemory_stat py os cg = Inr stat"
  shows "\<exists>contents kf. read_file os (directory cg) ''memory.stat'' = Inr contents
    \<and> KeyedFields_parse contents (\<lambda>_. ''value'') = Inr kf
    \<and> shows_table parse_bytes MemoryStatByteField_name kf (py_stat_bytes stat)
    \<and> shows_table parse_pages MemoryStatPageField_name kf (py_stat_pages stat)
    \<and> shows_table parse_count MemoryStatCountField_name kf (py_stat_counts stat)
    \<and> btree_get (py_stat_bytes stat) ''anon'' \<noteq> None \<and> btree_get (py_stat_bytes stat) ''file'' \<noteq> None"
proof -
  from assms obtain core where core: "Memory_stat os cg = Inr core" and stat: "stat = PyMemoryStat_from core"
    by (auto simp: PyMemory_stat_def PythonError_read_def PythonError_result_def map_ok_eq_Inr map_err_eq_Inr)
  from core obtain contents where contents: "read_file os (directory cg) ''memory.stat'' = Inr contents"
      "MemoryStat_from_str contents = Inr core"
    by (auto simp: Memory_stat_def Cgroup_parse_Inr_iff)
  from MemoryStat_from_str_keyed [OF contents(2)] obtain kf where
    kf: "KeyedFields_parse contents (\<lambda>_. ''value'') = Inr kf" "MemoryStat_reads (btree_get (kf_values kf)) core"
      "MemoryStat_inv core" "btree_get (stat_bytes core) Anon \<noteq> None" "btree_get (stat_bytes core) File \<noteq> None"
    by (auto simp: btree_contains_key_def)
  have "btree_get (py_stat_bytes stat) (MemoryStatByteField_name f) = map_option Quantity (btree_get (stat_bytes core) f)"
    for f
    using kf(3) by (simp add: stat PyMemoryStat_from_def MemoryStat_inv_def MemoryValues_fields_def
        btree_get_renamed_inj inj_MemoryStat_names)
  from this [of Anon] this [of File] kf contents(1) show ?thesis
    by (auto simp: stat PyMemoryStat_from_def MemoryStat_reads_def MemoryStat_inv_def
        intro!: exI [of _ contents] exI [of _ kf] shows_table_fields inj_MemoryStat_names)
qed

lemma MemoryStat_example_read:
  "PyMemory_stat demo_python (constant_os (render_pairs (MemoryStat_pairs MemoryStat_example)))
     \<lparr>directory = 0, cgroup_path = ''/sys/fs/cgroup/a''\<rparr> = Inr (PyMemoryStat_from MemoryStat_example)"
proof -
  have "MemoryStat_from_str (render_pairs (MemoryStat_pairs MemoryStat_example)) = Inr MemoryStat_example"
    using MemoryStat_fold_render [OF MemoryStat_example_inv]
    by (simp add: MemoryStat_from_str_def require_baseline_Inr_iff and_then_eq_Inr btree_contains_key_def)
      (simp add: MemoryStat_example_def btree_get_def)
  then show ?thesis
    by (simp add: PyMemory_stat_def PythonError_read_def PythonError_result_def Memory_stat_def
        Cgroup_parse_def Cgroup_read_def read_file_constant_os components_single)
qed

theorem PyMemory_stat_correct_witness:
  "\<exists>kf. KeyedFields_parse (render_pairs (MemoryStat_pairs MemoryStat_example)) (\<lambda>_. ''value'') = Inr kf
    \<and> optional parse_bytes kf ''anon'' = Inr (Some (Bytes_byte 8192))
    \<and> shows_table parse_count MemoryStatCountField_name kf (py_stat_counts (PyMemoryStat_from MemoryStat_example))"
proof -
  have get: "btree_get (py_stat_bytes (PyMemoryStat_from MemoryStat_example)) (MemoryStatByteField_name Anon)
      = Some (Quantity (Bytes_byte 8192))"
    using MemoryStat_example_inv
    by (simp add: PyMemoryStat_from_def MemoryStat_inv_def MemoryValues_fields_def btree_get_renamed_inj
        inj_MemoryStat_names del: MemoryStatByteField_name.simps)
      (simp add: MemoryStat_example_def btree_get_def)
  show ?thesis
    using PyMemory_stat_correct [OF MemoryStat_example_read] get
    by (auto simp: read_file_constant_os components_single shows_table_def dest!: spec [of _ Anon])
qed

end
