(* ===== verification/Sakai_Device.thy ===== *)
theory Sakai_Device
  imports Field_Record
begin

text \<open>
  Block devices and the files with one line per device, \<open>Device\<close> and \<open>Device::parse_lines\<close> of
  \<open>sakai/src/cgroup/v2/io/mod.rs\<close>: a device number, then \<open>key=value\<close> tokens that a
  \<open>from_fields\<close> reads. The round trip of such files holds for every \<open>field_record\<close>.
\<close>

section \<open>Devices\<close>

datatype Device = Device (device_major: u32) (device_minor: u32)

text \<open>The derived \<open>Ord\<close>: by major number, then by minor number.\<close>

instantiation Device :: linorder
begin

definition less_eq_Device :: "Device \<Rightarrow> Device \<Rightarrow> bool" where
  "a \<le> b \<longleftrightarrow> device_major a < device_major b \<or>
     device_major a = device_major b \<and> device_minor a \<le> device_minor b"

definition less_Device :: "Device \<Rightarrow> Device \<Rightarrow> bool" where
  "a < b \<longleftrightarrow> device_major a < device_major b \<or>
     device_major a = device_major b \<and> device_minor a < device_minor b"

instance
  by intro_classes (auto simp: less_eq_Device_def less_Device_def intro: Device.expand)

end

definition device_part :: "string \<Rightarrow> string \<Rightarrow> string \<Rightarrow> u32 parsed" where
  "device_part raw value part =
     map_err (\<lambda>e. ParseError_invalid raw ''device'' value (Integer e)) (parse_u part)"

definition Device_parse :: "string \<Rightarrow> string \<Rightarrow> Device parsed" where
  "Device_parse raw value =
     and_then (ok_or (ParseError_invalid raw ''device'' value OutOfRange) (split_once '':'' value)) (\<lambda>(major, minor).
     and_then (device_part raw value major) (\<lambda>a.
     and_then (device_part raw value minor) (\<lambda>b. Inr (Device a b))))"

definition Device_from_str :: "string \<Rightarrow> Device parsed" where
  "Device_from_str value = Device_parse value value"

definition Device_parse_line :: "(KeyedFields \<Rightarrow> 'v parsed) \<Rightarrow> string \<Rightarrow> string \<Rightarrow> (Device \<times> 'v) parsed" where
  "Device_parse_line parse raw line =
     (case split_ascii_whitespace line of
        [] \<Rightarrow> Inl (ParseError_missing raw ''device'')
      | d # tokens \<Rightarrow>
          and_then (Device_parse raw d) (\<lambda>device.
            if tokens = [] then Inl (ParseError_missing raw ''value'')
            else and_then (assignments raw tokens) (\<lambda>kf. and_then (parse kf) (\<lambda>v. Inr (device, v)))))"

definition Device_parse_lines :: "(KeyedFields \<Rightarrow> 'v parsed) \<Rightarrow> string \<Rightarrow> (Device, 'v) btree parsed" where
  "Device_parse_lines parse raw =
     map_ok btree_collect (collect_results (map (Device_parse_line parse raw) (nonblank_lines raw)))"

section \<open>Devices are read back\<close>

definition render_device :: "Device \<Rightarrow> string" where
  "render_device d = show_u (device_major d) @ '':'' @ show_u (device_minor d)"

lemma Device_parse_render [simp]: "Device_parse raw (render_device d) = Inr d"
proof -
  have "CHR '':'' \<notin> set (show_u (device_major d))"
    by (rule not_digit_not_in_digits) simp_all
  then show ?thesis by (cases d) (simp add: Device_parse_def render_device_def split_once_char device_part_def)
qed

lemma is_key_render_device [simp]: "is_key (render_device d)"
proof -
  have "is_token (render_device d)"
    using is_token_append [of "'':''" "show_u (device_minor d)"]
    by (simp add: render_device_def is_token_def [of "'':''"] is_ascii_whitespace_def)
  moreover have "hd (render_device d) = hd (show_u (device_major d))"
    by (simp add: render_device_def)
  moreover have "ink (hd (show_u (device_major d)))"
    using all_digits_show_u [of "device_major d"] hd_in_set [of "show_u (device_major d)"]
    by (auto simp: all_digits_def is_ascii_digit_ink)
  ultimately show ?thesis by (simp add: is_key_def)
qed

lemma is_token_render_device [simp]: "is_token (render_device d)"
  using is_key_render_device by (simp add: is_key_def)

definition device_words :: "('a \<Rightarrow> (string \<times> string) list) \<Rightarrow> Device \<times> 'a \<Rightarrow> string list" where
  "device_words pairs e = render_device (fst e) # render_assignments (pairs (snd e))"

definition render_device_lines :: "('a \<Rightarrow> (string \<times> string) list) \<Rightarrow> (Device \<times> 'a) list \<Rightarrow> string" where
  "render_device_lines pairs es = unlines (map unwords (map (device_words pairs) es))"

lemma reports_Device_parse [reports_intros]: "reports raw (Device_parse raw value)"
  by (auto simp: Device_parse_def device_part_def intro!: reports_intros)

context field_record
begin

lemma device_line_round_trip:
  assumes "valid (snd e)" "fields (snd e) \<noteq> []"
  shows "is_word_line (device_words fields e)"
    and "Device_parse_line from_fields raw (unwords (device_words fields e)) = Inr (fst e, view (snd e))"
proof -
  show line: "is_word_line (device_words fields e)"
    using is_key_render_device [of "fst e"] tokens_are_tokens [OF assms(1)]
    by (simp add: is_word_line_def device_words_def is_key_def)
  note split = unwords_line(3) [OF line]
  show "Device_parse_line from_fields raw (unwords (device_words fields e)) = Inr (fst e, view (snd e))"
    using assms tokens_round_trip [OF assms(1), of raw]
    unfolding Device_parse_line_def split
    by (auto simp: device_words_def tokens_empty and_then_eq_Inr)
qed

lemma device_lines_round_trip:
  assumes "\<forall>e \<in> set es. valid (snd e) \<and> fields (snd e) \<noteq> []"
  shows "Device_parse_lines from_fields (render_device_lines fields es) =
    Inr (btree_collect (map (\<lambda>e. (fst e, view (snd e))) es))"
proof -
  have "nonblank_lines (render_device_lines fields es) = map unwords (map (device_words fields) es)"
    unfolding render_device_lines_def using assms
    by (intro nonblank_lines_words) (auto intro: device_line_round_trip(1))
  moreover have "map (Device_parse_line from_fields raw) (map unwords (map (device_words fields) es))
      = map Inr (map (\<lambda>e. (fst e, view (snd e))) es)" for raw
    using assms by (auto simp: device_line_round_trip(2))
  ultimately show ?thesis by (simp only: Device_parse_lines_def collect_results_Inr map_ok.simps)
qed

lemma device_lines_reports: "reports raw (Device_parse_lines from_fields raw)"
proof -
  have "reports raw (Device_parse_line from_fields raw line)" for line
    by (auto simp: Device_parse_line_def split: list.split prod.split
        intro!: reports_intros fields_reports dest: kf_raw_assignments)
  then show ?thesis by (auto simp: Device_parse_lines_def intro!: reports_intros)
qed

end

end
