(* ===== verification/Sakai_Io.thy ===== *)
theory Sakai_Io
  imports Sakai_Pressure Sakai_Device Keyed_Entries
begin

text \<open>
  The I/O controller, \<open>sakai/src/cgroup/v2/io/\<close>: files with one line per block device
  (statistics, limits, latency targets, cost parameters), the weights, the priority class and
  the readers.
\<close>

section \<open>\<open>io.max\<close>\<close>

definition parse_bandwidth :: "string \<Rightarrow> ParseValueError + BytesPerSecond" where
  "parse_bandwidth value = map_ok Byte_per_second (parse_uint value)"

definition parse_iops :: "string \<Rightarrow> ParseValueError + OperationsPerSecond" where
  "parse_iops value = map_ok Hertz (parse_uint value)"

record IoDeviceMax =
  max_read_bandwidth :: "BytesPerSecond MaxOr"
  max_write_bandwidth :: "BytesPerSecond MaxOr"
  max_read_iops :: "OperationsPerSecond MaxOr"
  max_write_iops :: "OperationsPerSecond MaxOr"

definition IoDeviceMax_from_fields :: "KeyedFields \<Rightarrow> IoDeviceMax parsed" where
  "IoDeviceMax_from_fields kf =
     and_then (required (parse_max_or parse_bandwidth) kf ''rbps'') (\<lambda>rb.
     and_then (required (parse_max_or parse_bandwidth) kf ''wbps'') (\<lambda>wb.
     and_then (required (parse_max_or parse_iops) kf ''riops'') (\<lambda>ri.
     and_then (required (parse_max_or parse_iops) kf ''wiops'') (\<lambda>wi.
     Inr \<lparr>max_read_bandwidth = rb, max_write_bandwidth = wb, max_read_iops = ri, max_write_iops = wi\<rparr>))))"

record IoMax = max_devices :: "(Device, IoDeviceMax) btree"

definition IoMax_from_str :: "string \<Rightarrow> IoMax parsed" where
  "IoMax_from_str contents =
     and_then (Device_parse_lines IoDeviceMax_from_fields contents) (\<lambda>ds. Inr \<lparr>max_devices = ds\<rparr>)"

section \<open>\<open>io.latency\<close>\<close>

definition IoLatency_from_fields :: "KeyedFields \<Rightarrow> NonZeroTime parsed" where
  "IoLatency_from_fields kf = required parse_nonzero_microseconds kf ''target''"

record IoLatency = latency_devices :: "(Device, NonZeroTime) btree"

definition IoLatency_from_str :: "string \<Rightarrow> IoLatency parsed" where
  "IoLatency_from_str contents =
     and_then (Device_parse_lines IoLatency_from_fields contents) (\<lambda>ds. Inr \<lparr>latency_devices = ds\<rparr>)"

section \<open>\<open>io.weight\<close>\<close>

text \<open>The nutype \<open>io::Weight\<close>: \<open>greater_or_equal = 1, less_or_equal = 10_000\<close> over \<open>u16\<close>.\<close>

datatype Weight_io = Weight_io (weight_io_inner: u16)

definition Weight_io_try_new :: "u16 \<Rightarrow> Weight_io option" where
  "Weight_io_try_new n = (if 1 \<le> n \<and> n \<le> 10000 then Some (Weight_io n) else None)"

definition parse_weight_io :: "string \<Rightarrow> ParseValueError + Weight_io" where
  "parse_weight_io value = and_then (parse_uint value) (\<lambda>n. ok_or OutOfRange (Weight_io_try_new n))"

record IoWeight =
  weight_default :: Weight_io
  weight_devices :: "(Device, Weight_io) btree"

definition IoWeight_from_str :: "string \<Rightarrow> IoWeight parsed" where
  "IoWeight_from_str contents =
     and_then (KeyedFields_parse contents (\<lambda>_. ''weight'')) (\<lambda>kf.
     and_then (required parse_weight_io kf ''default'') (\<lambda>default.
     and_then (map_ok btree_collect (collect_results (map (\<lambda>(key, value).
         and_then (Device_parse contents key) (\<lambda>d.
         and_then (parse_field parse_weight_io contents ''weight'' value) (\<lambda>w. Inr (d, w))))
       (filter (\<lambda>(key, value). key \<noteq> ''default'') (KeyedFields_iter kf))))) (\<lambda>devices.
     Inr \<lparr>weight_default = default, weight_devices = devices\<rparr>)))"

section \<open>\<open>io.stat\<close>\<close>

text \<open>The nutype \<open>DelayUsage\<close>: \<open>greater_or_equal = -1\<close> over \<open>i32\<close>.\<close>

datatype DelayUsage = DelayUsage (delay_usage_inner: i32)

definition DelayUsage_try_new :: "i32 \<Rightarrow> DelayUsage option" where
  "DelayUsage_try_new n = (if - 1 \<le> sint n then Some (DelayUsage n) else None)"

definition parse_delay_usage :: "string \<Rightarrow> ParseValueError + DelayUsage" where
  "parse_delay_usage value = and_then (parse_int value) (\<lambda>n. ok_or OutOfRange (DelayUsage_try_new n))"

text \<open>The nutype \<open>CostPercent\<close>: \<open>finite, greater_or_equal = 0.0\<close>.\<close>

definition CostPercent_try_new :: "f64 \<Rightarrow> f64 option" where
  "CostPercent_try_new x = (if is_finite x \<and> f64_le (Finite False 0) x then Some x else None)"

definition parse_cost_percent :: "string \<Rightarrow> ParseValueError + Ratio" where
  "parse_cost_percent value = and_then (parse_float value) (\<lambda>x.
     and_then (ok_or OutOfRange (CostPercent_try_new x)) (\<lambda>p. Inr (Ratio_percent p)))"

definition parse_nanoseconds :: "string \<Rightarrow> ParseValueError + Time" where
  "parse_nanoseconds value = map_ok Time_ns (parse_uint value)"

definition nanoseconds_per_millisecond :: u64 where
  "nanoseconds_per_millisecond = 1000000"

definition parse_milliseconds :: "string \<Rightarrow> ParseValueError + Time" where
  "parse_milliseconds value = and_then (parse_uint value) (\<lambda>n.
     and_then (ok_or OutOfRange (checked_mul n nanoseconds_per_millisecond)) (\<lambda>ns. Inr (Time_ns ns)))"

record IoDeviceStat =
  dev_read_bytes :: "Bytes option"
  dev_write_bytes :: "Bytes option"
  dev_discard_bytes :: "Bytes option"
  dev_read_operations :: "Count option"
  dev_write_operations :: "Count option"
  dev_discard_operations :: "Count option"
  dev_delay_usage :: "DelayUsage option"
  dev_delay :: "Time option"
  dev_depth :: "Count MaxOr option"
  dev_average_latency :: "Time option"
  dev_latency_window :: "Time option"
  dev_missed :: "Count option"
  dev_total :: "Count option"
  dev_cost_usage :: "Time option"
  dev_cost_wait :: "Time option"
  dev_cost_indebt :: "Time option"
  dev_cost_indelay :: "Time option"
  dev_cost_vrate :: "Ratio option"

definition IoDeviceStat_from_fields :: "KeyedFields \<Rightarrow> IoDeviceStat parsed" where
  "IoDeviceStat_from_fields kf =
     and_then (optional parse_bytes kf ''rbytes'') (\<lambda>read_bytes.
     and_then (optional parse_bytes kf ''wbytes'') (\<lambda>write_bytes.
     and_then (optional parse_bytes kf ''dbytes'') (\<lambda>discard_bytes.
     and_then (optional parse_count kf ''rios'') (\<lambda>read_operations.
     and_then (optional parse_count kf ''wios'') (\<lambda>write_operations.
     and_then (optional parse_count kf ''dios'') (\<lambda>discard_operations.
     and_then (optional parse_delay_usage kf ''use_delay'') (\<lambda>delay_usage.
     and_then (optional parse_nanoseconds kf ''delay_nsec'') (\<lambda>delay.
     and_then (optional (parse_max_or parse_count) kf ''depth'') (\<lambda>depth.
     and_then (optional parse_microseconds kf ''avg_lat'') (\<lambda>average_latency.
     and_then (optional parse_milliseconds kf ''win'') (\<lambda>latency_window.
     and_then (optional parse_count kf ''missed'') (\<lambda>missed.
     and_then (optional parse_count kf ''total'') (\<lambda>total.
     and_then (optional parse_microseconds kf ''cost.usage'') (\<lambda>cost_usage.
     and_then (optional parse_microseconds kf ''cost.wait'') (\<lambda>cost_wait.
     and_then (optional parse_microseconds kf ''cost.indebt'') (\<lambda>cost_indebt.
     and_then (optional parse_microseconds kf ''cost.indelay'') (\<lambda>cost_indelay.
     and_then (optional parse_cost_percent kf ''cost.vrate'') (\<lambda>cost_vrate.
     Inr \<lparr>dev_read_bytes = read_bytes, dev_write_bytes = write_bytes, dev_discard_bytes = discard_bytes,
          dev_read_operations = read_operations, dev_write_operations = write_operations, dev_discard_operations = discard_operations,
          dev_delay_usage = delay_usage, dev_delay = delay, dev_depth = depth,
          dev_average_latency = average_latency, dev_latency_window = latency_window, dev_missed = missed,
          dev_total = total, dev_cost_usage = cost_usage, dev_cost_wait = cost_wait,
          dev_cost_indebt = cost_indebt, dev_cost_indelay = cost_indelay, dev_cost_vrate = cost_vrate\<rparr>))))))))))))))))))"

record IoStat = stat_devices :: "(Device, IoDeviceStat) btree"

definition IoStat_from_str :: "string \<Rightarrow> IoStat parsed" where
  "IoStat_from_str contents =
     and_then (Device_parse_lines IoDeviceStat_from_fields contents) (\<lambda>ds. Inr \<lparr>stat_devices = ds\<rparr>)"

section \<open>\<open>io.cost.qos\<close> and \<open>io.cost.model\<close>\<close>

datatype IoCostControl = Auto | User

definition IoCostControl_variants :: "IoCostControl list" where
  "IoCostControl_variants = [Auto, User]"

fun IoCostControl_name :: "IoCostControl \<Rightarrow> string" where
  "IoCostControl_name Auto = ''auto''"
| "IoCostControl_name User = ''user''"

datatype IoCostModelName = Linear

definition IoCostModelName_variants :: "IoCostModelName list" where
  "IoCostModelName_variants = [Linear]"

fun IoCostModelName_name :: "IoCostModelName \<Rightarrow> string" where
  "IoCostModelName_name Linear = ''linear''"

definition parse_cost_control :: "string \<Rightarrow> ParseValueError + IoCostControl" where
  "parse_cost_control value =
     ok_or OutOfRange (enum_from_str IoCostControl_name IoCostControl_variants value)"

definition parse_cost_model_name :: "string \<Rightarrow> ParseValueError + IoCostModelName" where
  "parse_cost_model_name value =
     ok_or OutOfRange (enum_from_str IoCostModelName_name IoCostModelName_variants value)"

text \<open>The nutype \<open>ScalingPercent\<close>: \<open>finite, greater_or_equal = 1.0, less_or_equal = 10_000.0\<close>.\<close>

definition ScalingPercent_try_new :: "f64 \<Rightarrow> f64 option" where
  "ScalingPercent_try_new x =
     (if is_finite x \<and> f64_le (Finite False 1) x \<and> f64_le x (Finite False 10000) then Some x else None)"

definition parse_scaling_percent :: "string \<Rightarrow> ParseValueError + Ratio" where
  "parse_scaling_percent value = and_then (parse_float value) (\<lambda>x.
     and_then (ok_or OutOfRange (ScalingPercent_try_new x)) (\<lambda>p. Inr (Ratio_percent p)))"

record IoDeviceCostQos =
  qos_enabled :: bool
  qos_control :: IoCostControl
  qos_read_percentile :: Ratio
  qos_read_latency :: Time
  qos_write_percentile :: Ratio
  qos_write_latency :: Time
  qos_min_scaling :: Ratio
  qos_max_scaling :: Ratio

definition IoDeviceCostQos_from_fields :: "KeyedFields \<Rightarrow> IoDeviceCostQos parsed" where
  "IoDeviceCostQos_from_fields kf =
     and_then (required parse_boolean kf ''enable'') (\<lambda>enabled.
     and_then (required parse_cost_control kf ''ctrl'') (\<lambda>control.
     and_then (required parse_percent kf ''rpct'') (\<lambda>rpct.
     and_then (required parse_microseconds kf ''rlat'') (\<lambda>rlat.
     and_then (required parse_percent kf ''wpct'') (\<lambda>wpct.
     and_then (required parse_microseconds kf ''wlat'') (\<lambda>wlat.
     and_then (required parse_scaling_percent kf ''min'') (\<lambda>min.
     and_then (required parse_scaling_percent kf ''max'') (\<lambda>max.
     Inr \<lparr>qos_enabled = enabled, qos_control = control, qos_read_percentile = rpct, qos_read_latency = rlat,
          qos_write_percentile = wpct, qos_write_latency = wlat, qos_min_scaling = min,
          qos_max_scaling = max\<rparr>))))))))"

record IoCostQos = qos_devices :: "(Device, IoDeviceCostQos) btree"

definition IoCostQos_from_str :: "string \<Rightarrow> IoCostQos parsed" where
  "IoCostQos_from_str contents =
     and_then (Device_parse_lines IoDeviceCostQos_from_fields contents) (\<lambda>ds. Inr \<lparr>qos_devices = ds\<rparr>)"

record IoDeviceCostModel =
  model_control :: IoCostControl
  model_name :: IoCostModelName
  model_read_bandwidth :: BytesPerSecond
  model_read_sequential_iops :: OperationsPerSecond
  model_read_random_iops :: OperationsPerSecond
  model_write_bandwidth :: BytesPerSecond
  model_write_sequential_iops :: OperationsPerSecond
  model_write_random_iops :: OperationsPerSecond

definition IoDeviceCostModel_from_fields :: "KeyedFields \<Rightarrow> IoDeviceCostModel parsed" where
  "IoDeviceCostModel_from_fields kf =
     and_then (required parse_cost_control kf ''ctrl'') (\<lambda>control.
     and_then (required parse_cost_model_name kf ''model'') (\<lambda>model.
     and_then (required parse_bandwidth kf ''rbps'') (\<lambda>rbps.
     and_then (required parse_iops kf ''rseqiops'') (\<lambda>rseq.
     and_then (required parse_iops kf ''rrandiops'') (\<lambda>rrand.
     and_then (required parse_bandwidth kf ''wbps'') (\<lambda>wbps.
     and_then (required parse_iops kf ''wseqiops'') (\<lambda>wseq.
     and_then (required parse_iops kf ''wrandiops'') (\<lambda>wrand.
     Inr \<lparr>model_control = control, model_name = model, model_read_bandwidth = rbps,
          model_read_sequential_iops = rseq, model_read_random_iops = rrand, model_write_bandwidth = wbps,
          model_write_sequential_iops = wseq, model_write_random_iops = wrand\<rparr>))))))))"

record IoCostModel = model_devices :: "(Device, IoDeviceCostModel) btree"

definition IoCostModel_from_str :: "string \<Rightarrow> IoCostModel parsed" where
  "IoCostModel_from_str contents =
     and_then (Device_parse_lines IoDeviceCostModel_from_fields contents) (\<lambda>ds. Inr \<lparr>model_devices = ds\<rparr>)"

section \<open>\<open>io.prio.class\<close>\<close>

datatype IoPriorityClass = NoChange | PromoteToRt | RestrictToBe | IdleClass | NoneToRt

fun IoPriorityClass_display :: "IoPriorityClass \<Rightarrow> string" where
  "IoPriorityClass_display NoChange = ''no-change''"
| "IoPriorityClass_display PromoteToRt = ''promote-to-rt''"
| "IoPriorityClass_display RestrictToBe = ''restrict-to-be''"
| "IoPriorityClass_display IdleClass = ''idle''"
| "IoPriorityClass_display NoneToRt = ''none-to-rt''"

definition IoPriorityClass_from_str :: "string \<Rightarrow> IoPriorityClass parsed" where
  "IoPriorityClass_from_str raw =
     (let value = trim raw in
      if value = [] then Inl (ParseError_missing raw ''priority'')
      else if value = ''no-change'' then Inr NoChange
      else if value = ''promote-to-rt'' then Inr PromoteToRt
      else if value = ''restrict-to-be'' then Inr RestrictToBe
      else if value = ''idle'' then Inr IdleClass
      else if value = ''none-to-rt'' then Inr NoneToRt
      else Inl (ParseError_invalid raw ''priority'' value OutOfRange))"

section \<open>The readers\<close>

definition Io_stat :: "('d, 'x) os_scheme \<Rightarrow> 'd Cgroup \<Rightarrow> Error + IoStat" where
  "Io_stat os cg = Cgroup_parse IoStat_from_str os cg ''io.stat''"

definition Io_weight :: "('d, 'x) os_scheme \<Rightarrow> 'd Cgroup \<Rightarrow> Error + IoWeight" where
  "Io_weight os cg = Cgroup_parse IoWeight_from_str os cg ''io.weight''"

definition Io_max :: "('d, 'x) os_scheme \<Rightarrow> 'd Cgroup \<Rightarrow> Error + IoMax" where
  "Io_max os cg = Cgroup_parse IoMax_from_str os cg ''io.max''"

definition Io_latency :: "('d, 'x) os_scheme \<Rightarrow> 'd Cgroup \<Rightarrow> Error + IoLatency" where
  "Io_latency os cg = Cgroup_parse IoLatency_from_str os cg ''io.latency''"

definition Io_cost_qos :: "('d, 'x) os_scheme \<Rightarrow> 'd Cgroup \<Rightarrow> Error + IoCostQos" where
  "Io_cost_qos os cg = Cgroup_parse IoCostQos_from_str os cg ''io.cost.qos''"

definition Io_cost_model :: "('d, 'x) os_scheme \<Rightarrow> 'd Cgroup \<Rightarrow> Error + IoCostModel" where
  "Io_cost_model os cg = Cgroup_parse IoCostModel_from_str os cg ''io.cost.model''"

definition Io_priority_class :: "('d, 'x) os_scheme \<Rightarrow> 'd Cgroup \<Rightarrow> Error + IoPriorityClass" where
  "Io_priority_class os cg = Cgroup_parse IoPriorityClass_from_str os cg ''io.prio.class''"

definition Io_pressure :: "('d, 'x) os_scheme \<Rightarrow> 'd Cgroup \<Rightarrow> Error + Pressure" where
  "Io_pressure os cg = Cgroup_parse Pressure_from_str os cg Pressure_IO_FILE_NAME"

section \<open>The values are read back\<close>

lemma parse_uint_map_render:
  "map_ok C (parse_uint (show_u w)) = Inr (C w)" for w :: "'a::len word"
  by simp

definition render_bandwidth :: "BytesPerSecond \<Rightarrow> string" where
  "render_bandwidth b = show_u (byte_per_second b)"

definition render_iops :: "OperationsPerSecond \<Rightarrow> string" where
  "render_iops n = show_u (hertz n)"

definition render_nanoseconds :: "Time \<Rightarrow> string" where
  "render_nanoseconds t = show_u (nanosecond t)"

definition valid_milliseconds :: "Time \<Rightarrow> bool" where
  "valid_milliseconds t \<longleftrightarrow> 1000000 dvd unat (nanosecond t)"

definition render_milliseconds :: "Time \<Rightarrow> string" where
  "render_milliseconds t = show_nat (unat (nanosecond t) div 1000000)"

definition valid_weight_io :: "Weight_io \<Rightarrow> bool" where
  "valid_weight_io w \<longleftrightarrow> 1 \<le> weight_io_inner w \<and> weight_io_inner w \<le> 10000"

definition render_weight_io :: "Weight_io \<Rightarrow> string" where
  "render_weight_io w = show_u (weight_io_inner w)"

definition valid_delay_usage :: "DelayUsage \<Rightarrow> bool" where
  "valid_delay_usage d \<longleftrightarrow> - 1 \<le> sint (delay_usage_inner d)"

definition render_delay_usage :: "DelayUsage \<Rightarrow> string" where
  "render_delay_usage d = show_int (sint (delay_usage_inner d))"

interpretation v_bandwidth: numeric_value parse_bandwidth "\<lambda>_. True" render_bandwidth
  by unfold_locales (auto simp: parse_bandwidth_def render_bandwidth_def)

interpretation v_iops: numeric_value parse_iops "\<lambda>_. True" render_iops
  by unfold_locales (auto simp: parse_iops_def render_iops_def)

interpretation v_nanoseconds: numeric_value parse_nanoseconds "\<lambda>_. True" render_nanoseconds
  by unfold_locales (auto simp: parse_nanoseconds_def render_nanoseconds_def)

interpretation v_weight_io: numeric_value parse_weight_io valid_weight_io render_weight_io
proof unfold_locales
  fix s w
  assume "parse_weight_io s = Inr w"
  then show "valid_weight_io w"
    by (auto simp: parse_weight_io_def result_simps Weight_io_try_new_def valid_weight_io_def split: if_splits)
next
  fix w
  assume "valid_weight_io w"
  then show "parse_weight_io (render_weight_io w) = Inr w"
    by (simp add: parse_weight_io_def render_weight_io_def Weight_io_try_new_def valid_weight_io_def)
qed (auto simp: render_weight_io_def)

interpretation v_delay_usage: cgroup_value parse_delay_usage valid_delay_usage render_delay_usage
proof unfold_locales
  fix s d
  assume "parse_delay_usage s = Inr d"
  then show "valid_delay_usage d"
    by (auto simp: parse_delay_usage_def result_simps DelayUsage_try_new_def valid_delay_usage_def split: if_splits)
next
  fix d
  assume "valid_delay_usage d"
  then show "parse_delay_usage (render_delay_usage d) = Inr d"
    by (simp add: parse_delay_usage_def parse_int_def render_delay_usage_def parse_i_show_int
        DelayUsage_try_new_def valid_delay_usage_def)
qed (auto simp: render_delay_usage_def)

lemma parse_milliseconds_Inr_iff:
  "parse_milliseconds s = Inr t \<longleftrightarrow>
     (\<exists>n :: u64. parse_uint s = Inr n \<and> unat (nanosecond t) = 1000000 * unat n)"
proof -
  have "unat nanoseconds_per_millisecond = 1000000" by (simp add: nanoseconds_per_millisecond_def)
  moreover have "Time_ns a = t \<longleftrightarrow> a = nanosecond t" for a by (cases t) auto
  ultimately show ?thesis
    by (simp add: parse_milliseconds_def result_simps checked_mul_Some_iff mult.commute)
qed

interpretation v_milliseconds: numeric_value parse_milliseconds valid_milliseconds render_milliseconds
proof unfold_locales
  fix s t
  assume "parse_milliseconds s = Inr t"
  then show "valid_milliseconds t" by (auto simp: parse_milliseconds_Inr_iff valid_milliseconds_def)
next
  fix t
  assume t: "valid_milliseconds t"
  let ?u = "unat (nanosecond t) div 1000000"
  have "unat (nanosecond t) < 2 ^ LENGTH(64)" by (rule unsigned_less)
  then have u: "unat (of_nat ?u :: u64) = ?u" by (intro of_nat_inverse) auto
  then have "parse_uint (render_milliseconds t) = Inr (of_nat ?u :: u64)"
    by (simp add: parse_uint_def map_err_eq_Inr parse_u_Inr_iff render_milliseconds_def)
  moreover have "1000000 * unat (of_nat ?u :: u64) = unat (nanosecond t)"
    using t u by (simp add: valid_milliseconds_def)
  ultimately show "parse_milliseconds (render_milliseconds t) = Inr t"
    unfolding parse_milliseconds_Inr_iff by metis
qed (auto simp: render_milliseconds_def digits_not_max)

interpretation cost_control: strum_enum IoCostControl_name IoCostControl_variants
proof
  show "f \<in> set IoCostControl_variants" for f by (cases f) (simp_all add: IoCostControl_variants_def)
qed (simp add: IoCostControl_variants_def)

interpretation cost_model_name: strum_enum IoCostModelName_name IoCostModelName_variants
proof
  show "f \<in> set IoCostModelName_variants" for f by (cases f) (simp_all add: IoCostModelName_variants_def)
qed (simp add: IoCostModelName_variants_def)

interpretation v_cost_control: cgroup_value parse_cost_control "\<lambda>_. True" IoCostControl_name
proof unfold_locales
  show "is_token (IoCostControl_name c)" for c by (cases c) (simp_all add: is_token_def is_ascii_whitespace_def)
qed (simp_all add: parse_cost_control_def cost_control.from_str_name)

interpretation v_cost_model_name: cgroup_value parse_cost_model_name "\<lambda>_. True" IoCostModelName_name
proof unfold_locales
  show "is_token (IoCostModelName_name c)" for c by (cases c) (simp_all add: is_token_def is_ascii_whitespace_def)
qed (simp_all add: parse_cost_model_name_def cost_model_name.from_str_name)

text \<open>Percentages with two decimals.\<close>

lemma parse_float_hundredths: "parse_float (render_hundredths n) = Inr (round_f64 False (of_nat n / 100))"
  by (simp add: parse_float_def parse_f64_hundredths)

lemma parse_cost_percent_hundredths:
  assumes "n < 2 ^ 32"
  shows "parse_cost_percent (render_hundredths n) = Inr (hundredths n)"
proof -
  have "(of_nat n :: rat) / 100 \<le> of_nat n" by simp
  then obtain m where "round_f64 False (of_nat n / 100) = Finite False m" "0 \<le> m"
    using round_f64_le_nat [of "of_nat n / 100" n False] assms by auto
  then show ?thesis
    by (simp add: parse_cost_percent_def parse_float_hundredths CostPercent_try_new_def hundredths_def)
qed

lemma parse_scaling_percent_hundredths:
  assumes "100 \<le> n" "n \<le> 1000000"
  shows "parse_scaling_percent (render_hundredths n) = Inr (hundredths n)"
proof -
  have "of_nat 1 \<le> (of_nat n :: rat) / 100" "(of_nat n :: rat) / 100 \<le> of_nat 10000"
    using assms by (simp_all add: field_simps flip: of_nat_mult) 
  then obtain m where "round_f64 False (of_nat n / 100) = Finite False m" "1 \<le> m" "m \<le> 10000"
    using round_f64_between [of 1 "of_nat n / 100" 10000 False] by auto
  then show ?thesis
    by (simp add: parse_scaling_percent_def parse_float_hundredths ScalingPercent_try_new_def hundredths_def)
qed

section \<open>The lines of a device are read back\<close>

lemma key_io [simp]:
  "is_key ''rbytes''" "is_key ''wbytes''" "is_key ''dbytes''"
  "is_key ''rios''" "is_key ''wios''" "is_key ''dios''"
  "is_key ''use_delay''" "is_key ''delay_nsec''" "is_key ''depth''"
  "is_key ''avg_lat''" "is_key ''win''" "is_key ''missed''"
  "is_key ''total''" "is_key ''cost.usage''" "is_key ''cost.wait''"
  "is_key ''cost.indebt''" "is_key ''cost.indelay''" "is_key ''cost.vrate''"
  "is_key ''rbps''" "is_key ''wbps''" "is_key ''riops''"
  "is_key ''wiops''" "is_key ''target''" "is_key ''enable''"
  "is_key ''ctrl''" "is_key ''rpct''" "is_key ''rlat''"
  "is_key ''wpct''" "is_key ''wlat''" "is_key ''min''"
  "is_key ''max''" "is_key ''model''" "is_key ''rseqiops''"
  "is_key ''rrandiops''" "is_key ''wseqiops''" "is_key ''wrandiops''"
  by (simp_all add: is_key_def is_token_def is_ascii_whitespace_def ink_def white_space1_def)

lemmas io_lookup = v_bytes.required_lookup v_count.required_lookup v_bandwidth.required_lookup
  v_iops.required_lookup v_bandwidth.max_or.required_lookup v_iops.max_or.required_lookup
  v_nonzero.required_lookup v_boolean.required_lookup v_microseconds.required_lookup
  v_cost_control.required_lookup v_cost_model_name.required_lookup

lemmas io_tokens = v_bytes.render_token v_count.render_token v_bandwidth.render_token
  v_iops.render_token v_bandwidth.max_or.render_token v_iops.max_or.render_token
  v_nonzero.render_token v_boolean.render_token v_microseconds.render_token
  v_cost_control.render_token v_cost_model_name.render_token v_delay_usage.render_token
  v_nanoseconds.render_token v_milliseconds.render_token v_count.max_or.render_token

definition IoDeviceMax_fields :: "IoDeviceMax \<Rightarrow> (string \<times> string) list" where
  "IoDeviceMax_fields m =
     [(''rbps'', render_max_or render_bandwidth (max_read_bandwidth m)),
      (''wbps'', render_max_or render_bandwidth (max_write_bandwidth m)),
      (''riops'', render_max_or render_iops (max_read_iops m)),
      (''wiops'', render_max_or render_iops (max_write_iops m))]"

lemma reports_IoDeviceMax: "kf_raw kf = raw \<Longrightarrow> reports raw (IoDeviceMax_from_fields kf)"
  unfolding IoDeviceMax_from_fields_def by (intro reports_intros)

interpretation io_device_max: field_record IoDeviceMax_from_fields "\<lambda>_. True" IoDeviceMax_fields "\<lambda>m. m"
proof unfold_locales
  fix m raw
  show "IoDeviceMax_from_fields \<lparr>kf_raw = raw, kf_values = btree_collect (IoDeviceMax_fields m)\<rparr> = Inr m"
    by (cases m) (simp add: IoDeviceMax_from_fields_def IoDeviceMax_fields_def field_lookup io_lookup)
qed (simp_all add: IoDeviceMax_fields_def plain_pair_iff io_tokens reports_IoDeviceMax)

definition IoLatency_fields :: "NonZeroTime \<Rightarrow> (string \<times> string) list" where
  "IoLatency_fields z = [(''target'', render_nonzero_microseconds z)]"

interpretation io_latency:
  field_record IoLatency_from_fields valid_nonzero_microseconds IoLatency_fields "\<lambda>z. z"
  by unfold_locales
    (auto simp: IoLatency_fields_def IoLatency_from_fields_def field_lookup io_lookup plain_pair_iff
      io_tokens intro: reports_required)

definition IoDeviceCostModel_fields :: "IoDeviceCostModel \<Rightarrow> (string \<times> string) list" where
  "IoDeviceCostModel_fields m =
     [(''ctrl'', IoCostControl_name (model_control m)), (''model'', IoCostModelName_name (model_name m)),
      (''rbps'', render_bandwidth (model_read_bandwidth m)),
      (''rseqiops'', render_iops (model_read_sequential_iops m)),
      (''rrandiops'', render_iops (model_read_random_iops m)),
      (''wbps'', render_bandwidth (model_write_bandwidth m)),
      (''wseqiops'', render_iops (model_write_sequential_iops m)),
      (''wrandiops'', render_iops (model_write_random_iops m))]"

lemma reports_IoDeviceCostModel: "kf_raw kf = raw \<Longrightarrow> reports raw (IoDeviceCostModel_from_fields kf)"
  unfolding IoDeviceCostModel_from_fields_def by (intro reports_intros)

interpretation io_cost_model:
  field_record IoDeviceCostModel_from_fields "\<lambda>_. True" IoDeviceCostModel_fields "\<lambda>m. m"
proof unfold_locales
  fix m raw
  show "IoDeviceCostModel_from_fields \<lparr>kf_raw = raw, kf_values = btree_collect (IoDeviceCostModel_fields m)\<rparr> = Inr m"
    by (cases m) (simp add: IoDeviceCostModel_from_fields_def IoDeviceCostModel_fields_def field_lookup io_lookup
        del: IoCostControl_name.simps)
qed (simp_all add: IoDeviceCostModel_fields_def plain_pair_iff io_tokens reports_IoDeviceCostModel
    del: IoCostControl_name.simps)

text \<open>
  The kernel prints the percentages of \<open>io.cost.qos\<close> with two decimals: the texts are given by
  the hundredths of read, write, minimum and maximum, and the rest by a structure.
\<close>

type_synonym cost_percents = "nat \<times> nat \<times> nat \<times> nat"

fun valid_cost_percents :: "cost_percents \<Rightarrow> bool" where
  "valid_cost_percents (rp, wp, mn, mx) \<longleftrightarrow>
     rp \<le> 10000 \<and> wp \<le> 10000 \<and> 100 \<le> mn \<and> mn \<le> 1000000 \<and> 100 \<le> mx \<and> mx \<le> 1000000"

fun IoDeviceCostQos_fields :: "IoDeviceCostQos \<times> cost_percents \<Rightarrow> (string \<times> string) list" where
  "IoDeviceCostQos_fields (q, (rp, wp, mn, mx)) =
     [(''enable'', render_boolean (qos_enabled q)), (''ctrl'', IoCostControl_name (qos_control q)),
      (''rpct'', render_hundredths rp), (''rlat'', render_microseconds (qos_read_latency q)),
      (''wpct'', render_hundredths wp), (''wlat'', render_microseconds (qos_write_latency q)),
      (''min'', render_hundredths mn), (''max'', render_hundredths mx)]"

fun IoDeviceCostQos_view :: "IoDeviceCostQos \<times> cost_percents \<Rightarrow> IoDeviceCostQos" where
  "IoDeviceCostQos_view (q, (rp, wp, mn, mx)) =
     q\<lparr>qos_read_percentile := hundredths rp, qos_write_percentile := hundredths wp,
       qos_min_scaling := hundredths mn, qos_max_scaling := hundredths mx\<rparr>"

definition IoDeviceCostQos_valid :: "IoDeviceCostQos \<times> cost_percents \<Rightarrow> bool" where
  "IoDeviceCostQos_valid qp \<longleftrightarrow> valid_microseconds (qos_read_latency (fst qp))
     \<and> valid_microseconds (qos_write_latency (fst qp)) \<and> valid_cost_percents (snd qp)"

lemma reports_IoDeviceCostQos: "kf_raw kf = raw \<Longrightarrow> reports raw (IoDeviceCostQos_from_fields kf)"
  unfolding IoDeviceCostQos_from_fields_def by (intro reports_intros)

lemma required_hundredths:
  "btree_get (kf_values kf) field = Some (render_hundredths n) \<Longrightarrow> n \<le> 10000 \<Longrightarrow>
   required parse_percent kf field = Inr (hundredths n)"
  "btree_get (kf_values kf) field = Some (render_hundredths n) \<Longrightarrow> 100 \<le> n \<Longrightarrow> n \<le> 1000000 \<Longrightarrow>
   required parse_scaling_percent kf field = Inr (hundredths n)"
  by (auto simp: required_Inr_iff parse_percent_hundredths parse_scaling_percent_hundredths)

interpretation io_cost_qos:
  field_record IoDeviceCostQos_from_fields IoDeviceCostQos_valid IoDeviceCostQos_fields IoDeviceCostQos_view
proof unfold_locales
  fix qp raw
  assume "IoDeviceCostQos_valid qp"
  then show "IoDeviceCostQos_from_fields \<lparr>kf_raw = raw, kf_values = btree_collect (IoDeviceCostQos_fields qp)\<rparr>
      = Inr (IoDeviceCostQos_view qp)"
    by (cases qp rule: IoDeviceCostQos_view.cases)
      (simp add: IoDeviceCostQos_from_fields_def field_lookup io_lookup required_hundredths
        IoDeviceCostQos_valid_def del: IoCostControl_name.simps)
next
  fix qp
  assume "IoDeviceCostQos_valid qp"
  then show "list_all plain_pair (IoDeviceCostQos_fields qp)"
    by (cases qp rule: IoDeviceCostQos_view.cases)
      (simp add: plain_pair_iff io_tokens IoDeviceCostQos_valid_def del: IoCostControl_name.simps)
qed (rule reports_IoDeviceCostQos)

text \<open>The statistics of a device, and the hundredths of its \<open>cost.vrate\<close>.\<close>

definition IoDeviceStat_valid :: "IoDeviceStat \<times> nat option \<Rightarrow> bool" where
  "IoDeviceStat_valid sh \<longleftrightarrow>
     pred_option valid_delay_usage (dev_delay_usage (fst sh))
   \<and> pred_option valid_microseconds (dev_average_latency (fst sh))
   \<and> pred_option valid_milliseconds (dev_latency_window (fst sh))
   \<and> pred_option valid_microseconds (dev_cost_usage (fst sh))
   \<and> pred_option valid_microseconds (dev_cost_wait (fst sh))
   \<and> pred_option valid_microseconds (dev_cost_indebt (fst sh))
   \<and> pred_option valid_microseconds (dev_cost_indelay (fst sh))
   \<and> pred_option (\<lambda>h. h < 2 ^ 32) (snd sh)"

definition IoDeviceStat_fields :: "IoDeviceStat \<times> nat option \<Rightarrow> (string \<times> string) list" where
  "IoDeviceStat_fields sh =
     opt_pair ''rbytes'' render_bytes (dev_read_bytes (fst sh))
   @ opt_pair ''wbytes'' render_bytes (dev_write_bytes (fst sh))
   @ opt_pair ''dbytes'' render_bytes (dev_discard_bytes (fst sh))
   @ opt_pair ''rios'' render_count (dev_read_operations (fst sh))
   @ opt_pair ''wios'' render_count (dev_write_operations (fst sh))
   @ opt_pair ''dios'' render_count (dev_discard_operations (fst sh))
   @ opt_pair ''use_delay'' render_delay_usage (dev_delay_usage (fst sh))
   @ opt_pair ''delay_nsec'' render_nanoseconds (dev_delay (fst sh))
   @ opt_pair ''depth'' (render_max_or render_count) (dev_depth (fst sh))
   @ opt_pair ''avg_lat'' render_microseconds (dev_average_latency (fst sh))
   @ opt_pair ''win'' render_milliseconds (dev_latency_window (fst sh))
   @ opt_pair ''missed'' render_count (dev_missed (fst sh))
   @ opt_pair ''total'' render_count (dev_total (fst sh))
   @ opt_pair ''cost.usage'' render_microseconds (dev_cost_usage (fst sh))
   @ opt_pair ''cost.wait'' render_microseconds (dev_cost_wait (fst sh))
   @ opt_pair ''cost.indebt'' render_microseconds (dev_cost_indebt (fst sh))
   @ opt_pair ''cost.indelay'' render_microseconds (dev_cost_indelay (fst sh))
   @ opt_pair ''cost.vrate'' render_hundredths (snd sh)"

lemma is_token_times [simp]:
  "is_token (render_microseconds t)" "is_token (render_milliseconds t)" "is_token (render_delay_usage d)"
  by (simp_all add: render_microseconds_def render_milliseconds_def render_delay_usage_def)

definition IoDeviceStat_view :: "IoDeviceStat \<times> nat option \<Rightarrow> IoDeviceStat" where
  "IoDeviceStat_view sh = (fst sh)\<lparr>dev_cost_vrate := map_option hundredths (snd sh)\<rparr>"

lemma reports_IoDeviceStat: "kf_raw kf = raw \<Longrightarrow> reports raw (IoDeviceStat_from_fields kf)"
  unfolding IoDeviceStat_from_fields_def by (intro reports_intros)

lemma optional_vrate:
  "pred_option (\<lambda>h. h < 2 ^ 32) h \<Longrightarrow>
   transpose (map_option (parse_field parse_cost_percent raw field) (map_option render_hundredths h)) =
     Inr (map_option hundredths h)"
  by (cases h) (simp_all add: parse_field_def parse_cost_percent_hundredths)

lemmas io_optional = v_bytes.optional_lookup v_count.optional_lookup v_delay_usage.optional_lookup
  v_nanoseconds.optional_lookup v_count.max_or.optional_lookup v_microseconds.optional_lookup
  v_milliseconds.optional_lookup optional_vrate

lemma pred_option_max_or [simp]: "pred_option (valid_max_or (\<lambda>_. True)) v"
  by (cases v) auto

interpretation io_device_stat:
  field_record IoDeviceStat_from_fields IoDeviceStat_valid IoDeviceStat_fields IoDeviceStat_view
proof unfold_locales
  fix sh raw
  assume valid: "IoDeviceStat_valid sh"
  obtain s h where sh: "sh = (s, h)" by (cases sh)
  show "IoDeviceStat_from_fields \<lparr>kf_raw = raw, kf_values = btree_collect (IoDeviceStat_fields sh)\<rparr>
      = Inr (IoDeviceStat_view sh)"
    using valid unfolding sh
    by (cases s) (simp add: IoDeviceStat_from_fields_def IoDeviceStat_fields_def IoDeviceStat_view_def
        IoDeviceStat_valid_def optional_def btree_get_collect_append io_optional cong: option.case_cong)
next
  fix sh
  assume "IoDeviceStat_valid sh"
  then show "list_all plain_pair (IoDeviceStat_fields sh)"
    by (simp add: IoDeviceStat_fields_def IoDeviceStat_valid_def plain_pair_iff io_tokens)
qed (rule reports_IoDeviceStat)


section \<open>Round trips of the device files\<close>

interpretation io_max_file: snapshot_parser IoMax_from_str
  by unfold_locales (auto simp: IoMax_from_str_def intro!: reports_intros io_device_max.device_lines_reports)

interpretation io_latency_file: snapshot_parser IoLatency_from_str
  by unfold_locales (auto simp: IoLatency_from_str_def intro!: reports_intros io_latency.device_lines_reports)

interpretation io_stat_file: snapshot_parser IoStat_from_str
  by unfold_locales (auto simp: IoStat_from_str_def intro!: reports_intros io_device_stat.device_lines_reports)

interpretation io_cost_qos_file: snapshot_parser IoCostQos_from_str
  by unfold_locales (auto simp: IoCostQos_from_str_def intro!: reports_intros io_cost_qos.device_lines_reports)

interpretation io_cost_model_file: snapshot_parser IoCostModel_from_str
  by unfold_locales (auto simp: IoCostModel_from_str_def intro!: reports_intros io_cost_model.device_lines_reports)

interpretation io_weight_file: snapshot_parser IoWeight_from_str
  by unfold_locales (auto simp: IoWeight_from_str_def intro!: reports_intros)

interpretation io_priority_class: snapshot_parser IoPriorityClass_from_str
  by unfold_locales (auto simp: IoPriorityClass_from_str_def Let_def intro!: reports_intros)

text \<open>C36: Reading \<open>io.stat\<close> as the kernel prints it, one line per device with any nonempty subset of
  the eighteen statistics, gives the ordered map from each device to its statistics (the last
  line of a device counts), every value exact and \<open>cost.vrate\<close> rounded to the nearest binary64
  percentage.\<close>

theorem IoStat_round_trip:
  assumes "\<forall>e \<in> set es. IoDeviceStat_valid (snd e) \<and> IoDeviceStat_fields (snd e) \<noteq> []"
  shows "IoStat_from_str (render_device_lines IoDeviceStat_fields es) =
    Inr \<lparr>stat_devices = btree_collect (map (\<lambda>e. (fst e, IoDeviceStat_view (snd e))) es)\<rparr>"
  by (simp add: IoStat_from_str_def io_device_stat.device_lines_round_trip [OF assms])

definition IoDeviceStat_none :: IoDeviceStat where
  "IoDeviceStat_none = \<lparr>dev_read_bytes = None, dev_write_bytes = None, dev_discard_bytes = None,
     dev_read_operations = None, dev_write_operations = None, dev_discard_operations = None,
     dev_delay_usage = None, dev_delay = None, dev_depth = None, dev_average_latency = None,
     dev_latency_window = None, dev_missed = None, dev_total = None, dev_cost_usage = None,
     dev_cost_wait = None, dev_cost_indebt = None, dev_cost_indelay = None, dev_cost_vrate = None\<rparr>"

lemma IoStat_round_trip_witness:
  "IoStat_from_str (render_device_lines IoDeviceStat_fields
      [(Device 8 0, (IoDeviceStat_none\<lparr>dev_read_bytes := Some (Bytes_byte 512), dev_depth := Some MaxLimit\<rparr>, Some 12345))]) =
   Inr \<lparr>stat_devices = [(Device 8 0, IoDeviceStat_none\<lparr>dev_read_bytes := Some (Bytes_byte 512),
     dev_depth := Some MaxLimit, dev_cost_vrate := Some (hundredths 12345)\<rparr>)]\<rparr>"
  by (subst IoStat_round_trip)
    (simp_all add: IoDeviceStat_valid_def IoDeviceStat_fields_def IoDeviceStat_view_def IoDeviceStat_none_def
      btree_collect_def)

text \<open>Reading \<open>io.max\<close> as the kernel prints it gives back, for each device, the four limits of its
  last line, \<open>max\<close> included.\<close>

theorem IoMax_round_trip:
  "IoMax_from_str (render_device_lines IoDeviceMax_fields es) = Inr \<lparr>max_devices = btree_collect es\<rparr>"
proof -
  have "\<forall>e \<in> set es. True \<and> IoDeviceMax_fields (snd e) \<noteq> []" by (simp add: IoDeviceMax_fields_def)
  from io_device_max.device_lines_round_trip [OF this] show ?thesis
    by (simp add: IoMax_from_str_def)
qed

text \<open>Reading \<open>io.cost.qos\<close> as the kernel prints it gives back, for each device, the state, the
  control mode, the latencies exactly and the four percentages rounded to binary64, whenever the
  percentiles are at most 100 percent and the scalings between 1 and 10000 percent.\<close>

lemma IoCostQos_round_trip:
  assumes "\<forall>e \<in> set es. IoDeviceCostQos_valid (snd e)"
  shows "IoCostQos_from_str (render_device_lines IoDeviceCostQos_fields es) =
    Inr \<lparr>qos_devices = btree_collect (map (\<lambda>e. (fst e, IoDeviceCostQos_view (snd e))) es)\<rparr>"
proof -
  have "IoDeviceCostQos_fields qp \<noteq> []" for qp
    by (cases qp rule: IoDeviceCostQos_view.cases) simp
  with assms have "\<forall>e \<in> set es. IoDeviceCostQos_valid (snd e) \<and> IoDeviceCostQos_fields (snd e) \<noteq> []" by simp
  from io_cost_qos.device_lines_round_trip [OF this] show ?thesis
    by (simp add: IoCostQos_from_str_def)
qed

lemma IoCostQos_round_trip_witness:
  "\<exists>q. IoCostQos_from_str (render_device_lines IoDeviceCostQos_fields
      [(Device 8 16, (\<lparr>qos_enabled = True, qos_control = User, qos_read_percentile = hundredths 0,
         qos_read_latency = Time_ns 75000000, qos_write_percentile = hundredths 0, qos_write_latency = Time_ns 150000000,
         qos_min_scaling = hundredths 0, qos_max_scaling = hundredths 0\<rparr>, (9500, 9500, 5000, 15000)))]) = Inr q
    \<and> map fst (qos_devices q) = [Device 8 16]"
  by (subst IoCostQos_round_trip)
    (simp_all add: IoDeviceCostQos_valid_def valid_microseconds_def btree_collect_def)

section \<open>Weights\<close>

definition weight_pair :: "Device \<times> Weight_io \<Rightarrow> string \<times> string" where
  "weight_pair dw = (render_device (fst dw), render_weight_io (snd dw))"

definition IoWeight_pairs :: "IoWeight \<Rightarrow> (string \<times> string) list" where
  "IoWeight_pairs w = (''default'', render_weight_io (weight_default w)) # map weight_pair (weight_devices w)"

definition IoWeight_valid :: "IoWeight \<Rightarrow> bool" where
  "IoWeight_valid w \<longleftrightarrow> valid_weight_io (weight_default w) \<and> btree_inv (weight_devices w)
     \<and> list_all (\<lambda>dw. valid_weight_io (snd dw)) (weight_devices w)"

definition weight_entry :: "string \<Rightarrow> string \<times> string \<Rightarrow> (Device \<times> Weight_io) parsed" where
  "weight_entry contents = (\<lambda>(key, value).
     and_then (Device_parse contents key) (\<lambda>d.
     and_then (parse_field parse_weight_io contents ''weight'' value) (\<lambda>w. Inr (d, w))))"

lemma render_device_inj: "render_device d = render_device d' \<longleftrightarrow> d = d'"
  by (metis Device_parse_render sum.inject(2))

lemma render_device_not_default [simp]: "render_device d \<noteq> ''default''" "''default'' \<noteq> render_device d"
proof -
  have "\<not> is_ascii_digit (CHR ''d'')" by (simp add: is_ascii_digit_def to_digit_def)
  moreover have "is_ascii_digit (hd (render_device d))"
    using all_digits_show_u [of "device_major d"] hd_in_set [of "show_u (device_major d)"]
    by (simp add: render_device_def all_digits_def)
  ultimately show "render_device d \<noteq> ''default''" by force
  then show "''default'' \<noteq> render_device d" by simp
qed

lemma is_key_default: "is_key ''default''"
  by (simp add: is_key_def is_token_def is_ascii_whitespace_def ink_def white_space1_def)

lemma IoWeight_pairs_are_pairs: "IoWeight_valid w \<Longrightarrow> \<forall>kv \<in> set (IoWeight_pairs w). is_pair kv"
  by (auto simp: IoWeight_pairs_def IoWeight_valid_def is_pair_def weight_pair_def list_all_iff
      v_weight_io.render_token is_key_default)

lemma IoWeight_pairs_distinct: "IoWeight_valid w \<Longrightarrow> distinct (map fst (IoWeight_pairs w))"
proof -
  assume "IoWeight_valid w"
  then have "distinct (map fst (weight_devices w))"
    by (simp add: IoWeight_valid_def btree_inv_def strict_sorted_iff)
  then have "distinct (map render_device (map fst (weight_devices w)))"
    by (subst distinct_map) (auto intro: inj_onI simp: render_device_inj)
  moreover have "map fst (map weight_pair (weight_devices w)) = map render_device (map fst (weight_devices w))"
    by (simp add: weight_pair_def)
  ultimately show ?thesis by (auto simp: IoWeight_pairs_def weight_pair_def o_def)
qed

lemma weight_entry_pair: "valid_weight_io (snd dw) \<Longrightarrow> weight_entry contents (weight_pair dw) = Inr dw"
  by (cases dw) (simp add: weight_entry_def weight_pair_def v_weight_io.field_render)

lemma weight_entry_valid: "weight_entry contents kv = Inr dw \<Longrightarrow> valid_weight_io (snd dw)"
proof -
  assume "weight_entry contents kv = Inr dw"
  then have "parse_field parse_weight_io contents ''weight'' (snd kv) = Inr (snd dw)"
    by (cases kv) (auto simp: weight_entry_def and_then_eq_Inr)
  then show ?thesis by (rule v_weight_io.field_valid)
qed

lemma weight_pair_inj: "inj_on weight_pair {dw. valid_weight_io (snd dw)}"
  by (rule inj_onI) (metis mem_Collect_eq weight_entry_pair sum.inject(2))

text \<open>Reading back the default weight and the device weights of \<open>io.weight\<close> gives them all back,
  in whatever order the lines of the file sort by their text, and every weight that is accepted
  lies between 1 and 10000.\<close>

lemma IoWeight_round_trip:
  "(IoWeight_valid w \<longrightarrow> IoWeight_from_str (render_pairs (IoWeight_pairs w)) = Inr w)
   \<and> (IoWeight_from_str contents = Inr w' \<longrightarrow> IoWeight_valid w')"
proof (intro conjI impI)
  assume w: "IoWeight_valid w"
  let ?raw = "render_pairs (IoWeight_pairs w)"
  have inv: "btree_inv (weight_devices w)" using w by (simp add: IoWeight_valid_def)
  have valid: "set (weight_devices w) \<subseteq> {dw. valid_weight_io (snd dw)}"
    using w by (auto simp: IoWeight_valid_def list_all_iff)
  have "\<exists>ts. filter (\<lambda>(key, value). key \<noteq> ''default'')
        (btree_collect ([(''default'', render_weight_io (weight_default w))] @ map weight_pair (weight_devices w)))
      = map weight_pair ts \<and> set ts = set (weight_devices w) \<and> btree_collect ts = weight_devices w"
    using IoWeight_pairs_distinct [OF w] valid
    by (intro encoded_entries [where key = render_device, OF inv])
      (auto simp: weight_pair_def render_device_inj IoWeight_pairs_def intro: inj_on_subset [OF weight_pair_inj])
  then obtain ts where
    ts: "filter (\<lambda>(key, value). key \<noteq> ''default'') (btree_collect (IoWeight_pairs w)) = map weight_pair ts"
    "set ts = set (weight_devices w)" "btree_collect ts = weight_devices w"
    by (auto simp: IoWeight_pairs_def)
  moreover have "map (weight_entry ?raw) (map weight_pair ts) = map Inr ts"
    using w ts(2) by (auto simp: IoWeight_valid_def list_all_iff weight_entry_pair)
  moreover have "btree_get (btree_collect (IoWeight_pairs w)) ''default'' = Some (render_weight_io (weight_default w))"
    using IoWeight_pairs_distinct [OF w]
    by (simp add: btree_get_collect map_of_rev_distinct) (simp add: IoWeight_pairs_def)
  ultimately show "IoWeight_from_str ?raw = Inr w"
    using w IoWeight_pairs_are_pairs [OF w]
    by (simp add: IoWeight_from_str_def KeyedFields_parse_render v_weight_io.required_lookup IoWeight_valid_def
        KeyedFields_iter_def btree_iter_def ts(1,3) weight_entry_def [symmetric] del: map_map)
next
  assume "IoWeight_from_str contents = Inr w'"
  then obtain kf ds where "required parse_weight_io kf ''default'' = Inr (weight_default w')"
    and ds: "map (weight_entry contents) (filter (\<lambda>(key, value). key \<noteq> ''default'') (KeyedFields_iter kf)) = map Inr ds"
    and w': "weight_devices w' = btree_collect ds"
    by (auto simp: IoWeight_from_str_def result_simps weight_entry_def [symmetric])
  then have "valid_weight_io (weight_default w')" by (auto intro: v_weight_io.required_valid)
  moreover have "valid_weight_io (snd dw)" if "dw \<in> set ds" for dw
  proof -
    from that have "Inr dw \<in> set (map (weight_entry contents) (filter (\<lambda>(key, value). key \<noteq> ''default'') (KeyedFields_iter kf)))"
      by (simp add: ds)
    then obtain kv where "weight_entry contents kv = Inr dw" by (metis (no_types, lifting) imageE set_map)
    then show ?thesis by (rule weight_entry_valid)
  qed
  moreover have "set (btree_collect ds) \<subseteq> set ds"
    by (rule set_btree_collect)
  ultimately show "IoWeight_valid w'"
    by (auto simp: IoWeight_valid_def w' list_all_iff)
qed

lemma IoWeight_round_trip_witness:
  "IoWeight_from_str (render_pairs (IoWeight_pairs
     \<lparr>weight_default = Weight_io 100, weight_devices = [(Device 8 0, Weight_io 50), (Device 8 16, Weight_io 10000)]\<rparr>))
   = Inr \<lparr>weight_default = Weight_io 100, weight_devices = [(Device 8 0, Weight_io 50), (Device 8 16, Weight_io 10000)]\<rparr>"
proof -
  let ?w = "\<lparr>weight_default = Weight_io 100, weight_devices = [(Device 8 0, Weight_io 50), (Device 8 16, Weight_io 10000)]\<rparr>"
  have "IoWeight_valid ?w"
    by (simp add: IoWeight_valid_def valid_weight_io_def btree_inv_def less_Device_def)
  with IoWeight_round_trip [of ?w undefined ?w] show ?thesis by blast
qed

section \<open>The priority class\<close>

text \<open>The priority class is read from exactly the five texts that its \<open>Display\<close> prints, up to
  surrounding white space; blank content is a missing field and any other content an invalid one.\<close>

lemma IoPriorityClass_from_str_correct:
  "(IoPriorityClass_from_str raw = Inr c \<longleftrightarrow> trim raw = IoPriorityClass_display c)
   \<and> (trim raw = [] \<longrightarrow> IoPriorityClass_from_str raw = Inl (ParseError_missing raw ''priority''))
   \<and> (trim raw \<noteq> [] \<and> trim raw \<notin> range IoPriorityClass_display \<longrightarrow>
        IoPriorityClass_from_str raw = Inl (ParseError_invalid raw ''priority'' (trim raw) OutOfRange))"
proof -
  have "IoPriorityClass_from_str raw = Inr c \<longleftrightarrow> trim raw = IoPriorityClass_display c"
    by (cases c) (auto simp: IoPriorityClass_from_str_def Let_def)
  moreover have "IoPriorityClass_from_str raw = Inl (ParseError_invalid raw ''priority'' (trim raw) OutOfRange)"
    if "trim raw \<noteq> []" "trim raw \<notin> range IoPriorityClass_display"
  proof -
    have "trim raw \<noteq> IoPriorityClass_display k" for k using that(2) by blast
    from this [of NoChange] this [of PromoteToRt] this [of RestrictToBe] this [of IdleClass] this [of NoneToRt] that(1)
    show ?thesis by (simp add: IoPriorityClass_from_str_def Let_def)
  qed
  ultimately show ?thesis by (simp add: IoPriorityClass_from_str_def)
qed

lemma IoPriorityClass_from_str_correct_witness:
  "IoPriorityClass_from_str (''none-to-rt'' @ [CHR 0x0A]) = Inr NoneToRt
   \<and> IoPriorityClass_from_str [CHR 0x0A] = Inl (ParseError_missing [CHR 0x0A] ''priority'')"
proof -
  have "trim (''none-to-rt'' @ [CHR 0x0A]) = IoPriorityClass_display NoneToRt"
    by (subst trim_line) (simp_all add: ink_def white_space1_def)
  moreover have "trim [CHR 0x0A] = []" by (rule trim_all_ascii_whitespace) simp
  ultimately show ?thesis
    using IoPriorityClass_from_str_correct [of "''none-to-rt'' @ [CHR 0x0A]" NoneToRt]
      IoPriorityClass_from_str_correct [of "[CHR 0x0A]" NoneToRt] by blast
qed

end
