(* ===== verification/Py_Io.thy ===== *)
theory Py_Io
  imports Py_Core Sakai_Io "HOL-Library.Product_Lexorder"
begin

text \<open>
  The io controller in Python, \<open>sakai-python/src/linux/io.rs\<close>: a device becomes the key
  \<open>(major, minor)\<close> of a mapping, its record an object with stored values. The allocation of such an
  object, \<open>Py::new\<close>, is the argument \<open>new\<close>.
\<close>

section \<open>Snapshots\<close>

type_synonym DeviceKey = "u32 \<times> u32"

text \<open>\<open>IoValues::devices\<close>.\<close>

definition IoValues_devices :: "(Device, 'v) btree \<Rightarrow> ('v \<Rightarrow> 'o) \<Rightarrow> (DeviceKey, 'o) btree" where
  "IoValues_devices values convert =
     btree_collect (map (\<lambda>(device, v). ((device_major device, device_minor device), convert v)) (btree_iter values))"

record PyIoDeviceStat =
  py_dev_read_bytes :: "Bytes Quantity option"
  py_dev_write_bytes :: "Bytes Quantity option"
  py_dev_discard_bytes :: "Bytes Quantity option"
  py_dev_read_operations :: "Count Quantity option"
  py_dev_write_operations :: "Count Quantity option"
  py_dev_discard_operations :: "Count Quantity option"
  py_dev_use_delay :: "i32 option"
  py_dev_delay :: "Time Quantity option"
  py_dev_depth :: "Count MaxOr option"
  py_dev_average_latency :: "Time Quantity option"
  py_dev_latency_window :: "Time Quantity option"
  py_dev_missed :: "Count Quantity option"
  py_dev_total :: "Count Quantity option"
  py_dev_cost_usage :: "Time Quantity option"
  py_dev_cost_wait :: "Time Quantity option"
  py_dev_cost_indebt :: "Time Quantity option"
  py_dev_cost_indelay :: "Time Quantity option"
  py_dev_cost_vrate :: "Ratio Quantity option"

definition PyIoDeviceStat_from :: "IoDeviceStat \<Rightarrow> PyIoDeviceStat" where
  "PyIoDeviceStat_from v =
     \<lparr>py_dev_read_bytes = map_option Quantity (dev_read_bytes v),
      py_dev_write_bytes = map_option Quantity (dev_write_bytes v),
      py_dev_discard_bytes = map_option Quantity (dev_discard_bytes v),
      py_dev_read_operations = map_option Quantity (dev_read_operations v),
      py_dev_write_operations = map_option Quantity (dev_write_operations v),
      py_dev_discard_operations = map_option Quantity (dev_discard_operations v),
      py_dev_use_delay = map_option delay_usage_inner (dev_delay_usage v),
      py_dev_delay = map_option Quantity (dev_delay v),
      py_dev_depth = dev_depth v,
      py_dev_average_latency = map_option Quantity (dev_average_latency v),
      py_dev_latency_window = map_option Quantity (dev_latency_window v),
      py_dev_missed = map_option Quantity (dev_missed v),
      py_dev_total = map_option Quantity (dev_total v),
      py_dev_cost_usage = map_option Quantity (dev_cost_usage v),
      py_dev_cost_wait = map_option Quantity (dev_cost_wait v),
      py_dev_cost_indebt = map_option Quantity (dev_cost_indebt v),
      py_dev_cost_indelay = map_option Quantity (dev_cost_indelay v),
      py_dev_cost_vrate = map_option Quantity (dev_cost_vrate v)\<rparr>"

definition PyIoDeviceStat_depth :: "PyIoDeviceStat \<Rightarrow> PyMaxOr option" where
  "PyIoDeviceStat_depth v = map_option MaxOr_from_count (py_dev_depth v)"

record PyIoStat = py_stat_devices :: "(DeviceKey, PyIoDeviceStat) btree"

definition PyIoStat_from :: "IoStat \<Rightarrow> PyIoStat" where
  "PyIoStat_from v = \<lparr>py_stat_devices = IoValues_devices (stat_devices v) PyIoDeviceStat_from\<rparr>"

definition PyIoStat_devices ::
  "(PyIoDeviceStat \<Rightarrow> ('w, PyErr, 'o) io) \<Rightarrow> PyIoStat \<Rightarrow> ('w, PyErr, (DeviceKey \<times> 'o) list) io" where
  "PyIoStat_devices new v = mapping new (py_stat_devices v)"

record PyIoWeight =
  py_default_weight :: u16
  py_weight_devices :: "(DeviceKey, u16) btree"

definition PyIoWeight_from :: "IoWeight \<Rightarrow> PyIoWeight" where
  "PyIoWeight_from v =
     \<lparr>py_default_weight = weight_io_inner (weight_default v),
      py_weight_devices = IoValues_devices (weight_devices v) weight_io_inner\<rparr>"

definition PyIoWeight_devices :: "PyIoWeight \<Rightarrow> ('w, PyErr, (DeviceKey \<times> u16) list) io" where
  "PyIoWeight_devices v = mapping (\<lambda>weight. return_io (Inr weight)) (py_weight_devices v)"

record PyIoDeviceMax =
  py_read_bandwidth :: PyMaxOr
  py_write_bandwidth :: PyMaxOr
  py_read_iops :: PyMaxOr
  py_write_iops :: PyMaxOr

definition PyIoDeviceMax_from :: "IoDeviceMax \<Rightarrow> PyIoDeviceMax" where
  "PyIoDeviceMax_from v =
     \<lparr>py_read_bandwidth = MaxOr_from_value (max_read_bandwidth v) (\<lambda>rate. LimitBandwidth (Quantity rate)),
      py_write_bandwidth = MaxOr_from_value (max_write_bandwidth v) (\<lambda>rate. LimitBandwidth (Quantity rate)),
      py_read_iops = MaxOr_from_value (max_read_iops v) (\<lambda>rate. LimitOperations (Quantity rate)),
      py_write_iops = MaxOr_from_value (max_write_iops v) (\<lambda>rate. LimitOperations (Quantity rate))\<rparr>"

record PyIoMax = py_max_devices :: "(DeviceKey, PyIoDeviceMax) btree"

definition PyIoMax_from :: "IoMax \<Rightarrow> PyIoMax" where
  "PyIoMax_from v = \<lparr>py_max_devices = IoValues_devices (max_devices v) PyIoDeviceMax_from\<rparr>"

definition PyIoMax_devices ::
  "(PyIoDeviceMax \<Rightarrow> ('w, PyErr, 'o) io) \<Rightarrow> PyIoMax \<Rightarrow> ('w, PyErr, (DeviceKey \<times> 'o) list) io" where
  "PyIoMax_devices new v = mapping new (py_max_devices v)"

record PyIoLatency = py_targets :: "(DeviceKey, Time Quantity) btree"

definition PyIoLatency_from :: "IoLatency \<Rightarrow> PyIoLatency" where
  "PyIoLatency_from v =
     \<lparr>py_targets = IoValues_devices (latency_devices v) (\<lambda>time. Quantity (nonzero_inner time))\<rparr>"

definition PyIoLatency_targets ::
  "('r, 'o, 'w) pint \<Rightarrow> PyIoLatency \<Rightarrow> ('w, PyErr, (DeviceKey \<times> 'o) list) io" where
  "PyIoLatency_targets p v = mapping (Time_into_pyobject p) (py_targets v)"

record PyIoDeviceCostQos =
  py_qos_enabled :: bool
  py_qos_control :: string
  py_qos_read_percentile :: "Ratio Quantity"
  py_qos_read_latency :: "Time Quantity"
  py_qos_write_percentile :: "Ratio Quantity"
  py_qos_write_latency :: "Time Quantity"
  py_qos_min_scaling :: "Ratio Quantity"
  py_qos_max_scaling :: "Ratio Quantity"

definition PyIoDeviceCostQos_from :: "IoDeviceCostQos \<Rightarrow> PyIoDeviceCostQos" where
  "PyIoDeviceCostQos_from v =
     \<lparr>py_qos_enabled = qos_enabled v,
      py_qos_control = IoCostControl_name (qos_control v),
      py_qos_read_percentile = Quantity (qos_read_percentile v),
      py_qos_read_latency = Quantity (qos_read_latency v),
      py_qos_write_percentile = Quantity (qos_write_percentile v),
      py_qos_write_latency = Quantity (qos_write_latency v),
      py_qos_min_scaling = Quantity (qos_min_scaling v),
      py_qos_max_scaling = Quantity (qos_max_scaling v)\<rparr>"

record PyIoCostQos = py_qos_devices :: "(DeviceKey, PyIoDeviceCostQos) btree"

definition PyIoCostQos_from :: "IoCostQos \<Rightarrow> PyIoCostQos" where
  "PyIoCostQos_from v = \<lparr>py_qos_devices = IoValues_devices (qos_devices v) PyIoDeviceCostQos_from\<rparr>"

definition PyIoCostQos_devices ::
  "(PyIoDeviceCostQos \<Rightarrow> ('w, PyErr, 'o) io) \<Rightarrow> PyIoCostQos \<Rightarrow> ('w, PyErr, (DeviceKey \<times> 'o) list) io" where
  "PyIoCostQos_devices new v = mapping new (py_qos_devices v)"

record PyIoDeviceCostModel =
  py_model_control :: string
  py_model_name :: string
  py_model_read_bandwidth :: "BytesPerSecond Quantity"
  py_model_read_sequential_iops :: "OperationsPerSecond Quantity"
  py_model_read_random_iops :: "OperationsPerSecond Quantity"
  py_model_write_bandwidth :: "BytesPerSecond Quantity"
  py_model_write_sequential_iops :: "OperationsPerSecond Quantity"
  py_model_write_random_iops :: "OperationsPerSecond Quantity"

definition PyIoDeviceCostModel_from :: "IoDeviceCostModel \<Rightarrow> PyIoDeviceCostModel" where
  "PyIoDeviceCostModel_from v =
     \<lparr>py_model_control = IoCostControl_name (model_control v),
      py_model_name = IoCostModelName_name (model_name v),
      py_model_read_bandwidth = Quantity (model_read_bandwidth v),
      py_model_read_sequential_iops = Quantity (model_read_sequential_iops v),
      py_model_read_random_iops = Quantity (model_read_random_iops v),
      py_model_write_bandwidth = Quantity (model_write_bandwidth v),
      py_model_write_sequential_iops = Quantity (model_write_sequential_iops v),
      py_model_write_random_iops = Quantity (model_write_random_iops v)\<rparr>"

record PyIoCostModel = py_model_devices :: "(DeviceKey, PyIoDeviceCostModel) btree"

definition PyIoCostModel_from :: "IoCostModel \<Rightarrow> PyIoCostModel" where
  "PyIoCostModel_from v = \<lparr>py_model_devices = IoValues_devices (model_devices v) PyIoDeviceCostModel_from\<rparr>"

definition PyIoCostModel_devices ::
  "(PyIoDeviceCostModel \<Rightarrow> ('w, PyErr, 'o) io) \<Rightarrow> PyIoCostModel \<Rightarrow> ('w, PyErr, (DeviceKey \<times> 'o) list) io" where
  "PyIoCostModel_devices new v = mapping new (py_model_devices v)"

section \<open>Readers\<close>

definition PyIo_stat :: "python \<Rightarrow> ('d, 'x) os_scheme \<Rightarrow> 'd Cgroup \<Rightarrow> PyErr + PyIoStat" where
  "PyIo_stat py os owner = map_ok PyIoStat_from (PythonError_read py os owner Io_stat)"

definition PyIo_pressure :: "python \<Rightarrow> ('d, 'x) os_scheme \<Rightarrow> 'd Cgroup \<Rightarrow> PyErr + PyPressure" where
  "PyIo_pressure py os owner = map_ok PyPressure_from (PythonError_read py os owner Io_pressure)"

definition PyIo_weight :: "python \<Rightarrow> ('d, 'x) os_scheme \<Rightarrow> 'd Cgroup \<Rightarrow> PyErr + PyIoWeight" where
  "PyIo_weight py os owner = map_ok PyIoWeight_from (PythonError_read py os owner Io_weight)"

definition PyIo_max :: "python \<Rightarrow> ('d, 'x) os_scheme \<Rightarrow> 'd Cgroup \<Rightarrow> PyErr + PyIoMax" where
  "PyIo_max py os owner = map_ok PyIoMax_from (PythonError_read py os owner Io_max)"

definition PyIo_latency :: "python \<Rightarrow> ('d, 'x) os_scheme \<Rightarrow> 'd Cgroup \<Rightarrow> PyErr + PyIoLatency" where
  "PyIo_latency py os owner = map_ok PyIoLatency_from (PythonError_read py os owner Io_latency)"

definition PyIo_cost_qos :: "python \<Rightarrow> ('d, 'x) os_scheme \<Rightarrow> 'd Cgroup \<Rightarrow> PyErr + PyIoCostQos" where
  "PyIo_cost_qos py os owner = map_ok PyIoCostQos_from (PythonError_read py os owner Io_cost_qos)"

definition PyIo_cost_model :: "python \<Rightarrow> ('d, 'x) os_scheme \<Rightarrow> 'd Cgroup \<Rightarrow> PyErr + PyIoCostModel" where
  "PyIo_cost_model py os owner = map_ok PyIoCostModel_from (PythonError_read py os owner Io_cost_model)"

definition PyIo_priority_class :: "python \<Rightarrow> ('d, 'x) os_scheme \<Rightarrow> 'd Cgroup \<Rightarrow> PyErr + string" where
  "PyIo_priority_class py os owner = map_ok IoPriorityClass_display (PythonError_read py os owner Io_priority_class)"

section \<open>Every reader reads its own file\<close>

lemma io_reads:
  "py_reads ''io.stat'' PyIo_stat
   \<and> py_reads ''io.pressure'' PyIo_pressure
   \<and> py_reads ''io.weight'' PyIo_weight
   \<and> py_reads ''io.max'' PyIo_max
   \<and> py_reads ''io.latency'' PyIo_latency
   \<and> py_reads ''io.cost.qos'' PyIo_cost_qos
   \<and> py_reads ''io.cost.model'' PyIo_cost_model
   \<and> py_reads ''io.prio.class'' PyIo_priority_class"
  unfolding
    PyIo_stat_def [abs_def] PyIo_pressure_def [abs_def] PyIo_weight_def [abs_def] PyIo_max_def [abs_def]
    PyIo_latency_def [abs_def] PyIo_cost_qos_def [abs_def] PyIo_cost_model_def [abs_def] PyIo_priority_class_def [abs_def] Io_stat_def [abs_def] Io_pressure_def [abs_def] Io_weight_def [abs_def] Io_max_def [abs_def]
    Io_latency_def [abs_def] Io_cost_qos_def [abs_def] Io_cost_model_def [abs_def] Io_priority_class_def [abs_def] Pressure_IO_FILE_NAME_def
  by simp

section \<open>Device keys\<close>

text \<open>The key orders as the device does, so the mapping is the map of the crate under other keys.\<close>

lemma IoValues_devices_eq:
  assumes "btree_inv values"
  shows "IoValues_devices values convert =
    map (\<lambda>(device, v). ((device_major device, device_minor device), convert v)) values"
proof -
  let ?key = "\<lambda>device. (device_major device, device_minor device)"
  have "sorted_wrt (<) (map ?key (map fst values))"
    using assms unfolding btree_inv_def
    by (simp add: sorted_wrt_map less_Device_def less_prod_def) (auto elim!: sorted_wrt_mono_rel [rotated])
  then have "btree_inv (map (\<lambda>(device, v). (?key device, convert v)) values)"
    by (simp add: btree_inv_def comp_def case_prod_beta)
  then show ?thesis by (simp add: IoValues_devices_def btree_iter_def btree_collect_id)
qed

lemma IoValues_devices_get:
  assumes "btree_inv values"
  shows "btree_get (IoValues_devices values convert) (a, b) = map_option convert (btree_get values (Device a b))"
proof -
  have "inj (\<lambda>device. (device_major device, device_minor device))" by (auto intro: injI Device.expand)
  from btree_get_renamed_inj(1) [OF this assms, of convert "Device a b"] show ?thesis
    by (simp add: IoValues_devices_def)
qed

text \<open>What a limit of a device is in Python: the tag of its unit and the number, or \<open>max\<close>.\<close>

definition limit_shown :: "('a Quantity \<Rightarrow> PythonLimitValue) \<Rightarrow> 'a MaxOr \<Rightarrow> PyMaxOr" where
  "limit_shown tag limit = \<lparr>max_inner = map_option (\<lambda>v. tag (Quantity v)) (case limit of MaxLimit \<Rightarrow> None | Value v \<Rightarrow> Some v)\<rparr>"

text \<open>C27: \<open>Io.max().devices\<close> in Python is the kernel's file. When \<open>io.max\<close> holds the lines of some
  devices, the mapping has under \<open>(major, minor)\<close> exactly the devices of the lines, in increasing
  order, and for each the four limits of its last line, every one under its own name with its own
  unit, \<open>max\<close> included; no two devices share a key.\<close>

theorem PyIo_max_correct:
  assumes "read_file os (directory cg) ''io.max'' = Inr (render_device_lines IoDeviceMax_fields es)"
    and "\<And>v w. new v w = (Inr (obj v), w)"
  shows "\<exists>limits dict. PyIo_max py os cg = Inr limits \<and> PyIoMax_devices new limits w = (Inr dict, w)
    \<and> sorted_wrt (<) (map fst dict)
    \<and> (\<forall>a b. map_of dict (a, b) = map_option (\<lambda>v. obj
         \<lparr>py_read_bandwidth = limit_shown LimitBandwidth (max_read_bandwidth v),
          py_write_bandwidth = limit_shown LimitBandwidth (max_write_bandwidth v),
          py_read_iops = limit_shown LimitOperations (max_read_iops v),
          py_write_iops = limit_shown LimitOperations (max_write_iops v)\<rparr>)
        (map_of (rev es) (Device a b)))"
proof -
  have parsed: "IoMax_from_str (render_device_lines IoDeviceMax_fields es) = Inr \<lparr>max_devices = btree_collect es\<rparr>"
    using io_device_max.device_lines_round_trip [of es] by (simp add: IoMax_from_str_def IoDeviceMax_fields_def)
  let ?limits = "IoValues_devices (btree_collect es) PyIoDeviceMax_from"
  have inv: "btree_inv ?limits" by (simp add: IoValues_devices_def)
  have "PyIo_max py os cg = Inr \<lparr>py_max_devices = ?limits\<rparr>"
    using assms(1) parsed by (simp add: PyIo_max_def PythonError_read_def PythonError_result_def Io_max_def
        Cgroup_parse_def Cgroup_read_def PyIoMax_from_def)
  moreover have "PyIoMax_devices new \<lparr>py_max_devices = ?limits\<rparr> w = (Inr (map (\<lambda>(k, v). (k, obj v)) ?limits), w)"
    by (simp add: PyIoMax_devices_def mapping_pure [of new obj, OF assms(2) inv])
  moreover have "sorted_wrt (<) (map fst (map (\<lambda>(k, v). (k, obj v)) ?limits))"
    using inv by (simp add: btree_inv_def comp_def case_prod_beta)
  moreover have "map_of (map (\<lambda>(k, v). (k, obj v)) ?limits) (a, b) = map_option (obj \<circ> PyIoDeviceMax_from)
      (map_of (rev es) (Device a b))" for a b
    using IoValues_devices_get [of "btree_collect es" PyIoDeviceMax_from a b]
    by (simp add: map_of_map btree_get_collect option.map_comp btree_get_def [of ?limits])
  moreover have "PyIoDeviceMax_from v =
       \<lparr>py_read_bandwidth = limit_shown LimitBandwidth (max_read_bandwidth v),
        py_write_bandwidth = limit_shown LimitBandwidth (max_write_bandwidth v),
        py_read_iops = limit_shown LimitOperations (max_read_iops v),
        py_write_iops = limit_shown LimitOperations (max_write_iops v)\<rparr>" for v
    by (simp add: PyIoDeviceMax_from_def MaxOr_from_value_def limit_shown_def split: MaxOr.split)
  ultimately show ?thesis by (simp add: comp_def)
qed

definition io_max_example :: IoDeviceMax where
  "io_max_example = \<lparr>max_read_bandwidth = Value (Byte_per_second 1048576), max_write_bandwidth = MaxLimit,
     max_read_iops = MaxLimit, max_write_iops = MaxLimit\<rparr>"

theorem PyIo_max_correct_witness:
  "\<exists>limits dict. PyIo_max demo_python (constant_os (render_device_lines IoDeviceMax_fields [(Device 8 16, io_max_example)]))
       \<lparr>directory = 0, cgroup_path = ''/sys/fs/cgroup/a''\<rparr> = Inr limits
    \<and> PyIoMax_devices (\<lambda>v w. (Inr v, w)) limits () = (Inr dict, ())
    \<and> map_option py_write_iops (map_of dict (8, 16)) = Some \<lparr>max_inner = None\<rparr> \<and> map_of dict (8, 0) = None"
proof -
  have "read_file (constant_os (render_device_lines IoDeviceMax_fields [(Device 8 16, io_max_example)]))
      (directory \<lparr>directory = 0, cgroup_path = ''/sys/fs/cgroup/a''\<rparr>) ''io.max''
    = Inr (render_device_lines IoDeviceMax_fields [(Device 8 16, io_max_example)])"
    by (simp add: read_file_constant_os components_single)
  from PyIo_max_correct [OF this, of "\<lambda>v w. (Inr v, w)" "\<lambda>v. v" demo_python "()"] obtain limits dict where
    "PyIo_max demo_python (constant_os (render_device_lines IoDeviceMax_fields [(Device 8 16, io_max_example)]))
       \<lparr>directory = 0, cgroup_path = ''/sys/fs/cgroup/a''\<rparr> = Inr limits"
    "PyIoMax_devices (\<lambda>v w. (Inr v, w)) limits () = (Inr dict, ())"
    and get: "\<forall>a b. map_of dict (a, b) = map_option (\<lambda>v.
         \<lparr>py_read_bandwidth = limit_shown LimitBandwidth (max_read_bandwidth v),
          py_write_bandwidth = limit_shown LimitBandwidth (max_write_bandwidth v),
          py_read_iops = limit_shown LimitOperations (max_read_iops v),
          py_write_iops = limit_shown LimitOperations (max_write_iops v)\<rparr>)
        (map_of (rev [(Device 8 16, io_max_example)]) (Device a b))" by auto
  moreover from get have "map_option py_write_iops (map_of dict (8, 16)) = Some \<lparr>max_inner = None\<rparr>"
    "map_of dict (8, 0) = None" by (simp_all add: io_max_example_def limit_shown_def)
  ultimately show ?thesis by blast
qed

end
