(* ===== verification/Sakai_Misc.thy ===== *)
theory Sakai_Misc
  imports Keyed_Entries
begin

text \<open>
  The misc controller, \<open>sakai/src/cgroup/v2/misc.rs\<close>: maps from the name of a resource to a
  count or a limit, and the events, which are read from the keys \<open><name>.max\<close>.
\<close>

section \<open>The parsers\<close>

record MiscCapacity = capacity_resources :: "(string, Count) btree"
record MiscCurrent = current_resources :: "(string, Count) btree"
record MiscPeak = peak_resources :: "(string, Count) btree"
record MiscMax = max_resources :: "(string, Count MaxOr) btree"
record MiscEvents = events_resources :: "(string, Count) btree"

definition MiscCapacity_from_str :: "string \<Rightarrow> MiscCapacity parsed" where
  "MiscCapacity_from_str raw =
     and_then (KeyedFields_parse raw (\<lambda>_. ''value'')) (\<lambda>kf.
     and_then (parse_values parse_count kf ''value'') (\<lambda>m. Inr \<lparr>capacity_resources = m\<rparr>))"

definition MiscCurrent_from_str :: "string \<Rightarrow> MiscCurrent parsed" where
  "MiscCurrent_from_str raw =
     and_then (KeyedFields_parse raw (\<lambda>_. ''value'')) (\<lambda>kf.
     and_then (parse_values parse_count kf ''value'') (\<lambda>m. Inr \<lparr>current_resources = m\<rparr>))"

definition MiscPeak_from_str :: "string \<Rightarrow> MiscPeak parsed" where
  "MiscPeak_from_str raw =
     and_then (KeyedFields_parse raw (\<lambda>_. ''value'')) (\<lambda>kf.
     and_then (parse_values parse_count kf ''value'') (\<lambda>m. Inr \<lparr>peak_resources = m\<rparr>))"

definition MiscMax_from_str :: "string \<Rightarrow> MiscMax parsed" where
  "MiscMax_from_str raw =
     and_then (KeyedFields_parse raw (\<lambda>_. ''value'')) (\<lambda>kf.
     and_then (parse_values (parse_max_or parse_count) kf ''value'') (\<lambda>m. Inr \<lparr>max_resources = m\<rparr>))"

definition event_entry :: "string \<Rightarrow> string \<times> string \<Rightarrow> (string \<times> Count) parsed" where
  "event_entry raw nv =
     (if fst nv = [] then Inl (ParseError_invalid raw ''resource'' ''.max'' OutOfRange)
      else and_then (parse_field parse_count raw ''max'' (snd nv)) (\<lambda>n. Inr (fst nv, n)))"

definition MiscEvents_from_str :: "string \<Rightarrow> MiscEvents parsed" where
  "MiscEvents_from_str raw =
     and_then (KeyedFields_parse raw (\<lambda>_. ''value'')) (\<lambda>kf.
     and_then (map_ok btree_collect (collect_results
         (map (event_entry raw) (selected (strip_suffix ''.max'') (KeyedFields_iter kf))))) (\<lambda>m.
     Inr \<lparr>events_resources = m\<rparr>))"

section \<open>The readers\<close>

definition Misc_capacity :: "('d, 'x) os_scheme \<Rightarrow> 'd Cgroup \<Rightarrow> Error + MiscCapacity" where
  "Misc_capacity os cg = Cgroup_parse MiscCapacity_from_str os cg ''misc.capacity''"

definition Misc_current :: "('d, 'x) os_scheme \<Rightarrow> 'd Cgroup \<Rightarrow> Error + MiscCurrent" where
  "Misc_current os cg = Cgroup_parse MiscCurrent_from_str os cg ''misc.current''"

definition Misc_peak :: "('d, 'x) os_scheme \<Rightarrow> 'd Cgroup \<Rightarrow> Error + MiscPeak" where
  "Misc_peak os cg = Cgroup_parse MiscPeak_from_str os cg ''misc.peak''"

definition Misc_max :: "('d, 'x) os_scheme \<Rightarrow> 'd Cgroup \<Rightarrow> Error + MiscMax" where
  "Misc_max os cg = Cgroup_parse MiscMax_from_str os cg ''misc.max''"

definition Misc_events :: "('d, 'x) os_scheme \<Rightarrow> 'd Cgroup \<Rightarrow> Error + MiscEvents" where
  "Misc_events os cg = Cgroup_parse MiscEvents_from_str os cg ''misc.events''"

definition Misc_events_local :: "('d, 'x) os_scheme \<Rightarrow> 'd Cgroup \<Rightarrow> Error + MiscEvents" where
  "Misc_events_local os cg = Cgroup_parse MiscEvents_from_str os cg ''misc.events.local''"

section \<open>Errors carry the input\<close>

interpretation misc_capacity: snapshot_parser MiscCapacity_from_str
  by unfold_locales (auto simp: MiscCapacity_from_str_def intro!: reports_intros)

interpretation misc_current: snapshot_parser MiscCurrent_from_str
  by unfold_locales (auto simp: MiscCurrent_from_str_def intro!: reports_intros)

interpretation misc_peak: snapshot_parser MiscPeak_from_str
  by unfold_locales (auto simp: MiscPeak_from_str_def intro!: reports_intros)

interpretation misc_max: snapshot_parser MiscMax_from_str
  by unfold_locales (auto simp: MiscMax_from_str_def intro!: reports_intros)

interpretation misc_events: snapshot_parser MiscEvents_from_str
  by unfold_locales (auto simp: MiscEvents_from_str_def event_entry_def intro!: reports_intros)

section \<open>Limits\<close>

text \<open>An accepted \<open>misc.max\<close> holds under each name the limit of its last line, and nothing under
  other names; and the limits the kernel prints, \<open>max\<close> included, are read back.\<close>

theorem MiscMax_correct:
  "(MiscMax_from_str contents = Inr m \<longrightarrow>
      (\<exists>kf. KeyedFields_parse contents (\<lambda>_. ''value'') = Inr kf \<and>
        (\<forall>k. optional (parse_max_or parse_count) kf k = Inr (btree_get (max_resources m) k))))
   \<and> (btree_inv t \<and> list_all (\<lambda>e. is_key (fst e)) t \<longrightarrow>
        MiscMax_from_str (render_pairs (v_count.max_or.named_pairs t)) = Inr \<lparr>max_resources = t\<rparr>)"
proof (intro conjI impI)
  assume "MiscMax_from_str contents = Inr m"
  then obtain kf where "KeyedFields_parse contents (\<lambda>_. ''value'') = Inr kf"
    "parse_values (parse_max_or parse_count) kf ''value'' = Inr (max_resources m)"
    by (auto simp: MiscMax_from_str_def and_then_eq_Inr)
  then show "\<exists>kf. KeyedFields_parse contents (\<lambda>_. ''value'') = Inr kf \<and>
      (\<forall>k. optional (parse_max_or parse_count) kf k = Inr (btree_get (max_resources m) k))"
    using parse_values_lookup(1) btree_inv_KeyedFields_parse by blast
next
  assume t: "btree_inv t \<and> list_all (\<lambda>e. is_key (fst e)) t"
  then have "and_then (KeyedFields_parse (render_pairs (v_count.max_or.named_pairs t)) (\<lambda>_. ''value''))
      (\<lambda>kf. parse_values (parse_max_or parse_count) kf ''value'') = Inr t"
    by (intro v_count.max_or.parse_values_render) (auto simp: list_all_iff)
  then show "MiscMax_from_str (render_pairs (v_count.max_or.named_pairs t)) = Inr \<lparr>max_resources = t\<rparr>"
    by (auto simp: MiscMax_from_str_def and_then_eq_Inr)
qed

lemma MiscMax_correct_witness:
  "MiscMax_from_str (render_pairs (v_count.max_or.named_pairs [(''res_a'', MaxLimit), (''res_b'', Value (Count 4))]))
     = Inr \<lparr>max_resources = [(''res_a'', MaxLimit), (''res_b'', Value (Count 4))]\<rparr>"
proof -
  let ?t = "[(''res_a'', MaxLimit), (''res_b'', Value (Count 4))]"
  have "btree_inv ?t \<and> list_all (\<lambda>e. is_key (fst e)) ?t"
    by (simp add: btree_inv_def is_key_def is_token_def is_ascii_whitespace_def ink_def white_space1_def)
  with MiscMax_correct [of undefined undefined ?t] show ?thesis by blast
qed

section \<open>Events\<close>

lemma event_entry_Inr_iff:
  "event_entry raw (name, v) = Inr (c, n) \<longleftrightarrow> name \<noteq> [] \<and> c = name \<and> parse_count v = Inr n"
  by (auto simp: event_entry_def result_simps parse_field_def)

text \<open>An accepted \<open>misc.events\<close> holds for every resource name the parsed value of the line
  \<open><name>.max\<close>, and nothing where there is no such line; lines with other suffixes are ignored,
  and a line with the bare suffix makes the file rejected.\<close>

lemma MiscEvents_from_str_resources:
  assumes "MiscEvents_from_str contents = Inr e"
  shows "\<exists>kf. KeyedFields_parse contents (\<lambda>_. ''value'') = Inr kf
    \<and> (\<forall>name. optional parse_count kf (name @ ''.max'') = Inr (btree_get (events_resources e) name))
    \<and> btree_get (kf_values kf) ''.max'' = None"
proof -
  from assms obtain kf xs where kf: "KeyedFields_parse contents (\<lambda>_. ''value'') = Inr kf"
    and xs: "map (event_entry contents) (selected (strip_suffix ''.max'') (KeyedFields_iter kf)) = map Inr xs"
    and e: "events_resources e = btree_collect xs"
    by (auto simp: MiscEvents_from_str_def and_then_eq_Inr map_ok_eq_Inr collect_results_eq_Inr)
  note lookup = selected_lookup [where key_of = "\<lambda>name. name @ ''.max''" and ok = "\<lambda>name. name \<noteq> []"
      and decode = "\<lambda>name. name", OF strip_suffix_Some_iff event_entry_Inr_iff _ xs
        btree_inv_KeyedFields_parse [OF kf]]
  have "optional parse_count kf (name @ ''.max'') = Inr (btree_get (events_resources e) name)" for name
    using lookup(1) [of name] by (simp add: e btree_get_collect)
  moreover have "btree_get (kf_values kf) ''.max'' = None" using lookup(2) [of "[]"] by simp
  ultimately show ?thesis using kf by blast
qed

text \<open>The lines the kernel writes for a map of events, after lines with other suffixes.\<close>

definition event_pair :: "string \<times> Count \<Rightarrow> string \<times> string" where
  "event_pair e = (fst e @ ''.max'', render_count (snd e))"

definition MiscEvents_pairs :: "(string \<times> string) list \<Rightarrow> MiscEvents \<Rightarrow> (string \<times> string) list" where
  "MiscEvents_pairs others e = others @ map event_pair (events_resources e)"

definition is_other :: "string \<times> string \<Rightarrow> bool" where
  "is_other kv \<longleftrightarrow> is_pair kv \<and> strip_suffix ''.max'' (fst kv) = None"

definition MiscEvents_valid :: "MiscEvents \<Rightarrow> bool" where
  "MiscEvents_valid e \<longleftrightarrow> btree_inv (events_resources e) \<and> list_all (\<lambda>r. is_key (fst r)) (events_resources e)"

lemma selected_event_pairs:
  "selected (strip_suffix ''.max'') (map event_pair es) = map (\<lambda>r. (fst r, render_count (snd r))) es"
proof (induction es)
  case Nil
  show ?case by (simp add: selected_def List.map_filter_simps)
next
  case (Cons e es)
  then show ?case by (simp add: event_pair_def selected_Cons)
qed

lemma is_pair_event: "is_key (fst e) \<Longrightarrow> is_pair (event_pair e)"
proof -
  assume e: "is_key (fst e)"
  have "is_token ''.max''" by (simp add: is_token_def is_ascii_whitespace_def)
  with e have "is_token (fst e @ ''.max'')" by (simp add: is_key_def is_token_append)
  moreover have "ink (hd (fst e @ ''.max''))" using e by (simp add: is_key_def is_token_def)
  ultimately show ?thesis by (simp add: is_pair_def event_pair_def is_key_def v_count.render_token)
qed

text \<open>Reading \<open>misc.events\<close> as the kernel prints it, among lines of other counters, gives the
  counters back, in whatever order the keys of the lines sort.\<close>

lemma MiscEvents_round_trip:
  assumes "MiscEvents_valid e" "list_all is_other others" "distinct (map fst others)"
  shows "MiscEvents_from_str (render_pairs (MiscEvents_pairs others e)) = Inr e"
proof -
  let ?t = "events_resources e" and ?P = "\<lambda>kv. strip_suffix ''.max'' (fst kv) \<noteq> None"
  have inv: "btree_inv ?t" using assms(1) by (simp add: MiscEvents_valid_def)
  have inj: "inj_on event_pair (set ?t)"
    by (auto intro!: inj_onI simp: event_pair_def dest: v_count.render_inj [OF TrueI TrueI])
  have "distinct (map fst ?t)" using inv by (simp add: btree_inv_def strict_sorted_iff)
  then have "distinct (map (\<lambda>n. n @ ''.max'') (map fst ?t))" by (subst distinct_map) (auto intro: inj_onI)
  then have dist: "distinct (map fst (others @ map event_pair ?t))"
    using assms(2,3) by (auto simp: list_all_iff is_other_def event_pair_def o_def strip_suffix_append)
  have "\<exists>ts. filter ?P (btree_collect (MiscEvents_pairs others e)) = map event_pair ts \<and> set ts = set ?t \<and> btree_collect ts = ?t"
    unfolding MiscEvents_pairs_def using assms(2)
    by (intro encoded_entries [where key = "\<lambda>n. n @ ''.max''", OF inv _ _ dist _ _ inj])
      (auto simp: event_pair_def list_all_iff is_other_def strip_suffix_append)
  then obtain ts where ts: "filter ?P (btree_collect (MiscEvents_pairs others e)) = map event_pair ts"
    "set ts = set ?t" "btree_collect ts = ?t" by blast
  have sel: "selected (strip_suffix ''.max'') (btree_collect (MiscEvents_pairs others e))
      = map (\<lambda>r. (fst r, render_count (snd r))) ts"
    by (subst selected_filter) (simp only: ts(1) selected_event_pairs)
  have "map (event_entry raw) (map (\<lambda>r. (fst r, render_count (snd r))) ts) = map Inr ts" for raw
    using assms(1) ts(2)
    by (auto simp: event_entry_def v_count.field_render MiscEvents_valid_def list_all_iff is_key_def is_token_def)
  moreover have "\<forall>kv \<in> set (MiscEvents_pairs others e). is_pair kv"
    using assms(1,2) by (auto simp: MiscEvents_pairs_def MiscEvents_valid_def list_all_iff is_other_def is_pair_event)
  ultimately show ?thesis
    by (simp add: MiscEvents_from_str_def KeyedFields_parse_render KeyedFields_iter_def btree_iter_def sel ts(3)
        del: map_map)
qed

definition MiscEvents_example :: MiscEvents where
  "MiscEvents_example = \<lparr>events_resources = [(''res-a'', Count 7), (''res_a'', Count 0)]\<rparr>"

lemma MiscEvents_valid_example: "MiscEvents_valid MiscEvents_example"
  by (simp add: MiscEvents_valid_def MiscEvents_example_def btree_inv_def is_key_def is_token_def
      is_ascii_whitespace_def ink_def white_space1_def)

lemma is_other_example: "list_all is_other [(''res_a.failcnt'', ''1'')]"
  by (simp add: is_other_def is_pair_def is_key_def is_token_def is_ascii_whitespace_def ink_def
      white_space1_def strip_suffix_def)

lemma MiscEvents_round_trip_witness:
  "MiscEvents_from_str (render_pairs (MiscEvents_pairs [(''res_a.failcnt'', ''1'')] MiscEvents_example))
     = Inr MiscEvents_example"
  by (rule MiscEvents_round_trip [OF MiscEvents_valid_example is_other_example]) simp

lemma MiscEvents_from_str_resources_witness:
  "\<exists>e. MiscEvents_from_str (render_pairs [(''res_a.max'', ''3''), (''res_a.low'', ''x'')]) = Inr e
     \<and> btree_get (events_resources e) ''res_a'' = Some (Count 3)"
proof -
  let ?kvs = "[(''res_a.max'', ''3''), (''res_a.low'', ''x'')]"
  have "\<forall>kv \<in> set ?kvs. is_pair kv"
    by (simp add: is_pair_def is_key_def is_token_def is_ascii_whitespace_def ink_def white_space1_def)
  note parsed = KeyedFields_parse_render [OF this, of "\<lambda>_. ''value''"]
  have count: "parse_count ''3'' = Inr (Count 3)"
    by (simp add: parse_count_def parse_uint_def parse_u_def parse_unsigned_def to_digit_def)
  have "selected (strip_suffix ''.max'') (btree_collect ?kvs) = [(''res_a'', ''3'')]"
    by (simp add: btree_collect_def less_char_def selected_def List.map_filter_simps strip_suffix_def)
  then have e: "MiscEvents_from_str (render_pairs ?kvs) = Inr \<lparr>events_resources = btree_collect [(''res_a'', Count 3)]\<rparr>"
    by (simp add: MiscEvents_from_str_def parsed KeyedFields_iter_def btree_iter_def event_entry_def
        parse_field_def count)
  from MiscEvents_from_str_resources [OF e]
  have "optional parse_count \<lparr>kf_raw = render_pairs ?kvs, kf_values = btree_collect ?kvs\<rparr> (''res_a'' @ ''.max'')
    = Inr (btree_get (btree_collect [(''res_a'', Count 3)]) ''res_a'')"
    unfolding parsed by (auto dest!: spec [of _ "''res_a''"])
  then have "btree_get (btree_collect [(''res_a'', Count 3)]) ''res_a'' = Some (Count 3)"
    by (simp add: optional_def btree_get_collect parse_field_def count)
  with e show ?thesis by auto
qed

end
