(* ===== verification/Sakai_Dmem.thy ===== *)
theory Sakai_Dmem
  imports Keyed_Entries
begin

text \<open>
  The device memory controller, \<open>sakai/src/cgroup/v2/dmem.rs\<close>: maps from the name of a memory
  region to a size or a limit.
\<close>

section \<open>The parsers\<close>

definition parse_regions :: "(string \<Rightarrow> ParseValueError + 'a) \<Rightarrow> string \<Rightarrow> (string, 'a) btree parsed" where
  "parse_regions parse contents =
     and_then (KeyedFields_parse contents (\<lambda>_. ''bytes'')) (\<lambda>kf. parse_values parse kf ''bytes'')"

record DmemCapacity = capacity_regions :: "(string, Bytes) btree"
record DmemCurrent = current_regions :: "(string, Bytes MaxOr) btree"
record DmemPeak = peak_regions :: "(string, Bytes MaxOr) btree"
record DmemLimits = limit_regions :: "(string, Bytes MaxOr) btree"

definition DmemCapacity_from_str :: "string \<Rightarrow> DmemCapacity parsed" where
  "DmemCapacity_from_str contents =
     map_ok (\<lambda>m. \<lparr>capacity_regions = m\<rparr>) (parse_regions parse_bytes contents)"

definition DmemCurrent_from_str :: "string \<Rightarrow> DmemCurrent parsed" where
  "DmemCurrent_from_str contents =
     map_ok (\<lambda>m. \<lparr>current_regions = m\<rparr>) (parse_regions (parse_max_or parse_bytes) contents)"

definition DmemPeak_from_str :: "string \<Rightarrow> DmemPeak parsed" where
  "DmemPeak_from_str contents =
     map_ok (\<lambda>m. \<lparr>peak_regions = m\<rparr>) (parse_regions (parse_max_or parse_bytes) contents)"

definition DmemLimits_from_str :: "string \<Rightarrow> DmemLimits parsed" where
  "DmemLimits_from_str contents =
     map_ok (\<lambda>m. \<lparr>limit_regions = m\<rparr>) (parse_regions (parse_max_or parse_bytes) contents)"

section \<open>The readers\<close>

definition Dmem_capacity :: "('d, 'x) os_scheme \<Rightarrow> 'd Cgroup \<Rightarrow> Error + DmemCapacity" where
  "Dmem_capacity os cg = Cgroup_parse DmemCapacity_from_str os cg ''dmem.capacity''"

definition Dmem_current :: "('d, 'x) os_scheme \<Rightarrow> 'd Cgroup \<Rightarrow> Error + DmemCurrent" where
  "Dmem_current os cg = Cgroup_parse DmemCurrent_from_str os cg ''dmem.current''"

definition Dmem_peak :: "('d, 'x) os_scheme \<Rightarrow> 'd Cgroup \<Rightarrow> Error + DmemPeak" where
  "Dmem_peak os cg = Cgroup_parse DmemPeak_from_str os cg ''dmem.peak''"

definition Dmem_min :: "('d, 'x) os_scheme \<Rightarrow> 'd Cgroup \<Rightarrow> Error + DmemLimits" where
  "Dmem_min os cg = Cgroup_parse DmemLimits_from_str os cg ''dmem.min''"

definition Dmem_low :: "('d, 'x) os_scheme \<Rightarrow> 'd Cgroup \<Rightarrow> Error + DmemLimits" where
  "Dmem_low os cg = Cgroup_parse DmemLimits_from_str os cg ''dmem.low''"

definition Dmem_max :: "('d, 'x) os_scheme \<Rightarrow> 'd Cgroup \<Rightarrow> Error + DmemLimits" where
  "Dmem_max os cg = Cgroup_parse DmemLimits_from_str os cg ''dmem.max''"

section \<open>Errors carry the input\<close>

lemma reports_parse_regions [reports_intros]: "reports contents (parse_regions parse contents)"
  by (auto simp: parse_regions_def intro!: reports_intros)

interpretation dmem_capacity: snapshot_parser DmemCapacity_from_str
  by unfold_locales (auto simp: DmemCapacity_from_str_def intro!: reports_intros)

interpretation dmem_current: snapshot_parser DmemCurrent_from_str
  by unfold_locales (auto simp: DmemCurrent_from_str_def intro!: reports_intros)

interpretation dmem_peak: snapshot_parser DmemPeak_from_str
  by unfold_locales (auto simp: DmemPeak_from_str_def intro!: reports_intros)

interpretation dmem_limits: snapshot_parser DmemLimits_from_str
  by unfold_locales (auto simp: DmemLimits_from_str_def intro!: reports_intros)

section \<open>Regions\<close>

context cgroup_value
begin

lemma parse_regions_render:
  "btree_inv t \<Longrightarrow> \<forall>(k, v) \<in> set t. is_key k \<and> valid v \<Longrightarrow>
   parse_regions parse (render_pairs (named_pairs t)) = Inr t"
  unfolding parse_regions_def by (rule parse_values_render)

end

text \<open>The named regions of a map are keys a file can hold.\<close>

definition regions_ok :: "(string, 'a) btree \<Rightarrow> bool" where
  "regions_ok t \<longleftrightarrow> btree_inv t \<and> list_all (\<lambda>e. is_key (fst e)) t"

lemma parse_regions_limits_render:
  "regions_ok t \<Longrightarrow> parse_regions (parse_max_or parse_bytes) (render_pairs (v_bytes.max_or.named_pairs t)) = Inr t"
  by (rule v_bytes.max_or.parse_regions_render) (auto simp: regions_ok_def list_all_iff)

lemma parse_regions_lookup:
  "parse_regions parse contents = Inr t \<Longrightarrow>
   \<exists>kf. KeyedFields_parse contents (\<lambda>_. ''bytes'') = Inr kf \<and> (\<forall>k. optional parse kf k = Inr (btree_get t k))"
  unfolding parse_regions_def and_then_eq_Inr
  using parse_values_lookup(1) btree_inv_KeyedFields_parse by blast

text \<open>The limits of device memory the kernel prints, \<open>max\<close> included, are read back from each of
  \<open>dmem.min\<close>, \<open>dmem.low\<close> and \<open>dmem.max\<close>; and a limit file that is accepted holds for every
  region the limit of its last line.\<close>

lemma Dmem_limits_correct:
  assumes "reader \<in> {(Dmem_min, ''dmem.min''), (Dmem_low, ''dmem.low''), (Dmem_max, ''dmem.max'')}"
    and "read_file os (directory cg) (snd reader) = Inr contents"
  shows "(regions_ok t \<and> contents = render_pairs (v_bytes.max_or.named_pairs t) \<longrightarrow>
       fst reader os cg = Inr \<lparr>limit_regions = t\<rparr>)
    \<and> (fst reader os cg = Inr l \<longrightarrow> (\<exists>kf. KeyedFields_parse contents (\<lambda>_. ''bytes'') = Inr kf
         \<and> (\<forall>k. optional (parse_max_or parse_bytes) kf k = Inr (btree_get (limit_regions l) k))))"
proof -
  have "fst reader os cg = Inr v \<longleftrightarrow> DmemLimits_from_str contents = Inr v" for v
    using assms by (auto simp: Dmem_min_def Dmem_low_def Dmem_max_def Cgroup_parse_Inr_iff)
  then show ?thesis
    by (auto simp: DmemLimits_from_str_def map_ok_eq_Inr parse_regions_limits_render dest: parse_regions_lookup)
qed

lemma Dmem_limits_correct_witness:
  "Dmem_low (constant_os (render_pairs (v_bytes.max_or.named_pairs [(''drm/0'', Value (Bytes_byte 4096)), (''drm/1'', MaxLimit)])))
     \<lparr>directory = 0, cgroup_path = ''/sys/fs/cgroup/a''\<rparr>
   = Inr \<lparr>limit_regions = [(''drm/0'', Value (Bytes_byte 4096)), (''drm/1'', MaxLimit)]\<rparr>"
proof -
  let ?t = "[(''drm/0'', Value (Bytes_byte 4096)), (''drm/1'', MaxLimit)]"
  let ?os = "constant_os (render_pairs (v_bytes.max_or.named_pairs ?t))"
  let ?cg = "\<lparr>directory = 0, cgroup_path = ''/sys/fs/cgroup/a''\<rparr>"
  have ok: "regions_ok ?t"
    by (simp add: regions_ok_def btree_inv_def is_key_def is_token_def is_ascii_whitespace_def ink_def white_space1_def)
  have "read_file ?os (directory ?cg) (snd (Dmem_low, ''dmem.low'')) = Inr (render_pairs (v_bytes.max_or.named_pairs ?t))"
    using components_single [of "''dmem.low''"] by (simp add: read_file_constant_os)
  from Dmem_limits_correct [OF _ this, of ?t] ok show ?thesis by simp
qed

end
