(* ===== verification/Sakai_Hugetlb.thy ===== *)
theory Sakai_Hugetlb
  imports Keyed_Entries
begin

text \<open>
  The HugeTLB controller, \<open>sakai/src/cgroup/v2/hugetlb.rs\<close>: page sizes with their kernel labels,
  which are part of the file names, and the files of one page size.
\<close>

section \<open>Page sizes\<close>

text \<open>\<open>u64::is_power_of_two\<close>.\<close>

definition is_power_of_two :: "'a::len word \<Rightarrow> bool" where
  "is_power_of_two w \<longleftrightarrow> list_ex (\<lambda>k. w = 2 ^ k) [0..<LENGTH('a)]"

text \<open>The validated \<open>PageSize(Bytes)\<close>; only \<open>try_new\<close> constructs it.\<close>

datatype PageSize = PageSize (page_size_inner: Bytes)

definition PageSize_valid :: "PageSize \<Rightarrow> bool" where
  "PageSize_valid s \<longleftrightarrow> 1024 \<le> byte (page_size_inner s) \<and> is_power_of_two (byte (page_size_inner s))"

definition PageSize_try_new :: "Bytes \<Rightarrow> PageSize option" where
  "PageSize_try_new bytes = (if PageSize_valid (PageSize bytes) then Some (PageSize bytes) else None)"

definition gibibyte :: u64 where "gibibyte = push_bit 30 1"
definition kibibyte :: u64 where "kibibyte = push_bit 10 1"
definition mebibyte :: u64 where "mebibyte = push_bit 20 1"

definition page_unit :: "u64 \<Rightarrow> u64 \<times> string" where
  "page_unit bytes =
     (if bytes \<ge> gibibyte then (gibibyte, ''GB'')
      else if bytes \<ge> mebibyte then (mebibyte, ''MB'')
      else (kibibyte, ''KB''))"

definition PageSize_display :: "PageSize \<Rightarrow> string" where
  "PageSize_display s =
     (case page_unit (byte (page_size_inner s)) of (unit, suf) \<Rightarrow>
       show_u (byte (page_size_inner s) div unit) @ suf)"

definition PageSize_file_name :: "PageSize \<Rightarrow> string \<Rightarrow> string" where
  "PageSize_file_name s suf = ''hugetlb.'' @ PageSize_display s @ ''.'' @ suf"

definition label_unit :: "string \<Rightarrow> (string \<times> u64) option" where
  "label_unit label =
     (case strip_suffix ''GB'' label of Some number \<Rightarrow> Some (number, gibibyte)
      | None \<Rightarrow> (case strip_suffix ''MB'' label of Some number \<Rightarrow> Some (number, mebibyte)
      | None \<Rightarrow> (case strip_suffix ''KB'' label of Some number \<Rightarrow> Some (number, kibibyte)
      | None \<Rightarrow> None)))"

definition PageSize_from_str :: "string \<Rightarrow> PageSize parsed" where
  "PageSize_from_str label = (let invalid = ParseError_invalid label ''page_size'' label OutOfRange in
     and_then (ok_or invalid (label_unit label)) (\<lambda>(number, unit).
     and_then (ok_or invalid (Option.bind (result_ok (parse_u number)) (\<lambda>n. checked_mul n unit))) (\<lambda>bytes.
     and_then (ok_or invalid (PageSize_try_new (Bytes_byte bytes))) (\<lambda>size.
     if PageSize_display size \<noteq> label then Inl invalid else Inr size))))"

section \<open>The files of a page size\<close>

record HugetlbCurrent = hugetlb_current :: Bytes
record HugetlbMax = hugetlb_max :: "Bytes MaxOr"
record HugetlbReservedCurrent = hugetlb_reserved_current :: Bytes
record HugetlbReservedMax = hugetlb_reserved_max :: "Bytes MaxOr"

definition HugetlbCurrent_from_str :: "string \<Rightarrow> HugetlbCurrent parsed" where
  "HugetlbCurrent_from_str contents =
     map_ok (\<lambda>v. \<lparr>hugetlb_current = v\<rparr>) (Parser_single parse_bytes contents ''current'')"

definition HugetlbMax_from_str :: "string \<Rightarrow> HugetlbMax parsed" where
  "HugetlbMax_from_str contents =
     map_ok (\<lambda>v. \<lparr>hugetlb_max = v\<rparr>) (Parser_single (parse_max_or parse_bytes) contents ''max'')"

definition HugetlbReservedCurrent_from_str :: "string \<Rightarrow> HugetlbReservedCurrent parsed" where
  "HugetlbReservedCurrent_from_str contents =
     map_ok (\<lambda>v. \<lparr>hugetlb_reserved_current = v\<rparr>) (Parser_single parse_bytes contents ''current'')"

definition HugetlbReservedMax_from_str :: "string \<Rightarrow> HugetlbReservedMax parsed" where
  "HugetlbReservedMax_from_str contents =
     map_ok (\<lambda>v. \<lparr>hugetlb_reserved_max = v\<rparr>) (Parser_single (parse_max_or parse_bytes) contents ''max'')"

record HugetlbEvents = hugetlb_events_max :: Count

definition HugetlbEvents_from_str :: "string \<Rightarrow> HugetlbEvents parsed" where
  "HugetlbEvents_from_str contents =
     and_then (KeyedFields_parse contents (\<lambda>_. ''value'')) (\<lambda>kf.
     map_ok (\<lambda>v. \<lparr>hugetlb_events_max = v\<rparr>) (required parse_count kf ''max''))"

record HugetlbNumaStat =
  hugetlb_total :: Bytes
  hugetlb_nodes :: "(u32, Bytes) btree"

text \<open>One entry of a node, as its key, the text after \<open>N\<close> and its value.\<close>

definition node_entry :: "string \<Rightarrow> string \<times> string \<times> string \<Rightarrow> (u32 \<times> Bytes) parsed" where
  "node_entry contents = (\<lambda>(key, node, value).
     and_then (map_err (\<lambda>e. ParseError_invalid contents ''node'' key (Integer e)) (parse_u node)) (\<lambda>id.
     and_then (parse_field parse_bytes contents ''usage'' value) (\<lambda>v. Inr (id, v))))"

definition HugetlbNumaStat_from_str :: "string \<Rightarrow> HugetlbNumaStat parsed" where
  "HugetlbNumaStat_from_str contents =
     and_then (assignments contents (split_ascii_whitespace contents)) (\<lambda>kf.
     and_then (required parse_bytes kf ''total'') (\<lambda>total.
     and_then (map_ok btree_collect (collect_results (map (node_entry contents)
         (List.map_filter (\<lambda>(key, value). map_option (\<lambda>node. (key, node, value)) (strip_prefix ''N'' key))
           (KeyedFields_iter kf))))) (\<lambda>nodes.
     Inr \<lparr>hugetlb_total = total, hugetlb_nodes = nodes\<rparr>)))"

section \<open>The readers\<close>

definition Hugetlb_current :: "('d, 'x) os_scheme \<Rightarrow> 'd Cgroup \<Rightarrow> PageSize \<Rightarrow> Error + HugetlbCurrent" where
  "Hugetlb_current os cg page = Cgroup_parse HugetlbCurrent_from_str os cg (PageSize_file_name page ''current'')"

definition Hugetlb_max :: "('d, 'x) os_scheme \<Rightarrow> 'd Cgroup \<Rightarrow> PageSize \<Rightarrow> Error + HugetlbMax" where
  "Hugetlb_max os cg page = Cgroup_parse HugetlbMax_from_str os cg (PageSize_file_name page ''max'')"

definition Hugetlb_reserved_current ::
  "('d, 'x) os_scheme \<Rightarrow> 'd Cgroup \<Rightarrow> PageSize \<Rightarrow> Error + HugetlbReservedCurrent" where
  "Hugetlb_reserved_current os cg page =
     Cgroup_parse HugetlbReservedCurrent_from_str os cg (PageSize_file_name page ''rsvd.current'')"

definition Hugetlb_reserved_max ::
  "('d, 'x) os_scheme \<Rightarrow> 'd Cgroup \<Rightarrow> PageSize \<Rightarrow> Error + HugetlbReservedMax" where
  "Hugetlb_reserved_max os cg page =
     Cgroup_parse HugetlbReservedMax_from_str os cg (PageSize_file_name page ''rsvd.max'')"

definition Hugetlb_events :: "('d, 'x) os_scheme \<Rightarrow> 'd Cgroup \<Rightarrow> PageSize \<Rightarrow> Error + HugetlbEvents" where
  "Hugetlb_events os cg page = Cgroup_parse HugetlbEvents_from_str os cg (PageSize_file_name page ''events'')"

definition Hugetlb_events_local :: "('d, 'x) os_scheme \<Rightarrow> 'd Cgroup \<Rightarrow> PageSize \<Rightarrow> Error + HugetlbEvents" where
  "Hugetlb_events_local os cg page =
     Cgroup_parse HugetlbEvents_from_str os cg (PageSize_file_name page ''events.local'')"

definition Hugetlb_numa_stat :: "('d, 'x) os_scheme \<Rightarrow> 'd Cgroup \<Rightarrow> PageSize \<Rightarrow> Error + HugetlbNumaStat" where
  "Hugetlb_numa_stat os cg page =
     Cgroup_parse HugetlbNumaStat_from_str os cg (PageSize_file_name page ''numa_stat'')"

section \<open>Errors carry the input\<close>

interpretation page_size: snapshot_parser PageSize_from_str
  by unfold_locales (auto simp: PageSize_from_str_def Let_def intro!: reports_intros split: if_splits)

interpretation hugetlb_current: snapshot_parser HugetlbCurrent_from_str
  by unfold_locales (auto simp: HugetlbCurrent_from_str_def intro!: reports_intros)

interpretation hugetlb_max: snapshot_parser HugetlbMax_from_str
  by unfold_locales (auto simp: HugetlbMax_from_str_def intro!: reports_intros)

interpretation hugetlb_reserved_current: snapshot_parser HugetlbReservedCurrent_from_str
  by unfold_locales (auto simp: HugetlbReservedCurrent_from_str_def intro!: reports_intros)

interpretation hugetlb_reserved_max: snapshot_parser HugetlbReservedMax_from_str
  by unfold_locales (auto simp: HugetlbReservedMax_from_str_def intro!: reports_intros)

interpretation hugetlb_events: snapshot_parser HugetlbEvents_from_str
  by unfold_locales (auto simp: HugetlbEvents_from_str_def intro!: reports_intros)

interpretation hugetlb_numa_stat: snapshot_parser HugetlbNumaStat_from_str
  by unfold_locales (auto simp: HugetlbNumaStat_from_str_def node_entry_def
      intro!: reports_intros dest: kf_raw_assignments)

section \<open>Labels\<close>

lemma is_power_of_two_iff: "is_power_of_two w \<longleftrightarrow> (\<exists>k < LENGTH('a). unat w = 2 ^ k)" for w :: "'a::len word"
proof -
  have "w = 2 ^ k \<longleftrightarrow> unat w = 2 ^ k" if "k < LENGTH('a)" for k
  proof -
    have "unat (of_nat (2 ^ k) :: 'a word) = 2 ^ k" using that by (simp only: unat_of_nat) simp
    then show ?thesis by (simp add: word_unat_eq_iff)
  qed
  then show ?thesis by (auto simp: is_power_of_two_def list_ex_iff)
qed

lemma unat_units [simp]: "unat gibibyte = 2 ^ 30" "unat mebibyte = 2 ^ 20" "unat kibibyte = 2 ^ 10"
  by (simp_all add: gibibyte_def mebibyte_def kibibyte_def push_bit_eq_mult)

lemma page_unit_exact:
  assumes "PageSize_valid (PageSize (Bytes_byte b))" "page_unit b = (unit, suf)"
  shows "unat b = unat (b div unit) * unat unit"
proof -
  from assms(1) obtain k where k: "unat b = 2 ^ k" by (auto simp: PageSize_valid_def is_power_of_two_iff)
  have "kibibyte \<le> b" using assms(1) by (simp add: PageSize_valid_def word_le_nat_alt)
  with assms(2) have le: "unit \<le> b" and "unit \<in> {gibibyte, mebibyte, kibibyte}"
    by (auto simp: page_unit_def split: if_splits)
  then obtain u where u: "unat unit = 2 ^ u" using unat_units by blast
  then have "(2::nat) ^ u \<le> 2 ^ k" using le k by (simp add: word_le_nat_alt)
  then have "u \<le> k" by (simp add: power_increasing_iff)
  then have "(2::nat) ^ u dvd 2 ^ k" by (rule le_imp_power_dvd)
  then show ?thesis by (simp add: unat_div k u)
qed

lemma label_unit_display:
  "page_unit b = (unit, suf) \<Longrightarrow> label_unit (n @ suf) = Some (n, unit)"
  by (auto simp: page_unit_def label_unit_def strip_suffix_def split: if_splits)

lemma PageSize_from_display:
  assumes "PageSize_valid s"
  shows "PageSize_from_str (PageSize_display s) = Inr s"
proof -
  obtain b where s: "s = PageSize (Bytes_byte b)" by (cases s; cases "page_size_inner s") auto
  obtain unit suf where u: "page_unit b = (unit, suf)" by fastforce
  have "checked_mul (b div unit) unit = Some b"
    using page_unit_exact [OF _ u] assms by (simp add: checked_mul_Some_iff s)
  with assms show ?thesis
    by (simp add: PageSize_from_str_def Let_def s PageSize_display_def u label_unit_display [OF u] PageSize_try_new_def)
qed

lemma PageSize_from_str_Inr: "PageSize_from_str label = Inr s \<Longrightarrow> PageSize_valid s \<and> label = PageSize_display s"
  by (auto simp: PageSize_from_str_def Let_def result_simps PageSize_try_new_def split: if_splits)

lemma PageSize_from_str_Inl:
  "PageSize_from_str label = Inl e \<Longrightarrow> e = ParseError_invalid label ''page_size'' label OutOfRange"
  by (auto simp: PageSize_from_str_def Let_def result_simps split: if_splits)

text \<open>C23: A page size is read from exactly the label its \<open>Display\<close> prints, the canonical unit and decimal,
  and from no other text; every other label is one invalid field, with the whole label. So labels
  and valid page sizes correspond one to one.\<close>

theorem PageSize_from_str_correct:
  "(PageSize_from_str label = Inr s \<longleftrightarrow> PageSize_valid s \<and> label = PageSize_display s)
   \<and> (PageSize_from_str label = Inl e \<longleftrightarrow>
        label \<notin> PageSize_display ` Collect PageSize_valid \<and> e = ParseError_invalid label ''page_size'' label OutOfRange)"
proof
  show iff: "PageSize_from_str label = Inr s \<longleftrightarrow> PageSize_valid s \<and> label = PageSize_display s" for s
    using PageSize_from_str_Inr PageSize_from_display by blast
  show "PageSize_from_str label = Inl e \<longleftrightarrow>
      label \<notin> PageSize_display ` Collect PageSize_valid \<and> e = ParseError_invalid label ''page_size'' label OutOfRange"
  proof (cases "PageSize_from_str label")
    case (Inl e')
    then show ?thesis using iff PageSize_from_str_Inl [OF Inl] by auto
  next
    case (Inr s)
    then show ?thesis using iff [of s] by auto
  qed
qed

lemma PageSize_display_no_separator:
  "CHR ''/'' \<notin> set (PageSize_display p) \<and> CHR ''.'' \<notin> set (PageSize_display p)"
proof -
  have "CHR ''/'' \<notin> set (show_u w)" for w :: u64
    by (rule not_digit_not_in_digits [OF all_digits_show_u(1)]) (simp add: is_ascii_digit_def to_digit_def)
  moreover have "CHR ''.'' \<notin> set (show_u w)" for w :: u64
    by (rule not_digit_not_in_digits [OF all_digits_show_u(1)]) (simp add: is_ascii_digit_def to_digit_def)
  ultimately show ?thesis by (simp add: PageSize_display_def page_unit_def)
qed

lemma split_at_dot:
  "CHR ''.'' \<notin> set a \<Longrightarrow> CHR ''.'' \<notin> set b \<Longrightarrow> a @ CHR ''.'' # x = b @ CHR ''.'' # y \<longleftrightarrow> a = b \<and> x = y"
proof (induction a arbitrary: b)
  case Nil
  then show ?case by (cases b) auto
next
  case (Cons c a)
  then show ?case by (cases b) auto
qed

text \<open>The file a reader opens for a page size is one normal path component, so it is never refused
  before it is opened, and no two page sizes and no two suffixes share a file.\<close>

lemma PageSize_file_name_correct:
  assumes "PageSize_valid p" "PageSize_valid q" "CHR ''/'' \<notin> set suf"
  shows "components (PageSize_file_name p suf) = [Normal (PageSize_file_name p suf)]
    \<and> (PageSize_file_name p suf = PageSize_file_name q suf' \<longleftrightarrow> p = q \<and> suf = suf')"
proof
  show "components (PageSize_file_name p suf) = [Normal (PageSize_file_name p suf)]"
    using assms(3) PageSize_display_no_separator [of p]
    by (intro components_single) (auto simp: PageSize_file_name_def)
  have "PageSize_display p = PageSize_display q \<longleftrightarrow> p = q"
    using PageSize_from_display [OF assms(1)] PageSize_from_display [OF assms(2)] by (metis sum.inject(2))
  then show "PageSize_file_name p suf = PageSize_file_name q suf' \<longleftrightarrow> p = q \<and> suf = suf'"
    using PageSize_display_no_separator [of p] PageSize_display_no_separator [of q]
    by (simp add: PageSize_file_name_def split_at_dot)
qed

lemma PageSize_file_name_correct_witness:
  "PageSize_file_name (PageSize (Bytes_byte 2097152)) ''events''
     \<noteq> PageSize_file_name (PageSize (Bytes_byte 1073741824)) ''events''"
proof -
  have "is_power_of_two (2097152 :: u64)"
    unfolding is_power_of_two_iff by (rule exI [of _ 21]) simp
  then have p: "PageSize_valid (PageSize (Bytes_byte 2097152))" by (simp add: PageSize_valid_def)
  have "is_power_of_two (1073741824 :: u64)"
    unfolding is_power_of_two_iff by (rule exI [of _ 30]) simp
  then have q: "PageSize_valid (PageSize (Bytes_byte 1073741824))" by (simp add: PageSize_valid_def)
  from PageSize_file_name_correct [OF p q, of "''events''" "''events''"] show ?thesis by simp
qed

section \<open>NUMA statistics\<close>

lemma node_entries_selected:
  "List.map_filter (\<lambda>(key, value). map_option (\<lambda>node. (key, node, value)) (strip_prefix ''N'' key)) kvs
     = map (\<lambda>(node, value). (''N'' @ node, node, value)) (selected (strip_prefix ''N'') kvs)"
proof (induction kvs)
  case Nil
  show ?case by (simp add: selected_def List.map_filter_simps)
next
  case (Cons kv kvs)
  obtain k v where kv: "kv = (k, v)" by fastforce
  show ?case
  proof (cases "strip_prefix ''N'' k")
    case None
    with Cons show ?thesis by (simp add: kv selected_def List.map_filter_simps)
  next
    case (Some node)
    with Cons show ?thesis by (simp add: kv selected_def List.map_filter_simps strip_prefix_Some_iff)
  qed
qed

definition node_pair :: "u32 \<times> Bytes \<Rightarrow> string \<times> string" where
  "node_pair e = (''N'' @ show_u (fst e), render_bytes (snd e))"

definition HugetlbNumaStat_pairs :: "HugetlbNumaStat \<Rightarrow> (string \<times> string) list" where
  "HugetlbNumaStat_pairs s = (''total'', render_bytes (hugetlb_total s)) # map node_pair (hugetlb_nodes s)"

definition HugetlbNumaStat_render :: "HugetlbNumaStat \<Rightarrow> string" where
  "HugetlbNumaStat_render s = unwords (render_assignments (HugetlbNumaStat_pairs s)) @ [CHR 0x0A]"

definition HugetlbNumaStat_valid :: "HugetlbNumaStat \<Rightarrow> bool" where
  "HugetlbNumaStat_valid s \<longleftrightarrow> btree_inv (hugetlb_nodes s)"

lemma all_digits_plain: "all_digits s \<Longrightarrow> CHR ''='' \<notin> set s"
  by (rule not_digit_not_in_digits) (simp_all add: is_ascii_digit_def to_digit_def)

lemma show_u_inj: "show_u v = show_u w \<longleftrightarrow> v = w"
  by (metis parse_u_show_u sum.inject(2))

lemma node_pair_inj: "inj_on node_pair t"
  by (auto intro!: inj_onI simp: node_pair_def show_u_inj dest: v_bytes.render_inj [OF TrueI TrueI])

lemma HugetlbNumaStat_pairs_plain: "\<forall>kv \<in> set (HugetlbNumaStat_pairs s). CHR ''='' \<notin> set (fst kv)"
  by (auto simp: HugetlbNumaStat_pairs_def node_pair_def all_digits_plain)

lemma HugetlbNumaStat_tokens: "list_all is_token (render_assignments (HugetlbNumaStat_pairs s))"
proof -
  have total: "is_token ''total''" "is_token ''N''" by (simp_all add: is_token_def is_ascii_whitespace_def)
  have "is_token (''N'' @ show_u n)" for n :: u32
    using is_token_append [of "''N''" "show_u n"] total(2) by simp
  with total show ?thesis
    by (auto simp: HugetlbNumaStat_pairs_def render_assignments_def node_pair_def list_all_iff
        v_bytes.render_token intro!: is_token_assignment)
qed

lemma HugetlbNumaStat_distinct: "HugetlbNumaStat_valid s \<Longrightarrow> distinct (map fst (HugetlbNumaStat_pairs s))"
proof -
  assume "HugetlbNumaStat_valid s"
  then have "distinct (map fst (hugetlb_nodes s))"
    by (simp add: HugetlbNumaStat_valid_def btree_inv_def strict_sorted_iff)
  then have "distinct (map (\<lambda>n. ''N'' @ show_u n) (map fst (hugetlb_nodes s)))"
    by (subst distinct_map) (auto intro: inj_onI simp: show_u_inj)
  then show ?thesis by (auto simp: HugetlbNumaStat_pairs_def node_pair_def o_def)
qed

lemma selected_node_pairs:
  "selected (strip_prefix ''N'') (map node_pair es) = map (\<lambda>e. (show_u (fst e), render_bytes (snd e))) es"
  by (induction es) (simp_all add: selected_def List.map_filter_simps node_pair_def)

text \<open>Reading \<open>hugetlb.<size>.numa_stat\<close> as the kernel prints it, one line of assignments, gives the
  total and the usage of every node back, in the order of the node numbers whatever the order in
  which their texts sort.\<close>

lemma HugetlbNumaStat_round_trip:
  assumes "HugetlbNumaStat_valid s"
  shows "HugetlbNumaStat_from_str (HugetlbNumaStat_render s) = Inr s"
proof -
  let ?raw = "HugetlbNumaStat_render s" and ?t = "hugetlb_nodes s" and ?ps = "HugetlbNumaStat_pairs s"
  let ?P = "\<lambda>kv :: string \<times> string. strip_prefix ''N'' (fst kv) \<noteq> None"
  have inv: "btree_inv ?t" using assms by (simp add: HugetlbNumaStat_valid_def)
  have "split_ascii_whitespace ?raw = render_assignments ?ps"
    by (simp add: HugetlbNumaStat_render_def split_ascii_whitespace_append_space split_unwords HugetlbNumaStat_tokens)
  then have kf: "assignments ?raw (split_ascii_whitespace ?raw) = Inr \<lparr>kf_raw = ?raw, kf_values = btree_collect ?ps\<rparr>"
    using assignments_render [OF HugetlbNumaStat_pairs_plain] by simp
  have "\<exists>ts. filter ?P (btree_collect ([(''total'', render_bytes (hugetlb_total s))] @ map node_pair ?t))
      = map node_pair ts \<and> set ts = set ?t \<and> btree_collect ts = ?t"
    using HugetlbNumaStat_distinct [OF assms]
    by (intro encoded_entries [where key = "\<lambda>n. ''N'' @ show_u n", OF inv _ _ _ _ _ node_pair_inj])
      (auto simp: node_pair_def show_u_inj HugetlbNumaStat_pairs_def)
  then obtain ts where ts: "filter ?P (btree_collect ?ps) = map node_pair ts" "btree_collect ts = ?t"
    by (auto simp: HugetlbNumaStat_pairs_def)
  have "selected (strip_prefix ''N'') (btree_collect ?ps) = map (\<lambda>e. (show_u (fst e), render_bytes (snd e))) ts"
    by (subst selected_filter) (simp only: ts(1) selected_node_pairs)
  then have "map (node_entry ?raw)
      (List.map_filter (\<lambda>(key, value). map_option (\<lambda>node. (key, node, value)) (strip_prefix ''N'' key)) (btree_collect ?ps))
    = map Inr ts"
    by (auto simp: node_entries_selected node_entry_def v_bytes.field_render)
  moreover have "btree_get (btree_collect ?ps) ''total'' = Some (render_bytes (hugetlb_total s))"
    using HugetlbNumaStat_distinct [OF assms]
    by (simp add: btree_get_collect map_of_rev_distinct) (simp add: HugetlbNumaStat_pairs_def)
  ultimately show ?thesis
    by (simp add: HugetlbNumaStat_from_str_def kf KeyedFields_iter_def btree_iter_def ts(2)
        v_bytes.required_lookup del: map_map)
qed

definition HugetlbNumaStat_example :: HugetlbNumaStat where
  "HugetlbNumaStat_example = \<lparr>hugetlb_total = Bytes_byte 4194304,
     hugetlb_nodes = [(2, Bytes_byte 4194304), (10, Bytes_byte 0)]\<rparr>"

lemma HugetlbNumaStat_round_trip_witness:
  "HugetlbNumaStat_from_str (HugetlbNumaStat_render HugetlbNumaStat_example) = Inr HugetlbNumaStat_example"
  by (rule HugetlbNumaStat_round_trip)
    (simp add: HugetlbNumaStat_valid_def HugetlbNumaStat_example_def btree_inv_def)

end
