(* ===== verification/Sakai_Rdma.thy ===== *)
theory Sakai_Rdma
  imports Field_Record "HOL-Library.Option_ord"
begin

text \<open>
  The RDMA controller, \<open>sakai/src/cgroup/v2/rdma.rs\<close>: files with one line per device, each the
  name of the device and \<open>key=value\<close> tokens, among which \<open>index\<close> may be a part of the identity
  of the device.
\<close>

section \<open>Devices\<close>

datatype RdmaDevice = RdmaDevice (rdma_name: string) (rdma_index: "u32 option")

text \<open>The derived \<open>Ord\<close>: by name, then by index, where no index comes first.\<close>

instantiation RdmaDevice :: linorder
begin

definition less_eq_RdmaDevice :: "RdmaDevice \<Rightarrow> RdmaDevice \<Rightarrow> bool" where
  "a \<le> b \<longleftrightarrow> rdma_name a < rdma_name b \<or> rdma_name a = rdma_name b \<and> rdma_index a \<le> rdma_index b"

definition less_RdmaDevice :: "RdmaDevice \<Rightarrow> RdmaDevice \<Rightarrow> bool" where
  "a < b \<longleftrightarrow> rdma_name a < rdma_name b \<or> rdma_name a = rdma_name b \<and> rdma_index a < rdma_index b"

instance
  by intro_classes (auto simp: less_eq_RdmaDevice_def less_RdmaDevice_def intro: RdmaDevice.expand)

end

section \<open>The parsers\<close>

definition rdma_index_field :: "string \<Rightarrow> KeyedFields \<Rightarrow> u32 option parsed" where
  "rdma_index_field raw kf =
     transpose (map_option (\<lambda>(key, value).
         map_err (\<lambda>e. ParseError_invalid raw ''index'' value (Integer e)) (parse_u value))
       (find (\<lambda>(key, value). key = ''index'') (KeyedFields_iter kf)))"

definition parse_device_line :: "(KeyedFields \<Rightarrow> 'v parsed) \<Rightarrow> string \<Rightarrow> string \<Rightarrow> (RdmaDevice \<times> 'v) parsed" where
  "parse_device_line parse raw line =
     (case split_ascii_whitespace line of
        [] \<Rightarrow> Inl (ParseError_missing raw ''device'')
      | device # tokens \<Rightarrow>
          and_then (assignments raw tokens) (\<lambda>kf.
          and_then (rdma_index_field raw kf) (\<lambda>index.
          and_then (parse kf) (\<lambda>v. Inr (RdmaDevice device index, v)))))"

definition parse_devices :: "(KeyedFields \<Rightarrow> 'v parsed) \<Rightarrow> string \<Rightarrow> (RdmaDevice, 'v) btree parsed" where
  "parse_devices parse raw =
     map_ok btree_collect (collect_results (map (parse_device_line parse raw) (nonblank_lines raw)))"

record RdmaDeviceCurrent =
  current_hca_handle :: Count
  current_hca_object :: Count

text \<open>\<open>i32::MAX as u64\<close>, which the kernel prints as \<open>max\<close> in a counter.\<close>

definition rdma_count :: "KeyedFields \<Rightarrow> string \<Rightarrow> Count parsed" where
  "rdma_count kf field =
     map_ok (\<lambda>v. case v of Value c \<Rightarrow> c | MaxLimit \<Rightarrow> Count 2147483647)
       (required (parse_max_or parse_count) kf field)"

definition RdmaDeviceCurrent_from_fields :: "KeyedFields \<Rightarrow> RdmaDeviceCurrent parsed" where
  "RdmaDeviceCurrent_from_fields kf =
     and_then (rdma_count kf ''hca_handle'') (\<lambda>h.
     and_then (rdma_count kf ''hca_object'') (\<lambda>b.
     Inr \<lparr>current_hca_handle = h, current_hca_object = b\<rparr>))"

record RdmaCurrent = rdma_current_devices :: "(RdmaDevice, RdmaDeviceCurrent) btree"

definition RdmaCurrent_from_str :: "string \<Rightarrow> RdmaCurrent parsed" where
  "RdmaCurrent_from_str contents =
     map_ok (\<lambda>m. \<lparr>rdma_current_devices = m\<rparr>) (parse_devices RdmaDeviceCurrent_from_fields contents)"

record RdmaDeviceMax =
  max_hca_handle :: "Count MaxOr"
  max_hca_object :: "Count MaxOr"

definition RdmaDeviceMax_from_fields :: "KeyedFields \<Rightarrow> RdmaDeviceMax parsed" where
  "RdmaDeviceMax_from_fields kf =
     and_then (required (parse_max_or parse_count) kf ''hca_handle'') (\<lambda>h.
     and_then (required (parse_max_or parse_count) kf ''hca_object'') (\<lambda>b.
     Inr \<lparr>max_hca_handle = h, max_hca_object = b\<rparr>))"

record RdmaMax = rdma_max_devices :: "(RdmaDevice, RdmaDeviceMax) btree"

definition RdmaMax_from_str :: "string \<Rightarrow> RdmaMax parsed" where
  "RdmaMax_from_str contents =
     map_ok (\<lambda>m. \<lparr>rdma_max_devices = m\<rparr>) (parse_devices RdmaDeviceMax_from_fields contents)"

record RdmaResourceEvents =
  resource_max :: Count
  resource_alloc_fail :: Count

record RdmaDeviceEvents =
  events_hca_handle :: RdmaResourceEvents
  events_hca_object :: RdmaResourceEvents

definition RdmaDeviceEvents_from_fields :: "KeyedFields \<Rightarrow> RdmaDeviceEvents parsed" where
  "RdmaDeviceEvents_from_fields kf =
     and_then (required parse_count kf ''hca_handle.max'') (\<lambda>hm.
     and_then (required parse_count kf ''hca_handle.alloc_fail'') (\<lambda>hf.
     and_then (required parse_count kf ''hca_object.max'') (\<lambda>bm.
     and_then (required parse_count kf ''hca_object.alloc_fail'') (\<lambda>bf.
     Inr \<lparr>events_hca_handle = \<lparr>resource_max = hm, resource_alloc_fail = hf\<rparr>,
       events_hca_object = \<lparr>resource_max = bm, resource_alloc_fail = bf\<rparr>\<rparr>))))"

record RdmaEvents = rdma_events_devices :: "(RdmaDevice, RdmaDeviceEvents) btree"

definition RdmaEvents_from_str :: "string \<Rightarrow> RdmaEvents parsed" where
  "RdmaEvents_from_str contents =
     map_ok (\<lambda>m. \<lparr>rdma_events_devices = m\<rparr>) (parse_devices RdmaDeviceEvents_from_fields contents)"

section \<open>The readers\<close>

definition Rdma_current :: "('d, 'x) os_scheme \<Rightarrow> 'd Cgroup \<Rightarrow> Error + RdmaCurrent" where
  "Rdma_current os cg = Cgroup_parse RdmaCurrent_from_str os cg ''rdma.current''"

definition Rdma_max :: "('d, 'x) os_scheme \<Rightarrow> 'd Cgroup \<Rightarrow> Error + RdmaMax" where
  "Rdma_max os cg = Cgroup_parse RdmaMax_from_str os cg ''rdma.max''"

definition Rdma_peak :: "('d, 'x) os_scheme \<Rightarrow> 'd Cgroup \<Rightarrow> Error + RdmaCurrent" where
  "Rdma_peak os cg = Cgroup_parse RdmaCurrent_from_str os cg ''rdma.peak''"

definition Rdma_events :: "('d, 'x) os_scheme \<Rightarrow> 'd Cgroup \<Rightarrow> Error + RdmaEvents" where
  "Rdma_events os cg = Cgroup_parse RdmaEvents_from_str os cg ''rdma.events''"

definition Rdma_events_local :: "('d, 'x) os_scheme \<Rightarrow> 'd Cgroup \<Rightarrow> Error + RdmaEvents" where
  "Rdma_events_local os cg = Cgroup_parse RdmaEvents_from_str os cg ''rdma.events.local''"

section \<open>Devices with an index\<close>

text \<open>
  The fields of a line hold the index of the device and its values together. The contract of
  \<open>field_record\<close> at the pair of both, with the index under its key.
\<close>

lemma find_key:
  assumes "btree_inv m"
  shows "find (\<lambda>(key, value). key = k) m = map_option (Pair k) (btree_get m k)"
proof -
  have "find (\<lambda>(key, value). key = k) kvs = map_option (Pair k) (map_of kvs k)" for kvs
    by (induction kvs) auto
  then show ?thesis by (simp add: btree_get_def)
qed

lemma reports_rdma_index_field [reports_intros]: "reports raw (rdma_index_field raw kf)"
  by (cases "find (\<lambda>(key, value). key = ''index'') (KeyedFields_iter kf)")
    (auto simp: rdma_index_field_def reports_def transpose_eq_Inl map_err_eq_Inl)

lemma rdma_index_render:
  "btree_get (btree_collect kvs) ''index'' = map_option show_u i \<Longrightarrow>
   rdma_index_field raw \<lparr>kf_raw = raw', kf_values = btree_collect kvs\<rparr> = Inr i"
  by (cases i) (simp_all add: rdma_index_field_def KeyedFields_iter_def btree_iter_def find_key)

locale indexed_record = field_record from_fields valid fields view
  for from_fields :: "KeyedFields \<Rightarrow> 'v parsed"
    and valid :: "u32 option \<times> 'a \<Rightarrow> bool"
    and fields :: "u32 option \<times> 'a \<Rightarrow> (string \<times> string) list"
    and view :: "u32 option \<times> 'a \<Rightarrow> 'v" +
  assumes index_field: "btree_get (btree_collect (fields e)) ''index'' = map_option show_u (fst e)"
begin

definition words :: "string \<times> u32 option \<times> 'a \<Rightarrow> string list" where
  "words e = fst e # render_assignments (fields (snd e))"

definition entry :: "string \<times> u32 option \<times> 'a \<Rightarrow> RdmaDevice \<times> 'v" where
  "entry e = (RdmaDevice (fst e) (fst (snd e)), view (snd e))"

definition render_lines :: "(string \<times> u32 option \<times> 'a) list \<Rightarrow> string" where
  "render_lines es = unlines (map unwords (map words es))"

lemma line_round_trip:
  assumes "is_key (fst e)" "valid (snd e)"
  shows "is_word_line (words e)" "parse_device_line from_fields raw (unwords (words e)) = Inr (entry e)"
proof -
  show line: "is_word_line (words e)"
    using assms(1) tokens_are_tokens [OF assms(2)] by (simp add: is_word_line_def words_def is_key_def)
  have "\<forall>kv \<in> set (fields (snd e)). CHR ''='' \<notin> set (fst kv)"
    using fields_plain [OF assms(2)] by (auto simp: list_all_iff plain_pair_def)
  then show "parse_device_line from_fields raw (unwords (words e)) = Inr (entry e)"
    unfolding parse_device_line_def unwords_line(3) [OF line]
    by (simp add: words_def entry_def assignments_render rdma_index_render index_field from_fields_render [OF assms(2)])
qed

lemma devices_round_trip:
  assumes "\<forall>e \<in> set es. is_key (fst e) \<and> valid (snd e)"
  shows "parse_devices from_fields (render_lines es) = Inr (btree_collect (map entry es))"
proof -
  have "nonblank_lines (render_lines es) = map unwords (map words es)"
    unfolding render_lines_def using assms by (intro nonblank_lines_words) (auto intro: line_round_trip(1))
  moreover have "map (parse_device_line from_fields raw) (map unwords (map words es)) = map Inr (map entry es)" for raw
    using assms by (auto simp: line_round_trip(2))
  ultimately show ?thesis by (simp only: parse_devices_def collect_results_Inr map_ok.simps)
qed

lemma devices_reports: "reports raw (parse_devices from_fields raw)"
proof -
  have "reports raw (parse_device_line from_fields raw line)" for line
    by (auto simp: parse_device_line_def split: list.split
        intro!: reports_intros fields_reports dest: kf_raw_assignments)
  then show ?thesis by (auto simp: parse_devices_def intro!: reports_intros)
qed

end

text \<open>The fields of a line: the index where there is one, then the values.\<close>

definition indexed_fields :: "('a \<Rightarrow> (string \<times> string) list) \<Rightarrow> u32 option \<times> 'a \<Rightarrow> (string \<times> string) list" where
  "indexed_fields pairs e = opt_pair ''index'' show_u (fst e) @ pairs (snd e)"

lemma indexed_fields_index:
  "''index'' \<notin> fst ` set (pairs (snd e)) \<Longrightarrow>
   btree_get (btree_collect (indexed_fields pairs e)) ''index'' = map_option show_u (fst e)"
proof -
  assume "''index'' \<notin> fst ` set (pairs (snd e))"
  then have "map_of (rev (pairs (snd e))) ''index'' = None" by (simp add: map_of_eq_None_iff)
  then show ?thesis
    by (simp add: indexed_fields_def btree_get_collect map_add_def)
qed

section \<open>The three kinds of line\<close>

fun RdmaDeviceCurrent_fields :: "Count MaxOr \<times> Count MaxOr \<Rightarrow> (string \<times> string) list" where
  "RdmaDeviceCurrent_fields (h, b) =
     [(''hca_handle'', render_max_or render_count h), (''hca_object'', render_max_or render_count b)]"

fun rdma_count_view :: "Count MaxOr \<Rightarrow> Count" where
  "rdma_count_view (Value c) = c"
| "rdma_count_view MaxLimit = Count 2147483647"

fun RdmaDeviceCurrent_view :: "Count MaxOr \<times> Count MaxOr \<Rightarrow> RdmaDeviceCurrent" where
  "RdmaDeviceCurrent_view (h, b) =
     \<lparr>current_hca_handle = rdma_count_view h, current_hca_object = rdma_count_view b\<rparr>"

definition RdmaDeviceMax_fields :: "RdmaDeviceMax \<Rightarrow> (string \<times> string) list" where
  "RdmaDeviceMax_fields m =
     [(''hca_handle'', render_max_or render_count (max_hca_handle m)),
      (''hca_object'', render_max_or render_count (max_hca_object m))]"

definition RdmaDeviceEvents_fields :: "RdmaDeviceEvents \<Rightarrow> (string \<times> string) list" where
  "RdmaDeviceEvents_fields e =
     [(''hca_handle.max'', render_count (resource_max (events_hca_handle e))),
      (''hca_handle.alloc_fail'', render_count (resource_alloc_fail (events_hca_handle e))),
      (''hca_object.max'', render_count (resource_max (events_hca_object e))),
      (''hca_object.alloc_fail'', render_count (resource_alloc_fail (events_hca_object e)))]"

lemma render_limit_token [simp]: "is_token (render_max_or render_count v)"
  using v_count.max_or.render_token [of v] by simp

lemma index_plain [simp]: "is_key ''index''"
  by (simp add: is_key_def is_token_def is_ascii_whitespace_def ink_def white_space1_def)

lemma indexed_fields_plain:
  "list_all plain_pair (pairs (snd e)) \<Longrightarrow> list_all plain_pair (indexed_fields pairs e)"
  by (auto simp: indexed_fields_def plain_pair_iff)

lemma rdma_keys_plain [simp]:
  "is_key ''hca_handle''" "is_key ''hca_object''" "is_key ''hca_handle.max''" "is_key ''hca_handle.alloc_fail''"
  "is_key ''hca_object.max''" "is_key ''hca_object.alloc_fail''"
  by (simp_all add: is_key_def is_token_def is_ascii_whitespace_def ink_def white_space1_def)

lemmas rdma_lookup = indexed_fields_def field_lookup

lemma rdma_count_render:
  "btree_get (kf_values kf) field = Some (render_max_or render_count v) \<Longrightarrow>
   rdma_count kf field = Inr (rdma_count_view v)"
  by (cases v) (simp_all add: rdma_count_def v_count.max_or.required_lookup [of kf field v])

interpretation rdma_current: indexed_record RdmaDeviceCurrent_from_fields "\<lambda>_. True"
  "indexed_fields RdmaDeviceCurrent_fields" "\<lambda>e. RdmaDeviceCurrent_view (snd e)"
proof unfold_locales
  fix kf raw
  show "kf_raw kf = raw \<Longrightarrow> reports raw (RdmaDeviceCurrent_from_fields kf)"
    by (auto simp: RdmaDeviceCurrent_from_fields_def rdma_count_def intro!: reports_intros)
next
  fix e raw
  show "RdmaDeviceCurrent_from_fields
      \<lparr>kf_raw = raw, kf_values = btree_collect (indexed_fields RdmaDeviceCurrent_fields e)\<rparr>
    = Inr (RdmaDeviceCurrent_view (snd e))"
    by (cases "snd e") (simp add: RdmaDeviceCurrent_from_fields_def rdma_lookup rdma_count_render)
  show "list_all plain_pair (indexed_fields RdmaDeviceCurrent_fields e)"
    by (cases "snd e") (simp add: indexed_fields_plain plain_pair_iff)
  show "btree_get (btree_collect (indexed_fields RdmaDeviceCurrent_fields e)) ''index'' = map_option show_u (fst e)"
    by (cases "snd e") (simp add: indexed_fields_index)
qed

interpretation rdma_max: indexed_record RdmaDeviceMax_from_fields "\<lambda>_. True"
  "indexed_fields RdmaDeviceMax_fields" snd
proof unfold_locales
  fix kf raw
  show "kf_raw kf = raw \<Longrightarrow> reports raw (RdmaDeviceMax_from_fields kf)"
    by (auto simp: RdmaDeviceMax_from_fields_def intro!: reports_intros)
next
  fix e raw
  show "RdmaDeviceMax_from_fields
      \<lparr>kf_raw = raw, kf_values = btree_collect (indexed_fields RdmaDeviceMax_fields e)\<rparr> = Inr (snd e)"
    by (simp add: RdmaDeviceMax_from_fields_def RdmaDeviceMax_fields_def rdma_lookup v_count.max_or.required_lookup)
  show "list_all plain_pair (indexed_fields RdmaDeviceMax_fields e)"
    by (simp add: indexed_fields_plain RdmaDeviceMax_fields_def plain_pair_iff)
  show "btree_get (btree_collect (indexed_fields RdmaDeviceMax_fields e)) ''index'' = map_option show_u (fst e)"
    by (simp add: indexed_fields_index RdmaDeviceMax_fields_def)
qed

interpretation rdma_events: indexed_record RdmaDeviceEvents_from_fields "\<lambda>_. True"
  "indexed_fields RdmaDeviceEvents_fields" snd
proof unfold_locales
  fix kf raw
  show "kf_raw kf = raw \<Longrightarrow> reports raw (RdmaDeviceEvents_from_fields kf)"
    by (auto simp: RdmaDeviceEvents_from_fields_def intro!: reports_intros)
next
  fix e raw
  show "RdmaDeviceEvents_from_fields
      \<lparr>kf_raw = raw, kf_values = btree_collect (indexed_fields RdmaDeviceEvents_fields e)\<rparr> = Inr (snd e)"
    by (simp add: RdmaDeviceEvents_from_fields_def RdmaDeviceEvents_fields_def rdma_lookup v_count.required_lookup)
  show "list_all plain_pair (indexed_fields RdmaDeviceEvents_fields e)"
    by (simp add: indexed_fields_plain RdmaDeviceEvents_fields_def plain_pair_iff v_count.render_token)
  show "btree_get (btree_collect (indexed_fields RdmaDeviceEvents_fields e)) ''index'' = map_option show_u (fst e)"
    by (simp add: indexed_fields_index RdmaDeviceEvents_fields_def)
qed

interpretation rdma_current_file: snapshot_parser RdmaCurrent_from_str
  by unfold_locales (simp add: RdmaCurrent_from_str_def reports_map_ok rdma_current.devices_reports)

interpretation rdma_max_file: snapshot_parser RdmaMax_from_str
  by unfold_locales (simp add: RdmaMax_from_str_def reports_map_ok rdma_max.devices_reports)

interpretation rdma_events_file: snapshot_parser RdmaEvents_from_str
  by unfold_locales (simp add: RdmaEvents_from_str_def reports_map_ok rdma_events.devices_reports)

section \<open>Reading the files back\<close>

text \<open>C31: Reading \<open>rdma.current\<close>, \<open>rdma.max\<close> and \<open>rdma.events\<close> as the kernel prints them, one line per
  device with or without an index, gives for each device, told apart by name and index, the values
  of its last line; a counter printed as \<open>max\<close> is the largest 32-bit signed count.\<close>

theorem Rdma_round_trip:
  assumes "\<forall>e \<in> set cs. is_key (fst e)" "\<forall>e \<in> set ms. is_key (fst e)" "\<forall>e \<in> set es. is_key (fst e)"
  shows "RdmaCurrent_from_str (rdma_current.render_lines cs) =
      Inr \<lparr>rdma_current_devices = btree_collect (map (\<lambda>(name, i, v). (RdmaDevice name i, RdmaDeviceCurrent_view v)) cs)\<rparr>
    \<and> RdmaMax_from_str (rdma_max.render_lines ms) =
      Inr \<lparr>rdma_max_devices = btree_collect (map (\<lambda>(name, i, v). (RdmaDevice name i, v)) ms)\<rparr>
    \<and> RdmaEvents_from_str (rdma_events.render_lines es) =
      Inr \<lparr>rdma_events_devices = btree_collect (map (\<lambda>(name, i, v). (RdmaDevice name i, v)) es)\<rparr>"
proof (intro conjI)
  have "rdma_current.entry = (\<lambda>(name, i, v). (RdmaDevice name i, RdmaDeviceCurrent_view v))"
    by (auto simp: rdma_current.entry_def fun_eq_iff)
  then show "RdmaCurrent_from_str (rdma_current.render_lines cs) =
      Inr \<lparr>rdma_current_devices = btree_collect (map (\<lambda>(name, i, v). (RdmaDevice name i, RdmaDeviceCurrent_view v)) cs)\<rparr>"
    using assms(1) by (simp add: RdmaCurrent_from_str_def rdma_current.devices_round_trip)
  have "rdma_max.entry = (\<lambda>(name, i, v). (RdmaDevice name i, v))"
    by (auto simp: rdma_max.entry_def fun_eq_iff)
  then show "RdmaMax_from_str (rdma_max.render_lines ms) =
      Inr \<lparr>rdma_max_devices = btree_collect (map (\<lambda>(name, i, v). (RdmaDevice name i, v)) ms)\<rparr>"
    using assms(2) by (simp add: RdmaMax_from_str_def rdma_max.devices_round_trip)
  have "rdma_events.entry = (\<lambda>(name, i, v). (RdmaDevice name i, v))"
    by (auto simp: rdma_events.entry_def fun_eq_iff)
  then show "RdmaEvents_from_str (rdma_events.render_lines es) =
      Inr \<lparr>rdma_events_devices = btree_collect (map (\<lambda>(name, i, v). (RdmaDevice name i, v)) es)\<rparr>"
    using assms(3) by (simp add: RdmaEvents_from_str_def rdma_events.devices_round_trip)
qed

lemma Rdma_round_trip_witness:
  "RdmaCurrent_from_str (rdma_current.render_lines
      [(''mlx5_0'', Some 3, MaxLimit, Value (Count 7)), (''mlx5_0'', None, Value (Count 1), Value (Count 2))])
   = Inr \<lparr>rdma_current_devices =
       [(RdmaDevice ''mlx5_0'' None, \<lparr>current_hca_handle = Count 1, current_hca_object = Count 2\<rparr>),
        (RdmaDevice ''mlx5_0'' (Some 3), \<lparr>current_hca_handle = Count 2147483647, current_hca_object = Count 7\<rparr>)]\<rparr>"
proof -
  let ?cs = "[(''mlx5_0'', Some (3 :: u32), MaxLimit, Value (Count 7)), (''mlx5_0'', None, Value (Count 1), Value (Count 2))]"
  have "is_key ''mlx5_0''" by (simp add: is_key_def is_token_def is_ascii_whitespace_def ink_def white_space1_def)
  then have "\<forall>e \<in> set ?cs. is_key (fst e)" by simp
  from Rdma_round_trip [OF this, of "[]" "[]"] show ?thesis
    by (simp add: btree_collect_def less_RdmaDevice_def)
qed

end
