(* ===== verification/Py_Resources.thy ===== *)
theory Py_Resources
  imports Py_Core Sakai_Misc Sakai_Dmem Sakai_Hugetlb Sakai_Rdma "HOL-Library.Product_Lexorder"
begin

text \<open>
  The misc, dmem, hugetlb and rdma controllers in Python: \<open>misc.rs\<close>, \<open>dmem.rs\<close>, \<open>hugetlb.rs\<close> and
  \<open>rdma.rs\<close> of \<open>sakai-python/src/linux/\<close>. Resources and regions keep their names as keys of a
  mapping; a HugeTLB reader takes the label of a page size; an RDMA device is the key
  \<open>(name, index)\<close>.
\<close>

section \<open>Misc\<close>

text \<open>Collecting a map again under its own keys.\<close>

definition collect_values :: "('k::linorder, 'v) btree \<Rightarrow> ('v \<Rightarrow> 'o) \<Rightarrow> ('k, 'o) btree" where
  "collect_values values convert = btree_collect (map (\<lambda>(key, v). (key, convert v)) (btree_iter values))"

record PyMiscCapacity = py_misc_capacity :: "(string, Count Quantity) btree"

definition PyMiscCapacity_from :: "MiscCapacity \<Rightarrow> PyMiscCapacity" where
  "PyMiscCapacity_from v = \<lparr>py_misc_capacity = collect_values (capacity_resources v) Quantity\<rparr>"

definition PyMiscCapacity_resources :: "('r, 'o, 'w) pint \<Rightarrow> PyMiscCapacity \<Rightarrow> ('w, PyErr, (string \<times> 'o) list) io" where
  "PyMiscCapacity_resources p v = mapping (Count_into_pyobject p) (py_misc_capacity v)"

record PyMiscCurrent = py_misc_current :: "(string, Count Quantity) btree"

definition PyMiscCurrent_from :: "MiscCurrent \<Rightarrow> PyMiscCurrent" where
  "PyMiscCurrent_from v = \<lparr>py_misc_current = collect_values (current_resources v) Quantity\<rparr>"

definition PyMiscCurrent_resources :: "('r, 'o, 'w) pint \<Rightarrow> PyMiscCurrent \<Rightarrow> ('w, PyErr, (string \<times> 'o) list) io" where
  "PyMiscCurrent_resources p v = mapping (Count_into_pyobject p) (py_misc_current v)"

record PyMiscPeak = py_misc_peak :: "(string, Count Quantity) btree"

definition PyMiscPeak_from :: "MiscPeak \<Rightarrow> PyMiscPeak" where
  "PyMiscPeak_from v = \<lparr>py_misc_peak = collect_values (peak_resources v) Quantity\<rparr>"

definition PyMiscPeak_resources :: "('r, 'o, 'w) pint \<Rightarrow> PyMiscPeak \<Rightarrow> ('w, PyErr, (string \<times> 'o) list) io" where
  "PyMiscPeak_resources p v = mapping (Count_into_pyobject p) (py_misc_peak v)"

record PyMiscEvents = py_misc_events :: "(string, Count Quantity) btree"

definition PyMiscEvents_from :: "MiscEvents \<Rightarrow> PyMiscEvents" where
  "PyMiscEvents_from v = \<lparr>py_misc_events = collect_values (events_resources v) Quantity\<rparr>"

definition PyMiscEvents_resources :: "('r, 'o, 'w) pint \<Rightarrow> PyMiscEvents \<Rightarrow> ('w, PyErr, (string \<times> 'o) list) io" where
  "PyMiscEvents_resources p v = mapping (Count_into_pyobject p) (py_misc_events v)"

record PyMiscMax = py_misc_max :: "(string, PyMaxOr) btree"

definition PyMiscMax_from :: "MiscMax \<Rightarrow> PyMiscMax" where
  "PyMiscMax_from v = \<lparr>py_misc_max = collect_values (max_resources v) MaxOr_from_count\<rparr>"

definition PyMiscMax_resources ::
  "(PyMaxOr \<Rightarrow> ('w, PyErr, 'o) io) \<Rightarrow> PyMiscMax \<Rightarrow> ('w, PyErr, (string \<times> 'o) list) io" where
  "PyMiscMax_resources new v = mapping new (py_misc_max v)"

definition PyMisc_capacity :: "python \<Rightarrow> ('d, 'x) os_scheme \<Rightarrow> 'd Cgroup \<Rightarrow> PyErr + PyMiscCapacity" where
  "PyMisc_capacity py os owner = map_ok PyMiscCapacity_from (PythonError_read py os owner Misc_capacity)"

definition PyMisc_current :: "python \<Rightarrow> ('d, 'x) os_scheme \<Rightarrow> 'd Cgroup \<Rightarrow> PyErr + PyMiscCurrent" where
  "PyMisc_current py os owner = map_ok PyMiscCurrent_from (PythonError_read py os owner Misc_current)"

definition PyMisc_peak :: "python \<Rightarrow> ('d, 'x) os_scheme \<Rightarrow> 'd Cgroup \<Rightarrow> PyErr + PyMiscPeak" where
  "PyMisc_peak py os owner = map_ok PyMiscPeak_from (PythonError_read py os owner Misc_peak)"

definition PyMisc_max :: "python \<Rightarrow> ('d, 'x) os_scheme \<Rightarrow> 'd Cgroup \<Rightarrow> PyErr + PyMiscMax" where
  "PyMisc_max py os owner = map_ok PyMiscMax_from (PythonError_read py os owner Misc_max)"

definition PyMisc_events :: "python \<Rightarrow> ('d, 'x) os_scheme \<Rightarrow> 'd Cgroup \<Rightarrow> PyErr + PyMiscEvents" where
  "PyMisc_events py os owner = map_ok PyMiscEvents_from (PythonError_read py os owner Misc_events)"

definition PyMisc_events_local :: "python \<Rightarrow> ('d, 'x) os_scheme \<Rightarrow> 'd Cgroup \<Rightarrow> PyErr + PyMiscEvents" where
  "PyMisc_events_local py os owner = map_ok PyMiscEvents_from (PythonError_read py os owner Misc_events_local)"

section \<open>Device memory\<close>

record PyDmemCapacity = py_dmem_capacity :: "(string, Bytes Quantity) btree"

definition PyDmemCapacity_from :: "DmemCapacity \<Rightarrow> PyDmemCapacity" where
  "PyDmemCapacity_from v = \<lparr>py_dmem_capacity = collect_values (capacity_regions v) Quantity\<rparr>"

definition PyDmemCapacity_regions :: "('r, 'o, 'w) pint \<Rightarrow> PyDmemCapacity \<Rightarrow> ('w, PyErr, (string \<times> 'o) list) io" where
  "PyDmemCapacity_regions p v = mapping (Bytes_into_pyobject p) (py_dmem_capacity v)"

record PyDmemCurrent = py_dmem_current :: "(string, PyMaxOr) btree"

definition PyDmemCurrent_from :: "DmemCurrent \<Rightarrow> PyDmemCurrent" where
  "PyDmemCurrent_from v = \<lparr>py_dmem_current = collect_values (current_regions v) MaxOr_from_bytes\<rparr>"

definition PyDmemCurrent_regions ::
  "(PyMaxOr \<Rightarrow> ('w, PyErr, 'o) io) \<Rightarrow> PyDmemCurrent \<Rightarrow> ('w, PyErr, (string \<times> 'o) list) io" where
  "PyDmemCurrent_regions new v = mapping new (py_dmem_current v)"

record PyDmemPeak = py_dmem_peak :: "(string, PyMaxOr) btree"

definition PyDmemPeak_from :: "DmemPeak \<Rightarrow> PyDmemPeak" where
  "PyDmemPeak_from v = \<lparr>py_dmem_peak = collect_values (peak_regions v) MaxOr_from_bytes\<rparr>"

definition PyDmemPeak_regions ::
  "(PyMaxOr \<Rightarrow> ('w, PyErr, 'o) io) \<Rightarrow> PyDmemPeak \<Rightarrow> ('w, PyErr, (string \<times> 'o) list) io" where
  "PyDmemPeak_regions new v = mapping new (py_dmem_peak v)"

record PyDmemLimits = py_dmem_limits :: "(string, PyMaxOr) btree"

definition PyDmemLimits_from :: "DmemLimits \<Rightarrow> PyDmemLimits" where
  "PyDmemLimits_from v = \<lparr>py_dmem_limits = collect_values (limit_regions v) MaxOr_from_bytes\<rparr>"

definition PyDmemLimits_regions ::
  "(PyMaxOr \<Rightarrow> ('w, PyErr, 'o) io) \<Rightarrow> PyDmemLimits \<Rightarrow> ('w, PyErr, (string \<times> 'o) list) io" where
  "PyDmemLimits_regions new v = mapping new (py_dmem_limits v)"

definition PyDmem_capacity :: "python \<Rightarrow> ('d, 'x) os_scheme \<Rightarrow> 'd Cgroup \<Rightarrow> PyErr + PyDmemCapacity" where
  "PyDmem_capacity py os owner = map_ok PyDmemCapacity_from (PythonError_read py os owner Dmem_capacity)"

definition PyDmem_current :: "python \<Rightarrow> ('d, 'x) os_scheme \<Rightarrow> 'd Cgroup \<Rightarrow> PyErr + PyDmemCurrent" where
  "PyDmem_current py os owner = map_ok PyDmemCurrent_from (PythonError_read py os owner Dmem_current)"

definition PyDmem_peak :: "python \<Rightarrow> ('d, 'x) os_scheme \<Rightarrow> 'd Cgroup \<Rightarrow> PyErr + PyDmemPeak" where
  "PyDmem_peak py os owner = map_ok PyDmemPeak_from (PythonError_read py os owner Dmem_peak)"

definition PyDmem_min :: "python \<Rightarrow> ('d, 'x) os_scheme \<Rightarrow> 'd Cgroup \<Rightarrow> PyErr + PyDmemLimits" where
  "PyDmem_min py os owner = map_ok PyDmemLimits_from (PythonError_read py os owner Dmem_min)"

definition PyDmem_low :: "python \<Rightarrow> ('d, 'x) os_scheme \<Rightarrow> 'd Cgroup \<Rightarrow> PyErr + PyDmemLimits" where
  "PyDmem_low py os owner = map_ok PyDmemLimits_from (PythonError_read py os owner Dmem_low)"

definition PyDmem_max :: "python \<Rightarrow> ('d, 'x) os_scheme \<Rightarrow> 'd Cgroup \<Rightarrow> PyErr + PyDmemLimits" where
  "PyDmem_max py os owner = map_ok PyDmemLimits_from (PythonError_read py os owner Dmem_max)"

section \<open>HugeTLB\<close>

definition HugetlbReader_size :: "python \<Rightarrow> string \<Rightarrow> PyErr + PageSize" where
  "HugetlbReader_size py label =
     map_err (\<lambda>error. new_err ValueError (''invalid HugeTLB page size: '' @ display_field py error))
       (PageSize_from_str label)"

record PyHugetlbEvents = py_hugetlb_max :: "Count Quantity"

definition PyHugetlbEvents_from :: "HugetlbEvents \<Rightarrow> PyHugetlbEvents" where
  "PyHugetlbEvents_from v = \<lparr>py_hugetlb_max = Quantity (hugetlb_events_max v)\<rparr>"

record PyHugetlbNumaStat =
  py_hugetlb_total :: "Bytes Quantity"
  py_hugetlb_nodes :: "(u32, Bytes Quantity) btree"

definition PyHugetlbNumaStat_from :: "HugetlbNumaStat \<Rightarrow> PyHugetlbNumaStat" where
  "PyHugetlbNumaStat_from v =
     \<lparr>py_hugetlb_total = Quantity (hugetlb_total v), py_hugetlb_nodes = collect_values (hugetlb_nodes v) Quantity\<rparr>"

definition PyHugetlbNumaStat_nodes ::
  "('r, 'o, 'w) pint \<Rightarrow> PyHugetlbNumaStat \<Rightarrow> ('w, PyErr, (u32 \<times> 'o) list) io" where
  "PyHugetlbNumaStat_nodes p v = mapping (Bytes_into_pyobject p) (py_hugetlb_nodes v)"

definition PyHugetlb_current ::
  "python \<Rightarrow> ('d, 'x) os_scheme \<Rightarrow> 'd Cgroup \<Rightarrow> string \<Rightarrow> PyErr + Bytes Quantity" where
  "PyHugetlb_current py os owner page_size =
     and_then (HugetlbReader_size py page_size) (\<lambda>size.
       map_ok (\<lambda>v. Quantity (hugetlb_current v)) (PythonError_read py os owner (\<lambda>os owner. Hugetlb_current os owner size)))"

definition PyHugetlb_max ::
  "python \<Rightarrow> ('d, 'x) os_scheme \<Rightarrow> 'd Cgroup \<Rightarrow> string \<Rightarrow> PyErr + PyMaxOr" where
  "PyHugetlb_max py os owner page_size =
     and_then (HugetlbReader_size py page_size) (\<lambda>size.
       map_ok (\<lambda>v. MaxOr_from_bytes (hugetlb_max v)) (PythonError_read py os owner (\<lambda>os owner. Hugetlb_max os owner size)))"

definition PyHugetlb_reserved_current ::
  "python \<Rightarrow> ('d, 'x) os_scheme \<Rightarrow> 'd Cgroup \<Rightarrow> string \<Rightarrow> PyErr + Bytes Quantity" where
  "PyHugetlb_reserved_current py os owner page_size =
     and_then (HugetlbReader_size py page_size) (\<lambda>size.
       map_ok (\<lambda>v. Quantity (hugetlb_reserved_current v)) (PythonError_read py os owner (\<lambda>os owner. Hugetlb_reserved_current os owner size)))"

definition PyHugetlb_reserved_max ::
  "python \<Rightarrow> ('d, 'x) os_scheme \<Rightarrow> 'd Cgroup \<Rightarrow> string \<Rightarrow> PyErr + PyMaxOr" where
  "PyHugetlb_reserved_max py os owner page_size =
     and_then (HugetlbReader_size py page_size) (\<lambda>size.
       map_ok (\<lambda>v. MaxOr_from_bytes (hugetlb_reserved_max v)) (PythonError_read py os owner (\<lambda>os owner. Hugetlb_reserved_max os owner size)))"

definition PyHugetlb_events ::
  "python \<Rightarrow> ('d, 'x) os_scheme \<Rightarrow> 'd Cgroup \<Rightarrow> string \<Rightarrow> PyErr + PyHugetlbEvents" where
  "PyHugetlb_events py os owner page_size =
     and_then (HugetlbReader_size py page_size) (\<lambda>size.
       map_ok PyHugetlbEvents_from (PythonError_read py os owner (\<lambda>os owner. Hugetlb_events os owner size)))"

definition PyHugetlb_events_local ::
  "python \<Rightarrow> ('d, 'x) os_scheme \<Rightarrow> 'd Cgroup \<Rightarrow> string \<Rightarrow> PyErr + PyHugetlbEvents" where
  "PyHugetlb_events_local py os owner page_size =
     and_then (HugetlbReader_size py page_size) (\<lambda>size.
       map_ok PyHugetlbEvents_from (PythonError_read py os owner (\<lambda>os owner. Hugetlb_events_local os owner size)))"

definition PyHugetlb_numa_stat ::
  "python \<Rightarrow> ('d, 'x) os_scheme \<Rightarrow> 'd Cgroup \<Rightarrow> string \<Rightarrow> PyErr + PyHugetlbNumaStat" where
  "PyHugetlb_numa_stat py os owner page_size =
     and_then (HugetlbReader_size py page_size) (\<lambda>size.
       map_ok PyHugetlbNumaStat_from (PythonError_read py os owner (\<lambda>os owner. Hugetlb_numa_stat os owner size)))"

section \<open>RDMA\<close>

type_synonym RdmaKey = "string \<times> u32 option"

text \<open>The function \<open>devices\<close>.\<close>

definition rdma_devices :: "(RdmaDevice, 'v) btree \<Rightarrow> ('v \<Rightarrow> 'o) \<Rightarrow> (RdmaKey, 'o) btree" where
  "rdma_devices values convert =
     btree_collect (map (\<lambda>(device, v). ((rdma_name device, rdma_index device), convert v)) (btree_iter values))"

record PyRdmaDeviceCurrent =
  py_current_hca_handle :: "Count Quantity"
  py_current_hca_object :: "Count Quantity"

definition PyRdmaDeviceCurrent_from :: "RdmaDeviceCurrent \<Rightarrow> PyRdmaDeviceCurrent" where
  "PyRdmaDeviceCurrent_from v =
     \<lparr>py_current_hca_handle = Quantity (current_hca_handle v), py_current_hca_object = Quantity (current_hca_object v)\<rparr>"

record PyRdmaDeviceMax =
  py_max_hca_handle :: PyMaxOr
  py_max_hca_object :: PyMaxOr

definition PyRdmaDeviceMax_from :: "RdmaDeviceMax \<Rightarrow> PyRdmaDeviceMax" where
  "PyRdmaDeviceMax_from v =
     \<lparr>py_max_hca_handle = MaxOr_from_count (max_hca_handle v), py_max_hca_object = MaxOr_from_count (max_hca_object v)\<rparr>"

record PyRdmaResourceEvents =
  py_rdma_max :: "Count Quantity"
  py_rdma_alloc_fail :: "Count Quantity"

definition PyRdmaResourceEvents_from :: "RdmaResourceEvents \<Rightarrow> PyRdmaResourceEvents" where
  "PyRdmaResourceEvents_from v =
     \<lparr>py_rdma_max = Quantity (resource_max v), py_rdma_alloc_fail = Quantity (resource_alloc_fail v)\<rparr>"

record PyRdmaDeviceEvents =
  py_events_hca_handle :: PyRdmaResourceEvents
  py_events_hca_object :: PyRdmaResourceEvents

definition PyRdmaDeviceEvents_from :: "RdmaDeviceEvents \<Rightarrow> PyRdmaDeviceEvents" where
  "PyRdmaDeviceEvents_from v =
     \<lparr>py_events_hca_handle = PyRdmaResourceEvents_from (events_hca_handle v),
      py_events_hca_object = PyRdmaResourceEvents_from (events_hca_object v)\<rparr>"

record PyRdmaCurrent = py_rdma_current_devices :: "(RdmaKey, PyRdmaDeviceCurrent) btree"

definition PyRdmaCurrent_from :: "RdmaCurrent \<Rightarrow> PyRdmaCurrent" where
  "PyRdmaCurrent_from v = \<lparr>py_rdma_current_devices = rdma_devices (rdma_current_devices v) PyRdmaDeviceCurrent_from\<rparr>"

definition PyRdmaCurrent_devices ::
  "(PyRdmaDeviceCurrent \<Rightarrow> ('w, PyErr, 'o) io) \<Rightarrow> PyRdmaCurrent \<Rightarrow> ('w, PyErr, (RdmaKey \<times> 'o) list) io" where
  "PyRdmaCurrent_devices new v = mapping new (py_rdma_current_devices v)"

record PyRdmaMax = py_rdma_max_devices :: "(RdmaKey, PyRdmaDeviceMax) btree"

definition PyRdmaMax_from :: "RdmaMax \<Rightarrow> PyRdmaMax" where
  "PyRdmaMax_from v = \<lparr>py_rdma_max_devices = rdma_devices (rdma_max_devices v) PyRdmaDeviceMax_from\<rparr>"

definition PyRdmaMax_devices ::
  "(PyRdmaDeviceMax \<Rightarrow> ('w, PyErr, 'o) io) \<Rightarrow> PyRdmaMax \<Rightarrow> ('w, PyErr, (RdmaKey \<times> 'o) list) io" where
  "PyRdmaMax_devices new v = mapping new (py_rdma_max_devices v)"

record PyRdmaEvents = py_rdma_events_devices :: "(RdmaKey, PyRdmaDeviceEvents) btree"

definition PyRdmaEvents_from :: "RdmaEvents \<Rightarrow> PyRdmaEvents" where
  "PyRdmaEvents_from v = \<lparr>py_rdma_events_devices = rdma_devices (rdma_events_devices v) PyRdmaDeviceEvents_from\<rparr>"

definition PyRdmaEvents_devices ::
  "(PyRdmaDeviceEvents \<Rightarrow> ('w, PyErr, 'o) io) \<Rightarrow> PyRdmaEvents \<Rightarrow> ('w, PyErr, (RdmaKey \<times> 'o) list) io" where
  "PyRdmaEvents_devices new v = mapping new (py_rdma_events_devices v)"

definition PyRdma_current :: "python \<Rightarrow> ('d, 'x) os_scheme \<Rightarrow> 'd Cgroup \<Rightarrow> PyErr + PyRdmaCurrent" where
  "PyRdma_current py os owner = map_ok PyRdmaCurrent_from (PythonError_read py os owner Rdma_current)"

definition PyRdma_max :: "python \<Rightarrow> ('d, 'x) os_scheme \<Rightarrow> 'd Cgroup \<Rightarrow> PyErr + PyRdmaMax" where
  "PyRdma_max py os owner = map_ok PyRdmaMax_from (PythonError_read py os owner Rdma_max)"

definition PyRdma_peak :: "python \<Rightarrow> ('d, 'x) os_scheme \<Rightarrow> 'd Cgroup \<Rightarrow> PyErr + PyRdmaCurrent" where
  "PyRdma_peak py os owner = map_ok PyRdmaCurrent_from (PythonError_read py os owner Rdma_peak)"

definition PyRdma_events :: "python \<Rightarrow> ('d, 'x) os_scheme \<Rightarrow> 'd Cgroup \<Rightarrow> PyErr + PyRdmaEvents" where
  "PyRdma_events py os owner = map_ok PyRdmaEvents_from (PythonError_read py os owner Rdma_events)"

definition PyRdma_events_local :: "python \<Rightarrow> ('d, 'x) os_scheme \<Rightarrow> 'd Cgroup \<Rightarrow> PyErr + PyRdmaEvents" where
  "PyRdma_events_local py os owner = map_ok PyRdmaEvents_from (PythonError_read py os owner Rdma_events_local)"

section \<open>Every reader reads its own file\<close>

lemma misc_reads:
  "py_reads ''misc.capacity'' PyMisc_capacity
   \<and> py_reads ''misc.current'' PyMisc_current
   \<and> py_reads ''misc.peak'' PyMisc_peak
   \<and> py_reads ''misc.max'' PyMisc_max
   \<and> py_reads ''misc.events'' PyMisc_events
   \<and> py_reads ''misc.events.local'' PyMisc_events_local"
  unfolding
    PyMisc_capacity_def [abs_def] PyMisc_current_def [abs_def] PyMisc_peak_def [abs_def] PyMisc_max_def [abs_def] PyMisc_events_def [abs_def] PyMisc_events_local_def [abs_def] Misc_capacity_def [abs_def]
    Misc_current_def [abs_def] Misc_peak_def [abs_def] Misc_max_def [abs_def] Misc_events_def [abs_def]
    Misc_events_local_def [abs_def]
  by simp

lemma dmem_reads:
  "py_reads ''dmem.capacity'' PyDmem_capacity
   \<and> py_reads ''dmem.current'' PyDmem_current
   \<and> py_reads ''dmem.peak'' PyDmem_peak
   \<and> py_reads ''dmem.min'' PyDmem_min
   \<and> py_reads ''dmem.low'' PyDmem_low
   \<and> py_reads ''dmem.max'' PyDmem_max"
  unfolding
    PyDmem_capacity_def [abs_def] PyDmem_current_def [abs_def] PyDmem_peak_def [abs_def] PyDmem_min_def [abs_def] PyDmem_low_def [abs_def] PyDmem_max_def [abs_def] Dmem_capacity_def [abs_def] Dmem_current_def [abs_def] Dmem_peak_def [abs_def] Dmem_min_def [abs_def] Dmem_low_def [abs_def] Dmem_max_def [abs_def]
  by simp

lemma rdma_reads:
  "py_reads ''rdma.current'' PyRdma_current
   \<and> py_reads ''rdma.max'' PyRdma_max
   \<and> py_reads ''rdma.peak'' PyRdma_peak
   \<and> py_reads ''rdma.events'' PyRdma_events
   \<and> py_reads ''rdma.events.local'' PyRdma_events_local"
  unfolding
    PyRdma_current_def [abs_def] PyRdma_max_def [abs_def] PyRdma_peak_def [abs_def] PyRdma_events_def [abs_def]
    PyRdma_events_local_def [abs_def] Rdma_current_def [abs_def] Rdma_max_def [abs_def] Rdma_peak_def [abs_def]
    Rdma_events_def [abs_def] Rdma_events_local_def [abs_def]
  by simp

text \<open>
  A HugeTLB reader with a label of a page size reads the file of that label, one component under the
  directory; any other label is a \<open>ValueError\<close> before anything is read.
\<close>

definition hugetlb_label_reads ::
  "string \<Rightarrow> (python \<Rightarrow> 'd os \<Rightarrow> 'd Cgroup \<Rightarrow> string \<Rightarrow> PyErr + 'a) \<Rightarrow> bool" where
  "hugetlb_label_reads ending reader \<longleftrightarrow>
     (\<forall>label. if label \<in> PageSize_display ` Collect PageSize_valid
        then components (''hugetlb.'' @ label @ ''.'' @ ending) = [Normal (''hugetlb.'' @ label @ ''.'' @ ending)]
          \<and> py_reads (''hugetlb.'' @ label @ ''.'' @ ending) (\<lambda>py os cg. reader py os cg label)
        else (\<forall>py os cg. \<exists>message. reader py os cg label = Inl (new_err ValueError message)))"

lemma hugetlb_label_readsI:
  assumes "CHR ''/'' \<notin> set ending"
    and "\<And>size. py_reads (PageSize_file_name size ending)
      (\<lambda>py (os :: 'd os) cg. map_ok f (PythonError_read py os cg (\<lambda>os owner. core os owner size)))"
  shows "hugetlb_label_reads ending (\<lambda>py (os :: 'd os) cg label. and_then (HugetlbReader_size py label)
      (\<lambda>size. map_ok f (PythonError_read py os cg (\<lambda>os owner. core os owner size))))"
  unfolding hugetlb_label_reads_def
proof (intro allI)
  fix label
  show "if label \<in> PageSize_display ` Collect PageSize_valid
    then components (''hugetlb.'' @ label @ ''.'' @ ending) = [Normal (''hugetlb.'' @ label @ ''.'' @ ending)]
      \<and> py_reads (''hugetlb.'' @ label @ ''.'' @ ending) (\<lambda>py (os :: 'd os) cg. and_then (HugetlbReader_size py label)
      (\<lambda>size. map_ok f (PythonError_read py os cg (\<lambda>os owner. core os owner size))))
    else (\<forall>py (os :: 'd os) cg. \<exists>message. and_then (HugetlbReader_size py label)
      (\<lambda>size. map_ok f (PythonError_read py os cg (\<lambda>os owner. core os owner size))) = Inl (new_err ValueError message))"
  proof (cases "PageSize_from_str label")
    case (Inl e)
    then have "label \<notin> PageSize_display ` Collect PageSize_valid" using PageSize_from_display by fastforce
    then show ?thesis by (auto simp: HugetlbReader_size_def Inl)
  next
    case (Inr size)
    then have valid: "PageSize_valid size" and label: "label = PageSize_display size" using PageSize_from_str_Inr by blast+
    have parsed: "HugetlbReader_size py label = Inr size" for py by (simp add: HugetlbReader_size_def Inr)
    have name: "PageSize_file_name size ending = ''hugetlb.'' @ label @ ''.'' @ ending"
      by (simp add: PageSize_file_name_def label)
    have "label \<in> PageSize_display ` Collect PageSize_valid" using valid label by blast
    moreover have "components (PageSize_file_name size ending) = [Normal (PageSize_file_name size ending)]"
      by (rule conjunct1 [OF PageSize_file_name_correct [OF valid valid assms(1)]])
    ultimately show ?thesis using assms(2) [of size] by (simp only: parsed name and_then.simps if_True simp_thms)
  qed
qed

lemma hugetlb_reads:
  "hugetlb_label_reads ''current'' PyHugetlb_current
   \<and> hugetlb_label_reads ''max'' PyHugetlb_max
   \<and> hugetlb_label_reads ''rsvd.current'' PyHugetlb_reserved_current
   \<and> hugetlb_label_reads ''rsvd.max'' PyHugetlb_reserved_max
   \<and> hugetlb_label_reads ''events'' PyHugetlb_events
   \<and> hugetlb_label_reads ''events.local'' PyHugetlb_events_local
   \<and> hugetlb_label_reads ''numa_stat'' PyHugetlb_numa_stat"
  unfolding PyHugetlb_current_def [abs_def] Hugetlb_current_def [abs_def]
    PyHugetlb_max_def [abs_def] Hugetlb_max_def [abs_def]
    PyHugetlb_reserved_current_def [abs_def] Hugetlb_reserved_current_def [abs_def]
    PyHugetlb_reserved_max_def [abs_def] Hugetlb_reserved_max_def [abs_def]
    PyHugetlb_events_def [abs_def] Hugetlb_events_def [abs_def]
    PyHugetlb_events_local_def [abs_def] Hugetlb_events_local_def [abs_def]
    PyHugetlb_numa_stat_def [abs_def] Hugetlb_numa_stat_def [abs_def]
  by (intro conjI hugetlb_label_readsI) simp_all


section \<open>Keys\<close>

text \<open>No two RDMA devices share a key, and the keys keep the order of the devices.\<close>

lemma rdma_devices_eq:
  assumes "btree_inv values"
  shows "rdma_devices values convert = map (\<lambda>(device, v). ((rdma_name device, rdma_index device), convert v)) values"
proof -
  let ?key = "\<lambda>device. (rdma_name device, rdma_index device)"
  have "sorted_wrt (<) (map ?key (map fst values))"
    using assms unfolding btree_inv_def
    by (simp add: sorted_wrt_map less_RdmaDevice_def less_prod_def) (auto elim!: sorted_wrt_mono_rel [rotated])
  then have "btree_inv (map (\<lambda>(device, v). (?key device, convert v)) values)"
    by (simp add: btree_inv_def comp_def case_prod_beta)
  then show ?thesis by (simp add: rdma_devices_def btree_iter_def btree_collect_id)
qed

lemma collect_values_eq:
  "btree_inv values \<Longrightarrow> collect_values values convert = map (\<lambda>(key, v). (key, convert v)) values"
  by (simp add: collect_values_def btree_iter_def btree_collect_map_values)

end
