(* ===== verification/Sakai_Path.thy ===== *)
theory Sakai_Path
  imports Sakai_File "HOL-Library.Multiset"
begin

text \<open>
  Discovery of the directory of a process, \<open>sakai/src/cgroup/v2/path.rs\<close>: the membership of the
  target in the unified hierarchy, matched against the cgroup2 mounts the caller sees. The
  entries of procfs, which another crate parses, are records with the fields the code reads.
\<close>

section \<open>Paths by their components\<close>

text \<open>
  A path means its components, and two paths with the same components are equal.
\<close>

fun component_text :: "Component \<Rightarrow> string" where
  "component_text RootDir = ''/''"
| "component_text CurDir = ''.''"
| "component_text ParentDir = ''..''"
| "component_text (Normal name) = name"

fun join_segments :: "string list \<Rightarrow> string" where
  "join_segments [] = ''''"
| "join_segments [s] = s"
| "join_segments (s # t # ss) = s @ ''/'' @ join_segments (t # ss)"

text \<open>
  \<open>strip_prefix\<close> compares components and gives what the base leaves of the path, as it is written:
  separators and dots at either end are trimmed, those between are kept. \<open>skip_components n\<close> goes
  over the segments of the body until it has taken \<open>n\<close> components; a leading root or dot of the
  path is a component of its own.
\<close>

fun skip_components :: "nat \<Rightarrow> string list \<Rightarrow> string list" where
  "skip_components 0 segments = segments"
| "skip_components (Suc n) [] = []"
| "skip_components (Suc n) (segment # segments) =
     (if no_component segment then skip_components (Suc n) segments else skip_components n segments)"

definition trim_segments_end :: "string list \<Rightarrow> string list" where
  "trim_segments_end segments = rev (dropWhile no_component (rev segments))"

definition path_segments :: "string \<Rightarrow> string list" where
  "path_segments path = split_pred (\<lambda>c. c = CHR ''/'') path"

definition has_head :: "string \<Rightarrow> bool" where
  "has_head path \<longleftrightarrow> is_absolute path \<or> hd (path_segments path) = ''.''"

definition path_strip_prefix :: "string \<Rightarrow> string \<Rightarrow> string option" where
  "path_strip_prefix path base =
     (let n = length (components base); segments = path_segments path
      in if take n (components path) \<noteq> components base then None
      else if n = 0 then
        Some (if has_head path
              then join_segments (hd segments # trim_segments_end (tl segments))
                @ (if is_absolute path \<and> trim_segments_end (tl segments) = [] then ''/'' else '''')
              else join_segments (trim_segments_end segments))
      else Some (join_segments (trim_segments_end (dropWhile no_component
        (if has_head path then skip_components (n - 1) (tl segments) else skip_components n segments)))))"

section \<open>What procfs gives\<close>

record ProcessCgroup =
  hierarchy :: nat
  controllers :: "string list"
  pathname :: string

record MountInfo =
  fs_type :: string
  mount_root :: string
  mount_point :: string
  mount_options :: "(string \<times> string option) list"

text \<open>The errors of procfs that \<open>Error::procfs\<close> tells apart.\<close>

datatype ProcError =
    ProcIo io_error "string option"
  | ProcPermissionDenied "string option"
  | ProcNotFound "string option"
  | ProcIncomplete "string option"
  | ProcOther string

record Process =
  process_cgroups :: "ProcError + ProcessCgroup list"
  process_mountinfo :: "ProcError + MountInfo list"

section \<open>Candidates\<close>

record CgroupPath =
  candidate_path :: string
  candidate_mount_point :: string
  candidate_read_only :: bool

datatype CgroupPathError =
    Procfs ProcError
  | UnifiedHierarchyNotFound
  | UnifiedMountNotFound
  | DeletedCgroupPath string

definition unified_membership :: "ProcessCgroup \<Rightarrow> bool" where
  "unified_membership entry \<longleftrightarrow> hierarchy entry = 0 \<and> controllers entry = []"

definition mount_candidate :: "string \<Rightarrow> MountInfo \<Rightarrow> (nat \<times> CgroupPath) option" where
  "mount_candidate cgroup m =
     map_option (\<lambda>relative. (length (components (mount_root m)),
         \<lparr>candidate_path = path_join (mount_point m) relative,
          candidate_mount_point = mount_point m,
          candidate_read_only = (map_of (mount_options m) ''ro'' \<noteq> None)\<rparr>))
       (path_strip_prefix cgroup (mount_root m))"

text \<open>\<open>sort_by_key\<close> is stable, and so is \<open>sort_key\<close>; \<open>Reverse(depth)\<close> is the negated depth.\<close>

definition CgroupPath_candidates :: "Process \<Rightarrow> Process \<Rightarrow> CgroupPathError + CgroupPath list" where
  "CgroupPath_candidates target caller =
     and_then (map_err Procfs (process_cgroups target)) (\<lambda>entries.
     and_then (ok_or UnifiedHierarchyNotFound (find unified_membership entries)) (\<lambda>membership.
     (case strip_suffix '' (deleted)'' (pathname membership) of
        Some path \<Rightarrow> Inl (DeletedCgroupPath path)
      | None \<Rightarrow>
          and_then (map_err Procfs (process_mountinfo caller)) (\<lambda>mounts.
          let candidates = sort_key (\<lambda>(depth, _). - int depth)
            (List.map_filter (mount_candidate (pathname membership))
              (filter (\<lambda>m. fs_type m = ''cgroup2'') mounts))
          in if candidates = [] then Inl UnifiedMountNotFound else Inr (map snd candidates)))))"

definition CgroupPath_of_process :: "Process \<Rightarrow> CgroupPathError + CgroupPath" where
  "CgroupPath_of_process process =
     and_then (CgroupPath_candidates process process) (\<lambda>ps.
       ok_or UnifiedMountNotFound (case ps of [] \<Rightarrow> None | p # _ \<Rightarrow> Some p))"

text \<open>\<open>Process::myself\<close> is a parameter.\<close>

definition CgroupPath_current :: "ProcError + Process \<Rightarrow> CgroupPathError + CgroupPath" where
  "CgroupPath_current myself = and_then (map_err Procfs myself) CgroupPath_of_process"

section \<open>Components of joined paths\<close>

definition body_components :: "string \<Rightarrow> Component list" where
  "body_components path = List.map_filter segment_component (split_pred (\<lambda>c. c = CHR ''/'') path)"

definition proper_component :: "Component \<Rightarrow> bool" where
  "proper_component c \<longleftrightarrow> CHR ''/'' \<notin> set (component_text c) \<and> segment_component (component_text c) = Some c"

lemma map_filter_append: "List.map_filter f (xs @ ys) = List.map_filter f xs @ List.map_filter f ys"
  by (simp add: List.map_filter_def)

lemma split_pred_append: "p c \<Longrightarrow> split_pred p (x @ c # y) = split_pred p x @ split_pred p y"
proof (induction x)
  case Nil
  then show ?case by simp
next
  case (Cons a x)
  then show ?case by (cases "split_pred p x") auto
qed

lemma body_components_separator: "body_components (x @ CHR ''/'' # y) = body_components x @ body_components y"
  by (simp add: body_components_def split_pred_append map_filter_append)

lemma body_components_Nil [simp]: "body_components [] = []"
  by (simp add: body_components_def List.map_filter_def segment_component_def)

lemma components_absolute: "is_absolute path \<Longrightarrow> components path = RootDir # body_components path"
  by (simp add: components_def body_components_def)

lemma components_RootDir: "components path \<noteq> [] \<Longrightarrow> hd (components path) = RootDir \<Longrightarrow> is_absolute path"
proof (rule ccontr)
  assume h: "components path \<noteq> []" "hd (components path) = RootDir" "\<not> is_absolute path"
  then have "hd (body_components path) = RootDir" "body_components path \<noteq> []"
    by (auto simp: components_def body_components_def Let_def split: if_splits)
  then have "RootDir \<in> set (body_components path)" by (metis hd_in_set)
  then show False
    by (auto simp: body_components_def List.map_filter_def segment_component_def split: if_splits)
qed

lemma is_absolute_append [simp]: "is_absolute x \<Longrightarrow> is_absolute (x @ y)"
  by (cases x) (simp_all add: is_absolute_def)

lemma components_path_join:
  assumes "is_absolute base" "\<not> is_absolute rel"
  shows "components (path_join base rel) = components base @ body_components rel"
proof (cases "last base = CHR ''/''")
  case True
  have "base \<noteq> []" using assms(1) by (simp add: is_absolute_def)
  then obtain b where base: "base = b @ [CHR ''/'']" using True by (metis append_butlast_last_id)
  have "body_components (base @ rel) = body_components base @ body_components rel"
    using body_components_separator [of b rel] body_components_separator [of b "[]"] by (simp add: base)
  with True assms show ?thesis by (simp add: path_join_def components_absolute)
next
  case False
  moreover have "base \<noteq> []" using assms(1) by (simp add: is_absolute_def)
  ultimately show ?thesis
    using assms by (simp add: path_join_def components_absolute body_components_separator)
qed

lemma body_components_proper: "c \<in> set (body_components path) \<Longrightarrow> proper_component c"
proof -
  assume "c \<in> set (body_components path)"
  then obtain seg where seg: "seg \<in> set (split_pred (\<lambda>c. c = CHR ''/'') path)" "segment_component seg = Some c"
    by (auto simp: body_components_def List.map_filter_def)
  then have "component_text c = seg" by (auto simp: segment_component_def split: if_splits)
  moreover have "CHR ''/'' \<notin> set seg" using split_pred_pieces [OF seg(1)] by auto
  ultimately show ?thesis using seg(2) by (simp add: proper_component_def)
qed

lemma body_components_segment: "proper_component c \<Longrightarrow> body_components (component_text c) = [c]"
proof -
  assume c: "proper_component c"
  then have "split_pred (\<lambda>c. c = CHR ''/'') (component_text c) = [component_text c]"
    by (intro split_pred_no_sep) (auto simp: proper_component_def)
  with c show ?thesis by (simp add: body_components_def List.map_filter_def proper_component_def)
qed

text \<open>What \<open>strip_prefix\<close> leaves has the components the base leaves, and is relative.\<close>

lemma join_segments_body:
  "\<forall>s \<in> set segments. CHR ''/'' \<notin> set s \<Longrightarrow>
     body_components (join_segments segments) = List.map_filter segment_component segments"
proof (induction segments rule: join_segments.induct)
  case (2 s)
  then have "split_pred (\<lambda>c. c = CHR ''/'') s = [s]" by (intro split_pred_no_sep) auto
  then show ?case by (simp add: body_components_def)
next
  case (3 s t ss)
  then have "split_pred (\<lambda>c. c = CHR ''/'') s = [s]" by (intro split_pred_no_sep) auto
  then have "body_components s = List.map_filter segment_component [s]" by (simp add: body_components_def)
  moreover have "join_segments (s # t # ss) = s @ CHR ''/'' # join_segments (t # ss)" by simp
  ultimately show ?case
    using 3 map_filter_append [of segment_component "[s]" "t # ss"] by (simp add: body_components_separator del: join_segments.simps)
qed (simp add: List.map_filter_def)

lemma map_filter_dropWhile [simp]:
  "List.map_filter segment_component (dropWhile no_component segments) = List.map_filter segment_component segments"
  by (induction segments) (auto simp: List.map_filter_simps no_component_def)

lemma map_filter_rev: "List.map_filter f (rev xs) = rev (List.map_filter f xs)"
  by (induction xs) (auto simp: List.map_filter_simps map_filter_append split: option.split)

lemma map_filter_trim [simp]:
  "List.map_filter segment_component (trim_segments_end segments) = List.map_filter segment_component segments"
  by (simp add: trim_segments_end_def map_filter_rev)

lemma map_filter_skip:
  "List.map_filter segment_component (skip_components n segments) = drop n (List.map_filter segment_component segments)"
  by (induction n segments rule: skip_components.induct)
    (auto simp: List.map_filter_simps no_component_def)

lemma set_skip_components: "set (skip_components n segments) \<subseteq> set segments"
  by (induction n segments rule: skip_components.induct) auto

lemma set_trim_segments_end: "set (trim_segments_end (dropWhile no_component segments)) \<subseteq> set segments"
  by (auto simp: trim_segments_end_def dest!: set_dropWhileD)

lemma path_segments_plain: "s \<in> set (path_segments path) \<Longrightarrow> CHR ''/'' \<notin> set s"
  using split_pred_pieces [of s "\<lambda>c. c = CHR ''/''" path] by (auto simp: path_segments_def)

lemma join_segments_relative:
  assumes "\<forall>s \<in> set segments. CHR ''/'' \<notin> set s" "segments = [] \<or> hd segments \<noteq> ''''"
  shows "\<not> is_absolute (join_segments segments)"
proof (cases segments rule: join_segments.cases)
  case (2 s)
  with assms show ?thesis by (cases s) (auto simp: is_absolute_def)
next
  case (3 s t ss)
  with assms show ?thesis by (cases s) (auto simp: is_absolute_def)
qed (simp add: is_absolute_def)

lemma trim_segments_end_hd:
  assumes "trim_segments_end (dropWhile no_component segments) \<noteq> []"
  shows "hd (trim_segments_end (dropWhile no_component segments)) \<noteq> ''''"
proof (cases "dropWhile no_component segments")
  case Nil
  with assms show ?thesis by (simp add: trim_segments_end_def)
next
  case (Cons s rest)
  then have s: "\<not> no_component s" by (metis hd_dropWhile list.distinct(1) list.sel(1))
  then have "s \<noteq> ''''" by (auto simp: no_component_def segment_component_def)
  moreover have "hd (trim_segments_end (s # rest)) = s"
    using s by (simp add: trim_segments_end_def dropWhile_append)
  ultimately show ?thesis by (simp add: Cons)
qed

lemma path_strip_prefix_rest:
  assumes "is_absolute path" "take (length (components base)) (components path) = components base" "components base \<noteq> []"
  obtains rel where "path_strip_prefix path base = Some rel" "\<not> is_absolute rel"
    "body_components rel = drop (length (components base)) (components path)"
proof -
  define n where "n = length (components base) - 1"
  let ?kept = "skip_components n (tl (path_segments path))"
  let ?rel = "trim_segments_end (dropWhile no_component ?kept)"
  have n: "length (components base) = Suc n" using assms(3) by (cases "components base") (simp_all add: n_def)
  have strip: "path_strip_prefix path base = Some (join_segments ?rel)"
    using assms by (simp add: path_strip_prefix_def has_head_def n n_def [symmetric] Let_def)
  have segments: "path_segments path = '''' # tl (path_segments path)"
    using assms(1) by (cases path) (auto simp: is_absolute_def path_segments_def)
  have "set ?rel \<subseteq> set (path_segments path)"
    using set_trim_segments_end [of ?kept] set_skip_components [of n "tl (path_segments path)"] segments
    by (metis set_subset_Cons subset_trans)
  then have plain: "\<forall>s \<in> set ?rel. CHR ''/'' \<notin> set s" using path_segments_plain by blast
  have "List.map_filter segment_component (tl (path_segments path)) = body_components path"
    unfolding body_components_def path_segments_def [symmetric]
    by (subst (2) segments) (simp add: List.map_filter_simps segment_component_def)
  then have "body_components (join_segments ?rel) = drop (length (components base)) (components path)"
    by (simp add: join_segments_body [OF plain] map_filter_skip n components_absolute [OF assms(1)])
  moreover have "\<not> is_absolute (join_segments ?rel)"
    using plain trim_segments_end_hd [of ?kept] by (intro join_segments_relative) auto
  ultimately show thesis using that [OF strip] by blast
qed

section \<open>Which mounts expose a cgroup\<close>

definition mount_depth :: "MountInfo \<Rightarrow> nat" where
  "mount_depth m = length (components (mount_root m))"

definition exposes :: "string \<Rightarrow> MountInfo \<Rightarrow> bool" where
  "exposes cgroup m \<longleftrightarrow> fs_type m = ''cgroup2'' \<and>
     components (mount_root m) = take (mount_depth m) (components cgroup)"

text \<open>The directory of the cgroup under a mount: the mount point, then what the root leaves of the path.\<close>

definition candidate_of :: "string \<Rightarrow> MountInfo \<Rightarrow> CgroupPath \<Rightarrow> bool" where
  "candidate_of cgroup m p \<longleftrightarrow>
     components (candidate_path p) = components (mount_point m) @ drop (mount_depth m) (components cgroup)
     \<and> candidate_mount_point p = mount_point m
     \<and> (candidate_read_only p \<longleftrightarrow> ''ro'' \<in> fst ` set (mount_options m))"

definition absolute_mount :: "MountInfo \<Rightarrow> bool" where
  "absolute_mount m \<longleftrightarrow> is_absolute (mount_root m) \<and> is_absolute (mount_point m)"

definition candidate :: "string \<Rightarrow> MountInfo \<Rightarrow> CgroupPath" where
  "candidate cgroup m =
     \<lparr>candidate_path = path_join (mount_point m) (the (path_strip_prefix cgroup (mount_root m))),
      candidate_mount_point = mount_point m,
      candidate_read_only = (map_of (mount_options m) ''ro'' \<noteq> None)\<rparr>"

lemma candidate_of_candidate:
  assumes "absolute_mount m" "exposes cgroup m"
  shows "candidate_of cgroup m (candidate cgroup m)"
proof -
  have root: "components (mount_root m) \<noteq> []" "hd (components (mount_root m)) = RootDir"
    using assms(1) by (simp_all add: absolute_mount_def components_absolute)
  have prefix: "take (length (components (mount_root m))) (components cgroup) = components (mount_root m)"
    using assms(2) by (simp add: exposes_def mount_depth_def)
  with root have "components cgroup \<noteq> []" by auto
  moreover have "hd (components cgroup) = RootDir"
    using root prefix by (metis hd_take length_greater_0_conv)
  ultimately have "is_absolute cgroup" by (rule components_RootDir)
  then obtain rel where rel: "path_strip_prefix cgroup (mount_root m) = Some rel" "\<not> is_absolute rel"
    "body_components rel = drop (mount_depth m) (components cgroup)"
    using path_strip_prefix_rest [OF _ prefix root(1)] unfolding mount_depth_def by blast
  have "map_of (mount_options m) ''ro'' \<noteq> None \<longleftrightarrow> ''ro'' \<in> fst ` set (mount_options m)"
    by (simp add: map_of_eq_None_iff)
  with assms(1) rel show ?thesis
    by (simp add: candidate_of_def candidate_def absolute_mount_def components_path_join)
qed

lemma mount_candidate_eq:
  "fs_type m = ''cgroup2'' \<Longrightarrow>
   mount_candidate cgroup m = (if exposes cgroup m then Some (mount_depth m, candidate cgroup m) else None)"
  by (auto simp: mount_candidate_def path_strip_prefix_def Let_def exposes_def mount_depth_def candidate_def)

lemma map_filter_candidates:
  "List.map_filter (mount_candidate cgroup) (filter (\<lambda>m. fs_type m = ''cgroup2'') mounts)
     = map (\<lambda>m. (mount_depth m, candidate cgroup m)) (filter (exposes cgroup) mounts)"
  by (induction mounts) (auto simp: List.map_filter_def mount_candidate_eq exposes_def)

lemma sort_key_map: "sort_key f (map g xs) = map g (sort_key (\<lambda>x. f (g x)) xs)"
proof -
  have "insort_key f (g x) (map g ys) = map g (insort_key (\<lambda>x. f (g x)) x ys)" for x ys
    by (induction ys) auto
  then show ?thesis by (induction xs) (simp_all add: sort_key_def)
qed

lemma CgroupPath_candidates_mounts:
  assumes "process_cgroups target = Inr entries" "find unified_membership entries = Some e"
    and "strip_suffix '' (deleted)'' (pathname e) = None" "process_mountinfo caller = Inr mounts"
  shows "CgroupPath_candidates target caller =
    (let ms = sort_key (\<lambda>m. - int (mount_depth m)) (filter (exposes (pathname e)) mounts)
     in if ms = [] then Inl UnifiedMountNotFound else Inr (map (candidate (pathname e)) ms))"
proof -
  have "sort_key (\<lambda>(depth, _). - int depth) (map (\<lambda>m. (mount_depth m, candidate (pathname e) m)) ms)
      = map (\<lambda>m. (mount_depth m, candidate (pathname e) m)) (sort_key (\<lambda>m. - int (mount_depth m)) ms)" for ms
    by (simp add: sort_key_map)
  then show ?thesis
    using assms by (simp add: CgroupPath_candidates_def map_filter_candidates Let_def o_def)
qed

lemma CgroupPath_candidates_nonempty: "CgroupPath_candidates target caller = Inr ps \<Longrightarrow> ps \<noteq> []"
  by (auto simp: CgroupPath_candidates_def and_then_eq_Inr Let_def split: option.splits if_splits)

lemma candidates_sorted:
  fixes cgroup
  assumes "\<forall>m \<in> set mounts. absolute_mount m"
  defines "ms \<equiv> sort_key (\<lambda>m. - int (mount_depth m)) (filter (exposes cgroup) mounts)"
  shows "list_all2 (candidate_of cgroup) ms (map (candidate cgroup) ms)"
    "sorted_wrt (\<lambda>m n. mount_depth n \<le> mount_depth m) ms"
    "filter (\<lambda>m. mount_depth m = d) ms = filter (\<lambda>m. mount_depth m = d) (filter (exposes cgroup) mounts)"
    "ms = [] \<longleftrightarrow> (\<forall>m \<in> set mounts. \<not> exposes cgroup m)"
proof -
  let ?key = "\<lambda>m. - int (mount_depth m)" and ?es = "filter (exposes cgroup) mounts"
  show "list_all2 (candidate_of cgroup) ms (map (candidate cgroup) ms)"
    using assms(1) by (auto simp: ms_def list_all2_map2 list_all2_same intro: candidate_of_candidate)
  have "sorted_wrt (\<lambda>m n. ?key m \<le> ?key n) ms"
    using sorted_sort_key [of ?key ?es] by (simp add: ms_def sorted_wrt_map)
  then show "sorted_wrt (\<lambda>m n. mount_depth n \<le> mount_depth m) ms" by simp
  show "filter (\<lambda>m. mount_depth m = d) ms = filter (\<lambda>m. mount_depth m = d) ?es"
    using sort_key_stable [of ?key "- int d" ?es] by (simp add: ms_def eq_commute)
  have "ms = [] \<longleftrightarrow> ?es = []" unfolding ms_def by (metis set_empty2 set_sort)
  then show "ms = [] \<longleftrightarrow> (\<forall>m \<in> set mounts. \<not> exposes cgroup m)" by (simp add: filter_empty_conv)
qed

text \<open>C10: The candidates for a process are exactly the mounts that expose its cgroup, each with the
  directory of the cgroup below its mount point; the most specific roots come first and mounts with
  roots of the same depth keep the order of the mount table. They are found whenever some mount
  exposes the cgroup; where none does, or the process has no cgroup in the unified hierarchy, that
  is the error. A membership that ends in \<open> (deleted)\<close> is always taken for a removed cgroup, also
  when that is the end of the cgroup's own name.\<close>

theorem CgroupPath_candidates_correct:
  assumes "process_cgroups target = Inr entries" "process_mountinfo caller = Inr mounts"
    and "\<forall>m \<in> set mounts. absolute_mount m"
  shows "case find (\<lambda>e. hierarchy e = 0 \<and> controllers e = []) entries of
       None \<Rightarrow> CgroupPath_candidates target caller = Inl UnifiedHierarchyNotFound
     | Some e \<Rightarrow>
         if \<exists>path. pathname e = path @ '' (deleted)''
         then \<exists>path. pathname e = path @ '' (deleted)'' \<and> CgroupPath_candidates target caller = Inl (DeletedCgroupPath path)
         else if \<forall>m \<in> set mounts. \<not> exposes (pathname e) m
         then CgroupPath_candidates target caller = Inl UnifiedMountNotFound
         else \<exists>ps ms. CgroupPath_candidates target caller = Inr ps
            \<and> list_all2 (candidate_of (pathname e)) ms ps
            \<and> sorted_wrt (\<lambda>m n. mount_depth n \<le> mount_depth m) ms
            \<and> (\<forall>d. filter (\<lambda>m. mount_depth m = d) ms
                 = filter (\<lambda>m. mount_depth m = d) (filter (exposes (pathname e)) mounts))"
proof (cases "find (\<lambda>e. hierarchy e = 0 \<and> controllers e = []) entries")
  case None
  with assms(1) show ?thesis
    by (simp add: CgroupPath_candidates_def unified_membership_def [abs_def])
next
  case found: (Some e)
  then have e: "find unified_membership entries = Some e" by (simp add: unified_membership_def [abs_def])
  show ?thesis
  proof (cases "strip_suffix '' (deleted)'' (pathname e)")
    case None
    then have "\<nexists>path. pathname e = path @ '' (deleted)''" by (metis option.distinct(1) strip_suffix_Some_iff)
    moreover note candidates = candidates_sorted [OF assms(3), where cgroup = "pathname e"]
    have "CgroupPath_candidates target caller =
        (if \<forall>m \<in> set mounts. \<not> exposes (pathname e) m then Inl UnifiedMountNotFound
         else Inr (map (candidate (pathname e)) (sort_key (\<lambda>m. - int (mount_depth m)) (filter (exposes (pathname e)) mounts))))"
      unfolding CgroupPath_candidates_mounts [OF assms(1) e None assms(2)] Let_def candidates(4) ..
    ultimately show ?thesis
      using candidates(1,2,3) unfolding found by (simp only: option.case if_False if_True split: if_split) blast
  next
    case (Some path)
    then have "pathname e = path @ '' (deleted)''" by (simp add: strip_suffix_Some_iff)
    with Some assms(1) e found show ?thesis
      by (auto simp: CgroupPath_candidates_def)
  qed
qed

definition path_example :: Process where
  "path_example = \<lparr>process_cgroups = Inr [\<lparr>hierarchy = 0, controllers = [], pathname = ''/a/b''\<rparr>],
     process_mountinfo = Inr
       [\<lparr>fs_type = ''cgroup2'', mount_root = ''/'', mount_point = ''/sys'', mount_options = []\<rparr>,
        \<lparr>fs_type = ''cgroup2'', mount_root = ''/a'', mount_point = ''/run'', mount_options = [(''ro'', None)]\<rparr>]\<rparr>"

theorem CgroupPath_candidates_correct_witness:
  "\<exists>ps ms. CgroupPath_candidates path_example path_example = Inr ps \<and> list_all2 (candidate_of ''/a/b'') ms ps
     \<and> sorted_wrt (\<lambda>m n. mount_depth n \<le> mount_depth m) ms"
proof -
  let ?e = "\<lparr>hierarchy = 0, controllers = [], pathname = ''/a/b''\<rparr>"
  let ?ms = "[\<lparr>fs_type = ''cgroup2'', mount_root = ''/'', mount_point = ''/sys'', mount_options = []\<rparr>,
        \<lparr>fs_type = ''cgroup2'', mount_root = ''/a'', mount_point = ''/run'', mount_options = [(''ro'', None)]\<rparr>]"
  have e: "process_cgroups path_example = Inr [?e]" "process_mountinfo path_example = Inr ?ms"
    by (simp_all add: path_example_def)
  have abs: "\<forall>m \<in> set ?ms. absolute_mount m" by (simp add: absolute_mount_def is_absolute_def)
  have "exposes ''/a/b'' (hd ?ms)"
    by (simp add: exposes_def mount_depth_def components_def is_absolute_def List.map_filter_def segment_component_def)
  then have "(\<forall>m \<in> set ?ms. \<not> exposes (pathname ?e) m) = False" by auto
  moreover have "(\<exists>path. pathname ?e = path @ '' (deleted)'') = False"
    by (auto simp: append_eq_Cons_conv Cons_eq_append_conv)
  moreover have "find (\<lambda>e. hierarchy e = 0 \<and> controllers e = []) [?e] = Some ?e" by simp
  ultimately show ?thesis
    using CgroupPath_candidates_correct [OF e abs] by (simp only: option.case if_False ProcessCgroup.select_convs) blast
qed

end
