(* ===== verification/Sakai_Handle.thy ===== *)
theory Sakai_Handle
  imports Sakai_Path Sakai_Pressure "HOL-Library.Word"
begin

text \<open>
  Opening cgroup directories, \<open>sakai/src/cgroup/v2/handle.rs\<close>: by path, by process, by the name of
  a child, and listing children. The system calls extend the record of parameters of the readers.
\<close>

section \<open>The system calls\<close>

datatype FileType = Directory | OtherType

record DirEntry =
  entry_type :: FileType
  entry_name :: string

record 'd dir_os = "'d os" +
  open_dir :: "string \<Rightarrow> nat + 'd"  \<comment> \<open>\<open>open\<close> with \<open>DIRECTORY_FLAGS\<close>\<close>
  openat_dir :: "'d \<Rightarrow> string \<Rightarrow> nat + 'd"  \<comment> \<open>\<open>openat\<close> with \<open>DIRECTORY_FLAGS\<close>\<close>
  openat2_dir :: "'d \<Rightarrow> string \<Rightarrow> nat + 'd"  \<comment> \<open>\<open>openat2\<close> with \<open>DIRECTORY_FLAGS\<close>, \<open>BENEATH | NO_SYMLINKS\<close>\<close>
  fstatfs_type :: "'d \<Rightarrow> nat + u64"
  read_dir :: "'d \<Rightarrow> nat + (nat + DirEntry) list"
  process_new :: "int \<Rightarrow> ProcError + Process"
  process_myself :: "ProcError + Process"
  process_id :: u32

definition CGROUP2_SUPER_MAGIC :: u64 where
  "CGROUP2_SUPER_MAGIC = 0x63677270"

definition ENOSYS :: nat where "ENOSYS = 38"
definition EACCES :: nat where "EACCES = 13"
definition ENOENT :: nat where "ENOENT = 2"

section \<open>Errors of discovery\<close>

text \<open>\<open>describe\<close> is the text of an error of procfs, which \<open>io::Error::other\<close> wraps.\<close>

definition Error_procfs :: "(ProcError \<Rightarrow> string) \<Rightarrow> ProcError \<Rightarrow> Error" where
  "Error_procfs describe error =
     (let (source, path) =
        (case error of
           ProcIo source path \<Rightarrow> (source, path)
         | ProcPermissionDenied path \<Rightarrow> (Os EACCES, path)
         | ProcNotFound path \<Rightarrow> (Os ENOENT, path)
         | ProcIncomplete path \<Rightarrow> (Custom OtherKind (describe error), path)
         | ProcOther text \<Rightarrow> (Custom OtherKind (describe error), None))
      in (case path of
            Some path \<Rightarrow> Operation ''read procfs'' path source
          | None \<Rightarrow> IoError source))"

definition candidates_error :: "(ProcError \<Rightarrow> string) \<Rightarrow> CgroupPathError \<Rightarrow> Error" where
  "candidates_error describe error =
     (case error of
        Procfs source \<Rightarrow> Error_procfs describe source
      | DeletedCgroupPath path \<Rightarrow> DeletedCgroup path
      | UnifiedHierarchyNotFound \<Rightarrow> NotCgroupV2
      | UnifiedMountNotFound \<Rightarrow> NotCgroupV2)"

section \<open>Opening a directory\<close>

definition os_error :: "nat \<Rightarrow> Error" where
  "os_error errno = IoError (Os errno)"

definition verified :: "('d, 'x) dir_os_scheme \<Rightarrow> 'd \<Rightarrow> string \<Rightarrow> Error + 'd Cgroup" where
  "verified os dir path =
     and_then (map_err os_error (fstatfs_type os dir)) (\<lambda>f_type.
       if f_type = CGROUP2_SUPER_MAGIC then Inr \<lparr>directory = dir, cgroup_path = path\<rparr> else Inl NotCgroupV2)"

definition open_components :: "('d, 'x) dir_os_scheme \<Rightarrow> 'd \<Rightarrow> string \<Rightarrow> Error + 'd" where
  "open_components os base relative =
     and_then (map_err os_error (openat_dir os base ''.'')) (\<lambda>start.
       try_fold (\<lambda>dir part. map_err os_error (openat_dir os dir (component_text part))) start (components relative))"

fun stays_beneath :: "Component \<Rightarrow> bool" where
  "stays_beneath (Normal _) = True"
| "stays_beneath CurDir = True"
| "stays_beneath ParentDir = False"
| "stays_beneath RootDir = False"

definition open_directory :: "('d, 'x) dir_os_scheme \<Rightarrow> 'd \<Rightarrow> string \<Rightarrow> Error + 'd" where
  "open_directory os base relative =
     (if list_ex (\<lambda>part. \<not> stays_beneath part) (components relative)
      then Inl (IoError (Custom InvalidInput ''cgroup path must remain beneath its directory''))
      else let relative = (if relative = [] then ''.'' else relative) in
        (case openat2_dir os base relative of
           Inr fd \<Rightarrow> Inr fd
         | Inl errno \<Rightarrow> if errno = ENOSYS then open_components os base relative else Inl (os_error errno)))"

definition open_path :: "('d, 'x) dir_os_scheme \<Rightarrow> string \<Rightarrow> Error + 'd Cgroup" where
  "open_path os path =
     and_then (if is_absolute path
         then map_ok (Pair ''/'') (ok_or (IoError (Custom OtherKind ''prefix not found'')) (path_strip_prefix path ''/''))
         else Inr (''.'', path)) (\<lambda>(base, relative).
     and_then (map_err os_error (open_dir os base)) (\<lambda>base.
     and_then (open_directory os base relative) (\<lambda>dir.
     verified os dir path)))"

definition from_path :: "('d, 'x) dir_os_scheme \<Rightarrow> string \<Rightarrow> Error + 'd Cgroup" where
  "from_path os path =
     map_err (\<lambda>error. case error of
         IoError source \<Rightarrow> if io_kind source \<noteq> InvalidInput then Operation ''open cgroup'' path source else error
       | _ \<Rightarrow> error) (open_path os path)"

section \<open>Opening the cgroup of a process\<close>

fun open_candidates_loop :: "Error option \<Rightarrow> CgroupPath list \<Rightarrow> (string \<Rightarrow> Error + 'a) \<Rightarrow> Error + 'a" where
  "open_candidates_loop first_error [] f = Inl (case first_error of Some e \<Rightarrow> e | None \<Rightarrow> NotCgroupV2)"
| "open_candidates_loop first_error (c # cs) f =
     (case f (candidate_path c) of
        Inr v \<Rightarrow> Inr v
      | Inl e \<Rightarrow> open_candidates_loop (case first_error of None \<Rightarrow> Some e | Some e' \<Rightarrow> Some e') cs f)"

definition open_candidates :: "CgroupPath list \<Rightarrow> (string \<Rightarrow> Error + 'a) \<Rightarrow> Error + 'a" where
  "open_candidates cs f = open_candidates_loop None cs f"

text \<open>\<open>i32::try_from\<close> of a \<open>u32\<close>.\<close>

definition i32_try_from :: "u32 \<Rightarrow> int option" where
  "i32_try_from pid = (if unat pid < 2 ^ 31 then Some (int (unat pid)) else None)"

definition valid_pid :: "u32 \<Rightarrow> int option" where
  "valid_pid pid = Option.bind (i32_try_from pid) (\<lambda>pid. if 0 < pid then Some pid else None)"

definition from_pid :: "(ProcError \<Rightarrow> string) \<Rightarrow> ('d, 'x) dir_os_scheme \<Rightarrow> u32 \<Rightarrow> Error + 'd Cgroup" where
  "from_pid describe os pid =
     and_then (ok_or (IoError (Custom InvalidInput ''PID must be positive and fit i32'')) (valid_pid pid)) (\<lambda>pid.
     and_then (map_err (Error_procfs describe) (process_new os pid)) (\<lambda>process.
     and_then (map_err (Error_procfs describe) (process_myself os)) (\<lambda>caller.
     and_then (map_err (candidates_error describe) (CgroupPath_candidates process caller)) (\<lambda>candidates.
     open_candidates candidates (from_path os)))))"

definition from_current_process :: "(ProcError \<Rightarrow> string) \<Rightarrow> ('d, 'x) dir_os_scheme \<Rightarrow> Error + 'd Cgroup" where
  "from_current_process describe os = from_pid describe os (process_id os)"

section \<open>Children\<close>

definition single_name :: "string \<Rightarrow> bool" where
  "single_name name \<longleftrightarrow> CHR ''/'' \<notin> set name \<and>
     (case components name of Normal _ # _ \<Rightarrow> True | _ \<Rightarrow> False)"

definition child :: "('d, 'x) dir_os_scheme \<Rightarrow> 'd Cgroup \<Rightarrow> string \<Rightarrow> Error + 'd Cgroup" where
  "child os cg name =
     (if \<not> single_name name then Inl (IoError (Custom InvalidInput ''child must be a single name''))
      else let path = path_join (cgroup_path cg) name in
        and_then (map_err (\<lambda>error. case error of
              IoError source \<Rightarrow> Operation ''open child cgroup'' path source
            | _ \<Rightarrow> error) (open_directory os (directory cg) name))
          (\<lambda>dir. verified os dir path))"

definition child_entry ::
  "('d, 'x) dir_os_scheme \<Rightarrow> 'd Cgroup \<Rightarrow> nat + DirEntry \<Rightarrow> (Error + 'd Cgroup) option" where
  "child_entry os cg entry =
     (case entry of
        Inl source \<Rightarrow> Some (Inl (Operation ''list child cgroups'' (cgroup_path cg) (Os source)))
      | Inr entry \<Rightarrow>
          if entry_type entry = Directory \<and> entry_name entry \<notin> {''.'', ''..''} then
            (case child os cg (entry_name entry) of
               Inl (Operation operation path source) \<Rightarrow>
                 if io_kind source = NotFound then None else Some (Inl (Operation operation path source))
             | result \<Rightarrow> Some result)
          else None)"

definition children :: "('d, 'x) dir_os_scheme \<Rightarrow> 'd Cgroup \<Rightarrow> Error + 'd Cgroup list" where
  "children os cg =
     and_then (map_err (\<lambda>source. Operation ''list child cgroups'' (cgroup_path cg) (Os source))
         (read_dir os (directory cg))) (\<lambda>entries.
       collect_results (List.map_filter (child_entry os cg) entries))"

definition Cgroup_irq_pressure :: "('d, 'x) os_scheme \<Rightarrow> 'd Cgroup \<Rightarrow> Error + IrqPressure" where
  "Cgroup_irq_pressure os cg = Cgroup_parse IrqPressure_from_str os cg IrqPressure_FILE_NAME"

section \<open>What a path opens\<close>

text \<open>
  The directories below a directory, by their entries: a specification of resolution that follows
  neither symbolic links nor parents. \<open>tree d n\<close> is what the name \<open>n\<close> is in \<open>d\<close>.
\<close>

datatype 'd node = SubDir 'd | Symlink string | OtherFile

inductive beneath :: "('d \<Rightarrow> string \<Rightarrow> 'd node option) \<Rightarrow> 'd \<Rightarrow> Component list \<Rightarrow> 'd \<Rightarrow> bool" for tree where
  here: "beneath tree d [] d"
| current: "beneath tree d cs d' \<Longrightarrow> beneath tree d (CurDir # cs) d'"
| below: "tree d name = Some (SubDir e) \<Longrightarrow> beneath tree e cs d' \<Longrightarrow> beneath tree d (Normal name # cs) d'"

inductive_simps beneath_simps [simp]:
  "beneath tree d [] d'"
  "beneath tree d (CurDir # cs) d'"
  "beneath tree d (Normal name # cs) d'"
  "beneath tree d (ParentDir # cs) d'"
  "beneath tree d (RootDir # cs) d'"

text \<open>
  Resolution beneath a directory as openat2(2) describes it for \<open>RESOLVE_BENEATH\<close> and
  \<open>RESOLVE_NO_SYMLINKS\<close>: a parent is followed while it does not leave the directory the path starts
  at; the list has the directories the walk came through.
\<close>

inductive resolves :: "('d \<Rightarrow> string \<Rightarrow> 'd node option) \<Rightarrow> 'd list \<Rightarrow> 'd \<Rightarrow> Component list \<Rightarrow> 'd \<Rightarrow> bool" for tree where
  arrived: "resolves tree trail d [] d"
| stay: "resolves tree trail d cs d' \<Longrightarrow> resolves tree trail d (CurDir # cs) d'"
| descend: "tree d name = Some (SubDir e) \<Longrightarrow> resolves tree (d # trail) e cs d' \<Longrightarrow>
    resolves tree trail d (Normal name # cs) d'"
| ascend: "resolves tree trail e cs d' \<Longrightarrow> resolves tree (e # trail) d (ParentDir # cs) d'"

inductive_simps resolves_simps [simp]:
  "resolves tree trail d [] d'"
  "resolves tree trail d (CurDir # cs) d'"
  "resolves tree trail d (Normal name # cs) d'"
  "resolves tree trail d (ParentDir # cs) d'"
  "resolves tree trail d (RootDir # cs) d'"

text \<open>
  What openat(2) and openat2(2) document of the flags the code passes: a name is opened when it is
  a directory that is not a symbolic link, and \<open>.\<close> opens the directory itself. openat2 opens nothing
  but what the path resolves to, and opens that unless the path has a parent: such a path may be
  refused with EAGAIN when it races with a rename. An old kernel has no openat2.
\<close>

definition kernel_openat :: "('d, 'x) dir_os_scheme \<Rightarrow> ('d \<Rightarrow> string \<Rightarrow> 'd node option) \<Rightarrow> bool" where
  "kernel_openat os tree \<longleftrightarrow> (\<forall>d d'. openat_dir os d ''.'' = Inr d' \<longleftrightarrow> d' = d)
     \<and> (\<forall>d name d'. proper_component (Normal name) \<longrightarrow>
          (openat_dir os d name = Inr d' \<longleftrightarrow> tree d name = Some (SubDir d')))"

definition kernel_openat2 :: "('d, 'x) dir_os_scheme \<Rightarrow> ('d \<Rightarrow> string \<Rightarrow> 'd node option) \<Rightarrow> bool" where
  "kernel_openat2 os tree \<longleftrightarrow>
     (\<forall>d path. path \<noteq> [] \<longrightarrow> openat2_dir os d path \<noteq> Inl ENOSYS \<and>
       (\<forall>d'. openat2_dir os d path = Inr d' \<longrightarrow> resolves tree [] d (components path) d') \<and>
       (\<forall>d'. ParentDir \<notin> set (components path) \<and> resolves tree [] d (components path) d' \<longrightarrow>
          openat2_dir os d path = Inr d'))"

definition kernel_without_openat2 :: "('d, 'x) dir_os_scheme \<Rightarrow> bool" where
  "kernel_without_openat2 os \<longleftrightarrow> (\<forall>d path. openat2_dir os d path = Inl ENOSYS)"

definition kernel_directories :: "('d, 'x) dir_os_scheme \<Rightarrow> ('d \<Rightarrow> string \<Rightarrow> 'd node option) \<Rightarrow> bool" where
  "kernel_directories os tree \<longleftrightarrow> kernel_openat os tree \<and> (kernel_openat2 os tree \<or> kernel_without_openat2 os)"

lemma beneath_stays: "beneath tree d cs d' \<Longrightarrow> list_all stays_beneath cs"
  by (induction rule: beneath.induct) auto

lemma resolves_stays: "list_all stays_beneath cs \<Longrightarrow> resolves tree trail d cs d' \<longleftrightarrow> beneath tree d cs d'"
proof (induction cs arbitrary: trail d)
  case (Cons c cs)
  then show ?case by (cases c) simp_all
qed simp

lemma stays_no_parent: "list_all stays_beneath cs \<Longrightarrow> ParentDir \<notin> set cs"
  by (auto simp: list_all_iff)

lemma components_cases:
  obtains (absolute) "components path = RootDir # body_components path"
  | (current) "components path = CurDir # body_components path"
  | (plain) "components path = body_components path"
proof -
  have "components path \<in> {RootDir # body_components path, CurDir # body_components path, body_components path}"
    by (simp add: components_def body_components_def Let_def)
  then show thesis using that by auto
qed

lemma components_dot [simp]: "components ''.'' = [CurDir]" "components [] = []"
  by (simp_all add: components_def is_absolute_def List.map_filter_def segment_component_def)

lemma body_component_cases: "c \<in> set (body_components path) \<Longrightarrow> c = ParentDir \<or> (\<exists>name. c = Normal name)"
  by (auto simp: body_components_def List.map_filter_def segment_component_def split: if_splits)

lemma components_stay:
  assumes "list_all stays_beneath (components path)"
  shows "list_all (\<lambda>c. c = CurDir \<or> (\<exists>name. c = Normal name \<and> proper_component c)) (components path)"
proof -
  have "c = CurDir \<or> (\<exists>name. c = Normal name \<and> proper_component c)" if "c \<in> set (components path)" for c
    using that assms body_components_proper [of c path] body_component_cases [of c path]
    by (cases rule: components_cases [of path]) (auto simp: list_all_iff dest!: bspec [of _ _ c])
  then show ?thesis by (simp add: list_all_iff)
qed

lemma walk_beneath:
  assumes "kernel_openat os tree" "list_all (\<lambda>c. c = CurDir \<or> (\<exists>name. c = Normal name \<and> proper_component c)) cs"
  shows "try_fold (\<lambda>dir part. map_err os_error (openat_dir os dir (component_text part))) d cs = Inr d'
    \<longleftrightarrow> beneath tree d cs d'"
  using assms(2)
proof (induction cs arbitrary: d)
  case Nil
  then show ?case by auto
next
  case (Cons c cs)
  then show ?case
    using assms(1) by (auto simp: kernel_openat_def and_then_eq_Inr map_err_eq_Inr)
qed

lemma open_directory_beneath:
  assumes "kernel_directories os tree"
  shows "open_directory os d path = Inr d' \<longleftrightarrow> beneath tree d (components path) d'"
proof (cases "list_all stays_beneath (components path)")
  case False
  then have "open_directory os d path = Inl (IoError (Custom InvalidInput ''cgroup path must remain beneath its directory''))"
    by (simp add: open_directory_def list_ex_iff list_all_iff)
  with False show ?thesis by (auto dest: beneath_stays)
next
  case True
  let ?p = "if path = [] then ''.'' else path"
  have p: "?p \<noteq> []" "list_all stays_beneath (components ?p)"
    "beneath tree d (components ?p) d' \<longleftrightarrow> beneath tree d (components path) d'"
    using True by simp_all
  have opened: "open_directory os d path = (case openat2_dir os d ?p of
      Inr fd \<Rightarrow> Inr fd | Inl errno \<Rightarrow> if errno = ENOSYS then open_components os d ?p else Inl (os_error errno))"
    using True by (auto simp: open_directory_def list_ex_iff list_all_iff Let_def)
  have walk: "open_components os d ?p = Inr d' \<longleftrightarrow> beneath tree d (components ?p) d'"
    using assms walk_beneath [of os tree "components ?p" d d'] components_stay [OF p(2)]
    by (auto simp: kernel_directories_def kernel_openat_def open_components_def and_then_eq_Inr map_err_eq_Inr)
  consider "kernel_openat2 os tree" | "kernel_without_openat2 os"
    using assms by (auto simp: kernel_directories_def)
  then show ?thesis
  proof cases
    assume "kernel_openat2 os tree"
    then have "openat2_dir os d ?p \<noteq> Inl ENOSYS" "openat2_dir os d ?p = Inr d' \<longleftrightarrow> resolves tree [] d (components ?p) d'"
      using p(1) stays_no_parent [OF p(2)] unfolding kernel_openat2_def by blast+
    then have "openat2_dir os d ?p \<noteq> Inl ENOSYS" "openat2_dir os d ?p = Inr d' \<longleftrightarrow> beneath tree d (components ?p) d'"
      by (simp_all add: resolves_stays [OF p(2)])
    with p(3) opened show ?thesis by (cases "openat2_dir os d ?p") auto
  next
    assume "kernel_without_openat2 os"
    then have "openat2_dir os d ?p = Inl ENOSYS" by (simp add: kernel_without_openat2_def)
    with p(3) opened walk show ?thesis by simp
  qed
qed

lemma beneath_components:
  "\<not> is_absolute path \<Longrightarrow> beneath tree d (components path) d' \<longleftrightarrow> beneath tree d (body_components path) d'"
  using components_RootDir [of path] by (cases rule: components_cases [of path]) auto

lemma verified_Inr_iff:
  "verified os d path = Inr cg \<longleftrightarrow>
     fstatfs_type os d = Inr CGROUP2_SUPER_MAGIC \<and> cg = \<lparr>directory = d, cgroup_path = path\<rparr>"
  by (auto simp: verified_def and_then_eq_Inr map_err_eq_Inr)

lemma strip_root:
  assumes "is_absolute path"
  shows "\<exists>rel. path_strip_prefix path ''/'' = Some rel \<and> \<not> is_absolute rel \<and> body_components rel = body_components path"
proof -
  have root: "components ''/'' = [RootDir]"
    by (simp add: components_def is_absolute_def List.map_filter_def segment_component_def)
  with assms have "take (length (components ''/'')) (components path) = components ''/''" "components ''/'' \<noteq> []"
    by (simp_all add: components_absolute)
  from path_strip_prefix_rest [OF assms this] obtain rel where "path_strip_prefix path ''/'' = Some rel"
    "\<not> is_absolute rel" "body_components rel = drop (length (components ''/'')) (components path)" .
  with assms root show ?thesis by (simp add: components_absolute)
qed

lemma open_directory_parent:
  "\<not> is_absolute rel \<Longrightarrow> ParentDir \<in> set (body_components rel) \<Longrightarrow>
     open_directory os d rel = Inl (IoError (Custom InvalidInput ''cgroup path must remain beneath its directory''))"
  by (cases rule: components_cases [of rel]) (auto simp: open_directory_def list_ex_iff intro: bexI [of _ ParentDir])

lemma open_path_start:
  obtains rel where "\<not> is_absolute rel" "body_components rel = body_components path"
    "open_path os path = and_then (map_err os_error (open_dir os (if is_absolute path then ''/'' else ''.'')))
       (\<lambda>start. and_then (open_directory os start rel) (\<lambda>dir. verified os dir path))"
proof (cases "is_absolute path")
  case True
  from strip_root [OF this] obtain rel where
    "path_strip_prefix path ''/'' = Some rel" "\<not> is_absolute rel" "body_components rel = body_components path" by blast
  with True that show ?thesis by (simp add: open_path_def)
next
  case False
  with that show ?thesis by (simp add: open_path_def)
qed

text \<open>C2: Opening a path gives exactly the directory that its names lead to, from the root or from the
  current directory, through directories that are not symbolic links and never to a parent, and
  only when that directory is on a cgroup2 file system. A path with a parent is invalid input, even
  where the kernel would resolve it; all this equally on kernels with and without openat2.\<close>

theorem from_path_correct:
  assumes "kernel_directories os tree"
  shows "(from_path os path = Inr cg \<longleftrightarrow>
      (\<exists>start. open_dir os (if is_absolute path then ''/'' else ''.'') = Inr start
         \<and> beneath tree start (body_components path) (directory cg))
      \<and> fstatfs_type os (directory cg) = Inr CGROUP2_SUPER_MAGIC \<and> cgroup_path cg = path)
    \<and> (ParentDir \<in> set (body_components path) \<and> open_dir os (if is_absolute path then ''/'' else ''.'') = Inr start \<longrightarrow>
        from_path os path = Inl (IoError (Custom InvalidInput ''cgroup path must remain beneath its directory'')))"
proof (intro conjI impI)
  obtain rel where rel: "\<not> is_absolute rel" "body_components rel = body_components path" and opened:
    "open_path os path = and_then (map_err os_error (open_dir os (if is_absolute path then ''/'' else ''.'')))
       (\<lambda>start. and_then (open_directory os start rel) (\<lambda>dir. verified os dir path))"
    by (rule open_path_start)
  have "from_path os path = Inr cg \<longleftrightarrow> open_path os path = Inr cg"
    by (simp add: from_path_def map_err_eq_Inr)
  also have "\<dots> \<longleftrightarrow> (\<exists>start d. open_dir os (if is_absolute path then ''/'' else ''.'') = Inr start
      \<and> beneath tree start (body_components path) d \<and> verified os d path = Inr cg)"
    unfolding opened
    by (auto simp: and_then_eq_Inr map_err_eq_Inr open_directory_beneath [OF assms] beneath_components [OF rel(1)] rel(2))
  finally show "from_path os path = Inr cg \<longleftrightarrow>
      (\<exists>start. open_dir os (if is_absolute path then ''/'' else ''.'') = Inr start
         \<and> beneath tree start (body_components path) (directory cg))
      \<and> fstatfs_type os (directory cg) = Inr CGROUP2_SUPER_MAGIC \<and> cgroup_path cg = path"
    unfolding verified_Inr_iff by (cases cg) auto
  assume "ParentDir \<in> set (body_components path) \<and> open_dir os (if is_absolute path then ''/'' else ''.'') = Inr start"
  then show "from_path os path = Inl (IoError (Custom InvalidInput ''cgroup path must remain beneath its directory''))"
    using open_directory_parent [OF rel(1), of os start] unfolding from_path_def opened rel(2) by simp
qed

lemma single_name_iff: "single_name name \<longleftrightarrow> proper_component (Normal name)"
proof (cases "CHR ''/'' \<in> set name")
  case True
  then show ?thesis by (simp add: single_name_def proper_component_def)
next
  case False
  then have "split_pred (\<lambda>c. c = CHR ''/'') name = [name]" by (intro split_pred_no_sep) auto
  moreover have "\<not> is_absolute name" using False by (cases name) (auto simp: is_absolute_def)
  ultimately show ?thesis
    using False by (auto simp: single_name_def proper_component_def components_def List.map_filter_def segment_component_def)
qed

lemma components_proper: "proper_component (Normal name) \<Longrightarrow> components name = [Normal name]"
  by (rule components_single) (auto simp: proper_component_def segment_component_def split: if_splits)

text \<open>C12: A child is exactly a directory entry of the open directory, not a symbolic link, that is on a
  cgroup2 file system; any name that is not a single normal component is refused as invalid input
  whatever the kernel would do with it.\<close>

theorem child_correct:
  assumes "kernel_directories os tree"
  shows "(child os cg name = Inr c \<longleftrightarrow>
       proper_component (Normal name) \<and> tree (directory cg) name = Some (SubDir (directory c))
       \<and> fstatfs_type os (directory c) = Inr CGROUP2_SUPER_MAGIC \<and> cgroup_path c = path_join (cgroup_path cg) name)
    \<and> (child os cg name = Inl (IoError (Custom InvalidInput ''child must be a single name''))
         \<longleftrightarrow> \<not> proper_component (Normal name))"
proof (cases "proper_component (Normal name)")
  case False
  then show ?thesis by (simp add: child_def single_name_iff)
next
  case True
  have opens: "open_directory os (directory cg) name = Inr d \<longleftrightarrow> tree (directory cg) name = Some (SubDir d)" for d
    by (simp add: open_directory_beneath [OF assms] components_proper [OF True])
  have "child os cg name = Inr c \<longleftrightarrow> (\<exists>d. open_directory os (directory cg) name = Inr d
      \<and> verified os d (path_join (cgroup_path cg) name) = Inr c)"
    using True by (auto simp: child_def single_name_iff Let_def and_then_eq_Inr map_err_eq_Inr)
  moreover have "child os cg name \<noteq> Inl (IoError (Custom InvalidInput ''child must be a single name''))"
    using True by (auto simp: child_def single_name_iff Let_def and_then_eq_Inl map_err_eq_Inl verified_def
        os_error_def split: Error.splits if_splits)
  ultimately show ?thesis using True unfolding opens verified_Inr_iff by (cases c) auto
qed

section \<open>A small kernel\<close>

text \<open>A kernel without openat2 over three directories, one entry of which is a symbolic link.\<close>

fun example_tree :: "nat \<Rightarrow> string \<Rightarrow> nat node option" where
  "example_tree d name =
     (if d = 0 \<and> name = ''cg'' then Some (SubDir 1)
      else if d = 1 \<and> name = ''a'' then Some (SubDir 2)
      else if d = 1 \<and> name = ''l'' then Some (Symlink ''a'')
      else None)"

definition tree_openat :: "('d \<Rightarrow> string \<Rightarrow> 'd node option) \<Rightarrow> 'd \<Rightarrow> string \<Rightarrow> nat + 'd" where
  "tree_openat tree d name =
     (if name = ''.'' then Inr d
      else case tree d name of
          Some (SubDir e) \<Rightarrow> Inr e | Some (Symlink _) \<Rightarrow> Inl 40 | Some OtherFile \<Rightarrow> Inl 20 | None \<Rightarrow> Inl ENOENT)"

definition example_process :: Process where
  "example_process = \<lparr>process_cgroups = Inr [\<lparr>hierarchy = 0, controllers = [], pathname = ''/a''\<rparr>],
     process_mountinfo = Inr
       [\<lparr>fs_type = ''cgroup2'', mount_root = ''/'', mount_point = ''/cg'', mount_options = []\<rparr>,
        \<lparr>fs_type = ''cgroup2'', mount_root = ''/a'', mount_point = ''/run'', mount_options = []\<rparr>]\<rparr>"

definition example_os :: "nat dir_os" where
  "example_os = \<lparr>openat_file = \<lambda>_ _. Inl ENOENT, read_to_string = \<lambda>_. Inl (Os 21),
     open_dir = \<lambda>path. Inr (if path = ''/'' then 0 else 1), openat_dir = tree_openat example_tree,
     openat2_dir = \<lambda>_ _. Inl ENOSYS, fstatfs_type = \<lambda>d. Inr CGROUP2_SUPER_MAGIC,
     read_dir = \<lambda>_. Inr [Inr \<lparr>entry_type = Directory, entry_name = ''a''\<rparr>,
       Inr \<lparr>entry_type = Directory, entry_name = ''gone''\<rparr>, Inr \<lparr>entry_type = OtherType, entry_name = ''cpu.stat''\<rparr>],
     process_new = \<lambda>_. Inr example_process, process_myself = Inr example_process, process_id = 7\<rparr>"

text \<open>The same with an openat2 that follows parents as far as the start.\<close>

fun resolve :: "('d \<Rightarrow> string \<Rightarrow> 'd node option) \<Rightarrow> 'd list \<Rightarrow> 'd \<Rightarrow> Component list \<Rightarrow> 'd option" where
  "resolve tree trail d [] = Some d"
| "resolve tree trail d (CurDir # cs) = resolve tree trail d cs"
| "resolve tree trail d (Normal name # cs) =
     (case tree d name of Some (SubDir e) \<Rightarrow> resolve tree (d # trail) e cs | _ \<Rightarrow> None)"
| "resolve tree (e # trail) d (ParentDir # cs) = resolve tree trail e cs"
| "resolve tree [] d (ParentDir # cs) = None"
| "resolve tree trail d (RootDir # cs) = None"

definition tree_openat2 :: "('d \<Rightarrow> string \<Rightarrow> 'd node option) \<Rightarrow> 'd \<Rightarrow> string \<Rightarrow> nat + 'd" where
  "tree_openat2 tree d path =
     (case resolve tree [] d (components path) of Some e \<Rightarrow> if path = [] then Inl ENOENT else Inr e | None \<Rightarrow> Inl ENOENT)"

definition resolving_os :: "nat dir_os" where
  "resolving_os = example_os\<lparr>openat2_dir := tree_openat2 example_tree\<rparr>"

lemma resolve_resolves: "resolve tree trail d cs = Some d' \<longleftrightarrow> resolves tree trail d cs d'"
  by (induction tree trail d cs rule: resolve.induct) (auto split: option.split node.split)

lemma tree_openat_kernel: "openat_dir os = tree_openat tree \<Longrightarrow> kernel_openat os tree"
proof -
  have "proper_component (Normal name) \<Longrightarrow> name \<noteq> ''.''" for name
    by (auto simp: proper_component_def segment_component_def)
  then show "openat_dir os = tree_openat tree \<Longrightarrow> kernel_openat os tree"
    by (auto simp: kernel_openat_def tree_openat_def split: option.split node.split)
qed

lemma tree_openat2_kernel: "openat2_dir os = tree_openat2 tree \<Longrightarrow> kernel_openat2 os tree"
  by (auto simp: kernel_openat2_def tree_openat2_def resolve_resolves [symmetric] ENOENT_def ENOSYS_def split: option.split)

lemma example_kernel: "kernel_directories example_os example_tree"
  using tree_openat_kernel [of example_os]
  by (simp add: kernel_directories_def kernel_without_openat2_def example_os_def)

lemma resolving_kernel: "kernel_directories resolving_os example_tree"
  using tree_openat_kernel [of resolving_os] tree_openat2_kernel [of resolving_os]
  by (simp add: kernel_directories_def resolving_os_def example_os_def)

text \<open>The kernel with openat2 would open \<open>cg/a/../a\<close>, and opening it is refused all the same.\<close>

theorem from_path_correct_witness:
  "from_path example_os ''/cg//a/'' = Inr \<lparr>directory = 2, cgroup_path = ''/cg//a/''\<rparr>
   \<and> (\<forall>c. from_path example_os ''/cg/l'' \<noteq> Inr c)
   \<and> from_path resolving_os ''/cg//a/'' = Inr \<lparr>directory = 2, cgroup_path = ''/cg//a/''\<rparr>
   \<and> openat2_dir resolving_os 0 ''cg/a/../a'' = Inr 2
   \<and> from_path resolving_os ''/cg/a/../a'' = Inl (IoError (Custom InvalidInput ''cgroup path must remain beneath its directory''))"
proof (intro conjI)
  have parts: "body_components ''/cg//a/'' = [Normal ''cg'', Normal ''a'']" "body_components ''/cg/l'' = [Normal ''cg'', Normal ''l'']"
    "body_components ''/cg/a/../a'' = [Normal ''cg'', Normal ''a'', ParentDir, Normal ''a'']"
    by (simp_all add: body_components_def List.map_filter_def segment_component_def)
  note example = from_path_correct [OF example_kernel, THEN conjunct1] and resolving = from_path_correct [OF resolving_kernel]
  show "from_path example_os ''/cg//a/'' = Inr \<lparr>directory = 2, cgroup_path = ''/cg//a/''\<rparr>"
    by (simp add: example parts) (simp add: example_os_def is_absolute_def)
  show "\<forall>c. from_path example_os ''/cg/l'' \<noteq> Inr c"
    by (simp add: example parts)
  show "from_path resolving_os ''/cg//a/'' = Inr \<lparr>directory = 2, cgroup_path = ''/cg//a/''\<rparr>"
    by (simp add: resolving [THEN conjunct1] parts) (simp add: resolving_os_def example_os_def is_absolute_def)
  show "openat2_dir resolving_os 0 ''cg/a/../a'' = Inr 2"
    by code_simp
  show "from_path resolving_os ''/cg/a/../a'' = Inl (IoError (Custom InvalidInput ''cgroup path must remain beneath its directory''))"
    using resolving [THEN conjunct2, of "''/cg/a/../a''" 0] by (simp add: parts) (simp add: resolving_os_def example_os_def is_absolute_def)
qed

theorem child_correct_witness:
  "child example_os \<lparr>directory = 1, cgroup_path = ''/cg''\<rparr> ''a'' = Inr \<lparr>directory = 2, cgroup_path = ''/cg/a''\<rparr>
   \<and> child resolving_os \<lparr>directory = 1, cgroup_path = ''/cg''\<rparr> ''a'' = Inr \<lparr>directory = 2, cgroup_path = ''/cg/a''\<rparr>
   \<and> child resolving_os \<lparr>directory = 1, cgroup_path = ''/cg''\<rparr> ''..''
       = Inl (IoError (Custom InvalidInput ''child must be a single name''))"
proof -
  have "proper_component (Normal ''a'')" "\<not> proper_component (Normal ''..'')"
    by (simp_all add: proper_component_def segment_component_def)
  then show ?thesis
    by (simp add: child_correct [OF example_kernel] child_correct [OF resolving_kernel])
      (simp add: resolving_os_def example_os_def path_join_def is_absolute_def)
qed

section \<open>Listing children\<close>

definition vanished :: "('d, 'x) dir_os_scheme \<Rightarrow> 'd Cgroup \<Rightarrow> string \<Rightarrow> bool" where
  "vanished os cg name \<longleftrightarrow>
     (case child os cg name of Inl (Operation _ _ source) \<Rightarrow> io_kind source = NotFound | _ \<Rightarrow> False)"

definition child_names :: "DirEntry list \<Rightarrow> string list" where
  "child_names entries =
     map entry_name (filter (\<lambda>e. entry_type e = Directory \<and> entry_name e \<notin> {''.'', ''..''}) entries)"

lemma child_entry_names:
  "List.map_filter (child_entry os cg) (map Inr entries)
     = map (child os cg) (filter (\<lambda>name. \<not> vanished os cg name) (child_names entries))"
proof (induction entries)
  case Nil
  show ?case by (simp add: child_names_def List.map_filter_simps)
next
  case (Cons e entries)
  show ?case
  proof (cases "entry_type e = Directory \<and> entry_name e \<notin> {''.'', ''..''}")
    case False
    then have "child_entry os cg (Inr e) = None" by (auto simp: child_entry_def)
    moreover have "child_names (e # entries) = child_names entries" using False by (auto simp: child_names_def)
    ultimately show ?thesis using Cons by (simp add: List.map_filter_simps)
  next
    case True
    then have names: "child_names (e # entries) = entry_name e # child_names entries" by (simp add: child_names_def)
    have "child_entry os cg (Inr e) =
        (if vanished os cg (entry_name e) then None else Some (child os cg (entry_name e)))"
      using True by (auto simp: child_entry_def vanished_def split: sum.split Error.split)
    with Cons show ?thesis by (simp add: names List.map_filter_simps)
  qed
qed

text \<open>C13: The children are the directory entries in the order of the listing, each opened as a child; an
  entry that vanished since it was listed is left out, and the first entry that cannot be opened for
  another reason is the error of the whole listing.\<close>

theorem children_correct:
  assumes "read_dir os (directory cg) = Inr (map Inr entries)"
  defines "names \<equiv> filter (\<lambda>name. \<not> vanished os cg name) (child_names entries)"
  shows "(children os cg = Inr cs \<longleftrightarrow> map (child os cg) names = map Inr cs)
    \<and> (children os cg = Inl e \<longleftrightarrow> (\<exists>before name after. names = before @ name # after
          \<and> (\<forall>n \<in> set before. \<exists>c. child os cg n = Inr c) \<and> child os cg name = Inl e))"
proof -
  have eq: "children os cg = collect_results (map (child os cg) names)"
    using assms(1) by (simp add: children_def child_entry_names names_def)
  then show ?thesis
    by (simp add: collect_results_eq_Inr collect_results_map_eq_Inl)
qed

definition example_cgroup :: "nat Cgroup" where
  "example_cgroup = \<lparr>directory = 1, cgroup_path = ''/cg''\<rparr>"

definition example_entries :: "DirEntry list" where
  "example_entries = [\<lparr>entry_type = Directory, entry_name = ''a''\<rparr>,
     \<lparr>entry_type = Directory, entry_name = ''gone''\<rparr>, \<lparr>entry_type = OtherType, entry_name = ''cpu.stat''\<rparr>]"

lemma example_child:
  "child example_os example_cgroup ''a'' = Inr \<lparr>directory = 2, cgroup_path = ''/cg/a''\<rparr>"
  "child example_os example_cgroup ''gone'' = Inl (Operation ''open child cgroup'' ''/cg/gone'' (Os ENOENT))"
  by code_simp+

lemma children_correct_witness:
  "children example_os example_cgroup = Inr [\<lparr>directory = 2, cgroup_path = ''/cg/a''\<rparr>]"
proof -
  have listed: "read_dir example_os (directory example_cgroup) = Inr (map Inr example_entries)"
    by (simp add: example_os_def example_entries_def)
  have "child_names example_entries = [''a'', ''gone'']"
    by (simp add: child_names_def example_entries_def)
  then have "filter (\<lambda>name. \<not> vanished example_os example_cgroup name) (child_names example_entries) = [''a'']"
    by (simp add: vanished_def example_child ENOENT_def decode_error_kind_def)
  then show ?thesis
    using children_correct [OF listed, of "[\<lparr>directory = 2, cgroup_path = ''/cg/a''\<rparr>]"]
    by (simp add: example_child)
qed

text \<open>
  The listing also fails with errors that carry no path: a child on another file system, say a mount
  below the cgroup, makes the whole listing fail with \<open>NotCgroupV2\<close>.
\<close>

lemma children_other_file_system:
  "children (example_os\<lparr>fstatfs_type := \<lambda>d. Inr 0\<rparr>) example_cgroup = Inl NotCgroupV2"
  by code_simp

section \<open>The cgroup of a process\<close>

lemma first_match_Cons:
  "(\<exists>before c after. x # xs = before @ c # after \<and> (\<forall>b \<in> set before. P b) \<and> Q c) \<longleftrightarrow>
     Q x \<or> P x \<and> (\<exists>before c after. xs = before @ c # after \<and> (\<forall>b \<in> set before. P b) \<and> Q c)"
  (is "?L \<longleftrightarrow> ?R")
proof
  assume ?L
  then obtain before c after where split: "x # xs = before @ c # after" "\<forall>b \<in> set before. P b" "Q c" by blast
  then show ?R by (cases before) auto
next
  assume ?R
  then consider "Q x" | before c after where "P x" "xs = before @ c # after" "\<forall>b \<in> set before. P b" "Q c" by blast
  then show ?L
  proof cases
    case 1
    then have "x # xs = [] @ x # xs \<and> (\<forall>b \<in> set []. P b) \<and> Q x" by simp
    then show ?L by blast
  next
    case 2
    then have "x # xs = (x # before) @ c # after \<and> (\<forall>b \<in> set (x # before). P b) \<and> Q c" by simp
    then show ?L by blast
  qed
qed

lemma open_candidates_loop_Inr:
  "open_candidates_loop first_error cs f = Inr v \<longleftrightarrow>
     (\<exists>before c after. cs = before @ c # after \<and> (\<forall>b \<in> set before. \<exists>e. f (candidate_path b) = Inl e)
       \<and> f (candidate_path c) = Inr v)"
proof (induction cs arbitrary: first_error)
  case Nil
  show ?case by simp
next
  case (Cons x xs)
  show ?case
    unfolding first_match_Cons open_candidates_loop.simps by (simp add: Cons.IH split: sum.split)
qed

lemma open_candidates_loop_Inl:
  "open_candidates_loop first_error cs f = Inl e \<longleftrightarrow>
     (\<forall>c \<in> set cs. \<exists>e. f (candidate_path c) = Inl e)
     \<and> (case first_error of
          Some e' \<Rightarrow> e = e'
        | None \<Rightarrow> (case cs of [] \<Rightarrow> e = NotCgroupV2 | c # _ \<Rightarrow> f (candidate_path c) = Inl e))"
  by (induction cs arbitrary: first_error) (auto split: option.split sum.split list.split)

lemma open_candidates_Inr:
  "open_candidates cs f = Inr v \<longleftrightarrow>
     (\<exists>before c after. cs = before @ c # after \<and> (\<forall>b \<in> set before. \<exists>e. f (candidate_path b) = Inl e)
       \<and> f (candidate_path c) = Inr v)"
  by (simp add: open_candidates_def open_candidates_loop_Inr)

lemma open_candidates_Inl:
  "open_candidates cs f = Inl e \<longleftrightarrow>
     (\<forall>c \<in> set cs. \<exists>e. f (candidate_path c) = Inl e)
     \<and> (case cs of [] \<Rightarrow> e = NotCgroupV2 | c # _ \<Rightarrow> f (candidate_path c) = Inl e)"
  by (simp add: open_candidates_def open_candidates_loop_Inl)

lemma valid_pid_iff: "valid_pid pid = Some n \<longleftrightarrow> n = int (unat pid) \<and> 0 < unat pid \<and> unat pid < 2 ^ 31"
proof -
  have "0 < int (unat pid) \<longleftrightarrow> 0 < unat pid" by (rule of_nat_0_less_iff)
  then show ?thesis unfolding valid_pid_def i32_try_from_def by (auto simp del: of_nat_unat int_nat_eq)
qed

text \<open>C11: A pid that is zero or no positive 32-bit signed number is invalid input whatever /proc would
  give for it or for the caller. For any other pid a failure to read the process, the caller or the
  candidates is reported, in this order; otherwise the cgroup is the first of the candidates that
  opens, and when none does the error is that of the best, the first one.\<close>

theorem from_pid_correct:
  "if 0 < unat pid \<and> unat pid < 2 ^ 31
   then (case process_new os (int (unat pid)) of
       Inl e \<Rightarrow> from_pid describe os pid = Inl (Error_procfs describe e)
     | Inr process \<Rightarrow> (case process_myself os of
         Inl e \<Rightarrow> from_pid describe os pid = Inl (Error_procfs describe e)
       | Inr caller \<Rightarrow> (case CgroupPath_candidates process caller of
           Inl e \<Rightarrow> from_pid describe os pid = Inl (candidates_error describe e)
         | Inr paths \<Rightarrow>
             (\<forall>cg. from_pid describe os pid = Inr cg \<longleftrightarrow>
                (\<exists>before c after. paths = before @ c # after
                   \<and> (\<forall>b \<in> set before. \<exists>e. from_path os (candidate_path b) = Inl e)
                   \<and> from_path os (candidate_path c) = Inr cg))
             \<and> (\<forall>e. from_pid describe os pid = Inl e \<longleftrightarrow>
                (\<forall>c \<in> set paths. \<exists>e. from_path os (candidate_path c) = Inl e)
                \<and> from_path os (candidate_path (hd paths)) = Inl e))))
   else from_pid describe os pid = Inl (IoError (Custom InvalidInput ''PID must be positive and fit i32''))"
proof (cases "0 < unat pid \<and> unat pid < 2 ^ 31")
  case True
  then have "valid_pid pid = Some (int (unat pid))" by (simp add: valid_pid_iff)
  then have steps: "from_pid describe os pid =
     and_then (map_err (Error_procfs describe) (process_new os (int (unat pid)))) (\<lambda>process.
     and_then (map_err (Error_procfs describe) (process_myself os)) (\<lambda>caller.
     and_then (map_err (candidates_error describe) (CgroupPath_candidates process caller)) (\<lambda>candidates.
     open_candidates candidates (from_path os))))"
    by (simp add: from_pid_def)
  show ?thesis
    using True unfolding steps
    by (auto simp: open_candidates_Inr open_candidates_Inl dest: CgroupPath_candidates_nonempty split: sum.split list.splits)
next
  case False
  then have "valid_pid pid = None" by (metis not_Some_eq valid_pid_iff)
  then have "from_pid describe os pid = Inl (IoError (Custom InvalidInput ''PID must be positive and fit i32''))"
    by (simp add: from_pid_def)
  with False show ?thesis by auto
qed

lemma example_candidates:
  "map_ok (map candidate_path) (CgroupPath_candidates example_process example_process) = Inr [''/run/'', ''/cg/a'']"
  by code_simp

theorem from_pid_correct_witness:
  "from_pid (\<lambda>_. ''procfs'') example_os 7 = Inr \<lparr>directory = 2, cgroup_path = ''/cg/a''\<rparr>
   \<and> from_pid (\<lambda>_. ''procfs'') (example_os\<lparr>process_new := \<lambda>_. Inl (ProcNotFound None)\<rparr>) 0
       = Inl (IoError (Custom InvalidInput ''PID must be positive and fit i32''))"
proof -
  obtain c1 c2 where cs: "CgroupPath_candidates example_process example_process = Inr [c1, c2]"
    "candidate_path c1 = ''/run/''" "candidate_path c2 = ''/cg/a''"
    using example_candidates by (auto simp: map_ok_eq_Inr map_eq_Cons_conv)
  have "process_new example_os (int (unat (7 :: u32))) = Inr example_process" "process_myself example_os = Inr example_process"
    by (simp_all add: example_os_def)
  note correct = from_pid_correct [where pid = 7 and os = example_os and describe = "\<lambda>_. ''procfs''", unfolded this sum.case cs(1)]
  have missed: "from_path example_os ''/run/'' = Inl (Operation ''open cgroup'' ''/run/'' (Os ENOENT))"
    and opened: "from_path example_os ''/cg/a'' = Inr \<lparr>directory = 2, cgroup_path = ''/cg/a''\<rparr>"
    by code_simp+
  have "[c1, c2] = [c1] @ c2 # [] \<and> (\<forall>b \<in> set [c1]. \<exists>e. from_path example_os (candidate_path b) = Inl e)
      \<and> from_path example_os (candidate_path c2) = Inr \<lparr>directory = 2, cgroup_path = ''/cg/a''\<rparr>"
    by (simp add: cs missed opened)
  moreover have "0 < unat (7 :: u32) \<and> unat (7 :: u32) < 2 ^ 31" by simp
  ultimately have "from_pid (\<lambda>_. ''procfs'') example_os 7 = Inr \<lparr>directory = 2, cgroup_path = ''/cg/a''\<rparr>"
    using correct by (simp only: if_True simp_thms) blast
  with from_pid_correct [where pid = 0 and os = "example_os\<lparr>process_new := \<lambda>_. Inl (ProcNotFound None)\<rparr>" and describe = "\<lambda>_. ''procfs''"] show ?thesis by simp
qed

end
