(* ===== verification/Sakai_Notification.thy ===== *)
theory Sakai_Notification
  imports Sakai_Handle Rust_Effect
begin

unbundle bit_operations_syntax

text \<open>
  Change notifications, \<open>sakai/src/cgroup/v2/notification.rs\<close>: polling the evented interfaces and
  watching configuration files with inotify. The system calls and rustix's inotify reader change
  the state of the kernel, an abstract type that every operation takes and returns.
\<close>

section \<open>Interfaces\<close>

datatype EventInterface =
    CgroupEvents | MemoryEvents | MemoryEventsLocal | MemorySwapEvents | PidsEvents | CpusetCpusPartition

fun EventInterface_filename :: "EventInterface \<Rightarrow> string" where
  "EventInterface_filename CgroupEvents = ''cgroup.events''"
| "EventInterface_filename MemoryEvents = ''memory.events''"
| "EventInterface_filename MemoryEventsLocal = ''memory.events.local''"
| "EventInterface_filename MemorySwapEvents = ''memory.swap.events''"
| "EventInterface_filename PidsEvents = ''pids.events''"
| "EventInterface_filename CpusetCpusPartition = ''cpuset.cpus.partition''"

definition EventInterface_variants :: "EventInterface list" where
  "EventInterface_variants =
     [CgroupEvents, MemoryEvents, MemoryEventsLocal, MemorySwapEvents, PidsEvents, CpusetCpusPartition]"

datatype ConfigurationInterface =
    ConfigCgroupType | ConfigCgroupSubtreeControl | ConfigCpuMax | ConfigCpuWeight | ConfigCpuUclampMax
  | ConfigCpuUclampMin | ConfigCpuMaxBurst | ConfigCpuWeightNice | ConfigCpuIdle | ConfigMemoryMax
  | ConfigMemoryHigh | ConfigMemoryLow | ConfigMemoryMin | ConfigMemoryOomGroup | ConfigMemorySwapMax
  | ConfigMemorySwapHigh | ConfigMemoryZswapMax | ConfigMemoryZswapWriteback | ConfigPidsMax
  | ConfigIoWeight | ConfigIoMax | ConfigIoLatency | ConfigCpusetCpus | ConfigCpusetMems
  | ConfigCpusetCpusPartition

fun ConfigurationInterface_filename :: "ConfigurationInterface \<Rightarrow> string" where
  "ConfigurationInterface_filename ConfigCgroupType = ''cgroup.type''"
| "ConfigurationInterface_filename ConfigCgroupSubtreeControl = ''cgroup.subtree_control''"
| "ConfigurationInterface_filename ConfigCpuMax = ''cpu.max''"
| "ConfigurationInterface_filename ConfigCpuWeight = ''cpu.weight''"
| "ConfigurationInterface_filename ConfigCpuUclampMax = ''cpu.uclamp.max''"
| "ConfigurationInterface_filename ConfigCpuUclampMin = ''cpu.uclamp.min''"
| "ConfigurationInterface_filename ConfigCpuMaxBurst = ''cpu.max.burst''"
| "ConfigurationInterface_filename ConfigCpuWeightNice = ''cpu.weight.nice''"
| "ConfigurationInterface_filename ConfigCpuIdle = ''cpu.idle''"
| "ConfigurationInterface_filename ConfigMemoryMax = ''memory.max''"
| "ConfigurationInterface_filename ConfigMemoryHigh = ''memory.high''"
| "ConfigurationInterface_filename ConfigMemoryLow = ''memory.low''"
| "ConfigurationInterface_filename ConfigMemoryMin = ''memory.min''"
| "ConfigurationInterface_filename ConfigMemoryOomGroup = ''memory.oom.group''"
| "ConfigurationInterface_filename ConfigMemorySwapMax = ''memory.swap.max''"
| "ConfigurationInterface_filename ConfigMemorySwapHigh = ''memory.swap.high''"
| "ConfigurationInterface_filename ConfigMemoryZswapMax = ''memory.zswap.max''"
| "ConfigurationInterface_filename ConfigMemoryZswapWriteback = ''memory.zswap.writeback''"
| "ConfigurationInterface_filename ConfigPidsMax = ''pids.max''"
| "ConfigurationInterface_filename ConfigIoWeight = ''io.weight''"
| "ConfigurationInterface_filename ConfigIoMax = ''io.max''"
| "ConfigurationInterface_filename ConfigIoLatency = ''io.latency''"
| "ConfigurationInterface_filename ConfigCpusetCpus = ''cpuset.cpus''"
| "ConfigurationInterface_filename ConfigCpusetMems = ''cpuset.mems''"
| "ConfigurationInterface_filename ConfigCpusetCpusPartition = ''cpuset.cpus.partition''"

definition ConfigurationInterface_variants :: "ConfigurationInterface list" where
  "ConfigurationInterface_variants =
     [ConfigCgroupType, ConfigCgroupSubtreeControl, ConfigCpuMax, ConfigCpuWeight, ConfigCpuUclampMax,
      ConfigCpuUclampMin, ConfigCpuMaxBurst, ConfigCpuWeightNice, ConfigCpuIdle, ConfigMemoryMax,
      ConfigMemoryHigh, ConfigMemoryLow, ConfigMemoryMin, ConfigMemoryOomGroup, ConfigMemorySwapMax,
      ConfigMemorySwapHigh, ConfigMemoryZswapMax, ConfigMemoryZswapWriteback, ConfigPidsMax,
      ConfigIoWeight, ConfigIoMax, ConfigIoLatency, ConfigCpusetCpus, ConfigCpusetMems,
      ConfigCpusetCpusPartition]"

interpretation event_interface: strum_enum EventInterface_filename EventInterface_variants
proof
  show "distinct (map EventInterface_filename EventInterface_variants)"
    by (simp add: EventInterface_variants_def)
  show "f \<in> set EventInterface_variants" for f
    by (cases f) (simp_all add: EventInterface_variants_def)
qed

interpretation configuration_interface: strum_enum ConfigurationInterface_filename ConfigurationInterface_variants
proof
  show "distinct (map ConfigurationInterface_filename ConfigurationInterface_variants)"
    by (simp add: ConfigurationInterface_variants_def)
  show "f \<in> set ConfigurationInterface_variants" for f
    by (cases f) (simp_all add: ConfigurationInterface_variants_def)
qed

section \<open>The system calls\<close>

record Timespec =
  tv_sec :: int
  tv_nsec :: int

record ('d, 'r, 'w) notify_os =
  open_interface :: "'d \<Rightarrow> string \<Rightarrow> ('w, nat, 'd) io"  \<comment> \<open>\<open>openat\<close> with \<open>RDONLY|CLOEXEC|NOFOLLOW\<close>\<close>
  seek_start :: "'d \<Rightarrow> ('w, io_error, nat) io"
  copy_to_sink :: "'d \<Rightarrow> ('w, io_error, nat) io"
  timespec_try_from :: "Duration \<Rightarrow> string + Timespec"
  poll_one :: "'d \<Rightarrow> u16 \<Rightarrow> Timespec option \<Rightarrow> ('w, nat, nat \<times> u16) io"  \<comment> \<open>the count and the revents\<close>
  inotify_init :: "('w, nat, 'd) io"
  as_raw_fd :: "'d \<Rightarrow> int"
  add_watch :: "'d \<Rightarrow> string \<Rightarrow> u32 \<Rightarrow> ('w, nat, int) io"
  reader_new :: "'d \<Rightarrow> 'r"  \<comment> \<open>an inotify reader with an empty buffer of 4096 bytes\<close>
  reader_next :: "'r \<Rightarrow> 'w \<Rightarrow> (nat + u32) \<times> 'r \<times> 'w"  \<comment> \<open>the flags of the next event\<close>
  reader_is_empty :: "'r \<Rightarrow> bool"

definition EBADF :: nat where "EBADF = 9"
definition EAGAIN :: nat where "EAGAIN = 11"
definition EPIPE :: nat where "EPIPE = 32"

definition POLLIN :: u16 where "POLLIN = 0x1"
definition POLLPRI :: u16 where "POLLPRI = 0x2"
definition POLLERR :: u16 where "POLLERR = 0x8"
definition POLLHUP :: u16 where "POLLHUP = 0x10"
definition POLLNVAL :: u16 where "POLLNVAL = 0x20"

definition IN_MODIFY :: u32 where "IN_MODIFY = 0x2"
definition IN_DELETE_SELF :: u32 where "IN_DELETE_SELF = 0x400"
definition IN_UNMOUNT :: u32 where "IN_UNMOUNT = 0x2000"
definition IN_Q_OVERFLOW :: u32 where "IN_Q_OVERFLOW = 0x4000"
definition IN_IGNORED :: u32 where "IN_IGNORED = 0x8000"

text \<open>\<open>contains\<close> and \<open>intersects\<close> of the flag types.\<close>

definition contains :: "'a::len word \<Rightarrow> 'a word \<Rightarrow> bool" where
  "contains flags other \<longleftrightarrow> flags AND other = other"

definition intersects :: "'a::len word \<Rightarrow> 'a word \<Rightarrow> bool" where
  "intersects flags other \<longleftrightarrow> flags AND other \<noteq> 0"

section \<open>Readiness\<close>

definition Readiness_wait ::
  "('d, 'r, 'w) notify_os \<Rightarrow> 'd \<Rightarrow> u16 \<Rightarrow> Duration option \<Rightarrow> ('w, Error, bool) io" where
  "Readiness_wait os descriptor interest timeout =
     then_io (return_io (map_err (\<lambda>error. IoError (Custom InvalidInput error))
         (transpose (map_option (timespec_try_from os) timeout)))) (\<lambda>timeout.
     then_io (map_err_io os_error (poll_one os descriptor interest timeout)) (\<lambda>(count, flags).
       return_io
        (if count = 0 then Inr False
         else if contains flags POLLNVAL then Inl (os_error EBADF)
         else if contains flags POLLHUP then Inl (os_error EPIPE)
         else Inr (intersects flags (interest OR POLLERR)))))"

section \<open>Event pollers\<close>

record 'd EventPoller =
  poller_file :: 'd
  poller_path :: string
  poller_interface :: EventInterface

definition EventPoller_acknowledge :: "('d, 'r, 'w) notify_os \<Rightarrow> 'd EventPoller \<Rightarrow> ('w, Error, unit) io" where
  "EventPoller_acknowledge os poller =
     then_io (map_err_io (Error_read (poller_path poller)) (seek_start os (poller_file poller))) (\<lambda>_.
     then_io (map_err_io (Error_read (poller_path poller)) (copy_to_sink os (poller_file poller))) (\<lambda>_.
     return_io (Inr ())))"

definition EventPoller_open ::
  "('d, 'r, 'w) notify_os \<Rightarrow> 'd \<Rightarrow> string \<Rightarrow> EventInterface \<Rightarrow> ('w, Error, 'd EventPoller) io" where
  "EventPoller_open os dir path interface =
     then_io (map_err_io (\<lambda>error. Error_read path (Os error))
         (open_interface os dir (EventInterface_filename interface))) (\<lambda>descriptor.
     let poller = \<lparr>poller_file = descriptor, poller_path = path, poller_interface = interface\<rparr> in
     then_io (EventPoller_acknowledge os poller) (\<lambda>_. return_io (Inr poller)))"

definition EventPoller_wait ::
  "('d, 'r, 'w) notify_os \<Rightarrow> 'd EventPoller \<Rightarrow> Duration option \<Rightarrow> ('w, Error, bool) io" where
  "EventPoller_wait os poller timeout =
     then_io (Readiness_wait os (poller_file poller) POLLPRI timeout) (\<lambda>ready.
       if ready then then_io (EventPoller_acknowledge os poller) (\<lambda>_. return_io (Inr True))
       else return_io (Inr False))"

definition Cgroup_poll_events ::
  "('d, 'r, 'w) notify_os \<Rightarrow> 'd Cgroup \<Rightarrow> EventInterface \<Rightarrow> ('w, Error, 'd EventPoller) io" where
  "Cgroup_poll_events os cg interface =
     EventPoller_open os (directory cg) (path_join (cgroup_path cg) (EventInterface_filename interface)) interface"

section \<open>Configuration watchers\<close>

record ChangeNotification =
  modified :: bool
  removed :: bool
  overflowed :: bool

definition ChangeNotification_default :: ChangeNotification where
  "ChangeNotification_default = \<lparr>modified = False, removed = False, overflowed = False\<rparr>"

definition ChangeNotification_include :: "ChangeNotification \<Rightarrow> u32 \<Rightarrow> ChangeNotification" where
  "ChangeNotification_include n flags =
     \<lparr>modified = modified n \<or> contains flags IN_MODIFY,
      removed = removed n \<or> intersects flags (IN_DELETE_SELF OR IN_IGNORED OR IN_UNMOUNT),
      overflowed = overflowed n \<or> contains flags IN_Q_OVERFLOW\<rparr>"

record 'd ConfigurationWatcher =
  watcher_descriptor :: 'd
  watcher_interface :: ConfigurationInterface
  watcher_removed :: bool

definition ConfigurationWatcher_open ::
  "('d, 'r, 'w) notify_os \<Rightarrow> 'd \<Rightarrow> string \<Rightarrow> ConfigurationInterface \<Rightarrow> ('w, Error, 'd ConfigurationWatcher) io" where
  "ConfigurationWatcher_open os dir path interface =
     then_io (map_err_io (\<lambda>error. Error_read path (Os error))
         (open_interface os dir (ConfigurationInterface_filename interface))) (\<lambda>opened.
     then_io (map_err_io os_error (inotify_init os)) (\<lambda>descriptor.
     then_io (map_err_io os_error
         (add_watch os descriptor (''/proc/self/fd/'' @ show_int (as_raw_fd os opened)) (IN_MODIFY OR IN_DELETE_SELF))) (\<lambda>_.
     return_io (Inr \<lparr>watcher_descriptor = descriptor, watcher_interface = interface, watcher_removed = False\<rparr>))))"

text \<open>The loop of \<open>wait\<close>: None when it never returns.\<close>

partial_function (option) drain ::
  "('d, 'r, 'w) notify_os \<Rightarrow> 'r \<Rightarrow> ChangeNotification \<Rightarrow> 'w \<Rightarrow> ((Error + ChangeNotification) \<times> 'w) option" where
  "drain os reader notification w =
     (case reader_next os reader w of (result, reader', w') \<Rightarrow>
        (case result of
           Inr flags \<Rightarrow>
             (if reader_is_empty os reader' then Some (Inr (ChangeNotification_include notification flags), w')
              else drain os reader' (ChangeNotification_include notification flags) w')
         | Inl errno \<Rightarrow>
             Some (if errno = EAGAIN then Inr notification else Inl (os_error errno), w')))"

definition ConfigurationWatcher_wait ::
  "('d, 'r, 'w) notify_os \<Rightarrow> 'd ConfigurationWatcher \<Rightarrow> Duration option \<Rightarrow> 'w \<Rightarrow>
     ((Error + ChangeNotification option) \<times> 'd ConfigurationWatcher \<times> 'w) option" where
  "ConfigurationWatcher_wait os watcher timeout w =
     (if watcher_removed watcher then Some (Inl (os_error EPIPE), watcher, w)
      else case Readiness_wait os (watcher_descriptor watcher) POLLIN timeout w of
          (Inl e, w') \<Rightarrow> Some (Inl e, watcher, w')
        | (Inr False, w') \<Rightarrow> Some (Inr None, watcher, w')
        | (Inr True, w') \<Rightarrow>
            map_option (\<lambda>(result, w''). case result of
                Inl e \<Rightarrow> (Inl e, watcher, w'')
              | Inr notification \<Rightarrow>
                  (Inr (if notification \<noteq> ChangeNotification_default then Some notification else None),
                   watcher\<lparr>watcher_removed := removed notification\<rparr>, w''))
              (drain os (reader_new os (watcher_descriptor watcher)) ChangeNotification_default w'))"

definition Cgroup_watch_configuration ::
  "('d, 'r, 'w) notify_os \<Rightarrow> 'd Cgroup \<Rightarrow> ConfigurationInterface \<Rightarrow> ('w, Error, 'd ConfigurationWatcher) io" where
  "Cgroup_watch_configuration os cg interface =
     ConfigurationWatcher_open os (directory cg)
       (path_join (cgroup_path cg) (ConfigurationInterface_filename interface)) interface"

section \<open>Draining the queue\<close>

text \<open>
  What inotify(7) and the reader document: the reader serves the events of its buffer one by one,
  and fills an empty buffer by one read, which takes a first part of the kernel's queue, or fails
  with EAGAIN when there is nothing. The kernel may queue more events at any time. \<open>pending\<close> is
  the buffer of a reader and \<open>queue\<close> the kernel's queue of the watched descriptor.
\<close>

definition inotify_reader ::
  "('d, 'r, 'w) notify_os \<Rightarrow> 'd \<Rightarrow> ('r \<Rightarrow> u32 list) \<Rightarrow> ('w \<Rightarrow> u32 list) \<Rightarrow> bool" where
  "inotify_reader os d pending queue \<longleftrightarrow>
     pending (reader_new os d) = []
     \<and> (\<forall>r. reader_is_empty os r \<longleftrightarrow> pending r = [])
     \<and> (\<forall>r w e es. pending r = e # es \<longrightarrow> (\<exists>r'. reader_next os r w = (Inr e, r', w) \<and> pending r' = es))
     \<and> (\<forall>w. queue w = [] \<longrightarrow> (\<exists>r' w'. reader_next os (reader_new os d) w = (Inl EAGAIN, r', w')))
     \<and> (\<forall>w. queue w \<noteq> [] \<longrightarrow> (\<exists>e es rest more r' w'. reader_next os (reader_new os d) w = (Inr e, r', w')
          \<and> pending r' = es \<and> queue w = e # es @ rest \<and> queue w' = rest @ more))"

definition summary :: "u32 list \<Rightarrow> ChangeNotification" where
  "summary events =
     \<lparr>modified = (\<exists>e \<in> set events. contains e IN_MODIFY),
      removed = (\<exists>e \<in> set events. intersects e (IN_DELETE_SELF OR IN_IGNORED OR IN_UNMOUNT)),
      overflowed = (\<exists>e \<in> set events. contains e IN_Q_OVERFLOW)\<rparr>"

lemma summary_Nil: "summary [] = ChangeNotification_default"
  by (simp add: summary_def ChangeNotification_default_def)

lemma summary_snoc: "summary (es @ [e]) = ChangeNotification_include (summary es) e"
  by (auto simp: summary_def ChangeNotification_include_def)

lemma drain_pending:
  assumes "inotify_reader os d pending queue" "pending r \<noteq> []"
  shows "drain os r (summary seen) w = Some (Inr (summary (seen @ pending r)), w)"
  using assms(2)
proof (induction "pending r" arbitrary: r seen)
  case Nil
  then show ?case by simp
next
  case (Cons e es)
  then have buffered: "pending r = e # es" by simp
  with assms(1) obtain r' where r': "reader_next os r w = (Inr e, r', w)" "pending r' = es"
    unfolding inotify_reader_def by blast
  have empty: "reader_is_empty os r' \<longleftrightarrow> es = []"
    using assms(1) r'(2) unfolding inotify_reader_def by blast
  show ?case
  proof (cases "es = []")
    case True
    with r' empty buffered show ?thesis
      by (subst drain.simps) (simp add: summary_snoc)
  next
    case False
    then have "drain os r' (summary (seen @ [e])) w = Some (Inr (summary (seen @ [e] @ es)), w)"
      using Cons.hyps(1) [of r' "seen @ [e]"] r'(2) by simp
    with r'(1) empty False buffered show ?thesis
      by (subst drain.simps) (simp add: summary_snoc)
  qed
qed

lemma drain_new:
  assumes reader: "inotify_reader os d pending queue"
  shows "\<exists>batch rest more w'.
    drain os (reader_new os d) ChangeNotification_default w = Some (Inr (summary batch), w')
    \<and> queue w = batch @ rest \<and> (queue w \<noteq> [] \<longrightarrow> batch \<noteq> [] \<and> queue w' = rest @ more)"
proof (cases "queue w = []")
  case True
  with reader obtain r' w' where "reader_next os (reader_new os d) w = (Inl EAGAIN, r', w')"
    unfolding inotify_reader_def by blast
  then have "drain os (reader_new os d) ChangeNotification_default w = Some (Inr (summary []), w')"
    by (subst drain.simps) (simp add: summary_Nil)
  with True show ?thesis by (intro exI [of _ "[]"]) simp
next
  case False
  with reader obtain e es rest more r' w' where next_event:
    "reader_next os (reader_new os d) w = (Inr e, r', w')" "pending r' = es"
    "queue w = e # es @ rest" "queue w' = rest @ more"
    unfolding inotify_reader_def by blast
  have empty: "reader_is_empty os r' \<longleftrightarrow> es = []"
    using reader next_event(2) unfolding inotify_reader_def by blast
  have "drain os r' (summary [e]) w' = Some (Inr (summary (e # es)), w')" if "es \<noteq> []"
    using drain_pending [OF reader, of r' "[e]"] that next_event(2) by simp
  then have "drain os (reader_new os d) ChangeNotification_default w = Some (Inr (summary (e # es)), w')"
    using next_event(1) empty summary_snoc [of "[]" e]
    by (subst drain.simps) (simp add: summary_Nil)
  moreover have "queue w = (e # es) @ rest \<and> (queue w \<noteq> [] \<longrightarrow> e # es \<noteq> [] \<and> queue w' = rest @ more)"
    using next_event(3,4) by simp
  ultimately show ?thesis by blast
qed

text \<open>C9: A wait of a live watcher returns: on a descriptor that polls readable it takes one buffer off the
  front of the kernel's queue and reports exactly the kinds of events in it, leaving the later
  events queued for the next wait and turning terminal when one of them was a removal.\<close>

theorem ConfigurationWatcher_wait_returns:
  assumes "inotify_reader os (watcher_descriptor watcher) pending queue"
    and "\<not> watcher_removed watcher"
    and "Readiness_wait os (watcher_descriptor watcher) POLLIN timeout w = (Inr True, w1)"
    and "queue w1 \<noteq> []"
  shows "\<exists>batch rest more w2. batch \<noteq> [] \<and> queue w1 = batch @ rest \<and> queue w2 = rest @ more
    \<and> ConfigurationWatcher_wait os watcher timeout w =
        Some (Inr (if summary batch = ChangeNotification_default then None else Some (summary batch)),
          watcher\<lparr>watcher_removed := removed (summary batch)\<rparr>, w2)"
proof -
  obtain batch rest more w2 where drained:
    "drain os (reader_new os (watcher_descriptor watcher)) ChangeNotification_default w1
       = Some (Inr (summary batch), w2)"
    "queue w1 = batch @ rest" "queue w1 \<noteq> [] \<longrightarrow> batch \<noteq> [] \<and> queue w2 = rest @ more"
    using drain_new [OF assms(1)] by blast
  have "ConfigurationWatcher_wait os watcher timeout w =
      Some (Inr (if summary batch = ChangeNotification_default then None else Some (summary batch)),
        watcher\<lparr>watcher_removed := removed (summary batch)\<rparr>, w2)"
    using assms(2,3) drained(1) by (simp add: ConfigurationWatcher_wait_def)
  with drained assms(4) show ?thesis by blast
qed

section \<open>Runs of a watcher\<close>

text \<open>
  The results of successive waits of one watcher. Between two waits the kernel may change in any
  way, so that every wait starts in an arbitrary state of it.
\<close>

inductive waits ::
  "('d, 'r, 'w) notify_os \<Rightarrow> 'd ConfigurationWatcher \<Rightarrow> (Error + ChangeNotification option) list \<Rightarrow>
     'd ConfigurationWatcher \<Rightarrow> bool" for os watcher where
  no_wait: "waits os watcher [] watcher"
| wait: "waits os watcher results watcher' \<Longrightarrow>
     ConfigurationWatcher_wait os watcher' timeout w = Some (result, watcher'', w') \<Longrightarrow>
     waits os watcher (results @ [result]) watcher''"

definition reports_removal :: "Error + ChangeNotification option \<Rightarrow> bool" where
  "reports_removal result = (case result of Inr (Some n) \<Rightarrow> removed n | _ \<Rightarrow> False)"

lemma wait_terminal:
  assumes "ConfigurationWatcher_wait os watcher timeout w = Some (result, watcher', w')" "watcher_removed watcher"
  shows "result = Inl (os_error EPIPE) \<and> watcher' = watcher"
  using assms by (auto simp: ConfigurationWatcher_wait_def)

lemma wait_live:
  assumes wait: "ConfigurationWatcher_wait os watcher timeout w = Some (result, watcher', w')"
    and live: "\<not> watcher_removed watcher"
  shows "watcher_removed watcher' = reports_removal result"
proof -
  have removal: "\<not> removed ChangeNotification_default" by (simp add: ChangeNotification_default_def)
  obtain ready w1 where ready: "Readiness_wait os (watcher_descriptor watcher) POLLIN timeout w = (ready, w1)"
    by fastforce
  show ?thesis
  proof (cases "ready = Inr True")
    case False
    then have "watcher' = watcher \<and> \<not> reports_removal result"
      using wait live ready by (auto simp: ConfigurationWatcher_wait_def reports_removal_def split: sum.splits bool.splits)
    with live show ?thesis by simp
  next
    case True
    then obtain drained w2 where
      drained: "drain os (reader_new os (watcher_descriptor watcher)) ChangeNotification_default w1 = Some (drained, w2)"
      using wait live ready by (auto simp: ConfigurationWatcher_wait_def)
    show ?thesis
      using wait live ready True drained removal
      by (cases drained) (auto simp: ConfigurationWatcher_wait_def reports_removal_def split: if_splits)
  qed
qed

text \<open>The invariant of a run: the flag is set exactly from the first reported removal on.\<close>

definition terminal_after_removal :: "(Error + ChangeNotification option) list \<Rightarrow> bool \<Rightarrow> bool" where
  "terminal_after_removal results flag \<longleftrightarrow>
     (flag \<longleftrightarrow> (\<exists>r \<in> set results. reports_removal r))
     \<and> (\<forall>before r after. results = before @ r # after \<and> reports_removal r \<longrightarrow>
          (\<forall>r' \<in> set before. \<not> reports_removal r') \<and> set after \<subseteq> {Inl (os_error EPIPE)})"

lemma not_reports_Inl [simp]: "\<not> reports_removal (Inl e)"
  by (simp add: reports_removal_def)

lemma terminal_after_removal_snoc:
  assumes "terminal_after_removal results flag"
    and "flag \<Longrightarrow> result = Inl (os_error EPIPE) \<and> flag'" "\<not> flag \<Longrightarrow> flag' = reports_removal result"
  shows "terminal_after_removal (results @ [result]) flag'"
proof -
  have "(\<forall>r' \<in> set before. \<not> reports_removal r') \<and> set after \<subseteq> {Inl (os_error EPIPE)}"
    if split: "results @ [result] = before @ r # after" and r: "reports_removal r" for before r after
  proof (cases after rule: rev_cases)
    case Nil
    with split have "before = results" "r = result" by simp_all
    with Nil r assms show ?thesis by (cases flag) (auto simp: terminal_after_removal_def)
  next
    case (snoc after' r')
    with split have "results = before @ r # after'" "r' = result" by simp_all
    with r snoc assms show ?thesis unfolding terminal_after_removal_def by auto
  qed
  moreover have "flag' \<longleftrightarrow> (\<exists>r \<in> set (results @ [result]). reports_removal r)"
    using assms by (cases flag) (auto simp: terminal_after_removal_def)
  ultimately show ?thesis unfolding terminal_after_removal_def by blast
qed

text \<open>C7: Whatever the kernel does, a watcher reports a removal at most once, and from then on every wait
  fails with a broken pipe; the watcher is marked as removed exactly when it has reported a removal.\<close>

theorem watcher_removal_once:
  assumes "waits os watcher results watcher'" "\<not> watcher_removed watcher"
  shows "terminal_after_removal results (watcher_removed watcher')"
  using assms
proof (induction rule: waits.induct)
  case no_wait
  then show ?case by (simp add: terminal_after_removal_def)
next
  case (wait results watcher' timeout w result watcher'' w')
  from wait_terminal [OF wait.hyps(2)] wait_live [OF wait.hyps(2)] wait.IH wait.prems show ?case
    by (intro terminal_after_removal_snoc [of results "watcher_removed watcher'"]) auto
qed

section \<open>Event counters\<close>

text \<open>
  What the kernel documents of an evented file: it counts events, a read records the count it saw
  for the descriptor, and poll reports priority readiness while the file has counted more. The count may
  grow during and between the calls. Poll also reports a file that is gone, whose reads fail.
\<close>

definition kernfs_events ::
  "('d, 'r, 'w) notify_os \<Rightarrow> 'd \<Rightarrow> ('w \<Rightarrow> nat) \<Rightarrow> ('w \<Rightarrow> nat) \<Rightarrow> ('w \<Rightarrow> bool) \<Rightarrow> bool" where
  "kernfs_events os d counter seen gone \<longleftrightarrow>
     (\<forall>w r w'. seek_start os d w = (r, w') \<longrightarrow>
        seen w' = seen w \<and> counter w \<le> counter w' \<and> (gone w \<longrightarrow> gone w'))
     \<and> (\<forall>w n w'. copy_to_sink os d w = (Inr n, w') \<longrightarrow>
        \<not> gone w \<and> counter w \<le> seen w' \<and> seen w' \<le> counter w')
     \<and> (\<forall>w t n flags w'. poll_one os d POLLPRI t w = (Inr (n, flags), w') \<longrightarrow>
        seen w' = seen w \<and> counter w \<le> counter w'
        \<and> (n = 0 \<longrightarrow> counter w \<le> seen w)
        \<and> (n \<noteq> 0 \<longrightarrow> intersects flags (POLLPRI OR POLLERR) \<and> (seen w < counter w' \<or> gone w')))"

lemma acknowledge_catches_up:
  assumes "kernfs_events os (poller_file poller) counter seen gone"
    and "EventPoller_acknowledge os poller w = (Inr u, w')"
  shows "\<not> gone w \<and> counter w \<le> seen w' \<and> seen w' \<le> counter w'"
proof -
  obtain n w1 m where "seek_start os (poller_file poller) w = (Inr n, w1)" "copy_to_sink os (poller_file poller) w1 = (Inr m, w')"
    using assms(2) by (auto simp: EventPoller_acknowledge_def io_simps)
  then have "counter w \<le> counter w1" "gone w \<longrightarrow> gone w1" "\<not> gone w1" "counter w1 \<le> seen w'" "seen w' \<le> counter w'"
    using assms(1) unfolding kernfs_events_def by blast+
  then show ?thesis by auto
qed

lemma EventPoller_wait_result:
  assumes kernel: "kernfs_events os (poller_file poller) counter seen gone"
    and wait: "EventPoller_wait os poller timeout w = (Inr b, w')"
  shows "(b \<longrightarrow> seen w < counter w' \<and> counter w \<le> seen w' \<and> seen w' \<le> counter w')
    \<and> (\<not> b \<longrightarrow> counter w \<le> seen w \<and> seen w' = seen w \<and> counter w \<le> counter w')"
proof -
  obtain ready w1 where ready: "Readiness_wait os (poller_file poller) POLLPRI timeout w = (Inr ready, w1)"
    "(if ready then then_io (EventPoller_acknowledge os poller) (\<lambda>_. return_io (Inr True)) else return_io (Inr False)) w1
       = (Inr b, w')"
    using wait by (auto simp: EventPoller_wait_def then_io_Inr)
  obtain t n flags where poll: "poll_one os (poller_file poller) POLLPRI t w = (Inr (n, flags), w1)"
    "ready \<longleftrightarrow> n \<noteq> 0 \<and> intersects flags (POLLPRI OR POLLERR)"
    using ready(1) by (auto simp: Readiness_wait_def io_simps split: if_splits)
  then have laws: "seen w1 = seen w" "counter w \<le> counter w1" "n = 0 \<longrightarrow> counter w \<le> seen w"
    "n \<noteq> 0 \<longrightarrow> intersects flags (POLLPRI OR POLLERR) \<and> (seen w < counter w1 \<or> gone w1)"
    using kernel unfolding kernfs_events_def by blast+
  show ?thesis
  proof (cases ready)
    case True
    then obtain u where "EventPoller_acknowledge os poller w1 = (Inr u, w')" "b"
      using ready(2) by (auto simp: io_simps)
    with acknowledge_catches_up [OF kernel this(1)] laws poll(2) True show ?thesis by auto
  next
    case False
    with ready(2) laws poll(2) show ?thesis by (auto simp: return_io_eq)
  qed
qed

text \<open>Successive waits of a poller, between which the kernel may count any number of events.\<close>

inductive poll_run ::
  "('d, 'r, 'w) notify_os \<Rightarrow> 'd EventPoller \<Rightarrow> ('w \<Rightarrow> nat) \<Rightarrow> ('w \<Rightarrow> nat) \<Rightarrow> 'w \<Rightarrow> bool list \<Rightarrow> 'w \<Rightarrow> bool"
  for os poller counter seen w where
  start: "poll_run os poller counter seen w [] w"
| kernel: "poll_run os poller counter seen w answers w' \<Longrightarrow> seen w'' = seen w' \<Longrightarrow> counter w' \<le> counter w'' \<Longrightarrow>
     poll_run os poller counter seen w answers w''"
| wait: "poll_run os poller counter seen w answers w' \<Longrightarrow>
     EventPoller_wait os poller timeout w' = (Inr b, w'') \<Longrightarrow>
     poll_run os poller counter seen w (answers @ [b]) w''"

lemma poll_run_bounds:
  assumes "kernfs_events os (poller_file poller) counter seen gone"
    and "poll_run os poller counter seen w answers w'" "seen w \<le> counter w"
  shows "seen w \<le> seen w' \<and> seen w' \<le> counter w' \<and> (True \<in> set answers \<longrightarrow> seen w < counter w')
    \<and> (True \<notin> set answers \<longrightarrow> seen w' = seen w)"
  using assms(2,3)
proof (induction rule: poll_run.induct)
  case start
  then show ?case by simp
next
  case (kernel answers w' w'')
  then show ?case by auto
next
  case (wait answers w' timeout b w'')
  then show ?case
    using EventPoller_wait_result [OF assms(1) wait.hyps(2)] by (cases b) auto
qed

text \<open>C5: No wake-up of an evented file is lost or invented: over any run of waits that return, with the
  kernel counting events at any moment, an event that was counted before the last wait began makes
  one of the waits answer true, and a true answer means that an event was counted.\<close>

theorem EventPoller_no_lost_wakeup:
  assumes "kernfs_events os (poller_file poller) counter seen gone"
    and "seen w \<le> counter w" "poll_run os poller counter seen w answers w'"
    and "EventPoller_wait os poller timeout w' = (Inr b, w'')"
  shows "(seen w < counter w' \<longrightarrow> True \<in> set (answers @ [b])) \<and> (True \<in> set (answers @ [b]) \<longrightarrow> seen w < counter w'')"
proof -
  have "poll_run os poller counter seen w (answers @ [b]) w''"
    using assms(3,4) by (rule poll_run.wait)
  from poll_run_bounds [OF assms(1) this assms(2)] poll_run_bounds [OF assms(1,3,2)]
    EventPoller_wait_result [OF assms(1,4)]
  show ?thesis by (cases b) auto
qed

section \<open>A small kernel of events\<close>

text \<open>
  The state is the inotify queue, the event count and the count last read; the reader is its
  buffer of at most two events.
\<close>

fun example_next :: "u32 list \<Rightarrow> u32 list \<times> nat \<times> nat \<Rightarrow> (nat + u32) \<times> u32 list \<times> u32 list \<times> nat \<times> nat" where
  "example_next (e # es) w = (Inr e, es, w)"
| "example_next [] ([], w) = (Inl EAGAIN, [], [], w)"
| "example_next [] ([e], w) = (Inr e, [], [], w)"
| "example_next [] (e # e' # es, w) = (Inr e, [e'], es, w)"

definition example_poll :: "nat \<Rightarrow> u16 \<Rightarrow> Timespec option \<Rightarrow> (u32 list \<times> nat \<times> nat, nat, nat \<times> u16) io" where
  "example_poll d interest timeout w = (case w of (queue, counter, seen) \<Rightarrow>
     (Inr (if interest = POLLPRI then (if counter \<le> seen then (0, 0) else (1, POLLPRI OR POLLERR))
           else (if queue = [] then (0, 0) else (1, POLLIN))), w))"

definition example_notify :: "(nat, u32 list, u32 list \<times> nat \<times> nat) notify_os" where
  "example_notify = \<lparr>open_interface = \<lambda>d name w. (Inr 3, w), seek_start = \<lambda>d w. (Inr 0, w),
     copy_to_sink = \<lambda>d (queue, counter, seen). (Inr 10, (queue, counter, counter)),
     timespec_try_from = \<lambda>d. Inr \<lparr>tv_sec = uint (duration_secs d), tv_nsec = uint (duration_nanos d)\<rparr>,
     poll_one = example_poll, inotify_init = \<lambda>w. (Inr 4, w), as_raw_fd = int, add_watch = \<lambda>d path mask w. (Inr 1, w),
     reader_new = \<lambda>d. [], reader_next = example_next, reader_is_empty = \<lambda>r. r = []\<rparr>"

lemma example_reader: "inotify_reader example_notify d id fst"
  unfolding inotify_reader_def
proof (intro conjI allI impI)
  fix w :: "u32 list \<times> nat \<times> nat"
  obtain queue counts where w: "w = (queue, counts)" by (cases w)
  show "\<exists>r' w'. reader_next example_notify (reader_new example_notify d) w = (Inl EAGAIN, r', w')" if "fst w = []"
    using that w by (simp add: example_notify_def)
  show "\<exists>e es rest more r' w'. reader_next example_notify (reader_new example_notify d) w = (Inr e, r', w')
      \<and> id r' = es \<and> fst w = e # es @ rest \<and> fst w' = rest @ more" if "fst w \<noteq> []"
  proof -
    from that w consider e where "queue = [e]" | e e' es where "queue = e # e' # es"
      by (cases queue rule: remdups_adj.cases) auto
    then show ?thesis by cases (simp_all add: w example_notify_def)
  qed
qed (simp_all add: example_notify_def)

lemma example_counter: "kernfs_events example_notify d (fst \<circ> snd) (snd \<circ> snd) (\<lambda>w. False)"
  unfolding kernfs_events_def
  by (auto simp: example_notify_def example_poll_def intersects_def POLLPRI_def POLLERR_def split: if_splits)

definition example_watcher :: "nat ConfigurationWatcher" where
  "example_watcher = \<lparr>watcher_descriptor = 4, watcher_interface = ConfigCpuMax, watcher_removed = False\<rparr>"

definition example_poller :: "nat EventPoller" where
  "example_poller = \<lparr>poller_file = 3, poller_path = ''/cg/cgroup.events'', poller_interface = CgroupEvents\<rparr>"

lemma ConfigurationWatcher_wait_returns_witness:
  "\<exists>batch rest more w2. batch \<noteq> [] \<and> [IN_MODIFY, IN_IGNORED, IN_MODIFY] = batch @ rest \<and> fst w2 = rest @ more
    \<and> ConfigurationWatcher_wait example_notify example_watcher None ([IN_MODIFY, IN_IGNORED, IN_MODIFY], 0, 0) =
        Some (Inr (if summary batch = ChangeNotification_default then None else Some (summary batch)),
          example_watcher\<lparr>watcher_removed := removed (summary batch)\<rparr>, w2)"
proof -
  let ?w = "([IN_MODIFY, IN_IGNORED, IN_MODIFY], 0, 0) :: u32 list \<times> nat \<times> nat"
  have "Readiness_wait example_notify (watcher_descriptor example_watcher) POLLIN None ?w = (Inr True, ?w)"
    by code_simp
  moreover have "\<not> watcher_removed example_watcher" by (simp add: example_watcher_def)
  ultimately show ?thesis
    using ConfigurationWatcher_wait_returns [OF example_reader, of example_watcher None ?w ?w] by simp
qed

lemma example_drain:
  "drain example_notify (reader_new example_notify (watcher_descriptor example_watcher)) ChangeNotification_default
     ([IN_MODIFY, IN_IGNORED, IN_MODIFY], 0, 0)
   = Some (Inr \<lparr>modified = True, removed = True, overflowed = False\<rparr>, ([IN_MODIFY], 0, 0))"
proof -
  have "drain example_notify [IN_IGNORED] (summary [IN_MODIFY]) ([IN_MODIFY], 0, 0)
      = Some (Inr (summary [IN_MODIFY, IN_IGNORED]), ([IN_MODIFY], 0, 0))"
    using drain_pending [OF example_reader, where r = "[IN_IGNORED]" and seen = "[IN_MODIFY]"] by simp
  moreover have "summary [IN_MODIFY, IN_IGNORED] = \<lparr>modified = True, removed = True, overflowed = False\<rparr>"
    by code_simp
  moreover have "ChangeNotification_include ChangeNotification_default IN_MODIFY = summary [IN_MODIFY]"
    by code_simp
  ultimately show ?thesis by (subst drain.simps) (simp add: example_notify_def)
qed

lemma watcher_removal_once_witness:
  "terminal_after_removal
     [Inr (Some \<lparr>modified = True, removed = True, overflowed = False\<rparr>), Inl (os_error EPIPE)] True"
proof -
  let ?w = "([IN_MODIFY, IN_IGNORED, IN_MODIFY], 0, 0) :: u32 list \<times> nat \<times> nat"
  let ?removed = "example_watcher\<lparr>watcher_removed := True\<rparr>"
  let ?first = "Inr (Some \<lparr>modified = True, removed = True, overflowed = False\<rparr>)"
  have ready: "Readiness_wait example_notify (watcher_descriptor example_watcher) POLLIN None ?w = (Inr True, ?w)"
    and live: "\<not> watcher_removed example_watcher"
    by code_simp+
  have first: "ConfigurationWatcher_wait example_notify example_watcher None ?w
      = Some (?first, ?removed, ([IN_MODIFY], 0, 0))"
    using example_drain ready by (simp add: ConfigurationWatcher_wait_def ChangeNotification_default_def)
      (simp add: example_watcher_def)
  have second: "ConfigurationWatcher_wait example_notify ?removed None ?w = Some (Inl (os_error EPIPE), ?removed, ?w)"
    by (simp add: ConfigurationWatcher_wait_def)
  have "waits example_notify example_watcher (([] @ [?first]) @ [Inl (os_error EPIPE)]) ?removed"
    by (rule waits.wait [OF waits.wait [OF waits.no_wait first] second])
  from watcher_removal_once [OF this live] show ?thesis by simp
qed

lemma EventPoller_no_lost_wakeup_witness:
  "EventPoller_wait example_notify example_poller None ([], 1, 0) = (Inr True, ([], 1, 1))
   \<and> True \<in> set ([False] @ [True]) \<and> snd (snd ([], 0, 0 :: nat)) < fst (snd ([], 1, 1 :: nat))"
proof -
  let ?quiet = "([], 0, 0) :: u32 list \<times> nat \<times> nat" and ?counted = "([], 1, 0) :: u32 list \<times> nat \<times> nat"
  have quiet: "EventPoller_wait example_notify example_poller None ?quiet = (Inr False, ?quiet)"
    and woken: "EventPoller_wait example_notify example_poller None ?counted = (Inr True, ([], 1, 1))"
    by code_simp+
  have "poll_run example_notify example_poller (fst \<circ> snd) (snd \<circ> snd) ?quiet [False] ?counted"
    using poll_run.kernel [OF poll_run.wait [OF poll_run.start quiet], where w'' = ?counted] by simp
  from EventPoller_no_lost_wakeup [OF example_counter _ this woken] woken show ?thesis by simp
qed

end
