(* ===== verification/Sakai_Rate.thy ===== *)
theory Sakai_Rate
  imports Sakai_Unit
begin

text \<open>
  \<open>NonZeroTime::event_rate\<close> of \<open>sakai/src/unit.rs\<close>, with the accuracy of the binary64 operations it
  is made of.
\<close>

section \<open>Accuracy of rounding\<close>

definition near :: "rat \<Rightarrow> rat \<Rightarrow> rat \<Rightarrow> bool" where
  "near d x y \<longleftrightarrow> x * (1 - d) \<le> y \<and> y \<le> x * (1 + d)"

lemma round_half_even_error: "\<bar>of_int (round_half_even x) - x\<bar> \<le> 1 / 2"
proof -
  have "of_int \<lfloor>x\<rfloor> \<le> x" "x < of_int \<lfloor>x\<rfloor> + 1" by linarith+
  then show ?thesis by (auto simp: round_half_even_def Let_def abs_le_iff)
qed

lemma pow2_mono: "a \<le> b \<Longrightarrow> pow2 a \<le> pow2 b"
  using power_int_increasing [of a b "2 :: rat"] by (simp add: pow2_powi)

lemma pow2_less_iff: "pow2 a < pow2 b \<longleftrightarrow> a < b"
  by (metis linorder_not_le order_less_imp_not_less pow2_mono order_le_less not_less_iff_gr_or_eq
      power_int_strict_increasing pow2_powi one_less_numeral_iff semiring_norm(76))

text \<open>In the range of the normal numbers rounding is exact up to half a unit in the last place.\<close>

lemma round_f64_near:
  assumes "pow2 (- 1000) \<le> q" "q < pow2 1000"
  shows "\<exists>m. round_f64 neg q = Finite neg m \<and> near (1 / 2 ^ 53) q m"
proof -
  have q: "0 < q" using assms(1) by (rule less_le_trans [OF pow2_pos])
  define k where "k = exponent q"
  have k: "pow2 k \<le> q" "q < pow2 (k + 1)" using exponent_bounds [OF q] by (simp_all add: k_def)
  have "pow2 (- 1000) < pow2 (k + 1)" "pow2 k < pow2 1000" using k assms by linarith+
  then have range: "- 1001 < k" "k < 1000" by (simp_all add: pow2_less_iff)
  define e where "e = k - 52"
  have e: "max (- 1074) (exponent q - 52) = e" using range by (simp add: e_def k_def)
  define m where "m = of_int (round_half_even (q / pow2 e)) * pow2 e"
  have pos: "0 < pow2 e" by (rule pow2_pos)
  have "pow2 e = pow2 k / 2 ^ 52" by (simp add: e_def pow2_powi power_int_diff)
  with k(1) have ulp: "pow2 e \<le> q / 2 ^ 52" by simp
  have "m - q = (of_int (round_half_even (q / pow2 e)) - q / pow2 e) * pow2 e"
    using pos less_imp_neq [OF pos] by (simp add: m_def algebra_simps)
  then have "\<bar>m - q\<bar> = \<bar>of_int (round_half_even (q / pow2 e)) - q / pow2 e\<bar> * pow2 e"
    using abs_of_pos [OF pos] by (simp add: abs_mult)
  also have "\<dots> \<le> 1 / 2 * pow2 e"
    using less_imp_le [OF pos] by (intro mult_right_mono round_half_even_error)
  also have "\<dots> \<le> q / 2 ^ 53" using ulp by simp
  finally have error: "\<bar>m - q\<bar> \<le> q / 2 ^ 53" .
  then have "near (1 / 2 ^ 53) q m" unfolding near_def abs_le_iff by (simp add: field_simps)
  moreover have "m < 2 ^ 1024"
  proof -
    have "m - q \<le> q / 2 ^ 53" using error by (rule order_trans [OF abs_ge_self])
    then have "m \<le> 2 * q" using q by simp
    also have "\<dots> < 2 * 2 ^ 1000" using assms(2) by (simp add: pow2_def)
    also have "(2 :: rat) * 2 ^ 1000 \<le> 2 ^ 1024"
      using power_increasing [of 1001 1024 "2 :: rat"] by simp
    finally show ?thesis .
  qed
  ultimately show ?thesis
    using q by (simp add: round_f64_def e Let_def m_def)
qed

section \<open>Rates\<close>

text \<open>
  \<open>FractionalEventRate\<close> by its value in hertz; \<open>seconds\<close> is what \<open>uom\<close> makes of a time in
  nanoseconds: \<open>Time::new::<nanosecond>(x).get::<second>()\<close> over \<open>f64\<close>.
\<close>

definition NonZeroTime_event_rate :: "(f64 \<Rightarrow> f64) \<Rightarrow> NonZeroTime \<Rightarrow> Count \<Rightarrow> f64" where
  "NonZeroTime_event_rate seconds time count =
     (let elapsed = seconds (f64_of_u64 (nanosecond (nonzero_inner time)))
      in f64_div_pos (f64_of_u64 (count_value count)) elapsed)"

text \<open>Relative errors of products of approximations.\<close>

lemma near_trans:
  assumes "near d x y" "near d' y z" "0 \<le> x" "d' \<le> 1" "0 \<le> d'"
    and "1 - e \<le> (1 - d) * (1 - d')" "(1 + d) * (1 + d') \<le> 1 + e"
  shows "near e x z"
proof -
  have "x * (1 - e) \<le> x * ((1 - d) * (1 - d'))" using assms(3,6) by (intro mult_left_mono)
  also have "\<dots> = x * (1 - d) * (1 - d')" by simp
  also have "\<dots> \<le> y * (1 - d')" using assms(1,4) by (intro mult_right_mono) (simp_all add: near_def)
  also have "\<dots> \<le> z" using assms(2) by (simp add: near_def)
  finally have lower: "x * (1 - e) \<le> z" .
  have "z \<le> y * (1 + d')" using assms(2) by (simp add: near_def)
  also have "\<dots> \<le> x * (1 + d) * (1 + d')" using assms(1,5) by (intro mult_right_mono) (simp_all add: near_def)
  also have "\<dots> = x * ((1 + d) * (1 + d'))" by simp
  also have "\<dots> \<le> x * (1 + e)" using assms(3,7) by (intro mult_left_mono)
  finally show ?thesis using lower by (simp add: near_def)
qed

lemma near_scale: "near d x y \<Longrightarrow> 0 < k \<Longrightarrow> near d (x / k) (y / k)"
  using divide_right_mono [of "x * (1 - d)" y k] divide_right_mono [of y "x * (1 + d)" k]
  by (simp add: near_def)

lemma near_divide:
  assumes "near d x x'" "near d' y y'" "0 \<le> x" "0 < y" "0 \<le> d" "d \<le> 1" "0 \<le> d'" "d' < 1"
    and "(1 - e) * (1 + d') \<le> 1 - d" "1 + d \<le> (1 + e) * (1 - d')"
  shows "near e (x / y) (x' / y')"
proof -
  have pos: "0 < y * (1 - d')" "0 < y * (1 + d')" using assms by simp_all
  then have y': "0 < y'" using assms(2) by (simp add: near_def)
  have "0 \<le> x * (1 - d)" using assms(3,6) by simp
  then have x': "0 \<le> x * (1 - d)" "0 \<le> x'" using assms(1) by (auto simp: near_def)
  have "x / y * (1 - e) = x * (1 - e) * (1 + d') / (y * (1 + d'))" using assms(4,7) by auto
  also have "\<dots> \<le> x * (1 - d) / (y * (1 + d'))"
    using assms(3,9) pos by (intro divide_right_mono) (auto simp: mult.assoc intro: mult_left_mono)
  also have "\<dots> \<le> x' / y'"
    using assms(1,2) x' y' by (intro frac_le) (auto simp: near_def)
  finally have lower: "x / y * (1 - e) \<le> x' / y'" .
  have "x' / y' \<le> x * (1 + d) / (y * (1 - d'))"
    using assms(1,2) x' pos y' by (intro frac_le) (auto simp: near_def)
  also have "\<dots> \<le> x * ((1 + e) * (1 - d')) / (y * (1 - d'))"
    using assms(3,10) pos by (intro divide_right_mono mult_left_mono) auto
  also have "\<dots> = x / y * (1 + e)" using assms(8) by simp
  finally show ?thesis using lower by (simp add: near_def)
qed

lemma f64_of_u64_near:
  assumes "0 < unat n"
  shows "\<exists>m. f64_of_u64 n = Finite False m \<and> near (1 / 2 ^ 53) (of_nat (unat n)) m \<and> 1 / 2 \<le> m \<and> m \<le> 2 ^ 65"
proof -
  have "unat n < 2 ^ 64" using unsigned_less [of n] by simp
  then have range: "(1 :: rat) \<le> of_nat (unat n)" "(of_nat (unat n) :: rat) \<le> of_nat (2 ^ 64)"
    using assms of_nat_le_iff [of 1 "unat n", where 'a = rat] of_nat_le_iff [of "unat n" "2 ^ 64", where 'a = rat]
    by simp_all
  have "pow2 (- 1000) \<le> pow2 0" "pow2 64 < pow2 1000" by (rule pow2_mono, simp) (simp add: pow2_less_iff)
  then have "pow2 (- 1000) \<le> of_nat (unat n)" "of_nat (unat n) < pow2 1000"
    using range by (simp_all add: pow2_def)
  from round_f64_near [OF this, of False] obtain m where
    m: "f64_of_u64 n = Finite False m" "near (1 / 2 ^ 53) (of_nat (unat n)) m"
    by (auto simp: f64_of_u64_def)
  have "1 / 2 \<le> m" "m \<le> 2 ^ 65" using m(2) range unfolding near_def by simp_all
  with m show ?thesis by blast
qed

lemma near_zero: "near d 0 y \<longleftrightarrow> y = 0"
  by (auto simp: near_def)

text \<open>The span of time as seconds, and the rounded quotient of a count by it.\<close>

lemma event_rate_seconds:
  assumes "0 < unat n"
    and "\<And>x. 1 / 2 \<le> x \<Longrightarrow> x \<le> 2 ^ 65 \<Longrightarrow> \<exists>s. seconds (Finite False x) = Finite False s \<and> near (1 / 2 ^ 50) (x / 10 ^ 9) s"
  shows "\<exists>s. seconds (f64_of_u64 n) = Finite False s \<and> near (1 / 2 ^ 50 + 1 / 2 ^ 52) (of_nat (unat n) / 10 ^ 9) s
    \<and> 1 / 2 ^ 32 \<le> s \<and> s \<le> 2 ^ 66"
proof -
  have n1: "1 \<le> (of_nat (unat n) :: rat)" using assms(1) of_nat_le_iff [of 1 "unat n", where 'a = rat] by simp
  obtain m where m: "f64_of_u64 n = Finite False m" "near (1 / 2 ^ 53) (of_nat (unat n)) m" "1 / 2 \<le> m" "m \<le> 2 ^ 65"
    using f64_of_u64_near [OF assms(1)] by blast
  obtain s where s: "seconds (Finite False m) = Finite False s" "near (1 / 2 ^ 50) (m / 10 ^ 9) s"
    using assms(2) [OF m(3,4)] by blast
  have scaled: "near (1 / 2 ^ 53) (of_nat (unat n) / 10 ^ 9) (m / 10 ^ 9)" using m(2) by (rule near_scale) simp
  have "near (1 / 2 ^ 50 + 1 / 2 ^ 52) (of_nat (unat n) / 10 ^ 9) s"
    using n1 by (intro near_trans [OF scaled s(2)]) simp_all
  moreover have "1 / 2 ^ 32 \<le> s" "s \<le> 2 ^ 66"
    using s(2) m(3,4) unfolding near_def by simp_all
  ultimately show ?thesis using m(1) s(1) by simp
qed

lemma event_rate_rounded:
  fixes c s :: rat
  assumes "1 / 2 \<le> c" "c \<le> 2 ^ 65" "1 / 2 ^ 32 \<le> s" "s \<le> 2 ^ 66"
  shows "\<exists>r. round_f64 False (c / s) = Finite False r \<and> near (1 / 2 ^ 53) (c / s) r \<and> 0 \<le> r"
proof -
  have "1 / 2 / 2 ^ 66 \<le> c / s" "c / s \<le> 2 ^ 65 / (1 / 2 ^ 32)"
    using assms by (intro frac_le; simp)+
  then have "pow2 (- 67) \<le> c / s" "c / s \<le> pow2 97" by (simp_all add: pow2_def)
  moreover have "pow2 (- 1000) \<le> pow2 (- 67)" "pow2 97 < pow2 1000"
    by (rule pow2_mono, simp) (simp add: pow2_less_iff)
  ultimately have "pow2 (- 1000) \<le> c / s" "c / s < pow2 1000" by linarith+
  from round_f64_near [OF this, of False] obtain r where
    r: "round_f64 False (c / s) = Finite False r" "near (1 / 2 ^ 53) (c / s) r" by blast
  have "0 \<le> c / s * (1 - 1 / 2 ^ 53)" using assms by (intro mult_nonneg_nonneg divide_nonneg_nonneg) simp_all
  with r show ?thesis by (auto simp: near_def)
qed

text \<open>C38: The rate over any valid elapsed time is a finite number that is not negative and within a relative
  error of 2 to the power of -48 of the exact events per second, and no events make the rate zero,
  provided that the conversion of nanoseconds to seconds is accurate to 50 bits.\<close>

theorem event_rate_accurate:
  assumes "NonZeroTime_valid (nonzero_inner time)"
    and "\<And>x. 1 / 2 \<le> x \<Longrightarrow> x \<le> 2 ^ 65 \<Longrightarrow> \<exists>s. seconds (Finite False x) = Finite False s \<and> near (1 / 2 ^ 50) (x / 10 ^ 9) s"
  shows "\<exists>r. NonZeroTime_event_rate seconds time count = Finite False r \<and> 0 \<le> r
    \<and> near (1 / 2 ^ 48)
        (of_nat (unat (count_value count)) / (of_nat (unat (nanosecond (nonzero_inner time))) / 10 ^ 9)) r"
proof -
  let ?n = "of_nat (unat (nanosecond (nonzero_inner time))) :: rat" and ?c = "of_nat (unat (count_value count)) :: rat"
  have n: "0 < unat (nanosecond (nonzero_inner time))"
    using assms(1) by (simp add: NonZeroTime_valid_def unat_gt_0)
  then have n1: "1 \<le> ?n" using of_nat_le_iff [of 1 "unat (nanosecond (nonzero_inner time))", where 'a = rat] by simp
  obtain s where s: "seconds (f64_of_u64 (nanosecond (nonzero_inner time))) = Finite False s"
    "near (1 / 2 ^ 50 + 1 / 2 ^ 52) (?n / 10 ^ 9) s" "1 / 2 ^ 32 \<le> s" "s \<le> 2 ^ 66"
    using event_rate_seconds [OF n assms(2)] by blast
  have rate: "NonZeroTime_event_rate seconds time count = f64_div_pos (f64_of_u64 (count_value count)) (Finite False s)"
    by (simp add: NonZeroTime_event_rate_def s(1))
  show ?thesis
  proof (cases "count_value count = 0")
    case True
    then have "NonZeroTime_event_rate seconds time count = Finite False 0"
      using s(3) by (simp add: rate f64_of_u64_def round_f64_def)
    with True show ?thesis by (simp add: near_zero)
  next
    case False
    then have "0 < unat (count_value count)" by (simp add: unat_gt_0)
    from f64_of_u64_near [OF this] obtain c where
      c: "f64_of_u64 (count_value count) = Finite False c" "near (1 / 2 ^ 53) ?c c" "1 / 2 \<le> c" "c \<le> 2 ^ 65"
      by blast
    obtain r where r: "round_f64 False (c / s) = Finite False r" "near (1 / 2 ^ 53) (c / s) r" "0 \<le> r"
      using event_rate_rounded [OF c(3,4) s(3,4)] by blast
    have c0: "0 \<le> ?c" by (rule of_nat_0_le_iff)
    have quotient: "near (1 / 2 ^ 49) (?c / (?n / 10 ^ 9)) (c / s)"
      using n1 c0 by (intro near_divide [OF c(2) s(2)]) simp_all
    have "near (1 / 2 ^ 48) (?c / (?n / 10 ^ 9)) r"
      using n1 c0 by (intro near_trans [OF quotient r(2)]) simp_all
    moreover have "NonZeroTime_event_rate seconds time count = Finite False r"
      using s(3) by (auto simp: rate c(1) r(1))
    ultimately show ?thesis using r(3) by blast
  qed
qed

text \<open>A conversion that rounds the exact quotient once.\<close>

definition rounded_seconds :: "f64 \<Rightarrow> f64" where
  "rounded_seconds x = f64_div_pos x (Finite False (10 ^ 9))"

lemma event_rate_accurate_witness:
  "\<exists>r. NonZeroTime_event_rate rounded_seconds (NonZeroTime (Time_ns 2000000000)) (Count 1) = Finite False r \<and> 0 \<le> r
     \<and> near (1 / 2 ^ 48) (1 / 2) r"
proof -
  have "\<exists>s. rounded_seconds (Finite False x) = Finite False s \<and> near (1 / 2 ^ 50) (x / 10 ^ 9) s"
    if x: "1 / 2 \<le> x" "x \<le> 2 ^ 65" for x
  proof -
    have "pow2 (- 1000) \<le> pow2 (- 67)" "pow2 97 < pow2 1000"
      by (rule pow2_mono, simp) (simp add: pow2_less_iff)
    then have "pow2 (- 1000) \<le> x / 10 ^ 9" "x / 10 ^ 9 < pow2 1000"
      using x by (simp_all add: pow2_def)
    from round_f64_near [OF this, of False] obtain s where
      s: "round_f64 False (x / 10 ^ 9) = Finite False s" "near (1 / 2 ^ 53) (x / 10 ^ 9) s" by blast
    then have "near (1 / 2 ^ 50) (x / 10 ^ 9) s" using x by (simp add: near_def)
    with s(1) show ?thesis by (simp add: rounded_seconds_def)
  qed
  from event_rate_accurate [OF _ this, of "NonZeroTime (Time_ns 2000000000)" "Count 1"]
  show ?thesis by (simp add: NonZeroTime_valid_def)
qed

end
