(* ===== verification/Py_Notification.thy ===== *)
theory Py_Notification
  imports Py_Core Sakai_Notification Sakai_Rate
begin

text \<open>
  Notifications in Python, \<open>sakai-python/src/linux/notification.rs\<close>: the timeout of a wait, and the
  monitor behind a mutex that a wait takes without blocking. A wait runs with the interpreter
  released, so that other threads may call while it waits: \<open>py_waits\<close> are the interleavings.
\<close>

section \<open>Timeouts\<close>

text \<open>
  \<open>Duration::try_from_secs_f64\<close>: a finite, nonnegative number of seconds below \<open>2 ^ 64\<close>, rounded to
  the nearest nanosecond, ties to even; \<open>-0.0\<close> is not negative.
\<close>

fun try_from_secs_f64 :: "f64 \<Rightarrow> Duration option" where
  "try_from_secs_f64 (Finite neg m) =
     (if neg \<and> m \<noteq> 0 \<or> 2 ^ 64 \<le> m then None
      else let n = round_half_even (m * 10 ^ 9) in
        if 2 ^ 64 \<le> n div 10 ^ 9 then None
        else Some \<lparr>duration_secs = of_int (n div 10 ^ 9), duration_nanos = of_int (n mod 10 ^ 9)\<rparr>)"
| "try_from_secs_f64 x = None"

definition timeout_message :: string where
  "timeout_message = ''timeout must be finite, nonnegative seconds within the supported duration range''"

definition WaitTimeout_parse :: "f64 option \<Rightarrow> PyErr + Duration option" where
  "WaitTimeout_parse seconds =
     transpose (map_option (\<lambda>seconds. ok_or (new_err ValueError timeout_message)
       (Option.bind (try_from_secs_f64 seconds)
         (\<lambda>duration. if unat (duration_secs duration) < 2 ^ 63 then Some duration else None))) seconds)"

section \<open>Monitors\<close>

text \<open>\<open>std::sync::Mutex\<close> and its \<open>try_lock\<close>; dropping the guard unlocks it.\<close>

datatype TryLockError = PoisonedLock | WouldBlock

fun TryLockError_display :: "TryLockError \<Rightarrow> string" where
  "TryLockError_display PoisonedLock = ''poisoned lock: another task failed inside''"
| "TryLockError_display WouldBlock = ''try_lock failed because the operation would block''"

record 'm Mutex =
  mutex_inner :: 'm
  mutex_locked :: bool
  mutex_poisoned :: bool

definition Mutex_new :: "'m \<Rightarrow> 'm Mutex" where
  "Mutex_new inner = \<lparr>mutex_inner = inner, mutex_locked = False, mutex_poisoned = False\<rparr>"

definition Mutex_try_lock :: "'m Mutex \<Rightarrow> TryLockError + 'm Mutex" where
  "Mutex_try_lock mutex =
     (if mutex_locked mutex then Inl WouldBlock
      else if mutex_poisoned mutex then Inl PoisonedLock
      else Inr (mutex\<lparr>mutex_locked := True\<rparr>))"

definition Mutex_unlock :: "'m \<Rightarrow> 'm Mutex \<Rightarrow> 'm Mutex" where
  "Mutex_unlock inner mutex = mutex\<lparr>mutex_inner := inner, mutex_locked := False\<rparr>"

record 'd PyEventPoller =
  py_poller :: "'d EventPoller Mutex"
  py_poller_descriptor :: int

definition PyEventPoller_from :: "('d, 'r, 'w) notify_os \<Rightarrow> 'd EventPoller \<Rightarrow> 'd PyEventPoller" where
  "PyEventPoller_from os inner =
     \<lparr>py_poller = Mutex_new inner, py_poller_descriptor = as_raw_fd os (poller_file inner)\<rparr>"

definition PyEventPoller_fileno :: "'d PyEventPoller \<Rightarrow> int" where
  "PyEventPoller_fileno v = py_poller_descriptor v"

record 'd PyConfigurationWatcher =
  py_watcher :: "'d ConfigurationWatcher Mutex"
  py_watcher_descriptor :: int

definition PyConfigurationWatcher_from ::
  "('d, 'r, 'w) notify_os \<Rightarrow> 'd ConfigurationWatcher \<Rightarrow> 'd PyConfigurationWatcher" where
  "PyConfigurationWatcher_from os inner =
     \<lparr>py_watcher = Mutex_new inner, py_watcher_descriptor = as_raw_fd os (watcher_descriptor inner)\<rparr>"

definition PyConfigurationWatcher_fileno :: "'d PyConfigurationWatcher \<Rightarrow> int" where
  "PyConfigurationWatcher_fileno v = py_watcher_descriptor v"

record PyChangeNotification =
  py_modified :: bool
  py_removed :: bool
  py_overflowed :: bool

definition PyChangeNotification_from :: "ChangeNotification \<Rightarrow> PyChangeNotification" where
  "PyChangeNotification_from v =
     \<lparr>py_modified = modified v, py_removed = removed v, py_overflowed = overflowed v\<rparr>"

text \<open>The first half of a wait: the timeout, then the lock.\<close>

definition monitor_lock :: "'m Mutex \<Rightarrow> PyErr + 'm Mutex" where
  "monitor_lock mutex =
     map_err (\<lambda>error. new_err RuntimeError (''cannot acquire notification monitor: '' @ TryLockError_display error))
       (Mutex_try_lock mutex)"

definition monitor_enter :: "f64 option \<Rightarrow> 'm Mutex \<Rightarrow> PyErr + Duration option \<times> 'm Mutex" where
  "monitor_enter seconds mutex =
     and_then (WaitTimeout_parse seconds) (\<lambda>timeout. map_ok (Pair timeout) (monitor_lock mutex))"

text \<open>A wait with no other thread: the result, the object and the kernel after it.\<close>

definition PyEventPoller_wait ::
  "python \<Rightarrow> ('d, 'r, 'w) notify_os \<Rightarrow> 'd PyEventPoller \<Rightarrow> f64 option \<Rightarrow> 'w \<Rightarrow> (PyErr + bool) \<times> 'd PyEventPoller \<times> 'w" where
  "PyEventPoller_wait py os poller seconds w =
     (case monitor_enter seconds (py_poller poller) of
        Inl e \<Rightarrow> (Inl e, poller, w)
      | Inr (timeout, held) \<Rightarrow>
          (case EventPoller_wait os (mutex_inner held) timeout w of (result, w') \<Rightarrow>
            (PythonError_result py result, poller\<lparr>py_poller := Mutex_unlock (mutex_inner held) held\<rparr>, w')))"

definition wait_result ::
  "python \<Rightarrow> Error + ChangeNotification option \<Rightarrow> PyErr + PyChangeNotification option" where
  "wait_result py result = map_ok (map_option PyChangeNotification_from) (PythonError_result py result)"

definition PyConfigurationWatcher_wait ::
  "python \<Rightarrow> ('d, 'r, 'w) notify_os \<Rightarrow> 'd PyConfigurationWatcher \<Rightarrow> f64 option \<Rightarrow> 'w \<Rightarrow>
     ((PyErr + PyChangeNotification option) \<times> 'd PyConfigurationWatcher \<times> 'w) option" where
  "PyConfigurationWatcher_wait py os watcher seconds w =
     (case monitor_enter seconds (py_watcher watcher) of
        Inl e \<Rightarrow> Some (Inl e, watcher, w)
      | Inr (timeout, held) \<Rightarrow>
          map_option (\<lambda>(result, inner, w').
              (wait_result py result, watcher\<lparr>py_watcher := Mutex_unlock inner held\<rparr>, w'))
            (ConfigurationWatcher_wait os (mutex_inner held) timeout w))"

section \<open>Which timeouts are accepted\<close>

lemma try_from_secs_f64_Some:
  assumes "try_from_secs_f64 (Finite neg m) = Some d" "0 \<le> m"
  shows "(neg \<longrightarrow> m = 0) \<and> int (total_nanos d) = round_half_even (m * 10 ^ 9) \<and> unat (duration_nanos d) < 10 ^ 9"
proof -
  define n where "n = round_half_even (m * 10 ^ 9)"
  have "0 \<le> n" unfolding n_def using assms(2) by (intro round_half_even_ge_of_int) simp
  from assms(1) have small: "n div 10 ^ 9 < 2 ^ 64" and sign: "neg \<longrightarrow> m = 0"
    and d: "d = \<lparr>duration_secs = of_int (n div 10 ^ 9), duration_nanos = of_int (n mod 10 ^ 9)\<rparr>"
    by (auto simp: n_def Let_def split: if_splits)
  have "n mod 10 ^ 9 < 2 ^ 32" "0 \<le> n mod 10 ^ 9" "n mod 10 ^ 9 < 10 ^ 9" using pos_mod_bound [of "10 ^ 9" n] by auto
  then have nanos: "int (unat (duration_nanos d)) = n mod 10 ^ 9"
    by (simp add: d take_bit_int_eq_self unat_eq_nat_uint uint_word_of_int_eq)
  have "int (unat (duration_secs d)) = n div 10 ^ 9"
    using small \<open>0 \<le> n\<close> by (simp add: d take_bit_int_eq_self unat_eq_nat_uint uint_word_of_int_eq pos_imp_zdiv_nonneg_iff)
  with nanos have "int (total_nanos d) = n div 10 ^ 9 * 10 ^ 9 + n mod 10 ^ 9"
    by (simp only: total_nanos_def of_nat_add of_nat_mult of_nat_power of_nat_numeral)
  moreover have "int (unat (duration_nanos d)) < int (10 ^ 9)"
    unfolding nanos of_nat_power of_nat_numeral by (rule \<open>n mod 10 ^ 9 < 10 ^ 9\<close>)
  then have "unat (duration_nanos d) < 10 ^ 9" by (simp only: of_nat_less_iff)
  ultimately show ?thesis using sign unfolding n_def [symmetric] by (intro conjI) simp_all
qed

lemma WaitTimeout_parse_Some:
  "WaitTimeout_parse (Some x) = Inr t \<longleftrightarrow>
     (\<exists>d. try_from_secs_f64 x = Some d \<and> unat (duration_secs d) < 2 ^ 63 \<and> t = Some d)"
  by (cases "try_from_secs_f64 x") (auto simp: WaitTimeout_parse_def)

lemma WaitTimeout_parse_error:
  "WaitTimeout_parse seconds = Inl e \<Longrightarrow> e = new_err ValueError timeout_message"
  by (cases seconds; cases "try_from_secs_f64 (the seconds)")
    (auto simp: WaitTimeout_parse_def split: if_splits)

text \<open>rustix's conversion to a \<open>timespec\<close> succeeds when the seconds fit \<open>i64\<close>.\<close>

definition timespec_law :: "('d, 'r, 'w) notify_os \<Rightarrow> bool" where
  "timespec_law os \<longleftrightarrow> (\<forall>d. unat (duration_secs d) < 2 ^ 63 \<longrightarrow> (\<exists>ts. timespec_try_from os d = Inr ts))"

lemma WaitTimeout_parse_accepts:
  assumes "0 \<le> m" "neg \<longrightarrow> m = 0" "m \<le> 2 ^ 63 - 1"
  shows "\<exists>d. WaitTimeout_parse (Some (Finite neg m)) = Inr (Some d)"
proof -
  obtain n where n_def: "round_half_even (m * 10 ^ 9) = n" by simp
  have "m * 10 ^ 9 \<le> of_int ((2 ^ 63 - 1) * 10 ^ 9)" using assms(3) by simp
  from round_half_even_le_of_int [OF this] have n: "n \<le> (2 ^ 63 - 1) * 10 ^ 9" unfolding n_def .
  then have "n div 10 ^ 9 < 2 ^ 63" by simp
  then have parsed: "try_from_secs_f64 (Finite neg m) = Some \<lparr>duration_secs = of_int (n div 10 ^ 9), duration_nanos = of_int (n mod 10 ^ 9)\<rparr>"
    using assms(2,3) n_def by (simp add: Let_def)
  moreover have "0 \<le> n" unfolding n_def [symmetric] using assms(1) by (intro round_half_even_ge_of_int) simp
  ultimately have "unat (of_int (n div 10 ^ 9) :: u64) < 2 ^ 63"
    using \<open>n div 10 ^ 9 < 2 ^ 63\<close>
    by (simp add: unat_eq_nat_uint uint_word_of_int_eq take_bit_int_eq_self pos_imp_zdiv_nonneg_iff nat_less_iff)
  then have "unat (duration_secs \<lparr>duration_secs = of_int (n div 10 ^ 9) :: u64, duration_nanos = of_int (n mod 10 ^ 9)\<rparr>) < 2 ^ 63"
    by (simp only: Duration.select_convs)
  with parsed have "\<exists>d. try_from_secs_f64 (Finite neg m) = Some d \<and> unat (duration_secs d) < 2 ^ 63" by blast
  then show ?thesis unfolding WaitTimeout_parse_Some by blast
qed

lemma WaitTimeout_parse_refuses:
  assumes "\<forall>neg m. x = Finite neg m \<longrightarrow> 0 \<le> m"
    and bad: "x = NaN \<or> (\<exists>neg. x = Infinite neg) \<or> (\<exists>m. x = Finite True m \<and> m \<noteq> 0) \<or> (\<exists>neg m. x = Finite neg m \<and> 2 ^ 63 \<le> m)"
  shows "WaitTimeout_parse (Some x) = Inl (new_err ValueError timeout_message)"
proof (cases "WaitTimeout_parse (Some x)")
  case (Inl e)
  with WaitTimeout_parse_error show ?thesis by auto
next
  case (Inr t)
  then obtain d where d: "try_from_secs_f64 x = Some d" "unat (duration_secs d) < 2 ^ 63"
    by (auto simp: WaitTimeout_parse_Some)
  then obtain neg m where x: "x = Finite neg m" by (cases x) auto
  with d assms(1) have rounded: "neg \<longrightarrow> m = 0" "int (total_nanos d) = round_half_even (m * 10 ^ 9)"
    "unat (duration_nanos d) < 10 ^ 9"
    using try_from_secs_f64_Some by blast+
  with bad x have "2 ^ 63 \<le> m" by auto
  then have "of_int (2 ^ 63 * 10 ^ 9) \<le> m * 10 ^ 9" by simp
  from round_half_even_ge_of_int [OF this] have "int (2 ^ 63 * 10 ^ 9) \<le> int (total_nanos d)"
    unfolding rounded(2) of_nat_mult of_nat_power of_nat_numeral .
  then have "2 ^ 63 * 10 ^ 9 \<le> total_nanos d" by (simp only: of_nat_le_iff)
  with rounded(3) d(2) have False unfolding total_nanos_def by simp
  then show ?thesis ..
qed

lemma WaitTimeout_parse_rounds:
  assumes "\<forall>neg m. x = Finite neg m \<longrightarrow> 0 \<le> m" "timespec_law os" "WaitTimeout_parse (Some x) = Inr t"
  shows "\<exists>d m neg ts. t = Some d \<and> x = Finite neg m \<and> \<bar>of_nat (total_nanos d) - m * 10 ^ 9\<bar> \<le> 1 / 2
      \<and> unat (duration_nanos d) < 10 ^ 9 \<and> timespec_try_from os d = Inr ts"
proof -
  from assms(3) obtain d where d: "try_from_secs_f64 x = Some d" "unat (duration_secs d) < 2 ^ 63" "t = Some d"
    by (auto simp: WaitTimeout_parse_Some)
  then obtain neg m where x: "x = Finite neg m" by (cases x) auto
  with d(1) assms(1) have rounded: "int (total_nanos d) = round_half_even (m * 10 ^ 9)" "unat (duration_nanos d) < 10 ^ 9"
    using try_from_secs_f64_Some by blast+
  have "of_nat (total_nanos d) = (of_int (round_half_even (m * 10 ^ 9)) :: rat)"
    unfolding rounded(1) [symmetric] by simp
  moreover obtain ts where "timespec_try_from os d = Inr ts" using assms(2) d(2) by (auto simp: timespec_law_def)
  ultimately show ?thesis
    using d(3) x rounded(2) round_half_even_error [of "m * 10 ^ 9"] by auto
qed

text \<open>C28: The timeouts a wait accepts are those it can pass to the kernel. No timeout stays none; finite,
  nonnegative seconds below \<open>2 ^ 63\<close> (minus the last second, between which and \<open>2 ^ 63\<close> there is no
  binary64 value) are accepted; infinite, NaN, negative ones and those from \<open>2 ^ 63\<close> on are a
  \<open>ValueError\<close>. An accepted timeout is the nearest whole number of nanoseconds, and the conversion
  for \<open>poll\<close> never refuses it.\<close>

theorem WaitTimeout_parse_correct:
  assumes "\<forall>neg m. x = Finite neg m \<longrightarrow> 0 \<le> m" and "timespec_law os"
  shows "WaitTimeout_parse None = Inr None
    \<and> (\<forall>neg m. x = Finite neg m \<and> (neg \<longrightarrow> m = 0) \<and> m \<le> 2 ^ 63 - 1 \<longrightarrow> (\<exists>d. WaitTimeout_parse (Some x) = Inr (Some d)))
    \<and> ((x = NaN \<or> (\<exists>neg. x = Infinite neg) \<or> (\<exists>m. x = Finite True m \<and> m \<noteq> 0) \<or> (\<exists>neg m. x = Finite neg m \<and> 2 ^ 63 \<le> m))
        \<longrightarrow> WaitTimeout_parse (Some x) = Inl (new_err ValueError timeout_message))
    \<and> (\<forall>t. WaitTimeout_parse (Some x) = Inr t \<longrightarrow>
         (\<exists>d m neg ts. t = Some d \<and> x = Finite neg m \<and> \<bar>of_nat (total_nanos d) - m * 10 ^ 9\<bar> \<le> 1 / 2
            \<and> unat (duration_nanos d) < 10 ^ 9 \<and> timespec_try_from os d = Inr ts))"
proof (intro conjI allI impI)
  show "WaitTimeout_parse None = Inr None" by (simp add: WaitTimeout_parse_def)
next
  fix neg m
  assume "x = Finite neg m \<and> (neg \<longrightarrow> m = 0) \<and> m \<le> 2 ^ 63 - 1"
  with assms(1) show "\<exists>d. WaitTimeout_parse (Some x) = Inr (Some d)" using WaitTimeout_parse_accepts by metis
qed (fact WaitTimeout_parse_refuses [OF assms(1)] WaitTimeout_parse_rounds [OF assms])+

lemma example_timespec: "timespec_law example_notify"
  by (simp add: timespec_law_def example_notify_def)

theorem WaitTimeout_parse_correct_witness:
  "\<exists>d ts. WaitTimeout_parse (Some (Finite False (3 / 2))) = Inr (Some d)
    \<and> \<bar>of_nat (total_nanos d) - (1500000000 :: rat)\<bar> \<le> 1 / 2 \<and> timespec_try_from example_notify d = Inr ts"
proof -
  have pos: "\<forall>neg m. Finite False (3 / 2) = Finite neg m \<longrightarrow> 0 \<le> m" by auto
  note correct = WaitTimeout_parse_correct [OF pos example_timespec]
  from correct have "\<forall>neg m. Finite False (3 / 2) = Finite neg m \<and> (neg \<longrightarrow> m = 0) \<and> m \<le> 2 ^ 63 - 1 \<longrightarrow>
      (\<exists>d. WaitTimeout_parse (Some (Finite False (3 / 2))) = Inr (Some d))" by (elim conjE)
  from spec [OF spec [OF this, of False], of "3 / 2"]
  obtain d where d: "WaitTimeout_parse (Some (Finite False (3 / 2))) = Inr (Some d)" by auto
  from correct have "\<forall>t. WaitTimeout_parse (Some (Finite False (3 / 2))) = Inr t \<longrightarrow>
      (\<exists>d m neg ts. t = Some d \<and> Finite False (3 / 2) = Finite neg m \<and> \<bar>of_nat (total_nanos d) - m * 10 ^ 9\<bar> \<le> 1 / 2
         \<and> unat (duration_nanos d) < 10 ^ 9 \<and> timespec_try_from example_notify d = Inr ts)" by (elim conjE)
  from this [rule_format, OF d] obtain d' m neg ts where "Inr (Some d) = (Inr (Some d') :: PyErr + _)"
    "Finite False (3 / 2) = Finite neg m" "\<bar>of_nat (total_nanos d') - m * 10 ^ 9\<bar> \<le> 1 / 2"
    "timespec_try_from example_notify d' = Inr ts" by auto
  then have "m = 3 / 2" "\<bar>of_nat (total_nanos d) - m * 10 ^ 9\<bar> \<le> 1 / 2" "timespec_try_from example_notify d = Inr ts"
    by (simp_all only: sum.inject option.inject f64.inject)
  then have "\<bar>of_nat (total_nanos d) - (1500000000 :: rat)\<bar> \<le> 1 / 2" by (simp only: times_divide_eq_left) simp
  with d \<open>timespec_try_from example_notify d = Inr ts\<close> show ?thesis by blast
qed

section \<open>Waits of several threads\<close>

text \<open>
  A call of \<open>wait\<close> on one watcher goes through these phases: the timeout is parsed; the closure that
  \<open>py.detach\<close> runs without the interpreter's lock tries the mutex and, if it gets it, waits inside;
  the closure ends and its guard unlocks the mutex; and once the thread has the interpreter again
  the call returns. Other threads can take steps between any two of these, so calls need not return
  in the order in which they had the mutex.
\<close>

datatype phase =
    Begun "PyErr + Duration option"
  | Inside "Duration option"
  | Released "PyErr + (Error + ChangeNotification option)"
  | Ended "PyErr + PyChangeNotification option"

text \<open>The calls begin and return in this order; a call is a number.\<close>

datatype event = Begins nat | Ends nat "PyErr + PyChangeNotification option"

definition wait_return ::
  "python \<Rightarrow> PyErr + (Error + ChangeNotification option) \<Rightarrow> PyErr + PyChangeNotification option" where
  "wait_return py result = and_then result (wait_result py)"

inductive py_waits ::
  "('d, 'r, 'w) notify_os \<Rightarrow> python \<Rightarrow> 'd ConfigurationWatcher \<Rightarrow> 'd ConfigurationWatcher Mutex \<Rightarrow>
     (nat \<rightharpoonup> phase) \<Rightarrow> event list \<Rightarrow> bool" for os py watcher where
  created: "py_waits os py watcher (Mutex_new watcher) (\<lambda>n. None) []"
| begun: "py_waits os py watcher mutex calls trace \<Longrightarrow> calls n = None \<Longrightarrow>
     py_waits os py watcher mutex (calls(n \<mapsto> Begun (WaitTimeout_parse seconds))) (trace @ [Begins n])"
| refused: "py_waits os py watcher mutex calls trace \<Longrightarrow> calls n = Some (Begun (Inl e)) \<Longrightarrow>
     py_waits os py watcher mutex (calls(n \<mapsto> Ended (Inl e))) (trace @ [Ends n (Inl e)])"
| busy: "py_waits os py watcher mutex calls trace \<Longrightarrow> calls n = Some (Begun (Inr timeout)) \<Longrightarrow>
     monitor_lock mutex = Inl e \<Longrightarrow> py_waits os py watcher mutex (calls(n \<mapsto> Released (Inl e))) trace"
| entered: "py_waits os py watcher mutex calls trace \<Longrightarrow> calls n = Some (Begun (Inr timeout)) \<Longrightarrow>
     monitor_lock mutex = Inr held \<Longrightarrow> py_waits os py watcher held (calls(n \<mapsto> Inside timeout)) trace"
| left: "py_waits os py watcher mutex calls trace \<Longrightarrow> calls n = Some (Inside timeout) \<Longrightarrow>
     ConfigurationWatcher_wait os (mutex_inner mutex) timeout w = Some (result, inner, w') \<Longrightarrow>
     py_waits os py watcher (Mutex_unlock inner mutex) (calls(n \<mapsto> Released (Inr result))) trace"
| returned: "py_waits os py watcher mutex calls trace \<Longrightarrow> calls n = Some (Released result) \<Longrightarrow>
     py_waits os py watcher mutex (calls(n \<mapsto> Ended (wait_return py result))) (trace @ [Ends n (wait_return py result)])"

definition py_reports_removal :: "PyErr + PyChangeNotification option \<Rightarrow> bool" where
  "py_reports_removal r = (case r of Inr (Some n) \<Rightarrow> py_removed n | _ \<Rightarrow> False)"

lemma py_reports_wait_result [simp]: "py_reports_removal (wait_result py result) = reports_removal result"
  by (cases result)
    (auto simp: py_reports_removal_def reports_removal_def wait_result_def PythonError_result_def
      PyChangeNotification_from_def split: option.splits)

lemma py_reports_Inl [simp]: "\<not> py_reports_removal (Inl e)"
  by (simp add: py_reports_removal_def)

lemma monitor_lock_free:
  "\<not> mutex_locked mutex \<Longrightarrow> \<not> mutex_poisoned mutex \<Longrightarrow> monitor_lock mutex = Inr (mutex\<lparr>mutex_locked := True\<rparr>)"
  by (simp add: monitor_lock_def Mutex_try_lock_def)

lemma monitor_lock_held: "mutex_locked mutex \<Longrightarrow> \<exists>e. monitor_lock mutex = Inl e \<and> error_class e = RuntimeError"
  by (simp add: monitor_lock_def Mutex_try_lock_def new_err_def)

lemma monitor_lock_Inr: "monitor_lock mutex = Inr held \<Longrightarrow> \<not> mutex_locked mutex \<and> held = mutex\<lparr>mutex_locked := True\<rparr>"
  by (auto simp: monitor_lock_def Mutex_try_lock_def split: if_splits)

lemma monitor_lock_Inl: "monitor_lock mutex = Inl e \<Longrightarrow> error_class e = RuntimeError"
  by (auto simp: monitor_lock_def Mutex_try_lock_def new_err_def split: if_splits)

definition inside :: "(nat \<rightharpoonup> phase) \<Rightarrow> nat set" where
  "inside calls = {n. \<exists>t. calls n = Some (Inside t)}"

lemma inside_upd [simp]:
  "inside (calls(n \<mapsto> p)) = (if \<exists>t. p = Inside t then insert n (inside calls) else inside calls - {n})"
  by (auto simp: inside_def)

lemma inside_empty [simp]: "inside (\<lambda>n. None) = {}"
  by (simp add: inside_def)

lemma not_inside: "calls n = None \<Longrightarrow> n \<notin> inside calls" "calls n = Some p \<Longrightarrow> (\<And>t. p \<noteq> Inside t) \<Longrightarrow> n \<notin> inside calls"
  by (auto simp: inside_def)

lemma in_inside: "calls n = Some (Inside t) \<Longrightarrow> n \<in> inside calls"
  by (auto simp: inside_def)

text \<open>The mutex is locked while a call is inside, and one call at most is.\<close>

lemma py_waits_mutex:
  assumes "py_waits os py watcher mutex calls trace"
  shows "\<not> mutex_poisoned mutex \<and> (if mutex_locked mutex then \<exists>n. inside calls = {n} else inside calls = {})"
  using assms
proof (induction rule: py_waits.induct)
  case created
  then show ?case by (simp add: Mutex_new_def)
next
  case (entered mutex calls trace n timeout held)
  then show ?case using monitor_lock_Inr [OF entered.hyps(3)] by auto
next
  case (left mutex calls trace n timeout w result inner w')
  then show ?case using in_inside [of calls n timeout] by (auto simp: Mutex_unlock_def split: if_splits)
qed (auto simp: not_inside split: if_splits)

text \<open>Which calls have returned, and with what.\<close>

lemma py_waits_ends:
  assumes "py_waits os py watcher mutex calls trace"
  shows "(Ends n r \<in> set trace \<longleftrightarrow> calls n = Some (Ended r)) \<and> (Begins n \<in> set trace \<longleftrightarrow> calls n \<noteq> None)"
  using assms by (induction rule: py_waits.induct) auto

text \<open>A call that has taken the removal of the file off the queue, whether it has returned or not.\<close>

fun takes_removal :: "phase \<Rightarrow> bool" where
  "takes_removal (Released (Inr result)) = reports_removal result"
| "takes_removal (Released (Inl e)) = False"
| "takes_removal (Ended result) = py_reports_removal result"
| "takes_removal (Begun timeout) = False"
| "takes_removal (Inside timeout) = False"

definition takers :: "(nat \<rightharpoonup> phase) \<Rightarrow> nat set" where
  "takers calls = {n. \<exists>p. calls n = Some p \<and> takes_removal p}"

lemma takers_upd [simp]: "takers (calls(n \<mapsto> p)) = (if takes_removal p then insert n (takers calls) else takers calls - {n})"
  by (auto simp: takers_def)

lemma takers_empty [simp]: "takers (\<lambda>n. None) = {}"
  by (simp add: takers_def)

lemma taker_iff: "calls n = Some p \<Longrightarrow> n \<in> takers calls \<longleftrightarrow> takes_removal p" "calls n = None \<Longrightarrow> n \<notin> takers calls"
  by (auto simp: takers_def)

lemma takes_removal_return [simp]: "takes_removal (Ended (wait_return py result)) = takes_removal (Released result)"
  by (cases result) (simp_all add: wait_return_def)

lemma py_waits_takers:
  assumes "py_waits os py watcher mutex calls trace" "\<not> watcher_removed watcher"
  shows "if watcher_removed (mutex_inner mutex) then \<exists>n. takers calls = {n} else takers calls = {}"
  using assms
proof (induction rule: py_waits.induct)
  case created
  then show ?case by (simp add: Mutex_new_def)
next
  case (entered mutex calls trace n timeout held)
  have "n \<notin> takers calls" using entered.hyps(2) by (simp add: taker_iff)
  then have "takers (calls(n \<mapsto> Inside timeout)) = takers calls" by simp
  moreover have "mutex_inner held = mutex_inner mutex" using monitor_lock_Inr [OF entered.hyps(3)] by simp
  ultimately show ?case using entered.IH [OF entered.prems] by (simp only:)
next
  case (left mutex calls trace n timeout w result inner w')
  have n: "n \<notin> takers calls" using left.hyps(2) by (simp add: taker_iff)
  show ?case
  proof (cases "watcher_removed (mutex_inner mutex)")
    case True
    with wait_terminal [OF left.hyps(3) True] left.IH [OF left.prems] n show ?thesis
      by (auto simp: Mutex_unlock_def reports_removal_def)
  next
    case False
    with wait_live [OF left.hyps(3) False] left.IH [OF left.prems] n show ?thesis
      by (auto simp: Mutex_unlock_def)
  qed
next
  case (returned mutex calls trace n result)
  have "n \<in> takers calls \<longleftrightarrow> takes_removal (Released result)" using returned.hyps(2) by (rule taker_iff)
  then have "takers (calls(n \<mapsto> Ended (wait_return py result))) = takers calls"
    unfolding takers_upd takes_removal_return by auto
  then show ?case using returned.IH [OF returned.prems] by (simp only:)
qed (auto simp: taker_iff split: if_splits)

text \<open>
  A removal has been returned; a call began after that. A trace is extended at its end, so both are
  computed for one more event.
\<close>

definition reported :: "event list \<Rightarrow> bool" where
  "reported trace \<longleftrightarrow> (\<exists>n r. Ends n r \<in> set trace \<and> py_reports_removal r)"

definition late :: "event list \<Rightarrow> nat \<Rightarrow> bool" where
  "late trace m \<longleftrightarrow> (\<exists>before n r after. trace = before @ Ends n r # after \<and> py_reports_removal r \<and> Begins m \<in> set after)"

definition one_report :: "event list \<Rightarrow> bool" where
  "one_report trace \<longleftrightarrow> (\<forall>before n r after. trace = before @ Ends n r # after \<and> py_reports_removal r \<longrightarrow>
     \<not> reported before \<and> \<not> reported after)"

lemma reported_snoc [simp]:
  "reported (trace @ [Begins n]) = reported trace"
  "reported (trace @ [Ends n r]) \<longleftrightarrow> reported trace \<or> py_reports_removal r"
  by (auto simp: reported_def)

lemma reported_Nil [simp]: "\<not> reported []"
  by (simp add: reported_def)

lemma lateI: "trace = before @ Ends n r # after \<Longrightarrow> py_reports_removal r \<Longrightarrow> Begins m \<in> set after \<Longrightarrow> late trace m"
  unfolding late_def by blast

lemma late_reported: "late trace m \<Longrightarrow> reported trace"
  unfolding late_def reported_def by (metis in_set_conv_decomp)

lemma split_snoc: "trace @ [e] = before @ x # after \<longleftrightarrow>
    (after = [] \<and> before = trace \<and> x = e) \<or> (\<exists>after'. after = after' @ [e] \<and> trace = before @ x # after')"
  by (cases after rule: rev_cases) auto

lemma late_snoc: "late (trace @ [e]) m \<longleftrightarrow> late trace m \<or> e = Begins m \<and> reported trace"
proof
  assume "late (trace @ [e]) m"
  then obtain before n r after where split: "trace @ [e] = before @ Ends n r # after" "py_reports_removal r" "Begins m \<in> set after"
    unfolding late_def by blast
  from split(1,3) obtain after' where after: "after = after' @ [e]" "trace = before @ Ends n r # after'"
    unfolding split_snoc by auto
  then have "reported trace" using split(2) unfolding reported_def by (metis in_set_conv_decomp)
  moreover have "late trace m" if "Begins m \<in> set after'" by (rule lateI [OF after(2) split(2) that])
  ultimately show "late trace m \<or> e = Begins m \<and> reported trace" using split(3) after(1) by auto
next
  assume "late trace m \<or> e = Begins m \<and> reported trace"
  then show "late (trace @ [e]) m"
  proof
    assume "late trace m"
    then obtain before n r after where "trace = before @ Ends n r # after" "py_reports_removal r" "Begins m \<in> set after"
      unfolding late_def by blast
    then show ?thesis by (intro lateI [of _ before n r "after @ [e]"]) simp_all
  next
    assume e: "e = Begins m \<and> reported trace"
    then obtain n r before after where "trace = before @ Ends n r # after" "py_reports_removal r"
      unfolding reported_def by (metis split_list)
    with e show ?thesis by (intro lateI [of _ before n r "after @ [e]"]) simp_all
  qed
qed

lemma late_Begins [simp]: "late (trace @ [Begins n]) m \<longleftrightarrow> late trace m \<or> m = n \<and> reported trace"
  by (auto simp: late_snoc)

lemma late_Ends [simp]: "late (trace @ [Ends n r]) m \<longleftrightarrow> late trace m"
  by (simp add: late_snoc)

lemma one_report_Begins:
  assumes "one_report trace"
  shows "one_report (trace @ [Begins n])"
  unfolding one_report_def
proof (intro allI impI)
  fix before m s after
  assume h: "trace @ [Begins n] = before @ Ends m s # after \<and> py_reports_removal s"
  then obtain after' where split: "after = after' @ [Begins n]" "trace = before @ Ends m s # after'"
    unfolding split_snoc by blast
  with assms h have "\<not> reported before \<and> \<not> reported after'" unfolding one_report_def by blast
  then show "\<not> reported before \<and> \<not> reported after" by (simp add: split(1))
qed

lemma one_report_Ends:
  assumes "one_report trace" "py_reports_removal r \<Longrightarrow> \<not> reported trace"
  shows "one_report (trace @ [Ends n r])"
  unfolding one_report_def
proof (intro allI impI)
  fix before m s after
  assume h: "trace @ [Ends n r] = before @ Ends m s # after \<and> py_reports_removal s"
  show "\<not> reported before \<and> \<not> reported after"
  proof (cases after rule: rev_cases)
    case Nil
    with h assms(2) show ?thesis by simp
  next
    case (snoc after' e)
    with h have split: "trace = before @ Ends m s # after'" "e = Ends n r" by simp_all
    with h have "reported trace" unfolding reported_def by (metis in_set_conv_decomp)
    with assms(2) have "\<not> py_reports_removal r" by blast
    moreover have "\<not> reported before \<and> \<not> reported after'" using assms(1) split(1) h unfolding one_report_def by blast
    ultimately show ?thesis by (simp add: snoc split(2))
  qed
qed

lemma py_waits_reported:
  assumes "py_waits os py watcher mutex calls trace" "\<not> watcher_removed watcher" "reported trace"
  shows "watcher_removed (mutex_inner mutex)"
proof -
  from assms(3) obtain n r where "Ends n r \<in> set trace" "py_reports_removal r" by (auto simp: reported_def)
  with py_waits_ends [OF assms(1)] have "n \<in> takers calls" by (auto simp: takers_def)
  with py_waits_takers [OF assms(1,2)] show ?thesis by (auto split: if_splits)
qed

lemma py_waits_one_report:
  assumes "py_waits os py watcher mutex calls trace" "\<not> watcher_removed watcher"
  shows "one_report trace"
  using assms
proof (induction rule: py_waits.induct)
  case (returned mutex calls trace n result)
  show ?case
  proof (rule one_report_Ends [OF returned.IH [OF returned.prems]])
    assume "py_reports_removal (wait_return py result)"
    then have "takes_removal (Released result)" using takes_removal_return [of py result] by simp
    then have n: "n \<in> takers calls" using returned.hyps(2) by (simp add: taker_iff)
    show "\<not> reported trace"
    proof
      assume "reported trace"
      then obtain m r where "Ends m r \<in> set trace" "py_reports_removal r" by (auto simp: reported_def)
      then have m: "calls m = Some (Ended r)" "m \<in> takers calls"
        using py_waits_ends [OF returned.hyps(1)] by (auto simp: takers_def)
      from py_waits_takers [OF returned.hyps(1) returned.prems] n m(2) have "m = n" by (auto split: if_splits)
      with m(1) returned.hyps(2) show False by simp
    qed
  qed
qed (auto simp: one_report_def [of "[]"] intro: one_report_Begins one_report_Ends)

text \<open>What a call can be that began after the removal was returned.\<close>

definition excuse :: "python \<Rightarrow> PyErr \<Rightarrow> bool" where
  "excuse py e \<longleftrightarrow> error_class e \<in> {RuntimeError, ValueError} \<or> e = PythonError_from_core py (os_error EPIPE)"

fun excused :: "python \<Rightarrow> phase \<Rightarrow> bool" where
  "excused py (Begun (Inl e)) = excuse py e"
| "excused py (Begun (Inr timeout)) = True"
| "excused py (Inside timeout) = True"
| "excused py (Released (Inl e)) = excuse py e"
| "excused py (Released (Inr result)) = (result = Inl (os_error EPIPE))"
| "excused py (Ended result) = (\<exists>e. result = Inl e \<and> excuse py e)"

lemma excused_Begun: "excused py (Begun (WaitTimeout_parse seconds))"
  by (cases "WaitTimeout_parse seconds") (auto simp: excuse_def new_err_def dest: WaitTimeout_parse_error)

lemma excused_return: "excused py (Released result) \<Longrightarrow> excused py (Ended (wait_return py result))"
  by (cases result) (auto simp: wait_return_def wait_result_def PythonError_result_def excuse_def)

lemma py_waits_late:
  assumes "py_waits os py watcher mutex calls trace" "\<not> watcher_removed watcher" "late trace m" "calls m = Some p"
  shows "excused py p"
  using assms
proof (induction arbitrary: p rule: py_waits.induct)
  case created
  then show ?case by simp
next
  case (begun mutex calls trace n seconds)
  have "Begins n \<notin> set trace" using py_waits_ends [OF begun.hyps(1), where n = n] begun.hyps(2) by simp
  with begun excused_Begun [of py seconds] show ?case by (cases "m = n") auto
next
  case (refused mutex calls trace n e)
  then show ?case using refused.IH [of "Begun (Inl e)"] by (cases "m = n") auto
next
  case (busy mutex calls trace n timeout e)
  then show ?case using monitor_lock_Inl [OF busy.hyps(3)] by (cases "m = n") (auto simp: excuse_def)
next
  case (entered mutex calls trace n timeout held)
  then show ?case by (cases "m = n") auto
next
  case (left mutex calls trace n timeout w result inner w')
  show ?case
  proof (cases "m = n")
    case True
    have "watcher_removed (mutex_inner mutex)"
      using py_waits_reported [OF left.hyps(1) left.prems(1)] late_reported [OF left.prems(2)] by blast
    from wait_terminal [OF left.hyps(3) this] True left.prems(3) show ?thesis by auto
  next
    case False
    with left show ?thesis by auto
  qed
next
  case (returned mutex calls trace n result)
  then show ?case
    using returned.IH [of "Released result"] excused_return [of py result] by (cases "m = n") (auto simp del: excused.simps)
qed

section \<open>One wait at a time\<close>

lemma py_waits_inside:
  assumes "py_waits os py watcher mutex calls trace"
  shows "(\<exists>n t. calls n = Some (Inside t)) \<longleftrightarrow> mutex_locked mutex"
    and "calls n = Some (Inside t) \<Longrightarrow> calls m = Some (Inside t') \<Longrightarrow> n = m"
proof -
  note one = py_waits_mutex [OF assms, THEN conjunct2]
  show "(\<exists>n t. calls n = Some (Inside t)) \<longleftrightarrow> mutex_locked mutex"
    using one unfolding inside_def set_eq_iff by (auto split: if_splits)
  assume "calls n = Some (Inside t)" "calls m = Some (Inside t')"
  then have "n \<in> inside calls" "m \<in> inside calls" by (simp_all add: in_inside)
  with one show "n = m" by (auto split: if_splits)
qed

lemma py_waits_lock:
  assumes "py_waits os py watcher mutex calls trace"
  shows "if mutex_locked mutex then \<exists>e. monitor_lock mutex = Inl e \<and> error_class e = RuntimeError
    else monitor_lock mutex = Inr (mutex\<lparr>mutex_locked := True\<rparr>)"
  using py_waits_mutex [OF assms] monitor_lock_held [of mutex] monitor_lock_free [of mutex] by simp

lemma py_waits_after_removal:
  assumes run: "py_waits os py watcher mutex calls (before @ Ends n r # after)" and live: "\<not> watcher_removed watcher"
    and removal: "py_reports_removal r"
  shows "Ends m s \<in> set (before @ after) \<Longrightarrow> \<not> py_reports_removal s"
    and "Begins m \<in> set after \<Longrightarrow> Ends m s \<in> set after \<Longrightarrow> \<exists>e. s = Inl e \<and> excuse py e"
proof -
  from py_waits_one_report [OF run live] removal have "\<not> reported before" "\<not> reported after"
    unfolding one_report_def by blast+
  then show "Ends m s \<in> set (before @ after) \<Longrightarrow> \<not> py_reports_removal s" by (auto simp: reported_def)
  assume later: "Begins m \<in> set after" "Ends m s \<in> set after"
  from py_waits_ends [OF run, of m s] later(2) have "calls m = Some (Ended s)" by simp
  from py_waits_late [OF run live lateI [OF refl removal later(1)] this] show "\<exists>e. s = Inl e \<and> excuse py e" by simp
qed

text \<open>C3: The waits of several threads on one watcher exclude each other without blocking. In every
  interleaving of their phases, parsing the timeout, trying the lock, waiting under it, giving it up
  and returning, at most one call waits inside; while one does, another call's \<open>try_lock\<close> fails at
  once with a \<open>RuntimeError\<close>, and otherwise the lock is free and not poisoned. If the watched file was
  not reported removed before, at most one call ever returns a notification with the removal. A call
  that had the lock before may still return its result after that; but every call that begins after
  the removal was returned can only raise: \<open>RuntimeError\<close> from the lock, \<open>ValueError\<close> from the timeout,
  or the exception of \<open>EPIPE\<close>.\<close>

theorem py_waits_exclusive:
  assumes "py_waits os py watcher mutex calls trace" "\<not> watcher_removed watcher"
  shows "(\<forall>n m t t'. calls n = Some (Inside t) \<and> calls m = Some (Inside t') \<longrightarrow> n = m)
    \<and> (if \<exists>n t. calls n = Some (Inside t)
        then \<exists>e. monitor_lock mutex = Inl e \<and> error_class e = RuntimeError
        else monitor_lock mutex = Inr (mutex\<lparr>mutex_locked := True\<rparr>))
    \<and> (\<forall>before n r after. trace = before @ Ends n r # after \<and> py_reports_removal r \<longrightarrow>
         (\<forall>m s. Ends m s \<in> set (before @ after) \<longrightarrow> \<not> py_reports_removal s)
         \<and> (\<forall>m s. Begins m \<in> set after \<and> Ends m s \<in> set after \<longrightarrow>
              (\<exists>e. s = Inl e \<and> (error_class e \<in> {RuntimeError, ValueError} \<or> e = PythonError_from_core py (os_error EPIPE)))))"
  unfolding py_waits_inside(1) [OF assms(1)]
proof (intro conjI allI impI)
  show "n = m" if "calls n = Some (Inside t) \<and> calls m = Some (Inside t')" for n m t t'
    using that py_waits_inside(2) [OF assms(1)] by blast
  fix before n r after
  assume split: "trace = before @ Ends n r # after \<and> py_reports_removal r"
  then have run: "py_waits os py watcher mutex calls (before @ Ends n r # after)" using assms(1) by simp
  show "\<not> py_reports_removal s" if "Ends m s \<in> set (before @ after)" for m s
    by (rule py_waits_after_removal(1) [OF run assms(2)]) (use split that in blast)+
  show "\<exists>e. s = Inl e \<and> (error_class e \<in> {RuntimeError, ValueError} \<or> e = PythonError_from_core py (os_error EPIPE))"
    if "Begins m \<in> set after \<and> Ends m s \<in> set after" for m s
    unfolding excuse_def [symmetric]
    by (rule py_waits_after_removal(2) [OF run assms(2)]) (use split that in blast)+
qed (rule py_waits_lock [OF assms(1)])

lemma example_modified:
  "ConfigurationWatcher_wait example_notify example_watcher None ([IN_MODIFY], 0, 0)
   = Some (Inr (Some \<lparr>modified = True, removed = False, overflowed = False\<rparr>), example_watcher, ([], 0, 0))"
proof -
  have "ChangeNotification_include ChangeNotification_default IN_MODIFY = \<lparr>modified = True, removed = False, overflowed = False\<rparr>"
    by code_simp
  then have "drain example_notify (reader_new example_notify (watcher_descriptor example_watcher)) ChangeNotification_default
      ([IN_MODIFY], 0, 0) = Some (Inr \<lparr>modified = True, removed = False, overflowed = False\<rparr>, ([], 0, 0))"
    by (subst drain.simps) (simp add: example_notify_def)
  moreover have "Readiness_wait example_notify (watcher_descriptor example_watcher) POLLIN None ([IN_MODIFY], 0, 0)
      = (Inr True, ([IN_MODIFY], 0, 0))"
    by code_simp
  ultimately show ?thesis
    by (simp add: ConfigurationWatcher_wait_def ChangeNotification_default_def) (simp add: example_watcher_def)
qed

lemma example_removed:
  "ConfigurationWatcher_wait example_notify example_watcher None ([IN_MODIFY, IN_IGNORED, IN_MODIFY], 0, 0)
   = Some (Inr (Some \<lparr>modified = True, removed = True, overflowed = False\<rparr>),
       example_watcher\<lparr>watcher_removed := True\<rparr>, ([IN_MODIFY], 0, 0))"
proof -
  have "Readiness_wait example_notify (watcher_descriptor example_watcher) POLLIN None ([IN_MODIFY, IN_IGNORED, IN_MODIFY], 0, 0)
      = (Inr True, ([IN_MODIFY, IN_IGNORED, IN_MODIFY], 0, 0))"
    by code_simp
  with example_drain show ?thesis
    by (simp add: ConfigurationWatcher_wait_def ChangeNotification_default_def) (simp add: example_watcher_def)
qed

text \<open>A whole call while the lock is free.\<close>

lemma py_waits_enter:
  assumes "py_waits os py watcher (mutex\<lparr>mutex_locked := False, mutex_poisoned := False\<rparr>) calls trace" "calls n = None"
  shows "py_waits os py watcher (mutex\<lparr>mutex_locked := True, mutex_poisoned := False\<rparr>) (calls(n \<mapsto> Inside None)) (trace @ [Begins n])"
proof -
  have "py_waits os py watcher (mutex\<lparr>mutex_locked := False, mutex_poisoned := False\<rparr>) (calls(n \<mapsto> Begun (Inr None))) (trace @ [Begins n])"
    using py_waits.begun [OF assms, of None] by (simp add: WaitTimeout_parse_def)
  from py_waits.entered [OF this, of n] show ?thesis by (simp add: monitor_lock_free)
qed

text \<open>
  The first call takes a modification and gives the lock up, the second takes and returns the
  removal, then the first returns, and a third begins.
\<close>

theorem py_waits_exclusive_witness:
  "(\<exists>mutex calls e. py_waits example_notify demo_python example_watcher mutex calls
       [Begins 1, Begins 2, Ends 2 (Inr (Some \<lparr>py_modified = True, py_removed = True, py_overflowed = False\<rparr>)),
        Ends 1 (Inr (Some \<lparr>py_modified = True, py_removed = False, py_overflowed = False\<rparr>)), Begins 3, Ends 3 (Inl e)]
    \<and> (error_class e \<in> {RuntimeError, ValueError} \<or> e = PythonError_from_core demo_python (os_error EPIPE))
    \<and> monitor_lock mutex = Inr (mutex\<lparr>mutex_locked := True\<rparr>))
   \<and> (\<exists>mutex calls trace. py_waits example_notify demo_python example_watcher mutex calls trace
    \<and> calls 1 = Some (Inside None) \<and> (\<exists>e. monitor_lock mutex = Inl e \<and> error_class e = RuntimeError))"
proof (rule conjI)
  let ?run = "py_waits example_notify demo_python example_watcher"
  let ?m = "\<lambda>w locked. (Mutex_new w)\<lparr>mutex_locked := locked, mutex_poisoned := False\<rparr>"
  let ?modified = "\<lparr>modified = True, removed = False, overflowed = False\<rparr>"
  let ?removed = "\<lparr>modified = True, removed = True, overflowed = False\<rparr>"
  let ?gone = "example_watcher\<lparr>watcher_removed := True\<rparr>"
  let ?e = "PythonError_from_core demo_python (os_error EPIPE)"
  have free: "Mutex_new w = ?m w False" and unlock: "Mutex_unlock v (?m w True) = ?m v False"
    and inner: "mutex_inner (?m w True) = w" for v w :: "nat ConfigurationWatcher"
    by (simp_all add: Mutex_new_def Mutex_unlock_def)
  have returns: "wait_return demo_python (Inr (Inr (Some ?modified))) = Inr (Some \<lparr>py_modified = True, py_removed = False, py_overflowed = False\<rparr>)"
    "wait_return demo_python (Inr (Inr (Some ?removed))) = Inr (Some \<lparr>py_modified = True, py_removed = True, py_overflowed = False\<rparr>)"
    "wait_return demo_python (Inr (Inl (os_error EPIPE))) = Inl ?e"
    by (simp_all add: wait_return_def wait_result_def PythonError_result_def PyChangeNotification_from_def)
  have gone: "ConfigurationWatcher_wait example_notify ?gone None w = Some (Inl (os_error EPIPE), ?gone, w)" for w
    by (simp add: ConfigurationWatcher_wait_def)
  have "?run (?m example_watcher False) (\<lambda>n. None) []" unfolding free [symmetric] by (rule py_waits.created)
  note step = py_waits_enter [OF this, where n = 1, simplified]
  note first = step
  note step = py_waits.left [OF step, where n = 1, unfolded inner, OF _ example_modified, unfolded unlock, simplified]
  note step = py_waits_enter [OF step, where n = 2, simplified]
  note step = py_waits.left [OF step, where n = 2, unfolded inner, OF _ example_removed, unfolded unlock, simplified]
  note step = py_waits.returned [OF step, where n = 2 and result = "Inr (Inr (Some ?removed))", simplified, unfolded returns]
  note step = py_waits.returned [OF step, where n = 1 and result = "Inr (Inr (Some ?modified))", simplified, unfolded returns]
  note step = py_waits_enter [OF step, where n = 3, simplified]
  note step = py_waits.left [OF step, where n = 3, unfolded inner, OF _ gone, unfolded unlock, simplified]
  note step = py_waits.returned [OF step, where n = 3 and result = "Inr (Inl (os_error EPIPE))", simplified, unfolded returns]
  have live: "\<not> watcher_removed example_watcher" by (simp add: example_watcher_def)
  note claim = py_waits_exclusive [OF step live, THEN conjunct2]
  from claim [THEN conjunct2, rule_format, of "[Begins 1, Begins 2]" 2
      "Inr (Some \<lparr>py_modified = True, py_removed = True, py_overflowed = False\<rparr>)", THEN conjunct2, rule_format, of _ 3 "Inl ?e"]
  have late: "error_class ?e \<in> {RuntimeError, ValueError} \<or> ?e = PythonError_from_core demo_python (os_error EPIPE)"
    by (simp add: py_reports_removal_def)
  from claim [THEN conjunct1] have "monitor_lock (?m ?gone False) = Inr ((?m ?gone False)\<lparr>mutex_locked := True\<rparr>)"
    by (simp split: if_splits)
  with step late show "\<exists>mutex calls e. ?run mutex calls
       [Begins 1, Begins 2, Ends 2 (Inr (Some \<lparr>py_modified = True, py_removed = True, py_overflowed = False\<rparr>)),
        Ends 1 (Inr (Some \<lparr>py_modified = True, py_removed = False, py_overflowed = False\<rparr>)), Begins 3, Ends 3 (Inl e)]
    \<and> (error_class e \<in> {RuntimeError, ValueError} \<or> e = PythonError_from_core demo_python (os_error EPIPE))
    \<and> monitor_lock mutex = Inr (mutex\<lparr>mutex_locked := True\<rparr>)"
    by fastforce
  from py_waits_exclusive [OF first live, THEN conjunct2, THEN conjunct1] first
  show "\<exists>mutex calls trace. ?run mutex calls trace \<and> calls 1 = Some (Inside None)
    \<and> (\<exists>e. monitor_lock mutex = Inl e \<and> error_class e = RuntimeError)"
    by fastforce
qed

end
