(* ===== verification/Py_Handle.thy ===== *)
theory Py_Handle
  imports Py_Cpu Py_Memory Py_Io Py_Resources Py_Notification
begin

text \<open>
  The handle in Python, \<open>sakai-python/src/linux/handle.rs\<close>: opening a cgroup, its children, its
  readers, which own the same handle, and its monitors. What \<open>os.fsdecode\<close> gives for an object is a
  parameter, and so is the exception that PyO3 makes of a failed integer conversion.
\<close>

section \<open>Paths\<close>

record ('m, 'o) path_python =
  import_os :: "PyErr + 'm"
  call_fsdecode :: "'m \<Rightarrow> 'o \<Rightarrow> PyErr + 'o"
  extract_path :: "'o \<Rightarrow> PyErr + string"

definition PythonPath_extract :: "('m, 'o) path_python \<Rightarrow> 'o \<Rightarrow> PyErr + string" where
  "PythonPath_extract paths obj =
     and_then (import_os paths) (\<lambda>m. and_then (call_fsdecode paths m obj) (extract_path paths))"

section \<open>Handles\<close>

record 'd PyCgroup = py_owner :: "'d Cgroup"

definition PyCgroup_from :: "'d Cgroup \<Rightarrow> 'd PyCgroup" where
  "PyCgroup_from owner = \<lparr>py_owner = owner\<rparr>"

definition PyCgroup_current ::
  "(ProcError \<Rightarrow> string) \<Rightarrow> python \<Rightarrow> ('d, 'x) dir_os_scheme \<Rightarrow> PyErr + 'd PyCgroup" where
  "PyCgroup_current describe py os =
     map_ok PyCgroup_from (PythonError_result py (from_current_process describe os))"

text \<open>\<open>u32::try_from\<close> of an \<open>i64\<close>.\<close>

type_synonym i64 = "64 word"

definition u32_try_from :: "i64 \<Rightarrow> u32 option" where
  "u32_try_from pid = (if 0 \<le> sint pid \<and> sint pid < 2 ^ 32 then Some (of_int (sint pid)) else None)"

definition PyCgroup_from_pid ::
  "PyErr \<Rightarrow> (ProcError \<Rightarrow> string) \<Rightarrow> python \<Rightarrow> ('d, 'x) dir_os_scheme \<Rightarrow> i64 \<Rightarrow> PyErr + 'd PyCgroup" where
  "PyCgroup_from_pid int_error describe py os pid =
     and_then (ok_or int_error (u32_try_from pid)) (\<lambda>pid.
       map_ok PyCgroup_from (PythonError_result py (from_pid describe os pid)))"

definition PyCgroup_from_path ::
  "('m, 'o) path_python \<Rightarrow> python \<Rightarrow> ('d, 'x) dir_os_scheme \<Rightarrow> 'o \<Rightarrow> PyErr + 'd PyCgroup" where
  "PyCgroup_from_path paths py os path =
     and_then (PythonPath_extract paths path) (\<lambda>path.
       map_ok PyCgroup_from (PythonError_result py (from_path os path)))"

definition PyCgroup_path :: "'d PyCgroup \<Rightarrow> string" where
  "PyCgroup_path v = cgroup_path (py_owner v)"

definition PyCgroup_child ::
  "('m, 'o) path_python \<Rightarrow> python \<Rightarrow> ('d, 'x) dir_os_scheme \<Rightarrow> 'd PyCgroup \<Rightarrow> 'o \<Rightarrow> PyErr + 'd PyCgroup" where
  "PyCgroup_child paths py os v name =
     and_then (PythonPath_extract paths name) (\<lambda>name.
       map_ok PyCgroup_from (PythonError_result py (child os (py_owner v) name)))"

definition PyCgroup_children :: "python \<Rightarrow> ('d, 'x) dir_os_scheme \<Rightarrow> 'd PyCgroup \<Rightarrow> PyErr + 'd PyCgroup list" where
  "PyCgroup_children py os v = map_ok (map PyCgroup_from) (PythonError_result py (children os (py_owner v)))"

text \<open>The readers share the handle.\<close>

definition PyCgroup_cpu :: "'d PyCgroup \<Rightarrow> 'd Cgroup" where "PyCgroup_cpu v = py_owner v"
definition PyCgroup_cpuset :: "'d PyCgroup \<Rightarrow> 'd Cgroup" where "PyCgroup_cpuset v = py_owner v"
definition PyCgroup_memory :: "'d PyCgroup \<Rightarrow> 'd Cgroup" where "PyCgroup_memory v = py_owner v"
definition PyCgroup_io :: "'d PyCgroup \<Rightarrow> 'd Cgroup" where "PyCgroup_io v = py_owner v"
definition PyCgroup_hugetlb :: "'d PyCgroup \<Rightarrow> 'd Cgroup" where "PyCgroup_hugetlb v = py_owner v"
definition PyCgroup_rdma :: "'d PyCgroup \<Rightarrow> 'd Cgroup" where "PyCgroup_rdma v = py_owner v"
definition PyCgroup_dmem :: "'d PyCgroup \<Rightarrow> 'd Cgroup" where "PyCgroup_dmem v = py_owner v"
definition PyCgroup_misc :: "'d PyCgroup \<Rightarrow> 'd Cgroup" where "PyCgroup_misc v = py_owner v"
definition PyCgroup_pids :: "'d PyCgroup \<Rightarrow> 'd Cgroup" where "PyCgroup_pids v = py_owner v"
definition PyCgroup_core :: "'d PyCgroup \<Rightarrow> 'd Cgroup" where "PyCgroup_core v = py_owner v"

definition PyCgroup_irq_pressure :: "python \<Rightarrow> ('d, 'x) os_scheme \<Rightarrow> 'd PyCgroup \<Rightarrow> PyErr + PyIrqPressure" where
  "PyCgroup_irq_pressure py os v = map_ok PyIrqPressure_from (PythonError_read py os (py_owner v) Cgroup_irq_pressure)"

section \<open>Monitors\<close>

text \<open>The name of an interface; the error is the text of strum.\<close>

definition parse_interface :: "string \<Rightarrow> ('f \<Rightarrow> string) \<Rightarrow> 'f list \<Rightarrow> string \<Rightarrow> PyErr + 'f" where
  "parse_interface strum_error name variants interface =
     ok_or (new_err ValueError strum_error) (enum_from_str name variants interface)"

definition PyCgroup_poll_events ::
  "string \<Rightarrow> python \<Rightarrow> ('d, 'r, 'w) notify_os \<Rightarrow> 'd PyCgroup \<Rightarrow> string \<Rightarrow> ('w, PyErr, 'd PyEventPoller) io" where
  "PyCgroup_poll_events strum_error py os v interface =
     then_io (return_io (parse_interface strum_error EventInterface_filename EventInterface_variants interface)) (\<lambda>interface.
     then_io (map_err_io (PythonError_from_core py) (Cgroup_poll_events os (py_owner v) interface)) (\<lambda>poller.
     return_io (Inr (PyEventPoller_from os poller))))"

definition PyCgroup_watch_configuration ::
  "string \<Rightarrow> python \<Rightarrow> ('d, 'r, 'w) notify_os \<Rightarrow> 'd PyCgroup \<Rightarrow> string \<Rightarrow> ('w, PyErr, 'd PyConfigurationWatcher) io" where
  "PyCgroup_watch_configuration strum_error py os v interface =
     then_io (return_io (parse_interface strum_error ConfigurationInterface_filename ConfigurationInterface_variants interface)) (\<lambda>interface.
     then_io (map_err_io (PythonError_from_core py) (Cgroup_watch_configuration os (py_owner v) interface)) (\<lambda>watcher.
     return_io (Inr (PyConfigurationWatcher_from os watcher))))"

definition PyCgroup_repr :: "(string \<Rightarrow> string) \<Rightarrow> 'd PyCgroup \<Rightarrow> string" where
  "PyCgroup_repr debug v = ''Cgroup('' @ debug (cgroup_path (py_owner v)) @ '')''"

section \<open>Process identifiers\<close>

text \<open>Every Python integer of 64 bits is refused in one of two ways or is the identifier it was.\<close>

lemma int_unat_of_int: "0 \<le> i \<Longrightarrow> i < 2 ^ 32 \<Longrightarrow> int (unat (of_int i :: u32)) = i"
  by (simp add: unat_eq_nat_uint uint_word_of_int_eq take_bit_int_eq_self)

lemma u32_try_from_Some: "u32_try_from pid = Some n \<longleftrightarrow> 0 \<le> sint pid \<and> sint pid < 2 ^ 32 \<and> int (unat n) = sint pid"
proof -
  have "int (unat (of_int (sint pid) :: u32)) = sint pid" if "0 \<le> sint pid" "sint pid < 2 ^ 32"
    using that by (rule int_unat_of_int)
  moreover have "n = of_int (sint pid)" if "int (unat n) = sint pid"
    unfolding that [symmetric] by simp
  ultimately show ?thesis unfolding u32_try_from_def by force
qed

lemma PyCgroup_from_pid_cases:
  "PyCgroup_from_pid int_error describe py os pid =
     (if sint pid < 0 \<or> 2 ^ 32 \<le> sint pid then Inl int_error
      else if sint pid = 0 \<or> 2 ^ 31 \<le> sint pid
      then Inl (PythonError_from_core py (IoError (Custom InvalidInput ''PID must be positive and fit i32'')))
      else map_ok PyCgroup_from (PythonError_result py (from_pid describe os (of_int (sint pid)))))"
proof (cases "sint pid < 0 \<or> 2 ^ 32 \<le> sint pid")
  case True
  then have "u32_try_from pid = None" by (auto simp: u32_try_from_def)
  with True show ?thesis by (simp add: PyCgroup_from_pid_def)
next
  case False
  define n :: u32 where "n = of_int (sint pid)"
  have n: "u32_try_from pid = Some n" using False by (simp add: u32_try_from_def n_def)
  then have pid: "int (unat n) = sint pid" by (simp only: u32_try_from_Some)
  show ?thesis
  proof (cases "0 < sint pid \<and> sint pid < 2 ^ 31")
    case True
    with False n show ?thesis by (auto simp: PyCgroup_from_pid_def n_def)
  next
    case outside: False
    have "valid_pid n = None"
    proof (rule ccontr)
      assume "valid_pid n \<noteq> None"
      then obtain i where "valid_pid n = Some i" by blast
      then have "0 < unat n" "unat n < 2 ^ 31" by (simp_all only: valid_pid_iff)
      then have "0 < int (unat n)" "int (unat n) < int (2 ^ 31)" by (simp_all only: of_nat_0_less_iff of_nat_less_iff)
      with outside pid show False by simp
    qed
    then have "from_pid describe os n = Inl (IoError (Custom InvalidInput ''PID must be positive and fit i32''))"
      by (simp add: from_pid_def)
    with n False outside show ?thesis by (auto simp: PyCgroup_from_pid_def PythonError_result_def)
  qed
qed

section \<open>Names of interfaces\<close>

text \<open>
  A monitor is opened on the file of exactly the name given, in the directory of the handle; a text
  that names no interface is a \<open>ValueError\<close> and nothing is opened.
\<close>

lemma PyCgroup_monitor_names:
  "(interface \<notin> range EventInterface_filename \<longrightarrow>
      PyCgroup_poll_events strum_error py os v interface w = (Inl (new_err ValueError strum_error), w))
   \<and> (interface \<notin> range ConfigurationInterface_filename \<longrightarrow>
      PyCgroup_watch_configuration strum_error py os v interface w = (Inl (new_err ValueError strum_error), w))
   \<and> (PyCgroup_poll_events strum_error py os v interface w = (Inr poller, w') \<longrightarrow>
      (\<exists>d w1. open_interface os (directory (py_owner v)) interface w = (Inr d, w1)
         \<and> poller_file (mutex_inner (py_poller poller)) = d \<and> PyEventPoller_fileno poller = as_raw_fd os d
         \<and> \<not> mutex_locked (py_poller poller)))
   \<and> (PyCgroup_watch_configuration strum_error py os v interface w = (Inr watcher, w') \<longrightarrow>
      (\<exists>d w1. open_interface os (directory (py_owner v)) interface w = (Inr d, w1)
         \<and> \<not> watcher_removed (mutex_inner (py_watcher watcher)) \<and> \<not> mutex_locked (py_watcher watcher)))"
  (is "?a \<and> ?b \<and> ?c \<and> ?d")
proof (intro conjI)
  show ?a by (auto simp: PyCgroup_poll_events_def parse_interface_def return_io_def
        dest!: iffD2 [OF event_interface.from_str_None_iff])
  show ?b by (auto simp: PyCgroup_watch_configuration_def parse_interface_def return_io_def
        dest!: iffD2 [OF configuration_interface.from_str_None_iff])
  show ?c
  proof
    assume "PyCgroup_poll_events strum_error py os v interface w = (Inr poller, w')"
    then obtain i core w2 where i: "parse_interface strum_error EventInterface_filename EventInterface_variants interface = Inr i"
      and core: "Cgroup_poll_events os (py_owner v) i w = (Inr core, w2)" and poller: "poller = PyEventPoller_from os core"
      by (auto simp: PyCgroup_poll_events_def step_simps)
    from i have "EventInterface_filename i = interface"
      by (cases "enum_from_str EventInterface_filename EventInterface_variants interface")
        (auto simp: parse_interface_def event_interface.from_str_Some_iff)
    with core poller show "\<exists>d w1. open_interface os (directory (py_owner v)) interface w = (Inr d, w1)
         \<and> poller_file (mutex_inner (py_poller poller)) = d \<and> PyEventPoller_fileno poller = as_raw_fd os d
         \<and> \<not> mutex_locked (py_poller poller)"
      by (auto simp: Cgroup_poll_events_def EventPoller_open_def io_simps Let_def PyEventPoller_from_def Mutex_new_def
          PyEventPoller_fileno_def)
  qed
  show ?d
  proof
    assume "PyCgroup_watch_configuration strum_error py os v interface w = (Inr watcher, w')"
    then obtain i core w2 where
      i: "parse_interface strum_error ConfigurationInterface_filename ConfigurationInterface_variants interface = Inr i"
      and core: "Cgroup_watch_configuration os (py_owner v) i w = (Inr core, w2)"
      and watcher: "watcher = PyConfigurationWatcher_from os core"
      by (auto simp: PyCgroup_watch_configuration_def step_simps)
    from i have "ConfigurationInterface_filename i = interface"
      by (cases "enum_from_str ConfigurationInterface_filename ConfigurationInterface_variants interface")
        (auto simp: parse_interface_def configuration_interface.from_str_Some_iff)
    with core watcher show "\<exists>d w1. open_interface os (directory (py_owner v)) interface w = (Inr d, w1)
         \<and> \<not> watcher_removed (mutex_inner (py_watcher watcher)) \<and> \<not> mutex_locked (py_watcher watcher)"
      by (auto simp: Cgroup_watch_configuration_def ConfigurationWatcher_open_def io_simps
          PyConfigurationWatcher_from_def Mutex_new_def)
  qed
qed

section \<open>The readers\<close>

text \<open>C8: Every reader of the bindings reads the kernel file of its own name and nothing else: what it
  gives depends only on that file's contents and the diagnostic path, and when the file cannot be
  read it raises the exception of that failure with the file's path. The readers of HugeTLB take the
  label of a page size: they do so for \<open>hugetlb.\<close>, the label and the suffix of the reader if the label
  is the one of a page size, and raise a \<open>ValueError\<close> without reading anything for any other text.\<close>

theorem python_readers_read:
  "py_reads ''pids.current'' PyPids_current \<and> py_reads ''pids.peak'' PyPids_peak
   \<and> py_reads ''pids.max'' PyPids_max \<and> py_reads ''pids.events'' PyPids_events
   \<and> py_reads ''pids.events.local'' PyPids_events_local \<and> py_reads ''cgroup.procs'' PyCore_procs
   \<and> py_reads ''cgroup.threads'' PyCore_threads \<and> py_reads ''cgroup.controllers'' PyCore_controllers
   \<and> py_reads ''cgroup.subtree_control'' PyCore_subtree_control \<and> py_reads ''cgroup.type'' PyCore_kind
   \<and> py_reads ''cgroup.events'' PyCore_events \<and> py_reads ''cgroup.stat'' (PyCore_stat iter)
   \<and> py_reads ''cgroup.stat.local'' PyCore_stat_local \<and> py_reads ''cgroup.freeze'' PyCore_freeze
   \<and> py_reads ''cgroup.max.depth'' PyCore_max_depth \<and> py_reads ''cgroup.max.descendants'' PyCore_max_descendants
   \<and> py_reads ''cgroup.pressure'' PyCore_pressure_enabled \<and> py_reads ''cpu.stat'' PyCpu_stat
   \<and> py_reads ''cpu.stat.local'' PyCpu_stat_local \<and> py_reads ''cpu.max'' (PyCpu_max to_units)
   \<and> py_reads ''cpu.weight'' PyCpu_weight \<and> py_reads ''cpu.weight.nice'' PyCpu_weight_nice
   \<and> py_reads ''cpu.max.burst'' PyCpu_max_burst \<and> py_reads ''cpu.idle'' PyCpu_idle
   \<and> py_reads ''cpu.uclamp.min'' PyCpu_uclamp_min \<and> py_reads ''cpu.uclamp.max'' PyCpu_uclamp_max
   \<and> py_reads ''cpu.pressure'' PyCpu_pressure \<and> py_reads ''cpuset.cpus'' PyCpuset_cpus
   \<and> py_reads ''cpuset.cpus.effective'' PyCpuset_cpus_effective
   \<and> py_reads ''cpuset.cpus.exclusive'' PyCpuset_cpus_exclusive
   \<and> py_reads ''cpuset.cpus.exclusive.effective'' PyCpuset_cpus_exclusive_effective
   \<and> py_reads ''cpuset.cpus.isolated'' PyCpuset_cpus_isolated \<and> py_reads ''cpuset.mems'' PyCpuset_mems
   \<and> py_reads ''cpuset.mems.effective'' PyCpuset_mems_effective
   \<and> py_reads ''cpuset.cpus.partition'' PyCpuset_partition \<and> py_reads ''memory.current'' PyMemory_current
   \<and> py_reads ''memory.peak'' PyMemory_peak \<and> py_reads ''memory.max'' PyMemory_max
   \<and> py_reads ''memory.high'' PyMemory_high \<and> py_reads ''memory.low'' PyMemory_low
   \<and> py_reads ''memory.min'' PyMemory_min \<and> py_reads ''memory.oom.group'' PyMemory_oom_group
   \<and> py_reads ''memory.events'' PyMemory_events \<and> py_reads ''memory.events.local'' PyMemory_events_local
   \<and> py_reads ''memory.stat'' PyMemory_stat \<and> py_reads ''memory.numa_stat'' PyMemory_numa_stat
   \<and> py_reads ''memory.pressure'' PyMemory_pressure \<and> py_reads ''memory.swap.current'' PySwap_current
   \<and> py_reads ''memory.swap.peak'' PySwap_peak \<and> py_reads ''memory.swap.max'' PySwap_max
   \<and> py_reads ''memory.swap.high'' PySwap_high \<and> py_reads ''memory.swap.events'' PySwap_events
   \<and> py_reads ''memory.zswap.current'' PyZswap_current \<and> py_reads ''memory.zswap.max'' PyZswap_max
   \<and> py_reads ''memory.zswap.writeback'' PyZswap_writeback \<and> py_reads ''io.stat'' PyIo_stat
   \<and> py_reads ''io.pressure'' PyIo_pressure \<and> py_reads ''io.weight'' PyIo_weight \<and> py_reads ''io.max'' PyIo_max
   \<and> py_reads ''io.latency'' PyIo_latency \<and> py_reads ''io.cost.qos'' PyIo_cost_qos
   \<and> py_reads ''io.cost.model'' PyIo_cost_model \<and> py_reads ''io.prio.class'' PyIo_priority_class
   \<and> py_reads ''misc.capacity'' PyMisc_capacity \<and> py_reads ''misc.current'' PyMisc_current
   \<and> py_reads ''misc.peak'' PyMisc_peak \<and> py_reads ''misc.max'' PyMisc_max
   \<and> py_reads ''misc.events'' PyMisc_events \<and> py_reads ''misc.events.local'' PyMisc_events_local
   \<and> py_reads ''dmem.capacity'' PyDmem_capacity \<and> py_reads ''dmem.current'' PyDmem_current
   \<and> py_reads ''dmem.peak'' PyDmem_peak \<and> py_reads ''dmem.min'' PyDmem_min \<and> py_reads ''dmem.low'' PyDmem_low
   \<and> py_reads ''dmem.max'' PyDmem_max \<and> py_reads ''rdma.current'' PyRdma_current
   \<and> py_reads ''rdma.max'' PyRdma_max \<and> py_reads ''rdma.peak'' PyRdma_peak
   \<and> py_reads ''rdma.events'' PyRdma_events \<and> py_reads ''rdma.events.local'' PyRdma_events_local
   \<and> hugetlb_label_reads ''current'' PyHugetlb_current \<and> hugetlb_label_reads ''max'' PyHugetlb_max
   \<and> hugetlb_label_reads ''rsvd.current'' PyHugetlb_reserved_current
   \<and> hugetlb_label_reads ''rsvd.max'' PyHugetlb_reserved_max
   \<and> hugetlb_label_reads ''events'' PyHugetlb_events
   \<and> hugetlb_label_reads ''events.local'' PyHugetlb_events_local
   \<and> hugetlb_label_reads ''numa_stat'' PyHugetlb_numa_stat
   \<and> py_reads ''irq.pressure'' (\<lambda>py os cg. PyCgroup_irq_pressure py os (PyCgroup_from cg))"
  unfolding PyCgroup_irq_pressure_def PyCgroup_from_def PyCgroup.select_convs Cgroup_irq_pressure_def [abs_def] IrqPressure_FILE_NAME_def
  by (intro conjI py_reads_parse)
    (simp_all only: pids_reads task_reads core_reads cpu_reads cpuset_reads memory_reads swap_reads io_reads misc_reads dmem_reads rdma_reads hugetlb_reads)

end
