(* ===== verification/Spec2Isabelle.thy ===== *)
theory Spec2Isabelle
  imports Xtask_Vmtest Py_Handle Sakai_Core Sakai_Cpu Sakai_Cpuset Sakai_Io Sakai_Memory Sakai_Pids
    Sakai_Misc Sakai_Dmem Sakai_Hugetlb Sakai_Rdma Sakai_Path Sakai_Handle Sakai_Notification Sakai_Rate
begin

text \<open>
  A verification of \<open>sakai\<close>, a Rust library that reads the interface files of Linux cgroup v2 and
  notifies of their changes without writing to them, of its Python bindings and of the developer
  tasks that release it. Paths below are relative to \<open>sakai/src\<close> unless they name another crate.

  \<^bold>\<open>How the program works.\<close> A \<open>Cgroup\<close> is an open directory with a diagnostic path. It is opened by
  path, by the process it holds or by the name of a child (\<open>cgroup/v2/handle.rs\<close>,
  \<open>cgroup/v2/path.rs\<close>). Each controller offers typed readers: a reader opens one file of the
  directory (\<open>cgroup/v2/file.rs\<close>), hands the whole contents to a \<open>FromStr\<close> of its snapshot type,
  and reports failures with the path of the file. Snapshots are built from a small token parser
  and from keyed fields (\<open>parse/mod.rs\<close>), so that a parse error always carries the whole input. Event
  pollers and configuration watchers (\<open>cgroup/v2/notification.rs\<close>) say when to read again. The
  bindings (\<open>sakai-python/src\<close>) call these readers with the interpreter released and turn snapshots
  into immutable objects, quantities into Pint objects and errors into exceptions. The tasks
  (\<open>xtask/src\<close>) package and announce a release and fetch the kernels of the live tests.

  \<^bold>\<open>The standard library.\<close> Sakai_Prelude has results as sums, the combinators on them and
  the integer types; Rust_Str, Rust_Int, Rust_Float and Rust_Path model what the code uses of \<open>str\<close>,
  integer parsing, binary64 and \<open>std::path\<close>; BTree_Map and Variant_Order the ordered map and
  the derived order of enumerations; Strum_Enum the tables of names of \<open>strum\<close>.

  \<^bold>\<open>The shared parsers.\<close> Sakai_Error and Sakai_Unit are \<open>error.rs\<close>, \<open>limit.rs\<close> and
  \<open>unit.rs\<close>, Sakai_Rate its event rates; Sakai_Value and Sakai_Parse are \<open>parse/mod.rs\<close>, Sakai_Scalar is
  \<open>scalar.rs\<close>, Sakai_Pressure is \<open>pressure.rs\<close>, and Sakai_File is \<open>file.rs\<close> with
  \<open>Cgroup::read\<close> and \<open>Cgroup::parse\<close>. Kernel_Text is the specification of what the kernel writes:
  renderings of values and lines that the round trips start from. Field_Table, Field_Record and
  Keyed_Entries hold the proofs about maps and structures read from keyed fields.

  \<^bold>\<open>The controllers.\<close> Sakai_Core is \<open>core.rs\<close> and \<open>core/\<close>, Sakai_Cpu is \<open>cpu/\<close>,
  Sakai_Cpuset is \<open>cpuset/\<close>, Sakai_Memory with Sakai_Memory_Stat and Sakai_Memory_Numa is
  \<open>memory.rs\<close> and \<open>memory/\<close>, Sakai_Device and Sakai_Io are \<open>io/\<close>, and Sakai_Pids,
  Sakai_Misc, Sakai_Dmem, Sakai_Hugetlb and Sakai_Rdma are the files of these names. A record has
  the fields of the source's struct, \<open>X_from_str\<close> is \<open>FromStr for X\<close>, \<open>X_from_fields\<close> is
  \<open>X::from_fields\<close>, and a reader \<open>Core_stat\<close> is the method \<open>Core::stat\<close>.

  \<^bold>\<open>The handle and its notifications.\<close> Sakai_Path is the choice of candidate directories from
  \<open>/proc\<close>, Sakai_Handle the opening of directories and the listing of children, Sakai_Notification
  the pollers and watchers.

  \<^bold>\<open>The Python bindings.\<close> \<open>sakai-python/src\<close>: Py_Error is \<open>linux/errors.rs\<close>, Py_Quantity is
  \<open>quantity.rs\<close>, \<open>linux/limit.rs\<close> and \<open>linux/mapping.rs\<close>; Py_Core, Py_Cpu, Py_Memory, Py_Io and
  Py_Resources are the snapshots and readers of the files of \<open>linux/\<close> with these names (Py_Core also
  \<open>pids.rs\<close> and \<open>pressure.rs\<close>, Py_Cpu \<open>cpuset.rs\<close>, Py_Resources \<open>misc.rs\<close>, \<open>dmem.rs\<close>,
  \<open>hugetlb.rs\<close> and \<open>rdma.rs\<close>); Py_Notification is \<open>linux/notification.rs\<close> and Py_Handle
  \<open>linux/handle.rs\<close>. The class \<open>X\<close> is \<open>PyX\<close>, its conversion \<open>PyX_from\<close>, and the method \<open>f\<close> of the
  reader of a controller \<open>C\<close> is \<open>PyC_f\<close>.

  \<^bold>\<open>The developer tasks.\<close> \<open>xtask/src\<close>: Xtask_Http is \<open>http.rs\<close>, Xtask_Release is \<open>release.rs\<close>,
  Xtask_Kernel is \<open>vmtest/kernel.rs\<close> and Xtask_Vmtest is \<open>vmtest/mod.rs\<close>, the live tests, with the
  dispatch of \<open>main.rs\<close>. Rust_Effect has the operations that take and return a state of
  the outside, for these, the notifications and Python.

  \<^bold>\<open>Interfaces.\<close> \<open>snapshot_parser\<close> is the promise of every \<open>FromStr\<close> to the reader, that an error
  carries the input; each snapshot type interprets it and this theory uses it for every watched
  file. \<open>checked_value\<close>, \<open>cgroup_value\<close> and \<open>numeric_value\<close> are the contracts of value parsers,
  \<open>ordered_map\<close> that of the map, \<open>strum_enum\<close> that of the tables of names, \<open>field_table\<close>,
  \<open>field_record\<close> and \<open>indexed_record\<close> those of the readers of keyed fields, \<open>bounded_retry\<close> that of a
  retry loop, which the registry lookup and the kernel download interpret. All are interpreted on
  the definitions that model the code.

  \<^bold>\<open>What the theorems show.\<close>
  \<^item> For parsers: which inputs are accepted and with what value, which error is reported otherwise
    (\<open>KeyedFields_parse_correct\<close>, \<open>CpusetPartition_correct\<close>, \<open>PageSize_from_str_correct\<close>), that values
    stay in the ranges of their types, and that every snapshot the kernel can write is read back.
  \<^item> For the handle: opening a path or a child is a refinement of resolution beneath a directory
    that follows neither symbolic links nor parents, the same on kernels with openat2, which itself
    would follow a parent beneath the directory, and on kernels without; an invalid pid is refused
    whatever procfs holds; candidates are found whenever a mount exposes the cgroup and are tried
    from the most specific mount, and the first error is the one reported. A cgroup whose name ends
    in \<open> (deleted)\<close> is taken for a removed one.
  \<^item> For notifications: a watcher's wait returns and reports exactly the events of the batch it took
    off the queue; a removal is reported at most once and is final whatever the kernel does; no
    wake-up of an evented file is lost or invented over any run of waits.
  \<^item> Across components: every file that can be watched or polled is the one its typed reader reads.
  \<^item> For Python: every reader reads its own kernel file and nothing else and raises the exception of
    the failure; no text given as a page size reaches another file; \<open>memory.stat\<close> and \<open>io.max\<close> reach
    the mappings of Python unchanged; the waits of several threads on one watcher exclude each other
    without blocking and report a removal once, in every interleaving of the phases of their calls
    (\<open>py_waits\<close>: a call gives the lock up before it returns), and a wait that begins after the
    report only raises; a count of pages never comes in a unit that the registry already gives
    another meaning; accepted timeouts are those \<open>poll\<close> takes.
  \<^item> For the tasks: a kernel image appears only complete however files and network fail, and the
    partial file is cleaned up after any failure of the fetch unless its removal fails; retries are bounded and only follow transient failures; a release is
    announced only from the checked candidate after the registry holds the same archive; the live
    tests boot every requested kernel with its own image until one fails, and pass only if all do.

  \<^bold>\<open>Parameters and bounds.\<close> The kernel is a record of functions: \<open>os\<close> for reading one file, extended
  to \<open>dir_os\<close> for directories and processes, and \<open>notify_os\<close> for notifications, whose operations take
  and return the state of the kernel. The interpreter (\<open>python\<close>), Pint (\<open>pint\<close>), the outside of a
  release (\<open>release_env\<close>), the machine of a download (\<open>machine\<close>) and the host of the live tests
  (\<open>host\<close>, whose processes may answer anything and change any file) are such records. The records of procfs, the inotify reader of rustix and the
  conversions of \<open>uom\<close> are parameters too. What a theorem needs of them is a predicate of their
  documented behaviour (\<open>kernel_directories\<close>, for openat2 with the flags that keep the path beneath its
  start, \<open>inotify_reader\<close>, \<open>kernfs_events\<close>,
  \<open>standard_python\<close>, \<open>standard_pint\<close>, whose registry may resolve names by prefixes and plurals and
  is only constrained at \<open>sakai_page\<close>, \<open>timespec_law\<close>), with a small kernel
  that satisfies it for the witnesses. No definition has fuel: every parser is structural, and the
  one loop whose end depends on the kernel, \<open>drain\<close>, is a partial function whose value None
  means that it never returns. Integers are words of the width the source has; a \<open>u64\<close> product that
  overflows is the error the source returns. \<open>str\<close> is the list of its bytes, as \<open>char\<close>; white space
  outside ASCII is recognised by its UTF-8 encoding.

  \<^bold>\<open>Not modelled.\<close> \<open>Debug\<close> and \<open>Display\<close> of errors and the dimensional types of \<open>uom\<close> (texts and types
  without behaviour); the lifetimes of descriptors and \<open>AsFd\<close>; the accessors that borrow a handle
  as a controller, as a reader takes the handle itself; module declarations and re-exports; the
  registration of the Python classes and the generator of their stubs (PyO3 metadata); command-line
  parsing, which \<open>clap\<close> derives from the types of the commands; diagnostics on stderr and the settings of the HTTP clients.
\<close>

section \<open>Notifications and readers\<close>

lemma Core_kind_reads: "reads_interface ''cgroup.type'' Core_kind"
  unfolding reads_interface_def
  by (auto simp: Core_kind_def Cgroup_read_def and_then_eq_Inl map_err_eq_Inl ok_or_eq_Inl)

lemma Core_subtree_control_reads: "reads_interface ''cgroup.subtree_control'' Core_subtree_control"
  unfolding reads_interface_def
  by (auto simp: Core_subtree_control_def controller_list_def Cgroup_read_def map_ok_eq_Inl map_err_eq_Inl)

lemmas scalar_readers = Cpu_uclamp_max_def [abs_def] Cpu_uclamp_min_def [abs_def] Cpu_max_burst_def [abs_def]
  Cpu_idle_def [abs_def] Memory_max_def [abs_def] Memory_high_def [abs_def] Memory_low_def [abs_def]
  Memory_min_def [abs_def] Memory_oom_group_def [abs_def] Swap_max_def [abs_def] Swap_high_def [abs_def]
  Zswap_max_def [abs_def] Zswap_writeback_def [abs_def] Pids_max_def [abs_def] Scalar_read_def [abs_def]

lemmas file_readers = Cpu_max_def [abs_def] Cpu_weight_def [abs_def] Cpu_weight_nice_def [abs_def]
  Io_weight_def [abs_def] Io_max_def [abs_def] Io_latency_def [abs_def] Cpuset_cpus_def [abs_def]
  Cpuset_mems_def [abs_def] Cpuset_partition_def [abs_def] Core_events_def [abs_def] Memory_events_def [abs_def]
  Memory_events_local_def [abs_def] Swap_events_def [abs_def] Pids_events_def [abs_def]

lemmas interface_readers = Core_kind_reads Core_subtree_control_reads scalar.reads_interface
  cpu_max_file.reads_interface cpu_weight_file.reads_interface nice_file.reads_interface
  io_weight_file.reads_interface io_max_file.reads_interface io_latency_file.reads_interface
  cpu_list.reads_interface memory_node_list.reads_interface cpuset_partition.reads_interface
  cgroup_events_file.reads_interface memory_events.reads_interface memory_events_local.reads_interface
  swap_events_file.reads_interface pids_events_file.reads_interface

text \<open>C24: Every interface a configuration watcher can watch is the one file that the corresponding typed
  reader reads: the reader's result depends on that file alone, and its parse failures name the
  file and carry its contents.\<close>

theorem watched_files_are_read:
  "reads_interface (ConfigurationInterface_filename ConfigCgroupType) Core_kind
   \<and> reads_interface (ConfigurationInterface_filename ConfigCgroupSubtreeControl) Core_subtree_control
   \<and> reads_interface (ConfigurationInterface_filename ConfigCpuMax) Cpu_max
   \<and> reads_interface (ConfigurationInterface_filename ConfigCpuWeight) Cpu_weight
   \<and> reads_interface (ConfigurationInterface_filename ConfigCpuUclampMax) Cpu_uclamp_max
   \<and> reads_interface (ConfigurationInterface_filename ConfigCpuUclampMin) Cpu_uclamp_min
   \<and> reads_interface (ConfigurationInterface_filename ConfigCpuMaxBurst) Cpu_max_burst
   \<and> reads_interface (ConfigurationInterface_filename ConfigCpuWeightNice) Cpu_weight_nice
   \<and> reads_interface (ConfigurationInterface_filename ConfigCpuIdle) Cpu_idle
   \<and> reads_interface (ConfigurationInterface_filename ConfigMemoryMax) Memory_max
   \<and> reads_interface (ConfigurationInterface_filename ConfigMemoryHigh) Memory_high
   \<and> reads_interface (ConfigurationInterface_filename ConfigMemoryLow) Memory_low
   \<and> reads_interface (ConfigurationInterface_filename ConfigMemoryMin) Memory_min
   \<and> reads_interface (ConfigurationInterface_filename ConfigMemoryOomGroup) Memory_oom_group
   \<and> reads_interface (ConfigurationInterface_filename ConfigMemorySwapMax) Swap_max
   \<and> reads_interface (ConfigurationInterface_filename ConfigMemorySwapHigh) Swap_high
   \<and> reads_interface (ConfigurationInterface_filename ConfigMemoryZswapMax) Zswap_max
   \<and> reads_interface (ConfigurationInterface_filename ConfigMemoryZswapWriteback) Zswap_writeback
   \<and> reads_interface (ConfigurationInterface_filename ConfigPidsMax) Pids_max
   \<and> reads_interface (ConfigurationInterface_filename ConfigIoWeight) Io_weight
   \<and> reads_interface (ConfigurationInterface_filename ConfigIoMax) Io_max
   \<and> reads_interface (ConfigurationInterface_filename ConfigIoLatency) Io_latency
   \<and> reads_interface (ConfigurationInterface_filename ConfigCpusetCpus) Cpuset_cpus
   \<and> reads_interface (ConfigurationInterface_filename ConfigCpusetMems) Cpuset_mems
   \<and> reads_interface (ConfigurationInterface_filename ConfigCpusetCpusPartition) Cpuset_partition"
  by (intro conjI; insert interface_readers; simp add: scalar_readers file_readers)

text \<open>Every interface an event poller can wait on is the one file that the corresponding typed reader
  reads, so that the fresh snapshot after a notification is one of the file that changed.\<close>

lemma polled_files_are_read:
  "reads_interface (EventInterface_filename CgroupEvents) Core_events
   \<and> reads_interface (EventInterface_filename MemoryEvents) Memory_events
   \<and> reads_interface (EventInterface_filename MemoryEventsLocal) Memory_events_local
   \<and> reads_interface (EventInterface_filename MemorySwapEvents) Swap_events
   \<and> reads_interface (EventInterface_filename PidsEvents) Pids_events
   \<and> reads_interface (EventInterface_filename CpusetCpusPartition) Cpuset_partition"
  by (simp add: file_readers interface_readers)

end
